(* ===== verification/Prelude.thy ===== *)
theory Prelude
  imports Main "HOL-Library.State_Monad" "HOL-Library.Multiset"
begin

text \<open>
  Shared vocabulary of the development. Go code that talks to the outside world (the Kubernetes
  API, Git, the clock) is a value of the library's state monad over a world type \<open>'w\<close> that is
  never inspected; a Go result pair \<open>(T, error)\<close> is a sum, \<open>Inl\<close> the error. The theory holds
  the error values, the early-return combinator, a small invariant calculus for programs
  (\<open>triple\<close>, \<open>keeps\<close>) whose rules are collected for the component proofs, and the parts of the
  Go string library the sources use.
\<close>

named_theorems keeps_rule \<open>introduction rules of the invariant calculus\<close>

section \<open>Errors and results\<close>

text \<open>
  Go error values: an error returned by an API client or SDK with its machine-readable reason,
  \<open>fmt.Errorf\<close> with a wrapped cause, \<open>fmt.Errorf\<close> without one, the \<open>reasonedError\<close> of the
  controllers, and a run-time panic (nil dereference or slice bound), which controller-runtime
  reports like an error of the reconcile call.
\<close>

datatype goerror =
    APIError string string
  | Wrap string goerror
  | ErrorString string
  | ReasonedError string string
  | Panic string

primrec Error :: "goerror \<Rightarrow> string" where
  "Error (APIError reason message) = message"
| "Error (Wrap pre e) = pre @ '': '' @ Error e"
| "Error (ErrorString message) = message"
| "Error (ReasonedError reason message) = message"
| "Error (Panic message) = message"

definition nil_deref :: goerror where
  "nil_deref = Panic ''invalid memory address or nil pointer dereference''"

type_synonym ('w, 'a) call = "('w, goerror + 'a) state"

abbreviation ret :: "'a \<Rightarrow> ('w, 'a) state" where
  "ret \<equiv> State_Monad.return"

text \<open>
  \<open>on_err m h k\<close> is \<open>v, err := m; if err != nil { return h(err) }; k(v)\<close>: the early return that
  almost every call of the sources is followed by.
\<close>

definition on_err ::
  "('w, 'e + 'a) state \<Rightarrow> ('e \<Rightarrow> ('w, 'b) state) \<Rightarrow> ('a \<Rightarrow> ('w, 'b) state) \<Rightarrow> ('w, 'b) state" where
  "on_err m h k = do { r \<leftarrow> m; case r of Inl e \<Rightarrow> h e | Inr v \<Rightarrow> k v }"

text \<open>The early return that passes the error on unchanged.\<close>

abbreviation checked ::
  "('w, 'e + 'a) state \<Rightarrow> ('a \<Rightarrow> ('w, 'e + 'b) state) \<Rightarrow> ('w, 'e + 'b) state" where
  "checked m k \<equiv> on_err m (\<lambda>e. ret (Inl e)) k"

text \<open>\<open>fmt.Errorf("pre: %w", err)\<close> on the error branch of a call.\<close>

definition wrap_err :: "string \<Rightarrow> ('w, 'a) call \<Rightarrow> ('w, 'a) call" where
  "wrap_err pre m = on_err m (\<lambda>e. ret (Inl (Wrap pre e))) (\<lambda>v. ret (Inr v))"

lemma run_on_err:
  "run_state (on_err m h k) w =
     (case run_state m w of (Inl e, w') \<Rightarrow> run_state (h e) w' | (Inr v, w') \<Rightarrow> run_state (k v) w')"
  by (simp add: on_err_def split: prod.split sum.split)

lemma run_wrap_err:
  "run_state (wrap_err pre m) w =
     (case run_state m w of (Inl e, w') \<Rightarrow> (Inl (Wrap pre e), w') | (Inr v, w') \<Rightarrow> (Inr v, w'))"
  by (simp add: wrap_err_def run_on_err split: prod.split sum.split)

section \<open>An invariant calculus for programs\<close>

definition triple ::
  "('w \<Rightarrow> bool) \<Rightarrow> ('w, 'a) state \<Rightarrow> ('a \<Rightarrow> 'w \<Rightarrow> bool) \<Rightarrow> bool" where
  "triple P m Q \<longleftrightarrow> (\<forall>w. P w \<longrightarrow> (case run_state m w of (a, w') \<Rightarrow> Q a w'))"

text \<open>\<open>keeps I m R\<close>: the program keeps the world invariant and all its results satisfy \<open>R\<close>.\<close>

definition keeps :: "('w \<Rightarrow> bool) \<Rightarrow> ('w, 'a) state \<Rightarrow> ('a \<Rightarrow> bool) \<Rightarrow> bool" where
  "keeps I m R \<longleftrightarrow> triple I m (\<lambda>a w. I w \<and> R a)"

lemma tripleI: "(\<And>w a w'. P w \<Longrightarrow> run_state m w = (a, w') \<Longrightarrow> Q a w') \<Longrightarrow> triple P m Q"
  by (auto simp: triple_def split: prod.split)

lemma tripleD: "triple P m Q \<Longrightarrow> P w \<Longrightarrow> run_state m w = (a, w') \<Longrightarrow> Q a w'"
  by (auto simp: triple_def split: prod.splits)

lemma triple_bind:
  assumes "triple P m A" and "\<And>a. triple (A a) (f a) Q"
  shows "triple P (State_Monad.bind m f) Q"
  using assms by (fastforce simp: triple_def split: prod.splits)

lemma triple_ret: "(\<And>w. P w \<Longrightarrow> Q a w) \<Longrightarrow> triple P (ret a) Q"
  by (simp add: triple_def)

lemma triple_on_err:
  assumes "triple P m A" and "\<And>e. triple (A (Inl e)) (h e) Q" and "\<And>v. triple (A (Inr v)) (k v) Q"
  shows "triple P (on_err m h k) Q"
  unfolding on_err_def using assms by (auto intro!: triple_bind split: sum.split)

lemma triple_conseq:
  "triple P' m Q' \<Longrightarrow> (\<And>w. P w \<Longrightarrow> P' w) \<Longrightarrow> (\<And>a w. Q' a w \<Longrightarrow> Q a w) \<Longrightarrow> triple P m Q"
  by (fastforce simp: triple_def split: prod.splits)

lemma triple_if:
  "(b \<Longrightarrow> triple P m Q) \<Longrightarrow> (\<not> b \<Longrightarrow> triple P n Q) \<Longrightarrow> triple P (if b then m else n) Q"
  by simp

lemma keepsI:
  "(\<And>w a w'. I w \<Longrightarrow> run_state m w = (a, w') \<Longrightarrow> I w' \<and> R a) \<Longrightarrow> keeps I m R"
  by (auto simp: keeps_def intro: tripleI)

lemma keepsD: "keeps I m R \<Longrightarrow> I w \<Longrightarrow> run_state m w = (a, w') \<Longrightarrow> I w' \<and> R a"
  unfolding keeps_def by (drule tripleD)

lemma keeps_run: "keeps I m R \<Longrightarrow> I w \<Longrightarrow> I (snd (run_state m w))"
  by (metis keepsD prod.collapse)

lemma keeps_mono: "keeps I m R \<Longrightarrow> (\<And>a. R a \<Longrightarrow> S a) \<Longrightarrow> keeps I m S"
  unfolding keeps_def by (erule triple_conseq) auto

lemma keeps_any: "keeps I m R \<Longrightarrow> keeps I m (\<lambda>_. True)"
  by (erule keeps_mono) simp

lemma keeps_ret [keeps_rule]: "R a \<Longrightarrow> keeps I (ret a) R"
  by (auto intro!: keepsI)

lemma keeps_bind_res:
  assumes "keeps I m A" and "\<And>a. A a \<Longrightarrow> keeps I (f a) R"
  shows "keeps I (State_Monad.bind m f) R"
proof (rule keepsI)
  fix w b w'
  assume w: "I w" and run: "run_state (State_Monad.bind m f) w = (b, w')"
  obtain a w1 where m: "run_state m w = (a, w1)" by fastforce
  with assms(1) w have "I w1" and "A a" by (blast dest: keepsD)+
  from run m have "run_state (f a) w1 = (b, w')" by simp
  with assms(2) [OF \<open>A a\<close>] \<open>I w1\<close> show "I w' \<and> R b" by (blast dest: keepsD)
qed

lemma keeps_bind [keeps_rule]:
  assumes "keeps I m (\<lambda>_. True)" and "\<And>a. keeps I (f a) R"
  shows "keeps I (State_Monad.bind m f) R"
  by (rule keeps_bind_res [OF assms(1)]) (rule assms(2))

lemma keeps_on_err_res:
  assumes "keeps I m A" and "\<And>e. A (Inl e) \<Longrightarrow> keeps I (h e) R" and "\<And>v. A (Inr v) \<Longrightarrow> keeps I (k v) R"
  shows "keeps I (on_err m h k) R"
  unfolding on_err_def using assms by (auto intro!: keeps_bind_res split: sum.split)

lemma keeps_on_err [keeps_rule]:
  assumes "keeps I m (\<lambda>_. True)" and "\<And>e. keeps I (h e) R" and "\<And>v. keeps I (k v) R"
  shows "keeps I (on_err m h k) R"
  by (rule keeps_on_err_res [OF assms(1)]) (rule assms)+

lemma keeps_wrap_err_res:
  assumes "keeps I m (\<lambda>r. \<forall>v. r = Inr v \<longrightarrow> R (Inr v))" and "\<And>e. R (Inl (Wrap pre e))"
  shows "keeps I (wrap_err pre m) R"
  unfolding wrap_err_def by (rule keeps_on_err_res [OF assms(1)]) (auto intro: keeps_ret assms)

lemma keeps_wrap_err [keeps_rule]:
  "keeps I m (\<lambda>_. True) \<Longrightarrow> keeps I (wrap_err pre m) (\<lambda>_. True)"
  by (rule keeps_wrap_err_res) (erule keeps_mono, simp_all)

lemma keeps_if [keeps_rule]:
  "(b \<Longrightarrow> keeps I m R) \<Longrightarrow> (\<not> b \<Longrightarrow> keeps I n R) \<Longrightarrow> keeps I (if b then m else n) R"
  by simp

lemma keeps_case_option [keeps_rule]:
  "(x = None \<Longrightarrow> keeps I m R) \<Longrightarrow> (\<And>v. x = Some v \<Longrightarrow> keeps I (f v) R) \<Longrightarrow>
     keeps I (case x of None \<Rightarrow> m | Some v \<Rightarrow> f v) R"
  by (cases x) auto

lemma keeps_case_sum [keeps_rule]:
  "(\<And>e. x = Inl e \<Longrightarrow> keeps I (f e) R) \<Longrightarrow> (\<And>v. x = Inr v \<Longrightarrow> keeps I (g v) R) \<Longrightarrow>
     keeps I (case x of Inl e \<Rightarrow> f e | Inr v \<Rightarrow> g v) R"
  by (cases x) auto

lemma keeps_case_prod [keeps_rule]:
  "(\<And>a b. x = (a, b) \<Longrightarrow> keeps I (f a b) R) \<Longrightarrow> keeps I (case x of (a, b) \<Rightarrow> f a b) R"
  by (cases x) auto

lemma keeps_case_list [keeps_rule]:
  "(x = [] \<Longrightarrow> keeps I m R) \<Longrightarrow> (\<And>a b. x = a # b \<Longrightarrow> keeps I (f a b) R) \<Longrightarrow>
     keeps I (case x of [] \<Rightarrow> m | a # b \<Rightarrow> f a b) R"
  by (cases x) auto

lemma keeps_let [keeps_rule]:
  "(\<And>x. x = e \<Longrightarrow> keeps I (f x) R) \<Longrightarrow> keeps I (let x = e in f x) R"
  by simp

section \<open>Loops over slices\<close>

text \<open>
  \<open>for_each\<close> is a \<open>for range\<close> loop whose body may return from the enclosing function (\<open>Inl\<close>);
  \<open>all_of\<close> is the check loop that stops at the first error or at the first \<open>false\<close>.
\<close>

primrec for_each :: "('a \<Rightarrow> ('w, 'e + 'b) state) \<Rightarrow> 'a list \<Rightarrow> ('w, 'e + 'b list) state" where
  "for_each f [] = ret (Inr [])"
| "for_each f (x # xs) =
     on_err (f x) (\<lambda>e. ret (Inl e)) (\<lambda>y.
     on_err (for_each f xs) (\<lambda>e. ret (Inl e)) (\<lambda>ys. ret (Inr (y # ys))))"

primrec all_of :: "('a \<Rightarrow> ('w, 'e + bool) state) \<Rightarrow> 'a list \<Rightarrow> ('w, 'e + bool) state" where
  "all_of f [] = ret (Inr True)"
| "all_of f (x # xs) =
     on_err (f x) (\<lambda>e. ret (Inl e)) (\<lambda>b. if b then all_of f xs else ret (Inr False))"

lemma keeps_for_each [keeps_rule]:
  assumes "\<And>x. x \<in> set xs \<Longrightarrow> keeps I (f x) (\<lambda>_. True)"
  shows "keeps I (for_each f xs) (\<lambda>_. True)"
  using assms by (induction xs) (auto intro!: keeps_ret keeps_on_err)

lemma keeps_all_of [keeps_rule]:
  assumes "\<And>x. x \<in> set xs \<Longrightarrow> keeps I (f x) (\<lambda>_. True)"
  shows "keeps I (all_of f xs) (\<lambda>_. True)"
  using assms by (induction xs) (auto intro!: keeps_ret keeps_on_err)

lemma for_each_result:
  assumes "run_state (for_each f xs) w = (Inr ys, w')"
    and "\<And>x w y w'. x \<in> set xs \<Longrightarrow> run_state (f x) w = (Inr y, w') \<Longrightarrow> Q x y"
  shows "list_all2 Q xs ys"
  using assms
proof (induction xs arbitrary: ys w)
  case Nil
  then show ?case by simp
next
  case (Cons x xs)
  from Cons.prems(1) obtain y w1 zs where "run_state (f x) w = (Inr y, w1)"
    and "run_state (for_each f xs) w1 = (Inr zs, w')" and "ys = y # zs"
    by (auto simp: run_on_err split: prod.splits sum.splits)
  with Cons.IH [of w1 zs] Cons.prems(2) show ?case by auto
qed

end
