(* ===== verification/GoLib.thy ===== *)
theory GoLib
  imports Prelude
begin

text \<open>
  The parts of the Go standard library that the sources use and that compute: \<open>strings\<close>
  (prefixes, cutting and splitting at a separator, joining, trimming), \<open>strconv\<close> decimal
  printing and the decimal scan of \<open>fmt.Sscanf("%d")\<close>. Strings are byte lists, as Go strings
  are.
\<close>

abbreviation newline :: string where
  "newline \<equiv> [CHR 0x0A]"

text \<open>U+2014, as the UTF-8 bytes Go writes for it.\<close>

definition em_dash :: string where
  "em_dash = [CHR 0xE2, CHR 0x80, CHR 0x94]"

section \<open>Decimal printing and scanning\<close>

definition digit_char :: "nat \<Rightarrow> char" where
  "digit_char d = char_of (48 + d)"

fun nat_to_string :: "nat \<Rightarrow> string" where
  "nat_to_string n =
     (if n < 10 then [digit_char n] else nat_to_string (n div 10) @ [digit_char (n mod 10)])"

declare nat_to_string.simps [simp del]

definition itoa :: "int \<Rightarrow> string" where
  "itoa i = (if i < 0 then CHR ''-'' # nat_to_string (nat (- i)) else nat_to_string (nat i))"

abbreviation len_str :: "'a list \<Rightarrow> string" where
  "len_str xs \<equiv> itoa (int (length xs))"

definition is_digit :: "char \<Rightarrow> bool" where
  "is_digit c \<longleftrightarrow> 48 \<le> (of_char c :: nat) \<and> (of_char c :: nat) \<le> 57"

definition digit_val :: "char \<Rightarrow> nat" where
  "digit_val c = of_char c - 48"

primrec digits_val :: "nat \<Rightarrow> string \<Rightarrow> nat" where
  "digits_val acc [] = acc"
| "digits_val acc (c # cs) = digits_val (10 * acc + digit_val c) cs"

lemma digits_val_append: "digits_val acc (xs @ ys) = digits_val (digits_val acc xs) ys"
  by (induction xs arbitrary: acc) auto

lemma digit_char_props [simp]:
  assumes "d < 10"
  shows "is_digit (digit_char d)" and "digit_val (digit_char d) = d"
proof -
  from assms have "(of_char (digit_char d) :: nat) = 48 + d"
    by (simp add: digit_char_def)
  with assms show "is_digit (digit_char d)" and "digit_val (digit_char d) = d"
    by (simp_all add: is_digit_def digit_val_def)
qed

lemma nat_to_string_digits: "list_all is_digit (nat_to_string n)"
proof (induction n rule: nat_to_string.induct)
  case (1 n)
  then show ?case
    by (cases "n < 10") (simp_all add: nat_to_string.simps [of n])
qed

lemma nat_to_string_nonempty: "nat_to_string n \<noteq> []"
  by (subst nat_to_string.simps) simp

lemma digits_val_nat_to_string: "digits_val 0 (nat_to_string n) = n"
proof (induction n rule: nat_to_string.induct)
  case (1 n)
  then show ?case
    by (cases "n < 10") (simp_all add: nat_to_string.simps [of n] digits_val_append)
qed

text \<open>
  \<open>fmt.Sscanf(s, "%d", &n)\<close> for a 64-bit \<open>int\<close>: skip blanks, take an optional sign and the
  longest run of digits, fail without digits or outside the range. Text after the digits is
  ignored.
\<close>

definition is_blank :: "char \<Rightarrow> bool" where
  "is_blank c \<longleftrightarrow> c \<in> {CHR '' '', CHR 0x09, CHR 0x0D}"

definition sscanf_d :: "string \<Rightarrow> int option" where
  "sscanf_d s =
     (let t = dropWhile is_blank s;
          neg = (t \<noteq> [] \<and> hd t = CHR ''-'');
          u = (if t \<noteq> [] \<and> (hd t = CHR ''-'' \<or> hd t = CHR ''+'') then tl t else t);
          ds = takeWhile is_digit u;
          v = int (digits_val 0 ds);
          x = (if neg then - v else v)
      in if ds = [] \<or> x < - (2 ^ 63) \<or> 2 ^ 63 \<le> x then None else Some x)"

section \<open>strings\<close>

definition HasPrefix :: "string \<Rightarrow> string \<Rightarrow> bool" where
  "HasPrefix s p \<longleftrightarrow> take (length p) s = p"

definition TrimPrefix :: "string \<Rightarrow> string \<Rightarrow> string" where
  "TrimPrefix s p = (if HasPrefix s p then drop (length p) s else s)"

definition TrimSuffix :: "string \<Rightarrow> string \<Rightarrow> string" where
  "TrimSuffix s p = rev (TrimPrefix (rev s) (rev p))"

fun Cut :: "string \<Rightarrow> string \<Rightarrow> (string \<times> string) option" where
  "Cut sep [] = (if sep = [] then Some ([], []) else None)"
| "Cut sep (c # cs) =
     (if HasPrefix (c # cs) sep then Some ([], drop (length sep) (c # cs))
      else map_option (\<lambda>(a, b). (c # a, b)) (Cut sep cs))"

definition Contains :: "string \<Rightarrow> string \<Rightarrow> bool" where
  "Contains s substr \<longleftrightarrow> Cut substr s \<noteq> None"

lemma HasPrefix_iff: "HasPrefix s p \<longleftrightarrow> (\<exists>t. s = p @ t)"
  unfolding HasPrefix_def by (metis append_eq_conv_conj append_take_drop_id)

lemma Cut_split: "Cut sep s = Some (a, b) \<Longrightarrow> s = a @ sep @ b"
proof (induction sep s arbitrary: a b rule: Cut.induct)
  case (1 sep)
  then show ?case by (auto split: if_splits)
next
  case (2 sep c cs)
  show ?case
  proof (cases "HasPrefix (c # cs) sep")
    case True
    with "2.prems" show ?thesis by (auto simp: HasPrefix_iff)
  next
    case False
    with "2.prems" obtain a' where "Cut sep cs = Some (a', b)" and "a = c # a'" by auto
    with "2.IH" [OF False] show ?thesis by simp
  qed
qed

text \<open>\<open>strings.Split\<close> with a separator that is not empty.\<close>

function Split :: "string \<Rightarrow> string \<Rightarrow> string list" where
  "Split sep s =
     (if sep = [] then [s]
      else case Cut sep s of None \<Rightarrow> [s] | Some (a, b) \<Rightarrow> a # Split sep b)"
  by pat_completeness auto
termination
  by (relation "measure (\<lambda>(sep, s). length s)") (auto dest!: Cut_split)

declare Split.simps [simp del]

primrec Join :: "string \<Rightarrow> string list \<Rightarrow> string" where
  "Join sep [] = []"
| "Join sep (x # xs) = (if xs = [] then x else x @ sep @ Join sep xs)"

lemma Split_nonempty: "Split sep s \<noteq> []"
  by (subst Split.simps) (auto split: option.split)

lemma Join_Split: "sep \<noteq> [] \<Longrightarrow> Join sep (Split sep s) = s"
proof (induction sep s rule: Split.induct)
  case (1 sep s)
  show ?case
  proof (cases "Cut sep s")
    case None
    then show ?thesis by (simp add: Split.simps [of sep s])
  next
    case (Some p)
    obtain a b where p: "p = (a, b)" by fastforce
    with Some "1.IH" "1.prems" have "Join sep (Split sep b) = b" by simp
    with Some p "1.prems" show ?thesis
      by (auto simp: Split.simps [of sep s] Split_nonempty dest: Cut_split)
  qed
qed

lemma Cut_none: "c \<notin> set s \<Longrightarrow> Cut [c] s = None"
  by (induction s) (auto simp: HasPrefix_def)

lemma Cut_at: "c \<notin> set a \<Longrightarrow> Cut [c] (a @ c # b) = Some (a, b)"
  by (induction a) (auto simp: HasPrefix_def)

lemma Split_last: "c \<notin> set s \<Longrightarrow> Split [c] s = [s]"
  by (simp add: Split.simps [of "[c]" s] Cut_none)

lemma Split_step: "c \<notin> set a \<Longrightarrow> Split [c] (a @ c # b) = a # Split [c] b"
  by (simp add: Split.simps [of "[c]" "a @ c # b"] Cut_at)

text \<open>Splitting a string at the last occurrence of a byte (\<open>strings.LastIndex\<close> and slicing).\<close>

definition CutLast :: "char \<Rightarrow> string \<Rightarrow> (string \<times> string) option" where
  "CutLast c s =
     (if c \<in> set s
      then Some (rev (tl (dropWhile (\<lambda>x. x \<noteq> c) (rev s))), rev (takeWhile (\<lambda>x. x \<noteq> c) (rev s)))
      else None)"

lemma span_at:
  assumes "c \<notin> set b"
  shows "takeWhile (\<lambda>x. x \<noteq> c) (b @ c # a) = b" and "dropWhile (\<lambda>x. x \<noteq> c) (b @ c # a) = c # a"
  using assms by (induction b) auto

lemma CutLast_at: "c \<notin> set b \<Longrightarrow> CutLast c (a @ c # b) = Some (a, b)"
  using span_at [of c "rev b" "rev a"] by (simp add: CutLast_def)

definition is_space :: "char \<Rightarrow> bool" where
  "is_space c \<longleftrightarrow> c \<in> {CHR 0x09, CHR 0x0A, CHR 0x0B, CHR 0x0C, CHR 0x0D, CHR 0x20}"

definition TrimBoth :: "(char \<Rightarrow> bool) \<Rightarrow> string \<Rightarrow> string" where
  "TrimBoth p s = rev (dropWhile p (rev (dropWhile p s)))"

text \<open>\<open>strings.TrimSpace\<close> on ASCII text.\<close>

abbreviation TrimSpace :: "string \<Rightarrow> string" where
  "TrimSpace \<equiv> TrimBoth is_space"

definition is_lower :: "char \<Rightarrow> bool" where
  "is_lower c \<longleftrightarrow> 97 \<le> (of_char c :: nat) \<and> (of_char c :: nat) \<le> 122"

text \<open>\<open>%q\<close> on text whose characters beyond ASCII are printable.\<close>

definition hex_digit :: "nat \<Rightarrow> char" where
  "hex_digit d = (if d < 10 then digit_char d else char_of (87 + d))"

definition escapes :: "(char \<times> char) list" where
  "escapes = [(CHR 0x22, CHR 0x22), (CHR 0x5C, CHR 0x5C), (CHR 0x07, CHR ''a''), (CHR 0x08, CHR ''b''), (CHR 0x0C, CHR ''f''),
     (CHR 0x0A, CHR ''n''), (CHR 0x0D, CHR ''r''), (CHR 0x09, CHR ''t''), (CHR 0x0B, CHR ''v'')]"

definition quote_char :: "char \<Rightarrow> string" where
  "quote_char c =
     (case map_of escapes c of
        Some e \<Rightarrow> [CHR 0x5C, e]
      | None \<Rightarrow>
          let n = of_char c :: nat
          in if n < 32 \<or> n = 127 then [CHR 0x5C, CHR ''x'', hex_digit (n div 16), hex_digit (n mod 16)] else [c])"

definition go_quote :: "string \<Rightarrow> string" where
  "go_quote s = [CHR 0x22] @ concat (map quote_char s) @ [CHR 0x22]"

lemma Split_Join:
  assumes "ls \<noteq> []" and "\<And>l. l \<in> set ls \<Longrightarrow> c \<notin> set l"
  shows "Split [c] (Join [c] ls) = ls"
  using assms by (induction ls) (auto simp: Split_last Split_step)

end
