(* ===== verification/YamlEditor.thy ===== *)
theory YamlEditor
  imports Prelude GoLib
begin

text \<open>
  \<open>internal/yaml/editor.go\<close>: the version-path parser in full, and the editor functions over the
  kyaml library, which is a record of its operations (\<open>kyaml\<close>). The locale \<open>kyaml_api\<close> states what
  the editor relies on: a printed document parses to one with the same scalars, and a scalar that
  was set at a path is found there.
\<close>

section \<open>parseVersionPath\<close>

definition flush :: "string \<Rightarrow> string list \<Rightarrow> string list" where
  "flush current parts = (if current = [] then parts else parts @ [current])"

text \<open>Step over a closing bracket, if there is one.\<close>

definition skip_close :: "string \<Rightarrow> string" where
  "skip_close s = (case s of [] \<Rightarrow> [] | c # t \<Rightarrow> if c = CHR '']'' then t else s)"

text \<open>The bytes after an opening bracket: the content of the bracket and what follows it.\<close>

definition bracket :: "string \<Rightarrow> string \<times> string" where
  "bracket s = (case s of [] \<Rightarrow> ([], [])
     | q # t \<Rightarrow>
        if q = CHR 0x27 \<or> q = CHR 0x22
        then (takeWhile (\<lambda>c. c \<noteq> q) t, skip_close (tl (dropWhile (\<lambda>c. c \<noteq> q) t)))
        else (takeWhile (\<lambda>c. c \<noteq> CHR '']'') s, skip_close (dropWhile (\<lambda>c. c \<noteq> CHR '']'') s)))"

lemma length_skip_close: "length (skip_close s) \<le> length s"
  by (simp add: skip_close_def split: list.split)

lemma length_tl_dropWhile: "length (tl (dropWhile p xs)) \<le> length xs"
  using length_dropWhile_le [of p xs] by simp

lemma bracket_shorter: "length (snd (bracket s)) \<le> length s"
proof (cases s)
  case Nil
  then show ?thesis by (simp add: bracket_def)
next
  case (Cons q t)
  have "length (skip_close (tl (dropWhile (\<lambda>c. c \<noteq> q) t))) \<le> length s"
    using order_trans [OF length_skip_close length_tl_dropWhile] Cons by (simp add: le_SucI)
  moreover have "length (skip_close (dropWhile (\<lambda>c. c \<noteq> CHR '']'') s)) \<le> length s"
    by (rule order_trans [OF length_skip_close length_dropWhile_le])
  ultimately show ?thesis using Cons by (simp add: bracket_def)
qed

function version_path_loop :: "string \<Rightarrow> string \<Rightarrow> string list \<Rightarrow> string list" where
  "version_path_loop [] current parts = flush current parts"
| "version_path_loop (ch # rest) current parts =
     (if ch = CHR ''.'' then version_path_loop rest [] (flush current parts)
      else if ch = CHR ''['' then
        (let (content, after) = bracket rest
         in version_path_loop after [] (flush content (flush current parts)))
      else version_path_loop rest (current @ [ch]) parts)"
  by pat_completeness auto
termination
  by (relation "measure (\<lambda>(s, c, p). length s)")
    (simp_all add: less_Suc_eq_le, metis bracket_shorter snd_conv)

definition parseVersionPath :: "string \<Rightarrow> string list" where
  "parseVersionPath path = version_path_loop (TrimPrefix path ''.'') [] []"

definition DefaultHelmReleaseVersionPath :: string where
  "DefaultHelmReleaseVersionPath = ''spec.chart.spec.version''"

definition DetermineVersionPath :: "string \<Rightarrow> string" where
  "DetermineVersionPath datasource = (if datasource = ''helm'' then DefaultHelmReleaseVersionPath else [])"

section \<open>The editor\<close>

record 'n kyaml =
  yaml_Parse :: "string \<Rightarrow> goerror + 'n"
  yaml_LookupCreateSet :: "string list \<Rightarrow> string \<Rightarrow> 'n \<Rightarrow> goerror + 'n"
  yaml_Lookup :: "string list \<Rightarrow> 'n \<Rightarrow> goerror + 'n option"
  yaml_GetValue :: "'n \<Rightarrow> string"
  yaml_String :: "'n \<Rightarrow> goerror + string"

definition UpdateVersion :: "'n kyaml \<Rightarrow> string \<Rightarrow> string \<Rightarrow> string \<Rightarrow> goerror + string" where
  "UpdateVersion Y content versionPath newVersion =
     (case yaml_Parse Y content of
        Inl e \<Rightarrow> Inl (Wrap ''parsing YAML'' e)
      | Inr obj \<Rightarrow>
        (case yaml_LookupCreateSet Y (parseVersionPath versionPath) newVersion obj of
           Inl e \<Rightarrow> Inl (Wrap (''setting version at path '' @ versionPath) e)
         | Inr obj' \<Rightarrow>
           (case yaml_String Y obj' of
              Inl e \<Rightarrow> Inl (Wrap ''serializing YAML'' e)
            | Inr result \<Rightarrow> Inr result)))"

definition UpdateHelmReleaseVersion :: "'n kyaml \<Rightarrow> string \<Rightarrow> string \<Rightarrow> goerror + string" where
  "UpdateHelmReleaseVersion Y content newVersion =
     UpdateVersion Y content DefaultHelmReleaseVersionPath newVersion"

definition GetVersion :: "'n kyaml \<Rightarrow> string \<Rightarrow> string \<Rightarrow> goerror + string" where
  "GetVersion Y content versionPath =
     (case yaml_Parse Y content of
        Inl e \<Rightarrow> Inl (Wrap ''parsing YAML'' e)
      | Inr obj \<Rightarrow>
        (case yaml_Lookup Y (parseVersionPath versionPath) obj of
           Inl e \<Rightarrow> Inl (Wrap (''looking up path '' @ versionPath) e)
         | Inr None \<Rightarrow> Inl (ErrorString (''version not found at path: '' @ versionPath))
         | Inr (Some node) \<Rightarrow>
           (let value = yaml_GetValue Y node
            in if value = [] then Inl (ErrorString (''empty version at path: '' @ versionPath))
               else Inr value)))"

definition IsHelmRelease :: "'n kyaml \<Rightarrow> string \<Rightarrow> bool" where
  "IsHelmRelease Y content =
     (case yaml_Parse Y content of
        Inl e \<Rightarrow> False
      | Inr obj \<Rightarrow>
        (case yaml_Lookup Y [''kind''] obj of
           Inl e \<Rightarrow> False
         | Inr None \<Rightarrow> False
         | Inr (Some node) \<Rightarrow> yaml_GetValue Y node = ''HelmRelease''))"

section \<open>Paths print and parse back\<close>

definition plain_segment :: "string \<Rightarrow> bool" where
  "plain_segment s \<longleftrightarrow> CHR ''.'' \<notin> set s \<and> CHR ''['' \<notin> set s"

text \<open>The notation of the doc comment: \<open>.key\<close> for a plain key and \<open>['key']\<close> otherwise.\<close>

definition render_segment :: "string \<Rightarrow> string" where
  "render_segment s = (if plain_segment s then CHR ''.'' # s
     else CHR ''['' # CHR 0x27 # s @ [CHR 0x27, CHR '']''])"

definition render_path :: "string list \<Rightarrow> string" where
  "render_path segs = concat (map render_segment segs)"

lemma flush_Cons: "s \<noteq> [] \<Longrightarrow> flush s parts = parts @ [s]"
  by (simp add: flush_def)

lemma version_path_plain:
  "plain_segment s \<Longrightarrow> version_path_loop (s @ rest) cur parts = version_path_loop rest (cur @ s) parts"
  by (induction s arbitrary: cur) (auto simp: plain_segment_def)

lemma bracket_quoted:
  assumes "CHR 0x27 \<notin> set s"
  shows "bracket (CHR 0x27 # s @ CHR 0x27 # CHR '']'' # rest) = (s, rest)"
  using span_at [OF assms, of "CHR '']'' # rest"] by (simp add: bracket_def skip_close_def)

lemma version_path_render:
  assumes "\<forall>s \<in> set segs. s \<noteq> [] \<and> CHR 0x27 \<notin> set s"
  shows "version_path_loop (render_path segs) cur parts = flush cur parts @ segs"
  using assms
proof (induction segs arbitrary: cur parts)
  case Nil
  then show ?case by (simp add: render_path_def)
next
  case (Cons s segs)
  then have s: "s \<noteq> []" "CHR 0x27 \<notin> set s"
    and IH: "\<And>cur parts. version_path_loop (render_path segs) cur parts = flush cur parts @ segs"
    by auto
  have split: "render_path (s # segs) = render_segment s @ render_path segs"
    by (simp add: render_path_def)
  show ?case
  proof (cases "plain_segment s")
    case True
    then show ?thesis
      using s by (simp add: split render_segment_def version_path_plain IH flush_Cons)
  next
    case False
    then have "render_path (s # segs) =
        CHR ''['' # (CHR 0x27 # s @ CHR 0x27 # CHR '']'' # render_path segs)"
      by (simp add: split render_segment_def)
    then show ?thesis
      using s by (simp add: bracket_quoted IH flush_Cons) (simp add: flush_def)
  qed
qed

text \<open>The parser drops a leading dot; the loop would drop it as an empty segment anyway.\<close>

lemma version_path_leading_dot:
  "version_path_loop (TrimPrefix path ''.'') [] [] = version_path_loop path [] []"
  by (cases path) (auto simp: TrimPrefix_def HasPrefix_def flush_def)

lemma parse_render:
  "\<forall>s \<in> set segs. s \<noteq> [] \<and> CHR 0x27 \<notin> set s \<Longrightarrow> parseVersionPath (render_path segs) = segs"
  by (simp add: parseVersionPath_def version_path_leading_dot version_path_render flush_def)

lemma version_path_loop_nonempty:
  "[] \<notin> set parts \<Longrightarrow> [] \<notin> set (version_path_loop s cur parts)"
proof (induction s cur parts rule: version_path_loop.induct)
  case (1 current parts)
  then show ?case by (auto simp: flush_def)
next
  case (2 ch rest current parts)
  then show ?case by (cases "bracket rest") (auto simp: flush_def)
qed

lemma default_version_path:
  "parseVersionPath DefaultHelmReleaseVersionPath = [''spec'', ''chart'', ''spec'', ''version'']"
  by (simp add: parseVersionPath_def DefaultHelmReleaseVersionPath_def TrimPrefix_def
      HasPrefix_def flush_def)

section \<open>What the editor relies on\<close>

locale kyaml_api =
  fixes Y :: "'n kyaml"
  assumes parse_string: "yaml_String Y n = Inr s \<Longrightarrow>
      \<exists>n'. yaml_Parse Y s = Inr n' \<and>
           (\<forall>p. yaml_Lookup Y p n' = yaml_Lookup Y p n)"
    and lookup_set: "yaml_LookupCreateSet Y p v n = Inr n' \<Longrightarrow> v \<noteq> [] \<Longrightarrow>
      \<exists>m. yaml_Lookup Y p n' = Inr (Some m) \<and> yaml_GetValue Y m = v"
    and lookup_set_other: "yaml_LookupCreateSet Y p v n = Inr n' \<Longrightarrow>
      yaml_Lookup Y [k] n = Inr (Some m) \<Longrightarrow> p \<noteq> [] \<Longrightarrow> hd p \<noteq> k \<Longrightarrow>
      yaml_Lookup Y [k] n' = Inr (Some m)"
begin

lemma get_after_update:
  assumes "UpdateVersion Y content p v = Inr content'" and "v \<noteq> []"
  shows "GetVersion Y content' p = Inr v"
proof -
  from assms(1) obtain n n' where set: "yaml_LookupCreateSet Y (parseVersionPath p) v n = Inr n'"
    and str: "yaml_String Y n' = Inr content'"
    by (auto simp: UpdateVersion_def split: sum.splits)
  from lookup_set [OF set assms(2)] obtain m where m: "yaml_Lookup Y (parseVersionPath p) n' = Inr (Some m)"
    and "yaml_GetValue Y m = v" by blast
  moreover from parse_string [OF str] obtain n'' where "yaml_Parse Y content' = Inr n''"
    and "\<forall>p. yaml_Lookup Y p n'' = yaml_Lookup Y p n'" by blast
  ultimately show ?thesis using assms(2) by (simp add: GetVersion_def)
qed

lemma helm_release_after_update:
  assumes "UpdateVersion Y content p v = Inr content'" and "IsHelmRelease Y content"
    and "parseVersionPath p \<noteq> []" and "hd (parseVersionPath p) \<noteq> ''kind''"
  shows "IsHelmRelease Y content'"
proof -
  from assms(1) obtain n n' where parse: "yaml_Parse Y content = Inr n"
    and set: "yaml_LookupCreateSet Y (parseVersionPath p) v n = Inr n'"
    and str: "yaml_String Y n' = Inr content'"
    by (auto simp: UpdateVersion_def split: sum.splits)
  from assms(2) parse obtain m where "yaml_Lookup Y [''kind''] n = Inr (Some m)"
    and m: "yaml_GetValue Y m = ''HelmRelease''"
    by (auto simp: IsHelmRelease_def split: sum.splits option.splits)
  with lookup_set_other [OF set] assms(3,4) have "yaml_Lookup Y [''kind''] n' = Inr (Some m)"
    by simp
  with parse_string [OF str] m show ?thesis by (auto simp: IsHelmRelease_def)
qed

end

end
