(* ===== verification/ApiTypes.thy ===== *)
theory ApiTypes
  imports GoLib
begin

text \<open>
  The data of the program: the FluxUp custom resources of \<open>api/v1alpha1\<close> field by field, and,
  of the Kubernetes, Flux and CSI objects the controllers read and write, the fields the sources
  use. A Go pointer is an \<open>option\<close>, a slice a list, a label map an association list, a
  \<open>metav1.Time\<close> the number of nanoseconds since the epoch. \<open>lastTransitionTime\<close> of a condition
  is left out: no code under \<open>src/\<close> reads or writes it.
\<close>

type_synonym time = int
type_synonym labels = "(string \<times> string) list"

section \<open>Kubernetes meta types\<close>

record NamespacedName =
  nn_Name :: string
  nn_Namespace :: string

abbreviation NN :: "string \<Rightarrow> string \<Rightarrow> NamespacedName" where
  "NN name ns \<equiv> \<lparr>nn_Name = name, nn_Namespace = ns\<rparr>"

lemma NN_collapse [simp]: "NN (nn_Name k) (nn_Namespace k) = k"
  by (cases k) simp

record OwnerReference =
  owner_APIVersion :: string
  owner_Kind :: string
  owner_Name :: string
  owner_UID :: string

record ObjectMeta =
  om_Name :: string
  om_Namespace :: string
  om_UID :: string
  om_Generation :: int
  om_Labels :: labels
  om_Finalizers :: "string list"
  om_DeletionTimestamp :: "time option"
  om_CreationTimestamp :: time
  om_OwnerReferences :: "OwnerReference list"

text \<open>The key under which the API server stores an object.\<close>

definition meta_key :: "ObjectMeta \<Rightarrow> NamespacedName" where
  "meta_key m = NN (om_Name m) (om_Namespace m)"

record Condition =
  c_Type :: string
  c_Status :: string
  c_Reason :: string
  c_Message :: string
  c_ObservedGeneration :: int

definition ConditionTrue :: string where
  "ConditionTrue = ''True''"

definition ConditionFalse :: string where
  "ConditionFalse = ''False''"

lemma ConditionTrue_neq_False [simp]:
  "ConditionTrue \<noteq> ConditionFalse" "ConditionFalse \<noteq> ConditionTrue"
  by (simp_all add: ConditionTrue_def ConditionFalse_def)

section \<open>FluxUp: api/v1alpha1\<close>

definition ConditionTypeReady :: string where
  "ConditionTypeReady = ''Ready''"

definition ConditionTypeUpdateAvailable :: string where
  "ConditionTypeUpdateAvailable = ''UpdateAvailable''"

definition ConditionTypeSuspended :: string where
  "ConditionTypeSuspended = ''Suspended''"

definition ConditionTypeWorkloadStopped :: string where
  "ConditionTypeWorkloadStopped = ''WorkloadStopped''"

definition ConditionTypeSnapshotReady :: string where
  "ConditionTypeSnapshotReady = ''SnapshotReady''"

definition ConditionTypeGitCommitted :: string where
  "ConditionTypeGitCommitted = ''GitCommitted''"

definition ConditionTypeReconciled :: string where
  "ConditionTypeReconciled = ''Reconciled''"

definition ConditionTypeHealthy :: string where
  "ConditionTypeHealthy = ''Healthy''"

definition ConditionTypeComplete :: string where
  "ConditionTypeComplete = ''Complete''"

definition ConditionTypeVolumesRestored :: string where
  "ConditionTypeVolumesRestored = ''VolumesRestored''"

definition ConditionTypeGitReverted :: string where
  "ConditionTypeGitReverted = ''GitReverted''"

lemmas condition_type_defs =
  ConditionTypeReady_def ConditionTypeUpdateAvailable_def ConditionTypeSuspended_def
  ConditionTypeWorkloadStopped_def ConditionTypeSnapshotReady_def ConditionTypeGitCommitted_def
  ConditionTypeReconciled_def ConditionTypeHealthy_def ConditionTypeComplete_def
  ConditionTypeVolumesRestored_def ConditionTypeGitReverted_def

lemma condition_types_distinct:
  "distinct [ConditionTypeReady, ConditionTypeUpdateAvailable, ConditionTypeSuspended,
     ConditionTypeWorkloadStopped, ConditionTypeSnapshotReady, ConditionTypeGitCommitted,
     ConditionTypeReconciled, ConditionTypeHealthy, ConditionTypeComplete,
     ConditionTypeVolumesRestored, ConditionTypeGitReverted]"
  by (simp add: condition_type_defs)

lemma condition_types_distinct_rev:
  "distinct [ConditionTypeGitReverted, ConditionTypeVolumesRestored, ConditionTypeComplete,
     ConditionTypeHealthy, ConditionTypeReconciled, ConditionTypeGitCommitted,
     ConditionTypeSnapshotReady, ConditionTypeWorkloadStopped, ConditionTypeSuspended,
     ConditionTypeUpdateAvailable, ConditionTypeReady]"
  by (simp add: condition_type_defs)

lemmas condition_types_neq [simp] =
  condition_types_distinct [simplified] condition_types_distinct_rev [simplified]

record ObjectReference =
  ref_Name :: string
  ref_Namespace :: string

record PVCRef =
  pvcref_Name :: string
  pvcref_Namespace :: string

record RetentionPolicy =
  rp_MaxCount :: "int option"

record VolumeSnapshotConfig =
  vsc_Enabled :: bool
  vsc_VolumeSnapshotClassName :: string
  vsc_PVCs :: "PVCRef list"
  vsc_ExcludePVCs :: "PVCRef list"
  vsc_RetentionPolicy :: "RetentionPolicy option"

record VersionPolicy =
  vp_AutoUpdate :: string
  vp_VersionPath :: string

record HealthCheckConfig =
  hcc_Timeout :: string

record ImageInfo =
  img_Name :: string
  img_Tag :: string

record VersionInfo =
  vi_Chart :: string
  vi_Images :: "ImageInfo list"

record ManagedAppSpec =
  mas_GitPath :: string
  mas_KustomizationRef :: ObjectReference
  mas_SuspendRef :: "ObjectReference option"
  mas_HelmReleaseRef :: "ObjectReference option"
  mas_VolumeSnapshots :: "VolumeSnapshotConfig option"
  mas_VersionPolicy :: "VersionPolicy option"
  mas_HealthCheck :: "HealthCheckConfig option"
  mas_AutoRollback :: bool

record UpgradeInfo =
  ui_FromVersion :: "VersionInfo option"
  ui_ToVersion :: "VersionInfo option"
  ui_Timestamp :: "time option"
  ui_Status :: string

record ManagedAppStatus =
  mast_CurrentVersion :: "VersionInfo option"
  mast_AvailableUpdate :: "VersionInfo option"
  mast_LastUpgrade :: "UpgradeInfo option"
  mast_Conditions :: "Condition list"

record ManagedApp =
  ma_meta :: ObjectMeta
  ma_Spec :: ManagedAppSpec
  ma_Status :: ManagedAppStatus

abbreviation ma_Name :: "ManagedApp \<Rightarrow> string" where
  "ma_Name app \<equiv> om_Name (ma_meta app)"

abbreviation ma_Namespace :: "ManagedApp \<Rightarrow> string" where
  "ma_Namespace app \<equiv> om_Namespace (ma_meta app)"

record WorkloadScalingInfo =
  wsi_Kind :: string
  wsi_Name :: string
  wsi_Namespace :: string

record ScalingStatus =
  ss_Workloads :: "WorkloadScalingInfo list"
  ss_ScaledDownAt :: "time option"

record PVCSnapshotInfo =
  psi_PVCName :: string
  psi_SnapshotName :: string

record SnapshotStatus =
  sns_PVCSnapshots :: "PVCSnapshotInfo list"
  sns_CreatedAt :: "time option"
  sns_ReadyAt :: "time option"

record UpgradeStatus =
  us_PreviousVersion :: "VersionInfo option"
  us_NewVersion :: "VersionInfo option"
  us_GitCommit :: string
  us_StartedAt :: "time option"
  us_CompletedAt :: "time option"

record HealthCheckStatus =
  hcs_Status :: string
  hcs_CheckedAt :: "time option"
  hcs_Message :: string

record UpgradeRequestSpec =
  urs_ManagedAppRef :: ObjectReference
  urs_TargetVersion :: "VersionInfo option"
  urs_SkipSnapshot :: bool
  urs_DryRun :: bool

record UpgradeRequestStatus =
  urst_Scaling :: "ScalingStatus option"
  urst_Snapshot :: "SnapshotStatus option"
  urst_Upgrade :: "UpgradeStatus option"
  urst_HealthCheck :: "HealthCheckStatus option"
  urst_PhaseStartedAt :: "time option"
  urst_Conditions :: "Condition list"

record UpgradeRequest =
  ur_meta :: ObjectMeta
  ur_Spec :: UpgradeRequestSpec
  ur_Status :: UpgradeRequestStatus

abbreviation ur_Conditions :: "UpgradeRequest \<Rightarrow> Condition list" where
  "ur_Conditions u \<equiv> urst_Conditions (ur_Status u)"

record RollbackRequestSpec =
  rrs_UpgradeRequestRef :: ObjectReference
  rrs_AutoTriggered :: bool
  rrs_DryRun :: bool

record RestoredFromStatus =
  rfs_UpgradeRequestName :: string
  rfs_TargetVersion :: "VersionInfo option"
  rfs_RolledBackVersion :: "VersionInfo option"

record RestoredPVCInfo =
  rpi_PVCName :: string
  rpi_SnapshotName :: string
  rpi_RestorationState :: string

record VolumeRestoreStatus =
  vrs_RestoredPVCs :: "RestoredPVCInfo list"
  vrs_StartedAt :: "time option"
  vrs_CompletedAt :: "time option"

record GitRevertStatus =
  grs_CommitSHA :: string
  grs_CommittedAt :: "time option"

record RollbackRequestStatus =
  rrst_RestoredFrom :: "RestoredFromStatus option"
  rrst_Scaling :: "ScalingStatus option"
  rrst_VolumeRestore :: "VolumeRestoreStatus option"
  rrst_GitRevert :: "GitRevertStatus option"
  rrst_StartedAt :: "time option"
  rrst_CompletedAt :: "time option"
  rrst_PhaseStartedAt :: "time option"
  rrst_Conditions :: "Condition list"

record RollbackRequest =
  rr_meta :: ObjectMeta
  rr_Spec :: RollbackRequestSpec
  rr_Status :: RollbackRequestStatus

section \<open>Kubernetes, Flux and CSI objects\<close>

record Kustomization =
  ks_meta :: ObjectMeta
  ks_Suspend :: bool
  ks_Conditions :: "Condition list"
  ks_ObservedGeneration :: int
  ks_Inventory :: "string list option"

record Deployment =
  dep_meta :: ObjectMeta
  dep_Replicas :: "int option"
  dep_Selector :: "labels option"
  dep_ReadyReplicas :: int

record StatefulSet =
  sts_meta :: ObjectMeta
  sts_Replicas :: "int option"
  sts_Selector :: "labels option"
  sts_ReadyReplicas :: int

record Pod =
  pod_meta :: ObjectMeta
  pod_Volumes :: "string option list"

record PersistentVolumeClaim =
  pvc_meta :: ObjectMeta
  pvc_AccessModes :: "string list"
  pvc_StorageClassName :: "string option"
  pvc_StorageRequest :: string
  pvc_DataSource :: "(string \<times> string \<times> string) option"
  pvc_Phase :: string

record VolumeSnapshotStatus =
  vss_ReadyToUse :: "bool option"
  vss_RestoreSize :: "string option"
  vss_Error :: "string option option"

record VolumeSnapshot =
  vs_meta :: ObjectMeta
  vs_PVCName :: "string option"
  vs_ClassName :: "string option"
  vs_Status :: "VolumeSnapshotStatus option"

record Secret =
  sec_meta :: ObjectMeta
  sec_Data :: "(string \<times> string) list"

record ConfigMap =
  cm_meta :: ObjectMeta
  cm_Data :: "(string \<times> string) list"

text \<open>An object literal that sets a name, a namespace and labels only.\<close>

definition new_meta :: "string \<Rightarrow> string \<Rightarrow> labels \<Rightarrow> ObjectMeta" where
  "new_meta name ns ls = \<lparr>om_Name = name, om_Namespace = ns, om_UID = [], om_Generation = 0,
     om_Labels = ls, om_Finalizers = [], om_DeletionTimestamp = None, om_CreationTimestamp = 0,
     om_OwnerReferences = []\<rparr>"

section \<open>controller-runtime results\<close>

record Result =
  res_Requeue :: bool
  res_RequeueAfter :: int

definition ResultDone :: Result where
  "ResultDone = \<lparr>res_Requeue = False, res_RequeueAfter = 0\<rparr>"

definition ResultRequeue :: Result where
  "ResultRequeue = \<lparr>res_Requeue = True, res_RequeueAfter = 0\<rparr>"

definition ResultRequeueAfter :: "int \<Rightarrow> Result" where
  "ResultRequeueAfter d = \<lparr>res_Requeue = False, res_RequeueAfter = d\<rparr>"

definition Second :: int where
  "Second = 1000000000"

definition Minute :: int where
  "Minute = 60 * Second"

definition DefaultFluxNamespace :: string where
  "DefaultFluxNamespace = ''flux-system''"

definition OperationFinalizer :: string where
  "OperationFinalizer = ''fluxup.dev/operation-protection''"

text \<open>The idiom \<open>if ns == "" { ns = default }\<close>.\<close>

definition ns_or :: "string \<Rightarrow> string \<Rightarrow> string" where
  "ns_or ns d = (if ns = [] then d else ns)"

end
