(* ===== verification/Kube.thy ===== *)
theory Kube
  imports ApiTypes
begin

text \<open>
  The boundary of the program. The Kubernetes API client, the clock, Go's map iteration order and
  the helper functions of apimachinery and controller-runtime are not part of the sources: they
  are the fields of two records that every component takes as an argument. A client operation is a
  program over the unknown world \<open>'w\<close>; nothing is assumed of it here, so it may fail, answer
  differently at each call, or be raced by other actors. Documented behaviour that a theorem
  needs is a locale: \<open>conditions_api\<close> for the status-condition helpers, \<open>finalizer_api\<close> for
  the finalizer helpers, and \<open>api_inv\<close> for a world invariant that all permitted calls keep, the
  interface through which the components are verified. A traced client records the calls that
  change the cluster or Git (and the reads of Kustomizations, whose suspend flag guards them).
\<close>

section \<open>Library helpers\<close>

record klib =
  SetStatusCondition :: "Condition list \<Rightarrow> Condition \<Rightarrow> Condition list"
  FindStatusCondition :: "Condition list \<Rightarrow> string \<Rightarrow> Condition option"
  IsStatusConditionTrue :: "Condition list \<Rightarrow> string \<Rightarrow> bool"
  ContainsFinalizer :: "string list \<Rightarrow> string \<Rightarrow> bool"
  AddFinalizer :: "string list \<Rightarrow> string \<Rightarrow> string list"
  RemoveFinalizer :: "string list \<Rightarrow> string \<Rightarrow> string list"
  IsNotFound :: "goerror \<Rightarrow> bool"
  IgnoreNotFound :: "goerror \<Rightarrow> goerror option"
  ValidatedSelectorFromSet :: "labels \<Rightarrow> goerror + labels"
  FormatTime :: "time \<Rightarrow> string"
  ParseDuration :: "string \<Rightarrow> int option"

text \<open>
  \<open>meta.SetStatusCondition\<close>, \<open>meta.FindStatusCondition\<close> and \<open>meta.IsStatusConditionTrue\<close>:
  the condition list is a map keyed by condition type.
\<close>

locale conditions_api =
  fixes L :: klib
  assumes find_set_same: "FindStatusCondition L (SetStatusCondition L cs c) (c_Type c) = Some c"
    and find_set_other: "t \<noteq> c_Type c \<Longrightarrow>
      FindStatusCondition L (SetStatusCondition L cs c) t = FindStatusCondition L cs t"
    and is_true_iff: "IsStatusConditionTrue L cs t \<longleftrightarrow>
      (\<exists>c. FindStatusCondition L cs t = Some c \<and> c_Status c = ConditionTrue)"
    and find_empty: "FindStatusCondition L [] t = None"
begin

lemma is_true_set_same:
  "c_Type c = t \<Longrightarrow> IsStatusConditionTrue L (SetStatusCondition L cs c) t \<longleftrightarrow> c_Status c = ConditionTrue"
  using find_set_same [of cs c] by (simp add: is_true_iff)

lemma is_true_set_other:
  "t \<noteq> c_Type c \<Longrightarrow> IsStatusConditionTrue L (SetStatusCondition L cs c) t = IsStatusConditionTrue L cs t"
  by (simp add: is_true_iff find_set_other)

lemma find_set:
  "FindStatusCondition L (SetStatusCondition L cs c) t =
     (if t = c_Type c then Some c else FindStatusCondition L cs t)"
  by (simp add: find_set_same find_set_other)

lemma is_true_set:
  "IsStatusConditionTrue L (SetStatusCondition L cs c) t =
     (if t = c_Type c then c_Status c = ConditionTrue else IsStatusConditionTrue L cs t)"
  by (simp add: is_true_set_same is_true_set_other)

lemma is_true_empty: "\<not> IsStatusConditionTrue L [] t"
  by (simp add: is_true_iff find_empty)

end

locale finalizer_api =
  fixes L :: klib
  assumes contains_add: "ContainsFinalizer L (AddFinalizer L fs f) g \<longleftrightarrow> g = f \<or> ContainsFinalizer L fs g"
    and contains_remove:
      "ContainsFinalizer L (RemoveFinalizer L fs f) g \<longleftrightarrow> g \<noteq> f \<and> ContainsFinalizer L fs g"

section \<open>The API client\<close>

record 'w client =
  Now :: "('w, time) state"
  SleepOrDone :: "int \<Rightarrow> ('w, goerror option) state"
  RangeKeys :: "string list \<Rightarrow> ('w, string list) state"
  RangeNames :: "NamespacedName list \<Rightarrow> ('w, NamespacedName list) state"
  GetUpgradeRequest :: "NamespacedName \<Rightarrow> ('w, UpgradeRequest) call"
  GetRollbackRequest :: "NamespacedName \<Rightarrow> ('w, RollbackRequest) call"
  GetManagedApp :: "NamespacedName \<Rightarrow> ('w, ManagedApp) call"
  GetKustomization :: "NamespacedName \<Rightarrow> ('w, Kustomization) call"
  GetDeployment :: "NamespacedName \<Rightarrow> ('w, Deployment) call"
  GetStatefulSet :: "NamespacedName \<Rightarrow> ('w, StatefulSet) call"
  GetPVC :: "NamespacedName \<Rightarrow> ('w, PersistentVolumeClaim) call"
  GetVolumeSnapshot :: "NamespacedName \<Rightarrow> ('w, VolumeSnapshot) call"
  GetVolumeSnapshotClass :: "string \<Rightarrow> ('w, unit) call"
  GetConfigMap :: "NamespacedName \<Rightarrow> ('w, ConfigMap) call"
  ListPods :: "string \<Rightarrow> labels option \<Rightarrow> ('w, Pod list) call"
  ListSecrets :: "string \<Rightarrow> ('w, Secret list) call"
  ListVolumeSnapshots :: "string \<Rightarrow> string \<times> string \<Rightarrow> ('w, VolumeSnapshot list) call"
  ListManagedApps :: "('w, ManagedApp list) call"
  UpdateUpgradeRequest :: "UpgradeRequest \<Rightarrow> ('w, UpgradeRequest) call"
  UpdateRollbackRequest :: "RollbackRequest \<Rightarrow> ('w, RollbackRequest) call"
  UpdateKustomization :: "Kustomization \<Rightarrow> ('w, Kustomization) call"
  PatchDeployment :: "Deployment \<Rightarrow> ('w, Deployment) call"
  PatchStatefulSet :: "StatefulSet \<Rightarrow> ('w, StatefulSet) call"
  StatusUpdateUpgradeRequest :: "UpgradeRequest \<Rightarrow> ('w, UpgradeRequest) call"
  StatusUpdateRollbackRequest :: "RollbackRequest \<Rightarrow> ('w, RollbackRequest) call"
  StatusUpdateManagedApp :: "ManagedApp \<Rightarrow> ('w, ManagedApp) call"
  CreateRollbackRequest :: "RollbackRequest \<Rightarrow> ('w, RollbackRequest) call"
  CreateVolumeSnapshot :: "VolumeSnapshot \<Rightarrow> ('w, VolumeSnapshot) call"
  CreatePVC :: "PersistentVolumeClaim \<Rightarrow> ('w, PersistentVolumeClaim) call"
  DeleteVolumeSnapshot :: "NamespacedName \<Rightarrow> ('w, unit) call"
  DeletePVC :: "NamespacedName \<Rightarrow> ('w, unit) call"

section \<open>Traces\<close>

datatype event =
    GotKustomization NamespacedName "goerror + Kustomization"
  | UpdatedUpgradeRequest UpgradeRequest
  | UpdatedRollbackRequest RollbackRequest
  | UpdatedKustomization Kustomization
  | PatchedDeployment Deployment
  | PatchedStatefulSet StatefulSet
  | WroteUpgradeStatus UpgradeRequest
  | WroteRollbackStatus RollbackRequest
  | WroteManagedAppStatus ManagedApp
  | CreatedRollbackRequest RollbackRequest
  | CreatedVolumeSnapshot VolumeSnapshot
  | CreatedPVC PersistentVolumeClaim
  | DeletedVolumeSnapshot NamespacedName
  | DeletedPVC NamespacedName
  | CommittedFile string string string

text \<open>Run an operation of the original world on the left half of the pair, and note an event.\<close>

definition unlogged :: "('w, 'a) state \<Rightarrow> ('w \<times> 'e list, 'a) state" where
  "unlogged m = State (\<lambda>(w, l). case run_state m w of (a, w') \<Rightarrow> (a, (w', l)))"

definition logged :: "('a \<Rightarrow> 'e) \<Rightarrow> ('w, 'a) state \<Rightarrow> ('w \<times> 'e list, 'a) state" where
  "logged ev m = State (\<lambda>(w, l). case run_state m w of (a, w') \<Rightarrow> (a, (w', l @ [ev a])))"

lemma run_unlogged:
  "run_state (unlogged m) (w, l) = (case run_state m w of (a, w') \<Rightarrow> (a, (w', l)))"
  by (simp add: unlogged_def)

lemma run_logged:
  "run_state (logged ev m) (w, l) = (case run_state m w of (a, w') \<Rightarrow> (a, (w', l @ [ev a])))"
  by (simp add: logged_def)

definition traced :: "'w client \<Rightarrow> ('w \<times> event list) client" where
  "traced C = \<lparr>
     Now = unlogged (Now C),
     SleepOrDone = (\<lambda>d. unlogged (SleepOrDone C d)),
     RangeKeys = (\<lambda>ks. unlogged (RangeKeys C ks)),
     RangeNames = (\<lambda>ks. unlogged (RangeNames C ks)),
     GetUpgradeRequest = (\<lambda>k. unlogged (GetUpgradeRequest C k)),
     GetRollbackRequest = (\<lambda>k. unlogged (GetRollbackRequest C k)),
     GetManagedApp = (\<lambda>k. unlogged (GetManagedApp C k)),
     GetKustomization = (\<lambda>k. logged (GotKustomization k) (GetKustomization C k)),
     GetDeployment = (\<lambda>k. unlogged (GetDeployment C k)),
     GetStatefulSet = (\<lambda>k. unlogged (GetStatefulSet C k)),
     GetPVC = (\<lambda>k. unlogged (GetPVC C k)),
     GetVolumeSnapshot = (\<lambda>k. unlogged (GetVolumeSnapshot C k)),
     GetVolumeSnapshotClass = (\<lambda>k. unlogged (GetVolumeSnapshotClass C k)),
     GetConfigMap = (\<lambda>k. unlogged (GetConfigMap C k)),
     ListPods = (\<lambda>ns sel. unlogged (ListPods C ns sel)),
     ListSecrets = (\<lambda>ns. unlogged (ListSecrets C ns)),
     ListVolumeSnapshots = (\<lambda>ns lb. unlogged (ListVolumeSnapshots C ns lb)),
     ListManagedApps = unlogged (ListManagedApps C),
     UpdateUpgradeRequest = (\<lambda>u. logged (\<lambda>_. UpdatedUpgradeRequest u) (UpdateUpgradeRequest C u)),
     UpdateRollbackRequest = (\<lambda>u. logged (\<lambda>_. UpdatedRollbackRequest u) (UpdateRollbackRequest C u)),
     UpdateKustomization = (\<lambda>u. logged (\<lambda>_. UpdatedKustomization u) (UpdateKustomization C u)),
     PatchDeployment = (\<lambda>u. logged (\<lambda>_. PatchedDeployment u) (PatchDeployment C u)),
     PatchStatefulSet = (\<lambda>u. logged (\<lambda>_. PatchedStatefulSet u) (PatchStatefulSet C u)),
     StatusUpdateUpgradeRequest =
       (\<lambda>u. logged (\<lambda>_. WroteUpgradeStatus u) (StatusUpdateUpgradeRequest C u)),
     StatusUpdateRollbackRequest =
       (\<lambda>u. logged (\<lambda>_. WroteRollbackStatus u) (StatusUpdateRollbackRequest C u)),
     StatusUpdateManagedApp = (\<lambda>u. logged (\<lambda>_. WroteManagedAppStatus u) (StatusUpdateManagedApp C u)),
     CreateRollbackRequest = (\<lambda>u. logged (\<lambda>_. CreatedRollbackRequest u) (CreateRollbackRequest C u)),
     CreateVolumeSnapshot = (\<lambda>u. logged (\<lambda>_. CreatedVolumeSnapshot u) (CreateVolumeSnapshot C u)),
     CreatePVC = (\<lambda>u. logged (\<lambda>_. CreatedPVC u) (CreatePVC C u)),
     DeleteVolumeSnapshot = (\<lambda>k. logged (\<lambda>_. DeletedVolumeSnapshot k) (DeleteVolumeSnapshot C k)),
     DeletePVC = (\<lambda>k. logged (\<lambda>_. DeletedPVC k) (DeletePVC C k))\<rparr>"

text \<open>The trace invariant: every recorded event satisfies \<open>P\<close>.\<close>

definition log_all :: "(event \<Rightarrow> bool) \<Rightarrow> 'w \<times> event list \<Rightarrow> bool" where
  "log_all P wl \<longleftrightarrow> list_all P (snd wl)"

lemma keeps_unlogged: "keeps (log_all P) (unlogged m) (\<lambda>_. True)"
  by (rule keepsI) (auto simp: unlogged_def log_all_def split: prod.splits)

lemma keeps_logged: "(\<And>a. P (ev a)) \<Longrightarrow> keeps (log_all P) (logged ev m) (\<lambda>_. True)"
  by (rule keepsI) (auto simp: logged_def log_all_def split: prod.splits)

section \<open>Invariants that permitted calls keep\<close>

locale api_inv =
  fixes C :: "'w client" and I :: "'w \<Rightarrow> bool" and P :: "event \<Rightarrow> bool"
  assumes keeps_Now: "keeps I (Now C) (\<lambda>_. True)"
    and keeps_SleepOrDone: "keeps I (SleepOrDone C dur) (\<lambda>_. True)"
    and keeps_RangeKeys: "keeps I (RangeKeys C ks) (\<lambda>_. True)"
    and keeps_RangeNames: "keeps I (RangeNames C nns) (\<lambda>_. True)"
    and keeps_GetUpgradeRequest: "keeps I (GetUpgradeRequest C k) (\<lambda>_. True)"
    and keeps_GetRollbackRequest: "keeps I (GetRollbackRequest C k) (\<lambda>_. True)"
    and keeps_GetManagedApp: "keeps I (GetManagedApp C k) (\<lambda>_. True)"
    and keeps_GetKustomization:
      "(\<And>r. P (GotKustomization k r)) \<Longrightarrow> keeps I (GetKustomization C k) (\<lambda>_. True)"
    and keeps_GetDeployment: "keeps I (GetDeployment C k) (\<lambda>_. True)"
    and keeps_GetStatefulSet: "keeps I (GetStatefulSet C k) (\<lambda>_. True)"
    and keeps_GetPVC: "keeps I (GetPVC C k) (\<lambda>_. True)"
    and keeps_GetVolumeSnapshot: "keeps I (GetVolumeSnapshot C k) (\<lambda>_. True)"
    and keeps_GetVolumeSnapshotClass: "keeps I (GetVolumeSnapshotClass C n) (\<lambda>_. True)"
    and keeps_GetConfigMap: "keeps I (GetConfigMap C k) (\<lambda>_. True)"
    and keeps_ListPods: "keeps I (ListPods C ns sel) (\<lambda>_. True)"
    and keeps_ListSecrets: "keeps I (ListSecrets C ns) (\<lambda>_. True)"
    and keeps_ListVolumeSnapshots: "keeps I (ListVolumeSnapshots C ns lb) (\<lambda>_. True)"
    and keeps_ListManagedApps: "keeps I (ListManagedApps C) (\<lambda>_. True)"
    and keeps_UpdateUpgradeRequest:
      "P (UpdatedUpgradeRequest u) \<Longrightarrow> keeps I (UpdateUpgradeRequest C u) (\<lambda>_. True)"
    and keeps_UpdateRollbackRequest:
      "P (UpdatedRollbackRequest rr) \<Longrightarrow> keeps I (UpdateRollbackRequest C rr) (\<lambda>_. True)"
    and keeps_UpdateKustomization:
      "P (UpdatedKustomization x) \<Longrightarrow> keeps I (UpdateKustomization C x) (\<lambda>_. True)"
    and keeps_PatchDeployment: "P (PatchedDeployment d) \<Longrightarrow> keeps I (PatchDeployment C d) (\<lambda>_. True)"
    and keeps_PatchStatefulSet:
      "P (PatchedStatefulSet st) \<Longrightarrow> keeps I (PatchStatefulSet C st) (\<lambda>_. True)"
    and keeps_StatusUpdateUpgradeRequest:
      "P (WroteUpgradeStatus u) \<Longrightarrow> keeps I (StatusUpdateUpgradeRequest C u) (\<lambda>_. True)"
    and keeps_StatusUpdateRollbackRequest:
      "P (WroteRollbackStatus rr) \<Longrightarrow> keeps I (StatusUpdateRollbackRequest C rr) (\<lambda>_. True)"
    and keeps_StatusUpdateManagedApp:
      "P (WroteManagedAppStatus m) \<Longrightarrow> keeps I (StatusUpdateManagedApp C m) (\<lambda>_. True)"
    and keeps_CreateRollbackRequest:
      "P (CreatedRollbackRequest rr) \<Longrightarrow> keeps I (CreateRollbackRequest C rr) (\<lambda>_. True)"
    and keeps_CreateVolumeSnapshot:
      "P (CreatedVolumeSnapshot vs) \<Longrightarrow> keeps I (CreateVolumeSnapshot C vs) (\<lambda>_. True)"
    and keeps_CreatePVC: "P (CreatedPVC p) \<Longrightarrow> keeps I (CreatePVC C p) (\<lambda>_. True)"
    and keeps_DeleteVolumeSnapshot:
      "P (DeletedVolumeSnapshot k) \<Longrightarrow> keeps I (DeleteVolumeSnapshot C k) (\<lambda>_. True)"
    and keeps_DeletePVC: "P (DeletedPVC k) \<Longrightarrow> keeps I (DeletePVC C k) (\<lambda>_. True)"
begin

lemmas read_keeps =
  keeps_Now keeps_SleepOrDone keeps_RangeKeys keeps_RangeNames keeps_GetUpgradeRequest keeps_GetRollbackRequest keeps_GetManagedApp
  keeps_GetDeployment keeps_GetStatefulSet keeps_GetPVC keeps_GetVolumeSnapshot
  keeps_GetVolumeSnapshotClass keeps_GetConfigMap keeps_ListPods keeps_ListSecrets
  keeps_ListVolumeSnapshots keeps_ListManagedApps

lemmas write_keeps =
  keeps_GetKustomization keeps_UpdateUpgradeRequest keeps_UpdateRollbackRequest
  keeps_UpdateKustomization keeps_PatchDeployment keeps_PatchStatefulSet
  keeps_StatusUpdateUpgradeRequest keeps_StatusUpdateRollbackRequest
  keeps_StatusUpdateManagedApp keeps_CreateRollbackRequest keeps_CreateVolumeSnapshot
  keeps_CreatePVC keeps_DeleteVolumeSnapshot keeps_DeletePVC

lemmas api_keeps = read_keeps write_keeps

end

text \<open>The traced client keeps \<open>log_all P\<close> on every call whose event satisfies \<open>P\<close>.\<close>

interpretation tr: api_inv "traced C" "log_all P" P for C :: "'w client" and P
  by unfold_locales (simp_all add: traced_def keeps_unlogged keeps_logged)

section \<open>A result fact carried through an invariant proof\<close>

definition yields :: "('w, 'a) state \<Rightarrow> ('a \<Rightarrow> bool) \<Rightarrow> bool" where
  "yields m S \<longleftrightarrow> (\<forall>w. S (fst (run_state m w)))"

lemma yieldsD: "yields m S \<Longrightarrow> run_state m w = (a, w') \<Longrightarrow> S a"
  unfolding yields_def by (metis fst_conv)

lemma yieldsI: "(\<And>w a w'. run_state m w = (a, w') \<Longrightarrow> S a) \<Longrightarrow> yields m S"
  unfolding yields_def by (metis prod.collapse)

lemma keeps_yields: "keeps I m (\<lambda>_. True) \<Longrightarrow> yields m S \<Longrightarrow> keeps I m S"
  by (rule keepsI) (auto dest: keepsD yieldsD)

lemma yields_unlogged: "yields m S \<Longrightarrow> yields (unlogged m) S"
  by (rule yieldsI) (auto simp: unlogged_def split: prod.splits dest: yieldsD)

lemma yields_logged: "yields m S \<Longrightarrow> yields (logged ev m) S"
  by (rule yieldsI) (auto simp: logged_def split: prod.splits dest: yieldsD)

section \<open>Ranging over a Go map\<close>

text \<open>A \<open>for range\<close> over a map visits every key once, in an unspecified order.\<close>

locale go_range =
  fixes C :: "'w client"
  assumes range_perm: "run_state (RangeKeys C ks) w = (ks', w') \<Longrightarrow> mset ks' = mset ks"
    and range_names_perm: "run_state (RangeNames C ns) w = (ns', w') \<Longrightarrow> mset ns' = mset ns"
begin

lemma range_set: "run_state (RangeKeys C ks) w = (ks', w') \<Longrightarrow> set ks' = set ks"
  by (metis range_perm mset_eq_setD)

lemma range_yields: "yields (RangeKeys C ks) (\<lambda>ks'. set ks' = set ks)"
  by (rule yieldsI) (rule range_set)

lemma go_range_traced: "go_range (traced C)"
  by unfold_locales (auto simp: traced_def unlogged_def split: prod.splits dest: range_perm range_names_perm)

end

end
