(* ===== verification/Git.thy ===== *)
theory Git
  imports Kube
begin

text \<open>
  \<open>internal/git\<close>: the \<open>Manager\<close> interface as a record of programs, the commit-message formats of
  \<open>commit.go\<close> and the in-memory \<open>MockManager\<close> of \<open>mock.go\<close>. The locale \<open>git_repo\<close> is the
  contract of the interface (a commit writes one file, a read changes none and returns what is
  there); \<open>MockManager\<close> is shown to satisfy it.
\<close>

section \<open>interface.go\<close>

record FileChange =
  fc_Path :: string
  fc_Content :: string

record CommitInfo =
  ci_SHA :: string
  ci_Message :: string
  ci_Author :: string
  ci_URL :: string

record 'w git_manager =
  gm_ReadFile :: "string \<Rightarrow> ('w, string) call"
  gm_CommitFile :: "FileChange \<Rightarrow> string \<Rightarrow> ('w, CommitInfo) call"
  gm_CommitFiles :: "FileChange list \<Rightarrow> string \<Rightarrow> ('w, CommitInfo option) call"
  gm_GetLatestCommit :: "('w, CommitInfo) call"

section \<open>commit.go\<close>

definition FormatCommitMessage :: "string \<Rightarrow> string \<Rightarrow> string \<Rightarrow> string list \<Rightarrow> string" where
  "FormatCommitMessage appName fromVersion toVersion snapshots =
     ''chore(deps): update '' @ appName @ '' to '' @ toVersion @ newline @ newline
     @ ''Upgrade triggered via FluxUp'' @ newline
     @ (if length snapshots > 0
        then newline @ ''Pre-upgrade snapshots:'' @ newline
             @ concat (map (\<lambda>snap. ''- '' @ snap @ newline) snapshots)
        else [])
     @ newline @ ''Managed-By: fluxup'' @ newline
     @ (if fromVersion \<noteq> [] then ''Previous-Version: '' @ fromVersion @ newline else [])"

definition FormatRevertCommitMessage :: "string \<Rightarrow> string \<Rightarrow> string \<Rightarrow> string \<Rightarrow> string" where
  "FormatRevertCommitMessage appName fromVersion toVersion upgradeRequestName =
     ''chore(rollback): revert '' @ appName @ '' to '' @ toVersion @ newline @ newline
     @ ''Rollback triggered via FluxUp'' @ newline
     @ ''Rolling back from: '' @ fromVersion @ newline
     @ ''Original upgrade: '' @ upgradeRequestName @ newline
     @ newline @ ''Managed-By: fluxup'' @ newline"

section \<open>mock.go\<close>

record MockManager =
  mk_Files :: "string \<rightharpoonup> string"
  mk_Commits :: "CommitInfo list"
  mk_ReadFileErr :: "goerror option"
  mk_ReadFileErrors :: "string \<rightharpoonup> goerror"
  mk_CommitFileErr :: "goerror option"
  mk_CommitFilesErr :: "goerror option"
  mk_GetLatestCommitErr :: "goerror option"
  mk_ReadFileCalls :: "string list"
  mk_CommitFileCalls :: "FileChange list"

definition NewMockManager :: MockManager where
  "NewMockManager = \<lparr>mk_Files = Map.empty, mk_Commits = [], mk_ReadFileErr = None,
     mk_ReadFileErrors = Map.empty, mk_CommitFileErr = None, mk_CommitFilesErr = None,
     mk_GetLatestCommitErr = None, mk_ReadFileCalls = [], mk_CommitFileCalls = []\<rparr>"

definition mock_ReadFile :: "string \<Rightarrow> (MockManager, string) call" where
  "mock_ReadFile path = do {
     _ \<leftarrow> State_Monad.update (\<lambda>m. m\<lparr>mk_ReadFileCalls := mk_ReadFileCalls m @ [path]\<rparr>);
     m \<leftarrow> State_Monad.get;
     ret (case mk_ReadFileErr m of
        Some e \<Rightarrow> Inl e
      | None \<Rightarrow>
        (case mk_ReadFileErrors m path of
           Some e \<Rightarrow> Inl e
         | None \<Rightarrow>
           (case mk_Files m path of
              None \<Rightarrow> Inl (ErrorString (''file not found: '' @ path))
            | Some content \<Rightarrow> Inr content)))
   }"

definition mock_sha :: "MockManager \<Rightarrow> string" where
  "mock_sha m = ''mock-sha-'' @ itoa (int (length (mk_Commits m)) + 1)"

definition mock_CommitFile :: "FileChange \<Rightarrow> string \<Rightarrow> (MockManager, CommitInfo) call" where
  "mock_CommitFile change message = do {
     _ \<leftarrow> State_Monad.update (\<lambda>m. m\<lparr>mk_CommitFileCalls := mk_CommitFileCalls m @ [change]\<rparr>);
     m \<leftarrow> State_Monad.get;
     (case mk_CommitFileErr m of
        Some e \<Rightarrow> ret (Inl e)
      | None \<Rightarrow>
        (let commit = \<lparr>ci_SHA = mock_sha m, ci_Message = message, ci_Author = ''mock-author'',
                       ci_URL = ''https://mock.git/commit/'' @ mock_sha m\<rparr>
         in do {
           _ \<leftarrow> State_Monad.set (m\<lparr>mk_Files := (mk_Files m)(fc_Path change \<mapsto> fc_Content change),
                                   mk_Commits := mk_Commits m @ [commit]\<rparr>);
           ret (Inr commit)
         }))
   }"

primrec mock_commit_loop ::
  "FileChange list \<Rightarrow> string \<Rightarrow> CommitInfo option \<Rightarrow> (MockManager, CommitInfo option) call" where
  "mock_commit_loop [] message lastCommit = ret (Inr lastCommit)"
| "mock_commit_loop (change # changes) message lastCommit =
     on_err (mock_CommitFile change message) (\<lambda>e. ret (Inl e))
       (\<lambda>commit. mock_commit_loop changes message (Some commit))"

definition mock_CommitFiles :: "FileChange list \<Rightarrow> string \<Rightarrow> (MockManager, CommitInfo option) call" where
  "mock_CommitFiles changes message = do {
     m \<leftarrow> State_Monad.get;
     (case mk_CommitFilesErr m of
        Some e \<Rightarrow> ret (Inl e)
      | None \<Rightarrow> mock_commit_loop changes message None)
   }"

definition mock_GetLatestCommit :: "(MockManager, CommitInfo) call" where
  "mock_GetLatestCommit = do {
     m \<leftarrow> State_Monad.get;
     ret (case mk_GetLatestCommitErr m of
        Some e \<Rightarrow> Inl e
      | None \<Rightarrow>
        (if mk_Commits m = []
         then Inr \<lparr>ci_SHA = ''initial-mock-sha'', ci_Message = ''Initial commit'',
                   ci_Author = ''mock-author'', ci_URL = []\<rparr>
         else Inr (last (mk_Commits m))))
   }"

definition mock_SetFile :: "string \<Rightarrow> string \<Rightarrow> MockManager \<Rightarrow> MockManager" where
  "mock_SetFile path content m = m\<lparr>mk_Files := (mk_Files m)(path \<mapsto> content)\<rparr>"

definition mock_SetReadError :: "string \<Rightarrow> string \<Rightarrow> MockManager \<Rightarrow> MockManager" where
  "mock_SetReadError path errMsg m =
     m\<lparr>mk_ReadFileErrors := (mk_ReadFileErrors m)(path \<mapsto> ErrorString errMsg)\<rparr>"

definition mock_Reset :: "MockManager \<Rightarrow> MockManager" where
  "mock_Reset m = m\<lparr>mk_Files := Map.empty, mk_Commits := [], mk_ReadFileCalls := [],
     mk_CommitFileCalls := [], mk_ReadFileErr := None, mk_ReadFileErrors := Map.empty,
     mk_CommitFileErr := None, mk_CommitFilesErr := None, mk_GetLatestCommitErr := None\<rparr>"

definition mock_manager :: "MockManager git_manager" where
  "mock_manager = \<lparr>gm_ReadFile = mock_ReadFile, gm_CommitFile = mock_CommitFile,
     gm_CommitFiles = mock_CommitFiles, gm_GetLatestCommit = mock_GetLatestCommit\<rparr>"

section \<open>The contract of the interface\<close>

locale git_repo =
  fixes G :: "'w git_manager" and repo :: "'w \<Rightarrow> string \<rightharpoonup> string"
  assumes read_keeps_files: "run_state (gm_ReadFile G p) w = (r, w') \<Longrightarrow> repo w' = repo w"
    and read_result: "run_state (gm_ReadFile G p) w = (Inr c, w') \<Longrightarrow> repo w p = Some c"
    and commit_failure: "run_state (gm_CommitFile G ch msg) w = (Inl e, w') \<Longrightarrow> repo w' = repo w"
    and commit_success: "run_state (gm_CommitFile G ch msg) w = (Inr ci, w') \<Longrightarrow>
      repo w' = (repo w)(fc_Path ch \<mapsto> fc_Content ch)"
begin

lemma read_after_commit:
  assumes "run_state (gm_CommitFile G ch msg) w = (Inr ci, w1)"
    and "run_state (gm_ReadFile G (fc_Path ch)) w1 = (Inr c, w2)"
  shows "c = fc_Content ch"
  using commit_success [OF assms(1)] read_result [OF assms(2)] by simp

lemma read_other_after_commit:
  assumes "run_state (gm_CommitFile G ch msg) w = (Inr ci, w1)" and "p \<noteq> fc_Path ch"
    and "run_state (gm_ReadFile G p) w1 = (Inr c, w2)"
  shows "repo w p = Some c"
  using commit_success [OF assms(1)] read_result [OF assms(3)] assms(2) by simp

text \<open>Committing a list of changes one by one leaves every path with its last content.\<close>

lemma commit_all_files:
  "run_state (for_each (\<lambda>ch. gm_CommitFile G ch msg) chs) w = (Inr cis, w') \<Longrightarrow>
     repo w' = repo w ++ map_of (rev (map (\<lambda>ch. (fc_Path ch, fc_Content ch)) chs))"
proof (induction chs arbitrary: w cis)
  case Nil
  then show ?case by simp
next
  case (Cons ch chs)
  then obtain ci w1 cis' where step: "run_state (gm_CommitFile G ch msg) w = (Inr ci, w1)"
    and "run_state (for_each (\<lambda>ch. gm_CommitFile G ch msg) chs) w1 = (Inr cis', w')"
    by (auto simp: run_on_err split: prod.splits sum.splits)
  with Cons.IH have "repo w' = repo w1 ++ map_of (rev (map (\<lambda>ch. (fc_Path ch, fc_Content ch)) chs))"
    by blast
  then show ?case
    by (simp only: commit_success [OF step]) simp
qed

end

lemma run_update: "run_state (State_Monad.update f) s = ((), f s)"
  by (simp add: State_Monad.update_def)

lemmas mock_run = mock_ReadFile_def mock_CommitFile_def run_update Let_def

lemma mock_CommitFile_effect:
  assumes "run_state (mock_CommitFile ch msg) m = (Inr ci, m')"
  shows "mk_Files m' = (mk_Files m)(fc_Path ch \<mapsto> fc_Content ch)" and "mk_Commits m' = mk_Commits m @ [ci]"
    and "mk_ReadFileErr m' = mk_ReadFileErr m" and "mk_ReadFileErrors m' = mk_ReadFileErrors m"
  using assms by (auto simp: mock_run split: option.splits)

interpretation mock: git_repo mock_manager mk_Files
proof
  fix p w r w'
  assume "run_state (gm_ReadFile mock_manager p) w = (r, w')"
  then show "mk_Files w' = mk_Files w"
    by (auto simp: mock_manager_def mock_run)
next
  fix p w c w'
  assume "run_state (gm_ReadFile mock_manager p) w = (Inr c, w')"
  then show "mk_Files w p = Some c"
    by (auto simp: mock_manager_def mock_run split: option.splits)
next
  fix ch msg w e w'
  assume "run_state (gm_CommitFile mock_manager ch msg) w = (Inl e, w')"
  then show "mk_Files w' = mk_Files w"
    by (auto simp: mock_manager_def mock_run split: option.splits)
next
  fix ch msg w ci w'
  assume "run_state (gm_CommitFile mock_manager ch msg) w = (Inr ci, w')"
  then show "mk_Files w' = (mk_Files w)(fc_Path ch \<mapsto> fc_Content ch)"
    by (simp add: mock_manager_def mock_CommitFile_effect)
qed

section \<open>Tracing\<close>

definition traced_git :: "'w git_manager \<Rightarrow> ('w \<times> event list) git_manager" where
  "traced_git G = \<lparr>
     gm_ReadFile = (\<lambda>p. unlogged (gm_ReadFile G p)),
     gm_CommitFile = (\<lambda>ch msg. logged (\<lambda>_. CommittedFile (fc_Path ch) (fc_Content ch) msg)
       (gm_CommitFile G ch msg)),
     gm_CommitFiles = (\<lambda>chs msg. unlogged (gm_CommitFiles G chs msg)),
     gm_GetLatestCommit = unlogged (gm_GetLatestCommit G)\<rparr>"

locale git_inv =
  fixes G :: "'w git_manager" and I :: "'w \<Rightarrow> bool" and P :: "event \<Rightarrow> bool"
  assumes keeps_ReadFile: "keeps I (gm_ReadFile G p) (\<lambda>_. True)"
    and keeps_CommitFile: "P (CommittedFile (fc_Path ch) (fc_Content ch) msg) \<Longrightarrow>
      keeps I (gm_CommitFile G ch msg) (\<lambda>_. True)"

interpretation trg: git_inv "traced_git G" "log_all P" P for G :: "'w git_manager" and P
  by unfold_locales (simp_all add: traced_git_def keeps_unlogged keeps_logged)

end
