(* ===== verification/Poll.thy ===== *)
theory Poll
  imports Kube
begin

text \<open>
  The blocking wait loops of \<open>internal/snapshot\<close>, \<open>internal/workload\<close> and \<open>internal/flux\<close> all have
  one shape: until a deadline, run a check, return if it decides, otherwise sleep five seconds or
  stop when the context is done. The loop is modelled once, with fuel; \<open>None\<close> is running out of
  fuel. The locale \<open>running_clock\<close> is the behaviour of the clock that ends the loop, and
  \<open>poll_fuel_enough\<close> the number of rounds that is always enough under it.
\<close>

definition PollInterval :: int where
  "PollInterval = 5 * Second"

fun poll_loop ::
  "nat \<Rightarrow> 'w client \<Rightarrow> time \<Rightarrow> ('w, (goerror + unit) option) state \<Rightarrow> goerror \<Rightarrow>
     ('w, (goerror + unit) option) state" where
  "poll_loop 0 C deadline body timeoutErr = ret None"
| "poll_loop (Suc fuel) C deadline body timeoutErr = do {
     now \<leftarrow> Now C;
     if now < deadline then do {
       r \<leftarrow> body;
       (case r of
          Some x \<Rightarrow> ret (Some x)
        | None \<Rightarrow> do {
            s \<leftarrow> SleepOrDone C PollInterval;
            (case s of
               Some e \<Rightarrow> ret (Some (Inl e))
             | None \<Rightarrow> poll_loop fuel C deadline body timeoutErr)
          })
     }
     else ret (Some (Inl timeoutErr))
   }"

definition poll ::
  "nat \<Rightarrow> 'w client \<Rightarrow> int \<Rightarrow> ('w, (goerror + unit) option) state \<Rightarrow> goerror \<Rightarrow>
     ('w, (goerror + unit) option) state" where
  "poll fuel C timeout body timeoutErr = do {
     now \<leftarrow> Now C;
     poll_loop fuel C (now + timeout) body timeoutErr
   }"

text \<open>Rounds that fit into a timeout, plus the one that sees the deadline.\<close>

definition poll_fuel :: "int \<Rightarrow> nat" where
  "poll_fuel timeout = nat (timeout div PollInterval) + 2"

lemma PollInterval_pos [simp]: "0 < PollInterval"
  by (simp add: PollInterval_def Second_def)

lemma poll_fuel_covers: "poll_fuel timeout = Suc n \<Longrightarrow> timeout \<le> int n * PollInterval"
proof -
  assume "poll_fuel timeout = Suc n"
  then have n: "n = Suc (nat (timeout div PollInterval))" by (simp add: poll_fuel_def)
  have "timeout = PollInterval * (timeout div PollInterval) + timeout mod PollInterval"
    by simp
  also have "\<dots> \<le> PollInterval * int (nat (timeout div PollInterval)) + PollInterval"
    by (intro add_mono mult_left_mono less_imp_le [OF pos_mod_bound] less_imp_le [OF PollInterval_pos])
      simp_all
  finally show ?thesis by (simp add: n algebra_simps)
qed

lemma poll_fuel_Suc: obtains n where "poll_fuel timeout = Suc n"
  by (simp add: poll_fuel_def)

locale running_clock =
  fixes C :: "'w client" and clock :: "'w \<Rightarrow> time"
  assumes now_reads: "run_state (Now C) w = (t, w') \<Longrightarrow> clock w \<le> t \<and> t \<le> clock w'"
    and sleep_advances: "run_state (SleepOrDone C d) w = (None, w') \<Longrightarrow> clock w + d \<le> clock w'"
begin

lemma poll_loop_returns:
  assumes body: "\<And>w r w'. run_state body w = (r, w') \<Longrightarrow> clock w \<le> clock w'"
    and fuel: "deadline - clock w \<le> int fuel * PollInterval"
  shows "\<exists>r w'. run_state (poll_loop (Suc fuel) C deadline body err) w = (Some r, w')"
  using fuel
proof (induction fuel arbitrary: w)
  case 0
  obtain t w1 where now: "run_state (Now C) w = (t, w1)" by fastforce
  with now_reads [OF now] 0 have "\<not> t < deadline" by simp
  with now show ?case by simp
next
  case (Suc fuel)
  obtain t w1 where now: "run_state (Now C) w = (t, w1)" by fastforce
  obtain r w2 where b: "run_state body w1 = (r, w2)" by fastforce
  obtain s w3 where sl: "run_state (SleepOrDone C PollInterval) w2 = (s, w3)" by fastforce
  show ?case
  proof (cases "t < deadline \<and> r = None \<and> s = None")
    case True
    with sl have "clock w2 + PollInterval \<le> clock w3" by (auto dest: sleep_advances)
    with now_reads [OF now] body [OF b] have "clock w + PollInterval \<le> clock w3" by linarith
    with Suc.prems have "deadline - clock w3 \<le> int fuel * PollInterval"
      by (simp add: algebra_simps)
    with Suc.IH True now b sl show ?thesis by simp
  next
    case False
    with now b sl show ?thesis by (auto split: option.split)
  qed
qed

lemma poll_returns:
  assumes "\<And>w r w'. run_state body w = (r, w') \<Longrightarrow> clock w \<le> clock w'"
  shows "\<exists>r w'. run_state (poll (poll_fuel timeout) C timeout body err) w = (Some r, w')"
proof -
  obtain t w1 where now: "run_state (Now C) w = (t, w1)" by fastforce
  obtain n where n: "poll_fuel timeout = Suc n" by (rule poll_fuel_Suc)
  with now_reads [OF now] poll_fuel_covers [OF n]
  have "(t + timeout) - clock w1 \<le> int n * PollInterval" by linarith
  from poll_loop_returns [OF assms this] now show ?thesis
    by (simp add: poll_def n)
qed

end

end
