(* ===== verification/Flux.thy ===== *)
theory Flux
  imports Poll
begin

text \<open>
  \<open>internal/flux/suspend.go\<close>: suspending and resuming a Flux Kustomization, reading its state, and
  the validation of the suspend target. The locale \<open>ks_store\<close> is what the API server promises
  for Kustomizations (a read returns the stored object and changes nothing, a successful update
  stores the object that was sent, a failed one changes nothing); the contract of the helper is
  proved from it.
\<close>

section \<open>Operations\<close>

definition SuspendKustomization :: "'w client \<Rightarrow> string \<Rightarrow> string \<Rightarrow> ('w, unit) call" where
  "SuspendKustomization C name namespace =
     checked (wrap_err ''getting kustomization'' (GetKustomization C (NN name namespace))) (\<lambda>ks.
     if ks_Suspend ks then ret (Inr ())
     else
       checked (wrap_err ''suspending kustomization'' (UpdateKustomization C (ks\<lparr>ks_Suspend := True\<rparr>)))
         (\<lambda>_. ret (Inr ())))"

definition ResumeKustomization :: "'w client \<Rightarrow> string \<Rightarrow> string \<Rightarrow> ('w, unit) call" where
  "ResumeKustomization C name namespace =
     checked (wrap_err ''getting kustomization'' (GetKustomization C (NN name namespace))) (\<lambda>ks.
     if \<not> ks_Suspend ks then ret (Inr ())
     else
       checked (wrap_err ''resuming kustomization'' (UpdateKustomization C (ks\<lparr>ks_Suspend := False\<rparr>)))
         (\<lambda>_. do {
            _ \<leftarrow> GetKustomization C (NN name namespace);
            ret (Inr ())
          }))"

definition IsSuspended :: "'w client \<Rightarrow> string \<Rightarrow> string \<Rightarrow> ('w, bool) call" where
  "IsSuspended C name namespace =
     checked (wrap_err ''getting kustomization'' (GetKustomization C (NN name namespace))) (\<lambda>ks.
     ret (Inr (ks_Suspend ks)))"

text \<open>
  The check of one round of \<open>WaitForReconciliation\<close>: once the observed generation has grown, the
  first Ready condition that is True or False decides.
\<close>

fun reconciliation_verdict :: "Condition list \<Rightarrow> (goerror + unit) option" where
  "reconciliation_verdict [] = None"
| "reconciliation_verdict (cond # conds) =
     (if c_Type cond = ''Ready'' then
        (if c_Status cond = ''True'' then Some (Inr ())
         else if c_Status cond = ''False''
         then Some (Inl (ErrorString (''kustomization reconciliation failed: '' @ c_Message cond)))
         else reconciliation_verdict conds)
      else reconciliation_verdict conds)"

definition WaitForReconciliation ::
  "nat \<Rightarrow> 'w client \<Rightarrow> string \<Rightarrow> string \<Rightarrow> int \<Rightarrow> ('w, (goerror + unit) option) state" where
  "WaitForReconciliation fuel C name namespace timeout = do {
     now \<leftarrow> Now C;
     on_err (wrap_err ''getting initial kustomization state'' (GetKustomization C (NN name namespace)))
       (\<lambda>e. ret (Some (Inl e)))
       (\<lambda>initial.
          poll_loop fuel C (now + timeout)
            (on_err (wrap_err ''getting kustomization'' (GetKustomization C (NN name namespace)))
               (\<lambda>e. ret (Some (Inl e)))
               (\<lambda>ks. ret (if ks_ObservedGeneration initial < ks_ObservedGeneration ks
                          then reconciliation_verdict (ks_Conditions ks) else None)))
            (ErrorString (''timeout waiting for kustomization '' @ namespace @ ''/'' @ name
               @ '' reconciliation'')))
   }"

definition IsReconciled :: "'w client \<Rightarrow> string \<Rightarrow> string \<Rightarrow> ('w, bool) call" where
  "IsReconciled C name namespace =
     checked (wrap_err ''getting kustomization'' (GetKustomization C (NN name namespace))) (\<lambda>ks.
     ret (Inr (case find (\<lambda>cond. c_Type cond = ''Ready'') (ks_Conditions ks) of
                 Some cond \<Rightarrow> c_Status cond = ''True''
               | None \<Rightarrow> False)))"

record ManagedByInfo =
  mbi_IsManaged :: bool
  mbi_ParentName :: string
  mbi_ParentNamespace :: string

definition KustomizeGroupVersion :: string where
  "KustomizeGroupVersion = ''kustomize.toolkit.fluxcd.io/v1''"

definition managed_by :: "Kustomization \<Rightarrow> string \<Rightarrow> ManagedByInfo" where
  "managed_by ks namespace =
     (case find (\<lambda>ref. owner_APIVersion ref = KustomizeGroupVersion \<and> owner_Kind ref = ''Kustomization'')
                (om_OwnerReferences (ks_meta ks)) of
        Some ref \<Rightarrow> \<lparr>mbi_IsManaged = True, mbi_ParentName = owner_Name ref, mbi_ParentNamespace = namespace\<rparr>
      | None \<Rightarrow>
        (case map_of (om_Labels (ks_meta ks)) ''kustomize.toolkit.fluxcd.io/name'' of
           Some parentName \<Rightarrow>
             \<lparr>mbi_IsManaged = True, mbi_ParentName = parentName,
              mbi_ParentNamespace =
                (case map_of (om_Labels (ks_meta ks)) ''kustomize.toolkit.fluxcd.io/namespace'' of
                   Some ns \<Rightarrow> ns | None \<Rightarrow> namespace)\<rparr>
         | None \<Rightarrow> \<lparr>mbi_IsManaged = False, mbi_ParentName = [], mbi_ParentNamespace = []\<rparr>))"

definition IsManagedByKustomization :: "'w client \<Rightarrow> string \<Rightarrow> string \<Rightarrow> ('w, ManagedByInfo) call" where
  "IsManagedByKustomization C name namespace =
     checked (wrap_err ''getting kustomization'' (GetKustomization C (NN name namespace))) (\<lambda>ks.
     ret (Inr (managed_by ks namespace)))"

definition not_root_error :: "NamespacedName \<Rightarrow> ManagedByInfo \<Rightarrow> goerror" where
  "not_root_error kref m = ErrorString (''kustomization '' @ [CHR 0x27] @ nn_Namespace kref @ ''/'' @ nn_Name kref
     @ [CHR 0x27] @ '' is managed by '' @ [CHR 0x27] @ mbi_ParentNamespace m @ ''/'' @ mbi_ParentName m @ [CHR 0x27]
     @ '': set spec.suspendRef to a root Kustomization to prevent the parent from un-suspending the child during operations'')"

definition ValidateSuspendTarget ::
  "'w client \<Rightarrow> NamespacedName \<Rightarrow> NamespacedName option \<Rightarrow> ('w, unit) call" where
  "ValidateSuspendTarget C kustomizationRef suspendRef =
     (let target = (case suspendRef of Some s \<Rightarrow> s | None \<Rightarrow> kustomizationRef);
          verify =
            checked (wrap_err (''suspend target Kustomization '' @ [CHR 0x27] @ nn_Namespace target @ ''/'' @ nn_Name target
                @ [CHR 0x27] @ '' not found'') (GetKustomization C target))
              (\<lambda>_. ret (Inr ()))
      in case suspendRef of
           Some _ \<Rightarrow> verify
         | None \<Rightarrow>
             checked (wrap_err ''checking if kustomization is managed''
                 (IsManagedByKustomization C (nn_Name kustomizationRef) (nn_Namespace kustomizationRef)))
               (\<lambda>managedBy.
                  if mbi_IsManaged managedBy then ret (Inl (not_root_error kustomizationRef managedBy))
                  else verify))"

definition unsuspended_error :: "string \<Rightarrow> string \<Rightarrow> goerror" where
  "unsuspended_error name namespace = ErrorString (''kustomization '' @ [CHR 0x27] @ namespace @ ''/'' @ name @ [CHR 0x27]
     @ '' was un-suspended externally: ensure no parent Kustomization or external automation manages the suspend state'')"

definition VerifyStillSuspended :: "'w client \<Rightarrow> string \<Rightarrow> string \<Rightarrow> ('w, unit) call" where
  "VerifyStillSuspended C name namespace =
     checked (wrap_err ''checking suspend state'' (IsSuspended C name namespace)) (\<lambda>suspended.
     if \<not> suspended then ret (Inl (unsuspended_error name namespace)) else ret (Inr ()))"

lemmas flux_defs = SuspendKustomization_def ResumeKustomization_def IsSuspended_def
  IsReconciled_def IsManagedByKustomization_def ValidateSuspendTarget_def VerifyStillSuspended_def

section \<open>Which calls the helper makes\<close>

context api_inv
begin

lemma keeps_flux_reads:
  assumes "\<And>k r. P (GotKustomization k r)"
  shows "keeps I (IsSuspended C n ns) (\<lambda>_. True)" "keeps I (IsReconciled C n ns) (\<lambda>_. True)"
    "keeps I (IsManagedByKustomization C n ns) (\<lambda>_. True)"
    "keeps I (ValidateSuspendTarget C kr sr) (\<lambda>_. True)" "keeps I (VerifyStillSuspended C n ns) (\<lambda>_. True)"
  unfolding flux_defs Let_def by (intro keeps_rule TrueI keeps_GetKustomization assms)+

lemma keeps_flux_writes:
  assumes "\<And>k r. P (GotKustomization k r)" and "\<And>x. P (UpdatedKustomization x)"
  shows "keeps I (SuspendKustomization C n ns) (\<lambda>_. True)" "keeps I (ResumeKustomization C n ns) (\<lambda>_. True)"
  unfolding flux_defs by (intro keeps_rule TrueI keeps_GetKustomization keeps_UpdateKustomization assms)+

end

section \<open>The contract over a store of Kustomizations\<close>

definition ks_key :: "Kustomization \<Rightarrow> NamespacedName" where
  "ks_key ks = NN (om_Name (ks_meta ks)) (om_Namespace (ks_meta ks))"

lemma ks_key_suspend [simp]: "ks_key (ks\<lparr>ks_Suspend := b\<rparr>) = ks_key ks"
  by (simp add: ks_key_def)

locale ks_store =
  fixes C :: "'w client" and kss :: "'w \<Rightarrow> NamespacedName \<rightharpoonup> Kustomization"
  assumes get_pure: "run_state (GetKustomization C k) w = (r, w') \<Longrightarrow> kss w' = kss w"
    and get_found: "run_state (GetKustomization C k) w = (Inr x, w') \<Longrightarrow> kss w k = Some x \<and> ks_key x = k"
    and update_ok: "run_state (UpdateKustomization C x) w = (Inr y, w') \<Longrightarrow>
      kss w' = (kss w)(ks_key x \<mapsto> y) \<and> ks_key y = ks_key x \<and> ks_Suspend y = ks_Suspend x"
    and update_failed: "run_state (UpdateKustomization C x) w = (Inl e, w') \<Longrightarrow> kss w' = kss w"
begin

text \<open>The suspend flag of a stored Kustomization.\<close>

lemma IsSuspended_result:
  assumes "run_state (IsSuspended C n ns) w = (Inr b, w')"
  shows "kss w' = kss w" and "\<exists>x. kss w (NN n ns) = Some x \<and> ks_Suspend x = b"
  using assms
  by (auto simp: IsSuspended_def run_on_err run_wrap_err split: prod.splits sum.splits
      dest: get_pure get_found)

lemma VerifyStillSuspended_ok:
  assumes "run_state (VerifyStillSuspended C n ns) w = (Inr (), w')"
  shows "kss w' = kss w" and "\<exists>x. kss w (NN n ns) = Some x \<and> ks_Suspend x"
proof -
  from assms have "run_state (IsSuspended C n ns) w = (Inr True, w')"
    by (auto simp: VerifyStillSuspended_def run_on_err run_wrap_err split: prod.splits sum.splits if_splits)
  then show "kss w' = kss w" and "\<exists>x. kss w (NN n ns) = Some x \<and> ks_Suspend x"
    by (auto dest: IsSuspended_result)
qed

lemma SuspendKustomization_ok:
  assumes "run_state (SuspendKustomization C n ns) w = (Inr (), w')"
  shows "\<exists>x. kss w' (NN n ns) = Some x \<and> ks_Suspend x"
    and "k \<noteq> NN n ns \<Longrightarrow> kss w' k = kss w k"
proof -
  from assms obtain ks w1 where get: "run_state (GetKustomization C (NN n ns)) w = (Inr ks, w1)"
    and rest: "ks_Suspend ks \<and> w' = w1 \<or>
      (\<exists>y. run_state (UpdateKustomization C (ks\<lparr>ks_Suspend := True\<rparr>)) w1 = (Inr y, w'))"
    by (auto simp: SuspendKustomization_def run_on_err run_wrap_err split: prod.splits sum.splits if_splits)
  note got = get_found [OF get] get_pure [OF get]
  from rest show "\<exists>x. kss w' (NN n ns) = Some x \<and> ks_Suspend x"
    using got by (auto dest!: update_ok)
  from rest show "k \<noteq> NN n ns \<Longrightarrow> kss w' k = kss w k"
    using got by (auto dest!: update_ok)
qed

lemma ResumeKustomization_ok:
  assumes "run_state (ResumeKustomization C n ns) w = (Inr (), w')"
  shows "\<exists>x. kss w' (NN n ns) = Some x \<and> \<not> ks_Suspend x"
    and "k \<noteq> NN n ns \<Longrightarrow> kss w' k = kss w k"
proof -
  from assms obtain ks w1 where get: "run_state (GetKustomization C (NN n ns)) w = (Inr ks, w1)"
    and rest: "\<not> ks_Suspend ks \<and> w' = w1 \<or>
      (\<exists>y w2 r. run_state (UpdateKustomization C (ks\<lparr>ks_Suspend := False\<rparr>)) w1 = (Inr y, w2) \<and>
              run_state (GetKustomization C (NN n ns)) w2 = (r, w'))"
    by (auto simp: ResumeKustomization_def run_on_err run_wrap_err split: prod.splits sum.splits if_splits)
  note got = get_found [OF get] get_pure [OF get]
  from rest show "\<exists>x. kss w' (NN n ns) = Some x \<and> \<not> ks_Suspend x"
    using got by (auto dest!: update_ok get_pure)
  from rest show "k \<noteq> NN n ns \<Longrightarrow> kss w' k = kss w k"
    using got by (auto dest!: update_ok get_pure)
qed

text \<open>Validation accepts exactly existing targets that no Kustomization manages or an explicit choice.\<close>

lemma ValidateSuspendTarget_ok:
  assumes "run_state (ValidateSuspendTarget C kr sr) w = (Inr (), w')"
  shows "kss w' = kss w"
    and "\<exists>x. kss w (case sr of Some s \<Rightarrow> s | None \<Rightarrow> kr) = Some x \<and>
           (sr = None \<longrightarrow> \<not> mbi_IsManaged (managed_by x (nn_Namespace kr)))"
proof -
  note unf = ValidateSuspendTarget_def IsManagedByKustomization_def run_on_err run_wrap_err
  have "kss w' = kss w \<and> (\<exists>x. kss w (case sr of Some s \<Rightarrow> s | None \<Rightarrow> kr) = Some x \<and>
           (sr = None \<longrightarrow> \<not> mbi_IsManaged (managed_by x (nn_Namespace kr))))"
  proof (cases sr)
    case (Some s)
    with assms obtain x where "run_state (GetKustomization C s) w = (Inr x, w')"
      by (auto simp: unf split: prod.splits sum.splits)
    with Some show ?thesis by (auto dest: get_found get_pure)
  next
    case None
    with assms obtain x w1 y where g: "run_state (GetKustomization C kr) w = (Inr x, w1)"
      and root: "\<not> mbi_IsManaged (managed_by x (nn_Namespace kr))"
      and g': "run_state (GetKustomization C kr) w1 = (Inr y, w')"
      by (auto simp: unf split: prod.splits sum.splits if_splits)
    with None get_found [OF g] get_pure [OF g] get_pure [OF g'] show ?thesis by simp
  qed
  then show "kss w' = kss w"
    and "\<exists>x. kss w (case sr of Some s \<Rightarrow> s | None \<Rightarrow> kr) = Some x \<and>
           (sr = None \<longrightarrow> \<not> mbi_IsManaged (managed_by x (nn_Namespace kr)))"
    by blast+
qed

end

end
