(* ===== verification/Snapshot.thy ===== *)
theory Snapshot
  imports Poll
begin

text \<open>
  \<open>internal/snapshot/manager.go\<close>: creating, checking, restoring and pruning volume snapshots. The
  in-place exchange sort of \<open>sortSnapshotsByCreationTime\<close> is modelled with its two loops and index
  swaps and shown to sort; the retention policy is shown to delete, per claim, exactly the
  snapshots beyond the newest \<open>maxCount\<close>.
\<close>

section \<open>Creating and checking snapshots\<close>

record SnapshotRequest =
  sr_PVCName :: string
  sr_PVCNamespace :: string
  sr_SnapshotName :: string
  sr_VolumeSnapshotClassName :: string
  sr_Labels :: labels

record SnapshotInfo =
  sni_PVCName :: string
  sni_SnapshotName :: string
  sni_Namespace :: string

definition snapshot_object :: "SnapshotRequest \<Rightarrow> VolumeSnapshot" where
  "snapshot_object req = \<lparr>
     vs_meta = new_meta (sr_SnapshotName req) (sr_PVCNamespace req) (sr_Labels req),
     vs_PVCName = Some (sr_PVCName req),
     vs_ClassName = (if sr_VolumeSnapshotClassName req \<noteq> [] then Some (sr_VolumeSnapshotClassName req) else None),
     vs_Status = None\<rparr>"

definition CreateSnapshot :: "'w client \<Rightarrow> SnapshotRequest \<Rightarrow> ('w, VolumeSnapshot) call" where
  "CreateSnapshot C req =
     checked (wrap_err (''PVC not found '' @ sr_PVCNamespace req @ ''/'' @ sr_PVCName req)
         (GetPVC C (NN (sr_PVCName req) (sr_PVCNamespace req))))
       (\<lambda>_. wrap_err ''creating snapshot'' (CreateVolumeSnapshot C (snapshot_object req)))"

definition snapshot_ready :: "VolumeSnapshot \<Rightarrow> bool" where
  "snapshot_ready vs =
     (case vs_Status vs of None \<Rightarrow> False
      | Some st \<Rightarrow> (case vss_ReadyToUse st of None \<Rightarrow> False | Some b \<Rightarrow> b))"

definition snapshot_error :: "VolumeSnapshot \<Rightarrow> string option" where
  "snapshot_error vs =
     (case vs_Status vs of None \<Rightarrow> None
      | Some st \<Rightarrow> (case vss_Error st of None \<Rightarrow> None | Some msg \<Rightarrow> msg))"

definition WaitForSnapshotReady ::
  "nat \<Rightarrow> 'w client \<Rightarrow> string \<Rightarrow> string \<Rightarrow> int \<Rightarrow> ('w, (goerror + unit) option) state" where
  "WaitForSnapshotReady fuel C name namespace timeout =
     poll fuel C timeout
       (on_err (wrap_err ''getting snapshot'' (GetVolumeSnapshot C (NN name namespace)))
          (\<lambda>e. ret (Some (Inl e)))
          (\<lambda>snapshot.
             ret (if snapshot_ready snapshot then Some (Inr ())
                  else case snapshot_error snapshot of
                         Some msg \<Rightarrow> Some (Inl (ErrorString (''snapshot error: '' @ msg)))
                       | None \<Rightarrow> None)))
       (ErrorString (''timeout waiting for snapshot '' @ namespace @ ''/'' @ name @ '' to be ready''))"

definition IsSnapshotReady :: "'w client \<Rightarrow> string \<Rightarrow> string \<Rightarrow> ('w, bool) call" where
  "IsSnapshotReady C name namespace =
     checked (wrap_err ''getting snapshot'' (GetVolumeSnapshot C (NN name namespace)))
       (\<lambda>snapshot. ret (Inr (snapshot_ready snapshot)))"

definition managed_app_label :: string where
  "managed_app_label = ''fluxup.dev/managed-app''"

definition pre_upgrade_name :: "string \<Rightarrow> string \<Rightarrow> string \<Rightarrow> string" where
  "pre_upgrade_name appName pvcName timestamp = appName @ ''-'' @ pvcName @ ''-pre-upgrade-'' @ timestamp"

definition upgrade_snapshot_request ::
  "string \<Rightarrow> string \<Rightarrow> string \<Rightarrow> string \<Rightarrow> PVCRef \<Rightarrow> SnapshotRequest" where
  "upgrade_snapshot_request appName appNamespace snapshotClass timestamp pvc = \<lparr>
     sr_PVCName = pvcref_Name pvc,
     sr_PVCNamespace = ns_or (pvcref_Namespace pvc) appNamespace,
     sr_SnapshotName = pre_upgrade_name appName (pvcref_Name pvc) timestamp,
     sr_VolumeSnapshotClassName = snapshotClass,
     sr_Labels = [(managed_app_label, appName), (''fluxup.dev/purpose'', ''pre-upgrade'')]\<rparr>"

definition CreateSnapshotsForUpgrade ::
  "'w client \<Rightarrow> klib \<Rightarrow> string \<Rightarrow> string \<Rightarrow> PVCRef list \<Rightarrow> string \<Rightarrow> ('w, SnapshotInfo list) call" where
  "CreateSnapshotsForUpgrade C L appName appNamespace pvcs snapshotClass = do {
     now \<leftarrow> Now C;
     for_each (\<lambda>pvc.
       checked (wrap_err (''creating snapshot for PVC '' @ pvcref_Name pvc)
           (CreateSnapshot C (upgrade_snapshot_request appName appNamespace snapshotClass (FormatTime L now) pvc)))
         (\<lambda>snapshot. ret (Inr \<lparr>sni_PVCName = pvcref_Name pvc,
              sni_SnapshotName = om_Name (vs_meta snapshot), sni_Namespace = om_Namespace (vs_meta snapshot)\<rparr>)))
       pvcs
   }"

definition DeleteSnapshot :: "'w client \<Rightarrow> string \<Rightarrow> string \<Rightarrow> ('w, unit) call" where
  "DeleteSnapshot C name namespace = checked (DeleteVolumeSnapshot C (NN name namespace)) (\<lambda>_. ret (Inr ()))"

section \<open>Retention\<close>

definition DefaultMaxSnapshotCount :: int where
  "DefaultMaxSnapshotCount = 3"

abbreviation created :: "VolumeSnapshot \<Rightarrow> time" where
  "created vs \<equiv> om_CreationTimestamp (vs_meta vs)"

definition vs_key :: "VolumeSnapshot \<Rightarrow> NamespacedName" where
  "vs_key vs = NN (om_Name (vs_meta vs)) (om_Namespace (vs_meta vs))"

definition swap :: "nat \<Rightarrow> nat \<Rightarrow> 'a list \<Rightarrow> 'a list" where
  "swap i j xs = xs[i := xs ! j, j := xs ! i]"

function sort_inner :: "('a \<Rightarrow> int) \<Rightarrow> nat \<Rightarrow> nat \<Rightarrow> 'a list \<Rightarrow> 'a list" where
  "sort_inner key i j xs =
     (if j < length xs
      then sort_inner key i (Suc j) (if key (xs ! i) < key (xs ! j) then swap i j xs else xs)
      else xs)"
  by pat_completeness auto
termination
  by (relation "measure (\<lambda>(key, i, j, xs). length xs - j)") (auto simp: swap_def)

function sort_outer :: "('a \<Rightarrow> int) \<Rightarrow> nat \<Rightarrow> 'a list \<Rightarrow> 'a list" where
  "sort_outer key i xs =
     (if int i < int (length xs) - 1 then
        (let ys = sort_inner key i (Suc i) xs
         in if length ys = length xs then sort_outer key (Suc i) ys else ys)
      else xs)"
  by pat_completeness auto
termination
  by (relation "measure (\<lambda>(key, i, xs). length xs - i)") auto

declare sort_inner.simps [simp del] sort_outer.simps [simp del]

definition sortSnapshotsByCreationTime :: "VolumeSnapshot list \<Rightarrow> VolumeSnapshot list" where
  "sortSnapshotsByCreationTime snapshots = sort_outer created 0 snapshots"

fun insert_group :: "string \<Rightarrow> 'a \<Rightarrow> (string \<times> 'a list) list \<Rightarrow> (string \<times> 'a list) list" where
  "insert_group k v [] = [(k, [v])]"
| "insert_group k v ((k', vs) # rest) =
     (if k = k' then (k', vs @ [v]) # rest else (k', vs) # insert_group k v rest)"

fun group_by_pvc ::
  "VolumeSnapshot list \<Rightarrow> (string \<times> VolumeSnapshot list) list \<Rightarrow> (string \<times> VolumeSnapshot list) list" where
  "group_by_pvc [] byPVC = byPVC"
| "group_by_pvc (snap # snaps) byPVC =
     (case vs_PVCName snap of
        None \<Rightarrow> group_by_pvc snaps byPVC
      | Some pvcName \<Rightarrow> group_by_pvc snaps (insert_group pvcName snap byPVC))"

primrec delete_loop :: "'w client \<Rightarrow> VolumeSnapshot list \<Rightarrow> int \<Rightarrow> ('w, int) state" where
  "delete_loop C [] deleted = ret deleted"
| "delete_loop C (snap # snaps) deleted = do {
     r \<leftarrow> DeleteVolumeSnapshot C (vs_key snap);
     (case r of Inl _ \<Rightarrow> delete_loop C snaps deleted | Inr _ \<Rightarrow> delete_loop C snaps (deleted + 1))
   }"

primrec retention_loop ::
  "'w client \<Rightarrow> int \<Rightarrow> (string \<times> VolumeSnapshot list) list \<Rightarrow> string list \<Rightarrow> int \<Rightarrow> ('w, int) call" where
  "retention_loop C maxCount byPVC [] deleted = ret (Inr deleted)"
| "retention_loop C maxCount byPVC (pvcName # keys) deleted =
     (let pvcSnapshots = (case map_of byPVC pvcName of None \<Rightarrow> [] | Some s \<Rightarrow> s)
      in if int (length pvcSnapshots) \<le> maxCount then retention_loop C maxCount byPVC keys deleted
         else if maxCount < 0 then ret (Inl (Panic ''slice bounds out of range''))
         else do {
           deleted' \<leftarrow> delete_loop C (drop (nat maxCount) (sortSnapshotsByCreationTime pvcSnapshots)) deleted;
           retention_loop C maxCount byPVC keys deleted'
         })"

definition ApplyRetentionPolicy :: "'w client \<Rightarrow> string \<Rightarrow> string \<Rightarrow> int \<Rightarrow> ('w, int) call" where
  "ApplyRetentionPolicy C appName namespace maxCount =
     (if maxCount = 0 then ret (Inr 0)
      else
        checked (wrap_err ''listing snapshots'' (ListVolumeSnapshots C namespace (managed_app_label, appName)))
          (\<lambda>snapshots.
             if length snapshots = 0 then ret (Inr 0)
             else do {
               keys \<leftarrow> RangeKeys C (map fst (group_by_pvc snapshots []));
               retention_loop C maxCount (group_by_pvc snapshots []) keys 0
             }))"

section \<open>Restoring claims\<close>

record RestoreRequest =
  rq_SnapshotName :: string
  rq_SnapshotNamespace :: string
  rq_NewPVCName :: string
  rq_NewPVCNamespace :: string
  rq_StorageClassName :: string
  rq_Labels :: labels

definition restored_pvc :: "RestoreRequest \<Rightarrow> string \<Rightarrow> PersistentVolumeClaim" where
  "restored_pvc req restoreSize = \<lparr>
     pvc_meta = new_meta (rq_NewPVCName req) (rq_NewPVCNamespace req) (rq_Labels req),
     pvc_AccessModes = [''ReadWriteOnce''],
     pvc_StorageClassName = (if rq_StorageClassName req \<noteq> [] then Some (rq_StorageClassName req) else None),
     pvc_StorageRequest = restoreSize,
     pvc_DataSource = Some (''snapshot.storage.k8s.io'', ''VolumeSnapshot'', rq_SnapshotName req),
     pvc_Phase = []\<rparr>"

definition RestorePVCFromSnapshot :: "'w client \<Rightarrow> RestoreRequest \<Rightarrow> ('w, PersistentVolumeClaim) call" where
  "RestorePVCFromSnapshot C req =
     checked (wrap_err ''snapshot not found''
         (GetVolumeSnapshot C (NN (rq_SnapshotName req) (rq_SnapshotNamespace req))))
       (\<lambda>snapshot.
          if \<not> snapshot_ready snapshot
          then ret (Inl (ErrorString (''snapshot '' @ rq_SnapshotName req @ '' is not ready'')))
          else case (case vs_Status snapshot of None \<Rightarrow> None | Some st \<Rightarrow> vss_RestoreSize st) of
                 None \<Rightarrow> ret (Inl (ErrorString (''snapshot '' @ rq_SnapshotName req @ '' has no restore size'')))
               | Some restoreSize \<Rightarrow>
                   wrap_err ''creating PVC from snapshot'' (CreatePVC C (restored_pvc req restoreSize)))"

definition ClaimBound :: string where
  "ClaimBound = ''Bound''"

definition WaitForPVCBound ::
  "nat \<Rightarrow> 'w client \<Rightarrow> string \<Rightarrow> string \<Rightarrow> int \<Rightarrow> ('w, (goerror + unit) option) state" where
  "WaitForPVCBound fuel C name namespace timeout =
     poll fuel C timeout
       (on_err (wrap_err ''getting PVC'' (GetPVC C (NN name namespace))) (\<lambda>e. ret (Some (Inl e)))
          (\<lambda>pvc. ret (if pvc_Phase pvc = ClaimBound then Some (Inr ()) else None)))
       (ErrorString (''timeout waiting for PVC '' @ namespace @ ''/'' @ name @ '' to be bound''))"

definition Manager_DeletePVC :: "'w client \<Rightarrow> string \<Rightarrow> string \<Rightarrow> ('w, unit) call" where
  "Manager_DeletePVC C name namespace =
     wrap_err (''deleting PVC '' @ namespace @ ''/'' @ name) (DeletePVC C (NN name namespace))"

definition WaitForPVCDeleted ::
  "nat \<Rightarrow> 'w client \<Rightarrow> klib \<Rightarrow> string \<Rightarrow> string \<Rightarrow> int \<Rightarrow> ('w, (goerror + unit) option) state" where
  "WaitForPVCDeleted fuel C L name namespace timeout =
     poll fuel C timeout
       (on_err (GetPVC C (NN name namespace))
          (\<lambda>e. ret (Some (if IgnoreNotFound L e = None then Inr () else Inl (Wrap ''getting PVC'' e))))
          (\<lambda>_. ret None))
       (ErrorString (''timeout waiting for PVC '' @ namespace @ ''/'' @ name @ '' to be deleted''))"

definition IsPVCDeleted :: "'w client \<Rightarrow> klib \<Rightarrow> string \<Rightarrow> string \<Rightarrow> ('w, bool) call" where
  "IsPVCDeleted C L name namespace =
     on_err (GetPVC C (NN name namespace))
       (\<lambda>e. ret (if IgnoreNotFound L e = None then Inr True else Inl (Wrap ''getting PVC'' e)))
       (\<lambda>_. ret (Inr False))"

definition IsPVCBound :: "'w client \<Rightarrow> string \<Rightarrow> string \<Rightarrow> ('w, bool) call" where
  "IsPVCBound C name namespace =
     checked (wrap_err ''getting PVC'' (GetPVC C (NN name namespace)))
       (\<lambda>pvc. ret (Inr (pvc_Phase pvc = ClaimBound)))"

section \<open>The exchange sort sorts\<close>

lemma length_swap [simp]: "length (swap i j xs) = length xs"
  by (simp add: swap_def)

lemma mset_swap_ij: "i < length xs \<Longrightarrow> j < length xs \<Longrightarrow> mset (swap i j xs) = mset xs"
  by (simp add: swap_def mset_swap)

lemma nth_swap:
  "i < length xs \<Longrightarrow> j < length xs \<Longrightarrow>
     swap i j xs ! k = (if k = j then xs ! i else if k = i then xs ! j else xs ! k)"
  by (auto simp: swap_def nth_list_update)

lemma take_swap: "i \<le> j \<Longrightarrow> take i (swap i j xs) = take i xs"
  by (simp add: swap_def)

lemma length_sort_inner [simp]: "length (sort_inner key i j xs) = length xs"
proof (induction key i j xs rule: sort_inner.induct)
  case (1 key i j xs)
  then show ?case by (simp add: sort_inner.simps [of key i j xs])
qed

lemma mset_sort_inner: "i < j \<Longrightarrow> mset (sort_inner key i j xs) = mset xs"
proof (induction key i j xs rule: sort_inner.induct)
  case (1 key i j xs)
  then show ?case by (simp add: sort_inner.simps [of key i j xs] mset_swap_ij)
qed

lemma take_sort_inner: "i < j \<Longrightarrow> take i (sort_inner key i j xs) = take i xs"
proof (induction key i j xs rule: sort_inner.induct)
  case (1 key i j xs)
  then show ?case by (simp add: sort_inner.simps [of key i j xs] take_swap)
qed

text \<open>After the inner loop, position \<open>i\<close> holds a maximum of the rest.\<close>

lemma sort_inner_max:
  assumes "i < j" and "\<forall>k. i \<le> k \<and> k < j \<longrightarrow> key (xs ! k) \<le> key (xs ! i)"
    and "i \<le> k" and "k < length xs"
  shows "key (sort_inner key i j xs ! k) \<le> key (sort_inner key i j xs ! i)"
  using assms
proof (induction key i j xs rule: sort_inner.induct)
  case (1 key i j xs)
  show ?case
  proof (cases "j < length xs")
    case False
    with "1.prems" show ?thesis by (simp add: sort_inner.simps [of key i j xs])
  next
    case True
    let ?ys = "if key (xs ! i) < key (xs ! j) then swap i j xs else xs"
    have "key (?ys ! k) \<le> key (?ys ! i)" if "i \<le> k" "k < Suc j" for k
      using that True "1.prems"(1) "1.prems"(2) [rule_format, of k] "1.prems"(2) [rule_format, of i]
      by (auto simp: nth_swap less_Suc_eq)
    with "1.IH" [OF True] "1.prems"(1,3,4) True show ?thesis
      by (simp add: sort_inner.simps [of key i j xs])
  qed
qed

text \<open>The invariant of the outer loop: the first \<open>i\<close> elements are sorted and dominate the rest.\<close>

definition sorted_upto :: "('a \<Rightarrow> int) \<Rightarrow> nat \<Rightarrow> 'a list \<Rightarrow> bool" where
  "sorted_upto key i xs \<longleftrightarrow>
     (\<forall>a b. a < b \<and> a < i \<and> b < length xs \<longrightarrow> key (xs ! b) \<le> key (xs ! a))"

lemma drop_nth_member: "i \<le> b \<Longrightarrow> b < length xs \<Longrightarrow> xs ! b \<in> set (drop i xs)"
  by (auto simp: in_set_conv_nth intro!: exI [of _ "b - i"])

lemma set_drop_sort_inner:
  assumes "i < j" shows "set (drop i (sort_inner key i j xs)) = set (drop i xs)"
proof -
  have "mset (take i xs) + mset (drop i (sort_inner key i j xs)) = mset (take i xs) + mset (drop i xs)"
    using mset_sort_inner [OF assms, of key xs] take_sort_inner [OF assms, of key xs]
    by (metis append_take_drop_id mset_append)
  then show ?thesis by (metis add_left_cancel mset_eq_setD)
qed

lemma sort_inner_step:
  assumes "sorted_upto key i xs" and "Suc i < length xs"
  shows "sorted_upto key (Suc i) (sort_inner key i (Suc i) xs)"
  unfolding sorted_upto_def
proof (intro allI impI, elim conjE)
  fix a b
  let ?ys = "sort_inner key i (Suc i) xs"
  assume ab: "a < b" and a: "a < Suc i" and b: "b < length ?ys"
  have prefix: "?ys ! a = xs ! a" if "a < i"
    using that take_sort_inner [of i "Suc i" key xs] by (metis lessI nth_take)
  show "key (?ys ! b) \<le> key (?ys ! a)"
  proof (cases "a = i")
    case True
    have "\<forall>k. i \<le> k \<and> k < Suc i \<longrightarrow> key (xs ! k) \<le> key (xs ! i)"
      using le_less_Suc_eq by auto
    with True sort_inner_max [of i "Suc i" key xs b] ab b show ?thesis by simp
  next
    case False
    with a have ai: "a < i" by simp
    have "\<exists>c. a < c \<and> c < length xs \<and> ?ys ! b = xs ! c"
    proof (cases "b < i")
      case True
      then have "?ys ! b = xs ! b"
        using take_sort_inner [of i "Suc i" key xs] by (metis lessI nth_take)
      with ab b show ?thesis by auto
    next
      case False
      with b have "?ys ! b \<in> set (drop i ?ys)" by (intro drop_nth_member) simp_all
      then have "?ys ! b \<in> set (drop i xs)" by (simp add: set_drop_sort_inner)
      then obtain c where "c < length (drop i xs)" "drop i xs ! c = ?ys ! b"
        by (auto simp: in_set_conv_nth)
      with ai show ?thesis by (intro exI [of _ "i + c"]) simp
    qed
    with assms(1) ai prefix [OF ai] show ?thesis by (auto simp: sorted_upto_def)
  qed
qed

lemma sort_outer_sorted:
  "sorted_upto key i xs \<Longrightarrow> sorted_upto key (length xs) (sort_outer key i xs)"
proof (induction key i xs rule: sort_outer.induct)
  case (1 key i xs)
  show ?case
  proof (cases "int i < int (length xs) - 1")
    case True
    then have "Suc i < length xs" by simp
    with "1.prems" have "sorted_upto key (Suc i) (sort_inner key i (Suc i) xs)"
      by (rule sort_inner_step)
    with "1.IH" [OF True refl] True show ?thesis
      by (simp add: sort_outer.simps [of key i xs])
  next
    case False
    with "1.prems" show ?thesis
      by (auto simp: sort_outer.simps [of key i xs] sorted_upto_def)
  qed
qed

lemma mset_sort_outer: "mset (sort_outer key i xs) = mset xs"
proof (induction key i xs rule: sort_outer.induct)
  case (1 key i xs)
  then show ?case
    by (simp add: sort_outer.simps [of key i xs] mset_sort_inner Let_def)
qed

lemma mset_sortSnapshots: "mset (sortSnapshotsByCreationTime xs) = mset xs"
  by (simp add: sortSnapshotsByCreationTime_def mset_sort_outer)

lemma sorted_sortSnapshots:
  "sorted_wrt (\<lambda>a b. created b \<le> created a) (sortSnapshotsByCreationTime xs)"
proof -
  let ?ys = "sortSnapshotsByCreationTime xs"
  have "sorted_upto created (length xs) ?ys"
    unfolding sortSnapshotsByCreationTime_def by (rule sort_outer_sorted) (simp add: sorted_upto_def)
  moreover have "length ?ys = length xs"
    using mset_sortSnapshots by (metis size_mset)
  ultimately show ?thesis
    by (auto simp: sorted_upto_def sorted_wrt_iff_nth_less)
qed

section \<open>The retention policy keeps the newest snapshots\<close>

abbreviation own_snapshots :: "string \<Rightarrow> VolumeSnapshot list \<Rightarrow> VolumeSnapshot list" where
  "own_snapshots p snaps \<equiv> filter (\<lambda>s. vs_PVCName s = Some p) snaps"

lemma map_of_insert_group:
  "map_of (insert_group k v g) p =
     (if p = k then Some ((case map_of g k of None \<Rightarrow> [] | Some vs \<Rightarrow> vs) @ [v]) else map_of g p)"
  by (induction k v g rule: insert_group.induct) auto

lemma fst_insert_group: "fst ` set (insert_group k v g) = insert k (fst ` set g)"
  by (induction k v g rule: insert_group.induct) auto

lemma distinct_insert_group: "distinct (map fst g) \<Longrightarrow> distinct (map fst (insert_group k v g))"
proof (induction k v g rule: insert_group.induct)
  case (2 k v k' vs rest)
  then show ?case using fst_insert_group [of k v rest] by (auto simp: image_iff)
qed simp

lemma group_by_pvc_distinct: "distinct (map fst g) \<Longrightarrow> distinct (map fst (group_by_pvc snaps g))"
  by (induction snaps g rule: group_by_pvc.induct) (auto split: option.split intro: distinct_insert_group)

lemma group_by_pvc_lookup:
  "(case map_of (group_by_pvc snaps g) p of None \<Rightarrow> [] | Some s \<Rightarrow> s) =
     (case map_of g p of None \<Rightarrow> [] | Some s \<Rightarrow> s) @ own_snapshots p snaps"
  by (induction snaps g rule: group_by_pvc.induct) (auto simp: map_of_insert_group split: option.splits)

lemma group_by_pvc_keys:
  "fst ` set (group_by_pvc snaps g) = fst ` set g \<union> {p. own_snapshots p snaps \<noteq> []}"
  by (induction snaps g rule: group_by_pvc.induct) (auto simp: fst_insert_group split: option.splits)

text \<open>What the policy deletes, given the order in which the claims are visited.\<close>

definition victims :: "nat \<Rightarrow> VolumeSnapshot list \<Rightarrow> string list \<Rightarrow> VolumeSnapshot list" where
  "victims n snaps keys = concat (map (\<lambda>p. drop n (sortSnapshotsByCreationTime (own_snapshots p snaps))) keys)"

lemma run_traced_delete_loop:
  "\<exists>d w'. run_state (delete_loop (traced C) snaps c) (w, l) =
     (d, (w', l @ map (\<lambda>s. DeletedVolumeSnapshot (vs_key s)) snaps))"
proof (induction snaps arbitrary: c w l)
  case Nil
  then show ?case by simp
next
  case (Cons s snaps)
  obtain r w1 where "run_state (DeleteVolumeSnapshot C (vs_key s)) w = (r, w1)" by fastforce
  then have step: "run_state (DeleteVolumeSnapshot (traced C) (vs_key s)) (w, l) =
      (r, (w1, l @ [DeletedVolumeSnapshot (vs_key s)]))"
    by (simp add: traced_def run_logged)
  show ?case
    using step Cons.IH [of c w1 "l @ [DeletedVolumeSnapshot (vs_key s)]"]
      Cons.IH [of "c + 1" w1 "l @ [DeletedVolumeSnapshot (vs_key s)]"]
    by (cases r) auto
qed

lemma length_sortSnapshots [simp]: "length (sortSnapshotsByCreationTime xs) = length xs"
  using mset_sortSnapshots by (metis size_mset)

lemma run_traced_retention_loop:
  assumes "0 < maxCount"
  shows "\<exists>d w'. run_state (retention_loop (traced C) maxCount (group_by_pvc snaps []) keys c) (w, l) =
     (Inr d, (w', l @ map (\<lambda>s. DeletedVolumeSnapshot (vs_key s)) (victims (nat maxCount) snaps keys)))"
proof (induction keys arbitrary: c w l)
  case Nil
  then show ?case by (simp add: victims_def)
next
  case (Cons p keys)
  let ?own = "own_snapshots p snaps"
  have grp: "(case map_of (group_by_pvc snaps []) p of None \<Rightarrow> [] | Some s \<Rightarrow> s) = ?own"
    using group_by_pvc_lookup [of snaps "[]" p] by simp
  show ?case
  proof (cases "int (length ?own) \<le> maxCount")
    case True
    then have "drop (nat maxCount) (sortSnapshotsByCreationTime ?own) = []" by (simp add: le_nat_iff)
    with True Cons.IH [of c w l] show ?thesis by (simp add: grp victims_def)
  next
    case False
    let ?dead = "drop (nat maxCount) (sortSnapshotsByCreationTime ?own)"
    obtain d w1 where "run_state (delete_loop (traced C) ?dead c) (w, l) =
        (d, (w1, l @ map (\<lambda>s. DeletedVolumeSnapshot (vs_key s)) ?dead))"
      using run_traced_delete_loop [of C ?dead c w l] by (elim exE) (rule that)
    with False assms Cons.IH [of d w1 "l @ map (\<lambda>s. DeletedVolumeSnapshot (vs_key s)) ?dead"]
    show ?thesis by (simp add: grp victims_def)
  qed
qed

lemma set_sortSnapshots [simp]: "set (sortSnapshotsByCreationTime xs) = set xs"
  using mset_sortSnapshots by (metis set_mset_mset)

lemma filter_victims:
  assumes "distinct keys"
  shows "own_snapshots p (victims n snaps keys) =
     (if p \<in> set keys then drop n (sortSnapshotsByCreationTime (own_snapshots p snaps)) else [])"
proof -
  have same: "own_snapshots p (drop n (sortSnapshotsByCreationTime (own_snapshots q snaps))) =
      (if q = p then drop n (sortSnapshotsByCreationTime (own_snapshots p snaps)) else [])" for q
  proof -
    have all: "\<forall>s\<in>set (drop n (sortSnapshotsByCreationTime (own_snapshots q snaps))). vs_PVCName s = Some q"
      using set_drop_subset [of n "sortSnapshotsByCreationTime (own_snapshots q snaps)"]
      unfolding set_sortSnapshots set_filter by blast
    show ?thesis
    proof (cases "q = p")
      case True
      from all show ?thesis unfolding True filter_id_conv if_True simp_thms .
    next
      case False
      with all have "own_snapshots p (drop n (sortSnapshotsByCreationTime (own_snapshots q snaps))) = []"
        unfolding filter_empty_conv by (metis option.inject)
      with False show ?thesis by simp
    qed
  qed
  show ?thesis
    using assms by (induction keys) (auto simp: victims_def same simp del: filter_filter)
qed

lemma newest_kept:
  assumes "sorted_wrt (\<lambda>a b. created b \<le> created a) ys"
    and "v \<in> set (drop n ys)" and "u \<in># mset ys - mset (drop n ys)"
  shows "created v \<le> created u"
proof -
  have "mset ys - mset (drop n ys) = mset (take n ys)"
    by (metis add_diff_cancel_right' append_take_drop_id mset_append)
  with assms(3) have "u \<in> set (take n ys)" by simp
  moreover have "sorted_wrt (\<lambda>a b. created b \<le> created a) (take n ys @ drop n ys)"
    using assms(1) by simp
  ultimately show ?thesis
    using assms(2) unfolding sorted_wrt_append by blast
qed

section \<open>Which calls the manager makes\<close>

context api_inv
begin

lemma keeps_snapshot_reads:
  "keeps I (IsSnapshotReady C n ns) (\<lambda>_. True)" "keeps I (IsPVCDeleted C L n ns) (\<lambda>_. True)"
  "keeps I (IsPVCBound C n ns) (\<lambda>_. True)"
  unfolding IsSnapshotReady_def IsPVCDeleted_def IsPVCBound_def
  by (intro keeps_rule TrueI read_keeps)+

lemma keeps_CreateSnapshotsForUpgrade:
  assumes "\<And>v. P (CreatedVolumeSnapshot v)"
  shows "keeps I (CreateSnapshotsForUpgrade C L app ns pvcs cls) (\<lambda>_. True)"
  unfolding CreateSnapshotsForUpgrade_def CreateSnapshot_def
  by (intro keeps_rule TrueI read_keeps write_keeps assms)

lemma keeps_delete_loop:
  assumes "\<And>k. P (DeletedVolumeSnapshot k)"
  shows "keeps I (delete_loop C snaps c) (\<lambda>_. True)"
  by (induction snaps arbitrary: c)
    (auto intro!: keeps_ret keeps_bind keeps_case_sum keeps_DeleteVolumeSnapshot assms)

lemma keeps_ApplyRetentionPolicy:
  assumes "\<And>k. P (DeletedVolumeSnapshot k)"
  shows "keeps I (ApplyRetentionPolicy C app ns n) (\<lambda>_. True)"
proof -
  have "keeps I (retention_loop C n g keys c) (\<lambda>_. True)" for g keys c
    by (induction keys arbitrary: c)
      (auto simp: Let_def intro!: keeps_ret keeps_bind keeps_if keeps_delete_loop assms)
  then show ?thesis
    unfolding ApplyRetentionPolicy_def by (intro keeps_rule TrueI read_keeps)
qed

lemma keeps_restore_writes:
  assumes "\<And>v. P (CreatedPVC v)" and "\<And>k. P (DeletedPVC k)"
  shows "keeps I (RestorePVCFromSnapshot C req) (\<lambda>_. True)" "keeps I (Manager_DeletePVC C n ns) (\<lambda>_. True)"
  unfolding RestorePVCFromSnapshot_def Manager_DeletePVC_def
  by (intro keeps_rule TrueI read_keeps keeps_CreatePVC keeps_DeletePVC assms)+

end

end
