(* ===== verification/Workload.thy ===== *)
theory Workload
  imports Poll
begin

text \<open>
  \<open>internal/workload/scaler.go\<close>: scaling Deployments and StatefulSets and checking that they are
  down. The locale \<open>workload_store\<close> is the API server's promise for the two kinds; from it follow
  that a successful scale stores the requested replica count, reports the previous one (one if
  unset) and leaves every other workload alone.
\<close>

definition KindDeployment :: string where
  "KindDeployment = ''Deployment''"

definition KindStatefulSet :: string where
  "KindStatefulSet = ''StatefulSet''"

lemma workload_kinds_neq [simp]: "KindDeployment \<noteq> KindStatefulSet" "KindStatefulSet \<noteq> KindDeployment"
  by (simp_all add: KindDeployment_def KindStatefulSet_def)

record ScaleInfo =
  si_Kind :: string
  si_Name :: string
  si_Namespace :: string
  si_OriginalReplicas :: int

definition replicas_or_default :: "int option \<Rightarrow> int" where
  "replicas_or_default r = (case r of Some n \<Rightarrow> n | None \<Rightarrow> 1)"

definition unsupported_kind :: "string \<Rightarrow> goerror" where
  "unsupported_kind kind = ErrorString (''unsupported workload kind: '' @ kind)"

definition scaleDeployment :: "'w client \<Rightarrow> string \<Rightarrow> string \<Rightarrow> int \<Rightarrow> ('w, ScaleInfo) call" where
  "scaleDeployment C name namespace replicas =
     checked (wrap_err ''getting deployment'' (GetDeployment C (NN name namespace))) (\<lambda>deploy.
     let info = \<lparr>si_Kind = ''Deployment'', si_Name = name, si_Namespace = namespace,
                 si_OriginalReplicas = replicas_or_default (dep_Replicas deploy)\<rparr>
     in if dep_Replicas deploy = Some replicas then ret (Inr info)
        else
          checked (wrap_err ''scaling deployment'' (PatchDeployment C (deploy\<lparr>dep_Replicas := Some replicas\<rparr>)))
            (\<lambda>_. ret (Inr info)))"

definition scaleStatefulSet :: "'w client \<Rightarrow> string \<Rightarrow> string \<Rightarrow> int \<Rightarrow> ('w, ScaleInfo) call" where
  "scaleStatefulSet C name namespace replicas =
     checked (wrap_err ''getting statefulset'' (GetStatefulSet C (NN name namespace))) (\<lambda>sts.
     let info = \<lparr>si_Kind = ''StatefulSet'', si_Name = name, si_Namespace = namespace,
                 si_OriginalReplicas = replicas_or_default (sts_Replicas sts)\<rparr>
     in if sts_Replicas sts = Some replicas then ret (Inr info)
        else
          checked (wrap_err ''scaling statefulset'' (PatchStatefulSet C (sts\<lparr>sts_Replicas := Some replicas\<rparr>)))
            (\<lambda>_. ret (Inr info)))"

definition ScaleDown :: "'w client \<Rightarrow> string \<Rightarrow> string \<Rightarrow> string \<Rightarrow> ('w, ScaleInfo) call" where
  "ScaleDown C kind name namespace =
     (if kind = KindDeployment then scaleDeployment C name namespace 0
      else if kind = KindStatefulSet then scaleStatefulSet C name namespace 0
      else ret (Inl (unsupported_kind kind)))"

definition ScaleUp :: "'w client \<Rightarrow> string \<Rightarrow> string \<Rightarrow> string \<Rightarrow> int \<Rightarrow> ('w, unit) call" where
  "ScaleUp C kind name namespace replicas =
     (if kind = KindDeployment then checked (scaleDeployment C name namespace replicas) (\<lambda>_. ret (Inr ()))
      else if kind = KindStatefulSet then checked (scaleStatefulSet C name namespace replicas) (\<lambda>_. ret (Inr ()))
      else ret (Inl (unsupported_kind kind)))"

definition getReadyReplicas :: "'w client \<Rightarrow> string \<Rightarrow> string \<Rightarrow> string \<Rightarrow> ('w, int) call" where
  "getReadyReplicas C kind name namespace =
     (if kind = KindDeployment then
        checked (wrap_err ''getting deployment'' (GetDeployment C (NN name namespace)))
          (\<lambda>deploy. ret (Inr (dep_ReadyReplicas deploy)))
      else if kind = KindStatefulSet then
        checked (wrap_err ''getting statefulset'' (GetStatefulSet C (NN name namespace)))
          (\<lambda>sts. ret (Inr (sts_ReadyReplicas sts)))
      else ret (Inl (unsupported_kind kind)))"

text \<open>The selector of a workload: \<open>None\<close> when \<open>spec.selector\<close> is nil, an error when it does not validate.\<close>

definition selector_of :: "klib \<Rightarrow> string \<Rightarrow> labels option \<Rightarrow> goerror + labels option" where
  "selector_of L pre sel =
     (case sel of None \<Rightarrow> Inr None
      | Some ls \<Rightarrow>
        (case ValidatedSelectorFromSet L ls of Inl e \<Rightarrow> Inl (Wrap pre e) | Inr s \<Rightarrow> Inr (Some s)))"

definition getWorkloadPods :: "'w client \<Rightarrow> klib \<Rightarrow> string \<Rightarrow> string \<Rightarrow> string \<Rightarrow> ('w, Pod list) call" where
  "getWorkloadPods C L kind name namespace =
     checked
       (if kind = KindDeployment then
          checked (wrap_err ''getting deployment'' (GetDeployment C (NN name namespace)))
            (\<lambda>deploy. ret (selector_of L ''parsing deployment selector'' (dep_Selector deploy)))
        else if kind = KindStatefulSet then
          checked (wrap_err ''getting statefulset'' (GetStatefulSet C (NN name namespace)))
            (\<lambda>sts. ret (selector_of L ''parsing statefulset selector'' (sts_Selector sts)))
        else ret (Inl (unsupported_kind kind)))
       (\<lambda>selector.
          case selector of
            None \<Rightarrow> ret (Inr [])
          | Some s \<Rightarrow> wrap_err ''listing pods'' (ListPods C namespace (Some s)))"

definition WaitForScaleDown ::
  "nat \<Rightarrow> 'w client \<Rightarrow> klib \<Rightarrow> string \<Rightarrow> string \<Rightarrow> string \<Rightarrow> int \<Rightarrow> ('w, (goerror + unit) option) state" where
  "WaitForScaleDown fuel C L kind name namespace timeout =
     poll fuel C timeout
       (on_err (getReadyReplicas C kind name namespace) (\<lambda>e. ret (Some (Inl e))) (\<lambda>ready.
        if ready = 0 then
          on_err (getWorkloadPods C L kind name namespace) (\<lambda>e. ret (Some (Inl e))) (\<lambda>pods.
          ret (if length pods = 0 then Some (Inr ()) else None))
        else ret None))
       (ErrorString (''timeout waiting for workload '' @ namespace @ ''/'' @ name @ '' to scale down''))"

definition WaitForScaleUp ::
  "nat \<Rightarrow> 'w client \<Rightarrow> string \<Rightarrow> string \<Rightarrow> string \<Rightarrow> int \<Rightarrow> int \<Rightarrow> ('w, (goerror + unit) option) state" where
  "WaitForScaleUp fuel C kind name namespace targetReplicas timeout =
     poll fuel C timeout
       (on_err (getReadyReplicas C kind name namespace) (\<lambda>e. ret (Some (Inl e))) (\<lambda>ready.
        ret (if targetReplicas \<le> ready then Some (Inr ()) else None)))
       (ErrorString (''timeout waiting for workload '' @ namespace @ ''/'' @ name
          @ '' to scale up to '' @ itoa targetReplicas @ '' replicas''))"

definition GetCurrentReplicas :: "'w client \<Rightarrow> string \<Rightarrow> string \<Rightarrow> string \<Rightarrow> ('w, int) call" where
  "GetCurrentReplicas C kind name namespace =
     (if kind = KindDeployment then
        checked (wrap_err ''getting deployment'' (GetDeployment C (NN name namespace)))
          (\<lambda>deploy. ret (Inr (replicas_or_default (dep_Replicas deploy))))
      else if kind = KindStatefulSet then
        checked (wrap_err ''getting statefulset'' (GetStatefulSet C (NN name namespace)))
          (\<lambda>sts. ret (Inr (replicas_or_default (sts_Replicas sts))))
      else ret (Inl (unsupported_kind kind)))"

definition IsScaledDown :: "'w client \<Rightarrow> klib \<Rightarrow> string \<Rightarrow> string \<Rightarrow> string \<Rightarrow> ('w, bool) call" where
  "IsScaledDown C L kind name namespace =
     checked (getReadyReplicas C kind name namespace) (\<lambda>ready.
     if 0 < ready then ret (Inr False)
     else checked (getWorkloadPods C L kind name namespace) (\<lambda>pods. ret (Inr (length pods = 0))))"

lemmas scaler_defs = scaleDeployment_def scaleStatefulSet_def ScaleDown_def ScaleUp_def
lemmas scaler_read_defs = getReadyReplicas_def getWorkloadPods_def GetCurrentReplicas_def IsScaledDown_def

section \<open>Which calls the scaler makes\<close>

context api_inv
begin

lemma keeps_scaler_reads:
  "keeps I (getReadyReplicas C kd n ns) (\<lambda>_. True)" "keeps I (getWorkloadPods C L kd n ns) (\<lambda>_. True)"
  "keeps I (GetCurrentReplicas C kd n ns) (\<lambda>_. True)" "keeps I (IsScaledDown C L kd n ns) (\<lambda>_. True)"
  unfolding scaler_read_defs by (intro keeps_rule TrueI read_keeps)+

lemma keeps_scaler_writes:
  assumes "\<And>d. P (PatchedDeployment d)" and "\<And>s. P (PatchedStatefulSet s)"
  shows "keeps I (ScaleDown C kd n ns) (\<lambda>_. True)" "keeps I (ScaleUp C kd n ns r) (\<lambda>_. True)"
  unfolding scaler_defs
  by (intro keeps_rule TrueI read_keeps keeps_PatchDeployment keeps_PatchStatefulSet assms)+

end

section \<open>The contract over a store of workloads\<close>

definition dep_key :: "Deployment \<Rightarrow> NamespacedName" where
  "dep_key d = NN (om_Name (dep_meta d)) (om_Namespace (dep_meta d))"

definition sts_key :: "StatefulSet \<Rightarrow> NamespacedName" where
  "sts_key s = NN (om_Name (sts_meta s)) (om_Namespace (sts_meta s))"

lemma dep_key_replicas [simp]: "dep_key (d\<lparr>dep_Replicas := r\<rparr>) = dep_key d"
  by (simp add: dep_key_def)

lemma sts_key_replicas [simp]: "sts_key (s\<lparr>sts_Replicas := r\<rparr>) = sts_key s"
  by (simp add: sts_key_def)

locale workload_store =
  fixes C :: "'w client"
    and deps :: "'w \<Rightarrow> NamespacedName \<rightharpoonup> Deployment" and stss :: "'w \<Rightarrow> NamespacedName \<rightharpoonup> StatefulSet"
  assumes get_dep_pure: "run_state (GetDeployment C k) w = (r, w') \<Longrightarrow> deps w' = deps w \<and> stss w' = stss w"
    and get_dep_found: "run_state (GetDeployment C k) w = (Inr d, w') \<Longrightarrow> deps w k = Some d \<and> dep_key d = k"
    and get_sts_pure: "run_state (GetStatefulSet C k) w = (r2, w') \<Longrightarrow> deps w' = deps w \<and> stss w' = stss w"
    and get_sts_found: "run_state (GetStatefulSet C k) w = (Inr s, w') \<Longrightarrow> stss w k = Some s \<and> sts_key s = k"
    and patch_dep: "run_state (PatchDeployment C d) w = (Inr d', w') \<Longrightarrow>
      deps w' = (deps w)(dep_key d \<mapsto> d') \<and> dep_Replicas d' = dep_Replicas d \<and> stss w' = stss w"
    and patch_sts: "run_state (PatchStatefulSet C s) w = (Inr s', w') \<Longrightarrow>
      stss w' = (stss w)(sts_key s \<mapsto> s') \<and> sts_Replicas s' = sts_Replicas s \<and> deps w' = deps w"
begin

lemma scaleDeployment_ok:
  assumes "run_state (scaleDeployment C n ns r) w = (Inr info, w')"
  shows "\<exists>d d'. deps w (NN n ns) = Some d \<and> deps w' (NN n ns) = Some d' \<and> dep_Replicas d' = Some r \<and>
           si_OriginalReplicas info = replicas_or_default (dep_Replicas d)"
    and "k \<noteq> NN n ns \<Longrightarrow> deps w' k = deps w k" and "stss w' = stss w"
proof -
  from assms obtain d w1 where get: "run_state (GetDeployment C (NN n ns)) w = (Inr d, w1)"
    and info: "si_OriginalReplicas info = replicas_or_default (dep_Replicas d)"
    and rest: "dep_Replicas d = Some r \<and> w' = w1 \<or>
      (\<exists>d'. run_state (PatchDeployment C (d\<lparr>dep_Replicas := Some r\<rparr>)) w1 = (Inr d', w'))"
    by (auto simp: scaleDeployment_def run_on_err run_wrap_err Let_def split: prod.splits sum.splits if_splits)
  note got = get_dep_found [OF get] get_dep_pure [OF get]
  show "\<exists>d d'. deps w (NN n ns) = Some d \<and> deps w' (NN n ns) = Some d' \<and> dep_Replicas d' = Some r \<and>
           si_OriginalReplicas info = replicas_or_default (dep_Replicas d)"
    using rest got info by (auto dest!: patch_dep)
  show "k \<noteq> NN n ns \<Longrightarrow> deps w' k = deps w k" using rest got by (auto dest!: patch_dep)
  show "stss w' = stss w" using rest got by (auto dest!: patch_dep)
qed

lemma scaleStatefulSet_ok:
  assumes "run_state (scaleStatefulSet C n ns r) w = (Inr info, w')"
  shows "\<exists>s s'. stss w (NN n ns) = Some s \<and> stss w' (NN n ns) = Some s' \<and> sts_Replicas s' = Some r \<and>
           si_OriginalReplicas info = replicas_or_default (sts_Replicas s)"
    and "k \<noteq> NN n ns \<Longrightarrow> stss w' k = stss w k" and "deps w' = deps w"
proof -
  from assms obtain s w1 where get: "run_state (GetStatefulSet C (NN n ns)) w = (Inr s, w1)"
    and info: "si_OriginalReplicas info = replicas_or_default (sts_Replicas s)"
    and rest: "sts_Replicas s = Some r \<and> w' = w1 \<or>
      (\<exists>s'. run_state (PatchStatefulSet C (s\<lparr>sts_Replicas := Some r\<rparr>)) w1 = (Inr s', w'))"
    by (auto simp: scaleStatefulSet_def run_on_err run_wrap_err Let_def split: prod.splits sum.splits if_splits)
  note got = get_sts_found [OF get] get_sts_pure [OF get]
  show "\<exists>s s'. stss w (NN n ns) = Some s \<and> stss w' (NN n ns) = Some s' \<and> sts_Replicas s' = Some r \<and>
           si_OriginalReplicas info = replicas_or_default (sts_Replicas s)"
    using rest got info by (auto dest!: patch_sts)
  show "k \<noteq> NN n ns \<Longrightarrow> stss w' k = stss w k" using rest got by (auto dest!: patch_sts)
  show "deps w' = deps w" using rest got by (auto dest!: patch_sts)
qed

lemma scaleDeployment_exact:
  assumes "run_state (scaleDeployment C n ns r) w = (Inr info, w')"
  obtains d d' where "deps w (NN n ns) = Some d" and "deps w' = (deps w)(NN n ns \<mapsto> d')" and "stss w' = stss w"
    and "dep_Replicas d' = Some r" and "si_OriginalReplicas info = replicas_or_default (dep_Replicas d)"
proof -
  from scaleDeployment_ok(1) [OF assms] obtain d d' where "deps w (NN n ns) = Some d" "deps w' (NN n ns) = Some d'"
    "dep_Replicas d' = Some r" "si_OriginalReplicas info = replicas_or_default (dep_Replicas d)" by blast
  moreover from this have "deps w' = (deps w)(NN n ns \<mapsto> d')"
    using scaleDeployment_ok(2) [OF assms] by (auto simp: fun_eq_iff)
  ultimately show ?thesis using scaleDeployment_ok(3) [OF assms] by (blast intro: that)
qed

lemma scaleStatefulSet_exact:
  assumes "run_state (scaleStatefulSet C n ns r) w = (Inr info, w')"
  obtains s s' where "stss w (NN n ns) = Some s" and "stss w' = (stss w)(NN n ns \<mapsto> s')" and "deps w' = deps w"
    and "sts_Replicas s' = Some r" and "si_OriginalReplicas info = replicas_or_default (sts_Replicas s)"
proof -
  from scaleStatefulSet_ok(1) [OF assms] obtain s s' where "stss w (NN n ns) = Some s" "stss w' (NN n ns) = Some s'"
    "sts_Replicas s' = Some r" "si_OriginalReplicas info = replicas_or_default (sts_Replicas s)" by blast
  moreover from this have "stss w' = (stss w)(NN n ns \<mapsto> s')"
    using scaleStatefulSet_ok(2) [OF assms] by (auto simp: fun_eq_iff)
  ultimately show ?thesis using scaleStatefulSet_ok(3) [OF assms] by (blast intro: that)
qed

lemma ScaleDown_ok:
  assumes "run_state (ScaleDown C kind n ns) w = (Inr info, w')"
  shows "(kind = KindDeployment \<and> (\<exists>d. deps w' (NN n ns) = Some d \<and> dep_Replicas d = Some 0) \<and> stss w' = stss w) \<or>
         (kind = KindStatefulSet \<and> (\<exists>s. stss w' (NN n ns) = Some s \<and> sts_Replicas s = Some 0) \<and> deps w' = deps w)"
proof -
  from assms have "kind = KindDeployment \<and> run_state (scaleDeployment C n ns 0) w = (Inr info, w') \<or>
    kind = KindStatefulSet \<and> run_state (scaleStatefulSet C n ns 0) w = (Inr info, w')"
    by (auto simp: ScaleDown_def split: if_splits)
  then show ?thesis
    by (auto dest: scaleDeployment_ok(1,3) scaleStatefulSet_ok(1,3))
qed

end

end
