(* ===== verification/Base64.thy ===== *)
theory Base64
  imports GoLib
begin

text \<open>
  \<open>encoding/base64\<close>'s \<open>StdEncoding\<close>, which the Helm and Gitea code use: \<open>EncodeToString\<close>, and
  \<open>DecodeString\<close> with its padding rules, the newlines it skips and the offsets of its
  \<open>CorruptInputError\<close>. Bytes and characters are the same, as in a Go string.
\<close>

section \<open>Encoding\<close>

definition b64_char :: "nat \<Rightarrow> char" where
  "b64_char n = char_of
     (if n < 26 then n + 65 else if n < 52 then n + 71 else if n < 62 then n - 4 else if n = 62 then 43 else 47)"

definition b64_val :: "char \<Rightarrow> nat option" where
  "b64_val c = (let n = of_char c :: nat in
     if 65 \<le> n \<and> n \<le> 90 then Some (n - 65)
     else if 97 \<le> n \<and> n \<le> 122 then Some (n - 71)
     else if 48 \<le> n \<and> n \<le> 57 then Some (n + 4)
     else if n = 43 then Some 62
     else if n = 47 then Some 63
     else None)"

abbreviation byte :: "char \<Rightarrow> nat" where
  "byte c \<equiv> of_char c"

fun base64_Encode :: "string \<Rightarrow> string" where
  "base64_Encode [] = []"
| "base64_Encode [a] = [b64_char (byte a div 4), b64_char (byte a mod 4 * 16), CHR ''='', CHR ''='']"
| "base64_Encode [a, b] =
     [b64_char (byte a div 4), b64_char (byte a mod 4 * 16 + byte b div 16), b64_char (byte b mod 16 * 4), CHR ''='']"
| "base64_Encode (a # b # c # rest) =
     b64_char (byte a div 4) # b64_char (byte a mod 4 * 16 + byte b div 16) #
     b64_char (byte b mod 16 * 4 + byte c div 64) # b64_char (byte c mod 64) # base64_Encode rest"

section \<open>Decoding\<close>

definition CorruptInputError :: "nat \<Rightarrow> goerror" where
  "CorruptInputError offset = ErrorString (''illegal base64 data at input byte '' @ itoa (int offset))"

definition is_newline :: "char \<Rightarrow> bool" where
  "is_newline c \<longleftrightarrow> c = CHR 0x0A \<or> c = CHR 0x0D"

text \<open>The three bytes of four six-bit digits; missing digits are zero.\<close>

definition three_bytes :: "nat \<Rightarrow> nat \<Rightarrow> nat \<Rightarrow> nat \<Rightarrow> string" where
  "three_bytes p q r s =
     (let v = ((p * 64 + q) * 64 + r) * 64 + s in [char_of (v div 65536), char_of (v div 256), char_of v])"

fun quantum_bytes :: "nat list \<Rightarrow> string" where
  "quantum_bytes [p, q, r, s] = three_bytes p q r s"
| "quantum_bytes [p, q, r] = three_bytes p q r 0"
| "quantum_bytes [p, q] = three_bytes p q 0 0"
| "quantum_bytes _ = []"

text \<open>
  After the padding of the last quantum of \<open>j\<close> digits only newlines may follow; \<open>si\<close> is the
  offset of the rest.
\<close>

definition decode_end :: "nat \<Rightarrow> string \<Rightarrow> nat list \<Rightarrow> string \<Rightarrow> goerror + string" where
  "decode_end si src ds out =
     (case dropWhile is_newline src of
        [] \<Rightarrow> Inr (out @ take (length ds - 1) (quantum_bytes ds))
      | _ # _ \<Rightarrow> Inl (CorruptInputError (si + length (takeWhile is_newline src))))"

text \<open>The padding character was read at offset \<open>si\<close>; \<open>src\<close> is what follows it.\<close>

definition decode_padding :: "nat \<Rightarrow> string \<Rightarrow> nat list \<Rightarrow> string \<Rightarrow> goerror + string" where
  "decode_padding si src ds out =
     (if length ds < 2 then Inl (CorruptInputError si)
      else if length ds = 2 then
        (let at = si + 1 + length (takeWhile is_newline src)
         in case dropWhile is_newline src of
              [] \<Rightarrow> Inl (CorruptInputError at)
            | c # rest \<Rightarrow>
                if c \<noteq> CHR ''='' then Inl (CorruptInputError (at - 1))
                else decode_end (at + 1) rest ds out)
      else decode_end (si + 1) src ds out)"

text \<open>\<open>ds\<close> are the digits of the quantum that is being read, \<open>out\<close> the bytes so far.\<close>

fun decode_loop :: "nat \<Rightarrow> string \<Rightarrow> nat list \<Rightarrow> string \<Rightarrow> goerror + string" where
  "decode_loop si [] ds out = (if ds = [] then Inr out else Inl (CorruptInputError (si - length ds)))"
| "decode_loop si (c # src) ds out =
     (case b64_val c of
        Some v \<Rightarrow>
          if length ds = 3 then decode_loop (si + 1) src [] (out @ quantum_bytes (ds @ [v]))
          else decode_loop (si + 1) src (ds @ [v]) out
      | None \<Rightarrow>
          if is_newline c then decode_loop (si + 1) src ds out
          else if c \<noteq> CHR ''='' then Inl (CorruptInputError si)
          else decode_padding si src ds out)"

definition base64_Decode :: "string \<Rightarrow> goerror + string" where
  "base64_Decode s = decode_loop 0 s [] []"

section \<open>Round trip\<close>

lemma b64_val_char [simp]: "n < 64 \<Longrightarrow> b64_val (b64_char n) = Some n"
  by (auto simp: b64_val_def b64_char_def Let_def)

lemma b64_val_pad [simp]: "b64_val (CHR ''='') = None"
  by (simp add: b64_val_def)

lemma digit_bounds [simp]:
  "byte a div 4 < 64" "byte a mod 4 * 16 < 64" "byte a mod 4 * 16 + byte b div 16 < 64"
  "byte b mod 16 * 4 < 64" "byte b mod 16 * 4 + byte c div 64 < 64"
  using nat_of_char_less_256 [of a] nat_of_char_less_256 [of b] nat_of_char_less_256 [of c] by linarith+

lemma digits_value:
  assumes "x = p * 4 + p'" and "y = q * 16 + q'" and "z = r * 64 + r'"
  shows "((p * 64 + (p' * 16 + q)) * 64 + (q' * 4 + r)) * 64 + r' = (x * 256 + y) * 256 + (z :: nat)"
  by (simp add: assms)

lemmas char_digits = digits_value [OF div_mult_mod_eq [symmetric] div_mult_mod_eq [symmetric] div_mult_mod_eq [symmetric]]

lemma bytes_of_value:
  assumes v: "v = (byte a * 256 + byte b) * 256 + byte c"
  shows "char_of (v div 65536) = a \<and> char_of (v div 256) = b \<and> char_of v = c"
proof -
  have low: "(x * 256 + y) div 256 = x" "(x * 256 + y) mod 256 = y" if "y < 256" for x y :: nat
    using that by (simp_all add: div_mult_self3)
  have v1: "v div 256 = byte a * 256 + byte b" unfolding v by (rule low) simp
  have v2: "v div 65536 = byte a"
    using low(1) [of "byte b" "byte a"] by (simp add: div_mult2_eq [of v 256 256, simplified] v1)
  have char: "char_of n = c" if "n mod 256 = byte c" for n :: nat and c
    using that of_char_eqI [where 'a = nat, of "char_of n" c] by simp
  have "v mod 256 = byte c" unfolding v by (rule low) simp
  moreover have "(byte a * 256 + byte b) mod 256 = byte b" by (rule low) simp
  ultimately show ?thesis unfolding v1 v2 by (simp add: char)
qed

lemma three_bytes_digits:
  "three_bytes (byte a div 4) (byte a mod 4 * 16 + byte b div 16) (byte b mod 16 * 4 + byte c div 64) (byte c mod 64) =
     [a, b, c]"
  unfolding three_bytes_def Let_def using bytes_of_value [OF char_digits, of a b c] by (simp only: simp_thms)

lemma quantum_two:
  "take 2 (quantum_bytes [byte a div 4, byte a mod 4 * 16 + byte b div 16, byte b mod 16 * 4]) = [a, b]"
  using three_bytes_digits [of a b "CHR 0x00"] by simp

lemma quantum_one: "take 1 (quantum_bytes [byte a div 4, byte a mod 4 * 16]) = [a]"
  using three_bytes_digits [of a "CHR 0x00" "CHR 0x00"] by simp

lemma decode_loop_Encode: "decode_loop si (base64_Encode s) [] out = Inr (out @ s)"
proof (induction s arbitrary: si out rule: base64_Encode.induct)
  case (2 a)
  then show ?case
    using quantum_one [of a]
    by (simp add: decode_padding_def decode_end_def is_newline_def)
next
  case (3 a b)
  then show ?case
    using quantum_two [of a b]
    by (simp add: decode_padding_def decode_end_def is_newline_def numeral_2_eq_2)
next
  case (4 a b c rest)
  then show ?case by (simp add: three_bytes_digits)
qed simp

lemma base64_roundtrip: "base64_Decode (base64_Encode s) = Inr s"
  by (simp add: base64_Decode_def decode_loop_Encode)

end
