(* ===== verification/Discovery.thy ===== *)
theory Discovery
  imports Workload Base64
begin

text \<open>
  \<open>internal/discovery\<close>: which volume claims of an application are snapshotted and which workloads
  mount them. A Go map that the code fills and then ranges over is an association list, and the
  order of the range comes from the client record. Decompressing and decoding the Helm release
  secret and parsing YAML documents are library calls, the fields of \<open>helmlib\<close>.
\<close>

section \<open>Libraries\<close>

datatype yvalue = YString string | YMap "(string \<times> yvalue) list" | YOther

record helmlib =
  hl_GzipReader :: "string \<Rightarrow> goerror + string"
  hl_ReadAll :: "string \<Rightarrow> goerror + string"
  hl_UnmarshalManifest :: "string \<Rightarrow> goerror + string"
  hl_UnmarshalYAML :: "string \<Rightarrow> goerror + (string \<times> yvalue) list"

section \<open>discovery.go\<close>

record PVCInfo =
  pi_Name :: string
  pi_Namespace :: string
  pi_AccessModes :: "string list"

record WorkloadInfo =
  wi_Kind :: string
  wi_Name :: string
  wi_Namespace :: string

definition ReadWriteOnce :: string where
  "ReadWriteOnce = ''ReadWriteOnce''"

definition explicit_pvcs :: "ManagedApp \<Rightarrow> PVCRef list" where
  "explicit_pvcs app = (case mas_VolumeSnapshots (ma_Spec app) of None \<Rightarrow> [] | Some v \<Rightarrow> vsc_PVCs v)"

definition getExplicitPVCs :: "'w client \<Rightarrow> ManagedApp \<Rightarrow> ('w, PVCInfo list) call" where
  "getExplicitPVCs C app =
     for_each (\<lambda>pvcRef.
       let ns = ns_or (pvcref_Namespace pvcRef) (ma_Namespace app)
       in checked (wrap_err (''getting PVC '' @ ns @ ''/'' @ pvcref_Name pvcRef)
              (GetPVC C (NN (pvcref_Name pvcRef) ns)))
            (\<lambda>pvc. ret (Inr \<lparr>pi_Name = om_Name (pvc_meta pvc), pi_Namespace = om_Namespace (pvc_meta pvc),
                             pi_AccessModes = pvc_AccessModes pvc\<rparr>)))
       (explicit_pvcs app)"

definition pvc_key :: "string \<Rightarrow> string \<Rightarrow> string" where
  "pvc_key ns name = ns @ ''/'' @ name"

definition excluded_keys :: "ManagedApp \<Rightarrow> string list" where
  "excluded_keys app =
     (case mas_VolumeSnapshots (ma_Spec app) of
        None \<Rightarrow> []
      | Some v \<Rightarrow> map (\<lambda>excl. pvc_key (ns_or (pvcref_Namespace excl) (ma_Namespace app)) (pvcref_Name excl))
                    (vsc_ExcludePVCs v))"

fun filter_loop :: "string list \<Rightarrow> PVCInfo list \<Rightarrow> PVCInfo list \<Rightarrow> PVCInfo list" where
  "filter_loop excluded [] result = result"
| "filter_loop excluded (pvc # pvcs) result =
     (if List.member excluded (pvc_key (pi_Namespace pvc) (pi_Name pvc)) then filter_loop excluded pvcs result
      else if \<not> List.member (pi_AccessModes pvc) ReadWriteOnce then filter_loop excluded pvcs result
      else filter_loop excluded pvcs (result @ [pvc]))"

definition filterPVCs :: "PVCInfo list \<Rightarrow> ManagedApp \<Rightarrow> PVCInfo list" where
  "filterPVCs pvcs app = filter_loop (excluded_keys app) pvcs []"

section \<open>Maps that are filled and then ranged over\<close>

definition put_if_absent :: "'k \<Rightarrow> 'v \<Rightarrow> ('k \<times> 'v) list \<Rightarrow> ('k \<times> 'v) list" where
  "put_if_absent k v m = (if map_of m k = None then m @ [(k, v)] else m)"

definition range_values :: "'w client \<Rightarrow> (string \<times> 'v) list \<Rightarrow> ('w, 'v list) state" where
  "range_values C m = do {
     keys \<leftarrow> RangeKeys C (map fst m);
     ret (List.map_filter (map_of m) keys)
   }"

section \<open>helm.go\<close>

definition helm_secret_prefix :: "string \<Rightarrow> string" where
  "helm_secret_prefix releaseName = ''sh.helm.release.v1.'' @ releaseName @ ''.v''"

fun latest_secret :: "string \<Rightarrow> Secret list \<Rightarrow> int \<Rightarrow> Secret option \<Rightarrow> Secret option" where
  "latest_secret prefix [] latestRevision latestSecret = latestSecret"
| "latest_secret prefix (secret # secrets) latestRevision latestSecret =
     (if \<not> HasPrefix (om_Name (sec_meta secret)) prefix then latest_secret prefix secrets latestRevision latestSecret
      else case sscanf_d (TrimPrefix (om_Name (sec_meta secret)) prefix) of
             None \<Rightarrow> latest_secret prefix secrets latestRevision latestSecret
           | Some revision \<Rightarrow>
               if latestRevision < revision then latest_secret prefix secrets revision (Some secret)
               else latest_secret prefix secrets latestRevision latestSecret)"

definition findHelmReleaseSecret :: "'w client \<Rightarrow> string \<Rightarrow> string \<Rightarrow> ('w, Secret) call" where
  "findHelmReleaseSecret C releaseName namespace =
     checked (wrap_err ''listing secrets'' (ListSecrets C namespace)) (\<lambda>secrets.
     case latest_secret (helm_secret_prefix releaseName) secrets 0 None of
       None \<Rightarrow> ret (Inl (ErrorString (''no Helm release secret found for '' @ releaseName
                 @ '' in namespace '' @ namespace)))
     | Some secret \<Rightarrow> ret (Inr secret))"

text \<open>A pure step of a decoding chain, with the wrapped error.\<close>

definition decode_step :: "string \<Rightarrow> goerror + 'a \<Rightarrow> ('a \<Rightarrow> goerror + 'b) \<Rightarrow> goerror + 'b" where
  "decode_step pre r k = (case r of Inl e \<Rightarrow> Inl (Wrap pre e) | Inr x \<Rightarrow> k x)"

definition decodeHelmReleaseSecret :: "helmlib \<Rightarrow> Secret \<Rightarrow> goerror + string" where
  "decodeHelmReleaseSecret H secret =
     (case map_of (sec_Data secret) ''release'' of
        None \<Rightarrow> Inl (ErrorString (''secret '' @ om_Name (sec_meta secret) @ '' has no '' @ [CHR 0x27]
                  @ ''release'' @ [CHR 0x27] @ '' key''))
      | Some releaseData \<Rightarrow>
          decode_step ''first base64 decode'' (base64_Decode releaseData) (\<lambda>decoded1.
          decode_step ''second base64 decode'' (base64_Decode decoded1) (\<lambda>decoded2.
          decode_step ''creating gzip reader'' (hl_GzipReader H decoded2) (\<lambda>gzReader.
          decode_step ''decompressing'' (hl_ReadAll H gzReader) (\<lambda>decompressed.
          decode_step ''parsing JSON'' (hl_UnmarshalManifest H decompressed) (\<lambda>manifest.
          Inr manifest))))))"

definition splitYAMLDocuments :: "string \<Rightarrow> string list" where
  "splitYAMLDocuments manifest =
     filter (\<lambda>doc. doc \<noteq> []) (map TrimSpace (Split (newline @ ''---'' @ newline) manifest))"

definition yaml_string :: "(string \<times> yvalue) list \<Rightarrow> string \<Rightarrow> string option" where
  "yaml_string obj k = (case map_of obj k of Some (YString s) \<Rightarrow> Some s | _ \<Rightarrow> None)"

definition yaml_map :: "(string \<times> yvalue) list \<Rightarrow> string \<Rightarrow> (string \<times> yvalue) list option" where
  "yaml_map obj k = (case map_of obj k of Some (YMap m) \<Rightarrow> Some m | _ \<Rightarrow> None)"

definition string_or_empty :: "string option \<Rightarrow> string" where
  "string_or_empty s = (case s of None \<Rightarrow> [] | Some x \<Rightarrow> x)"

definition document_workload :: "helmlib \<Rightarrow> string \<Rightarrow> WorkloadInfo option" where
  "document_workload H doc =
     (case hl_UnmarshalYAML H doc of
        Inl _ \<Rightarrow> None
      | Inr obj \<Rightarrow>
        (case yaml_string obj ''kind'' of
           None \<Rightarrow> None
         | Some kind \<Rightarrow>
           if kind \<noteq> KindDeployment \<and> kind \<noteq> KindStatefulSet then None
           else (case yaml_map obj ''metadata'' of
                   None \<Rightarrow> None
                 | Some metadata \<Rightarrow>
                   (let name = string_or_empty (yaml_string metadata ''name'');
                        namespace = string_or_empty (yaml_string metadata ''namespace'')
                    in if name \<noteq> [] then Some \<lparr>wi_Kind = kind, wi_Name = name, wi_Namespace = namespace\<rparr>
                       else None))))"

definition parseManifestForWorkloads :: "helmlib \<Rightarrow> string \<Rightarrow> WorkloadInfo list" where
  "parseManifestForWorkloads H manifest = List.map_filter (document_workload H) (splitYAMLDocuments manifest)"

definition isReplicaSetOwnedByDeployment :: "string \<Rightarrow> string \<Rightarrow> bool" where
  "isReplicaSetOwnedByDeployment rsName deploymentName = HasPrefix rsName (deploymentName @ ''-'')"

definition pod_of_workload :: "string \<Rightarrow> string \<Rightarrow> Pod \<Rightarrow> bool" where
  "pod_of_workload kind name pod =
     list_ex (\<lambda>owner.
        (kind = KindStatefulSet \<and> owner_Kind owner = KindStatefulSet \<and> owner_Name owner = name) \<or>
        (kind = KindDeployment \<and> owner_Kind owner = ''ReplicaSet'' \<and>
           isReplicaSetOwnedByDeployment (owner_Name owner) name))
       (om_OwnerReferences (pod_meta pod))"

definition findPodsForWorkload :: "'w client \<Rightarrow> string \<Rightarrow> string \<Rightarrow> string \<Rightarrow> ('w, Pod list) call" where
  "findPodsForWorkload C kind name namespace =
     checked (wrap_err ''listing pods'' (ListPods C namespace None))
       (\<lambda>pods. ret (Inr (filter (pod_of_workload kind name) pods)))"

type_synonym pvc_set = "(string \<times> PVCInfo) list"

primrec collect_volumes :: "'w client \<Rightarrow> string \<Rightarrow> string option list \<Rightarrow> pvc_set \<Rightarrow> ('w, pvc_set) state" where
  "collect_volumes C ns [] pvcSet = ret pvcSet"
| "collect_volumes C ns (vol # vols) pvcSet =
     (case vol of
        None \<Rightarrow> collect_volumes C ns vols pvcSet
      | Some pvcName \<Rightarrow>
          on_err (GetPVC C (NN pvcName ns))
            (\<lambda>_. collect_volumes C ns vols pvcSet)
            (\<lambda>pvc. collect_volumes C ns vols
               (put_if_absent (pvc_key ns pvcName)
                  \<lparr>pi_Name = pvcName, pi_Namespace = ns, pi_AccessModes = pvc_AccessModes pvc\<rparr> pvcSet)))"

primrec collect_workloads :: "'w client \<Rightarrow> string \<Rightarrow> WorkloadInfo list \<Rightarrow> pvc_set \<Rightarrow> ('w, pvc_set) state" where
  "collect_workloads C defaultNamespace [] pvcSet = ret pvcSet"
| "collect_workloads C defaultNamespace (workload # workloads) pvcSet =
     (let ns = ns_or (wi_Namespace workload) defaultNamespace
      in on_err (findPodsForWorkload C (wi_Kind workload) (wi_Name workload) ns)
           (\<lambda>_. collect_workloads C defaultNamespace workloads pvcSet)
           (\<lambda>pods. do {
              pvcSet' \<leftarrow> collect_volumes C ns (concat (map pod_Volumes pods)) pvcSet;
              collect_workloads C defaultNamespace workloads pvcSet'
            }))"

definition findPVCsForWorkloads :: "'w client \<Rightarrow> WorkloadInfo list \<Rightarrow> string \<Rightarrow> ('w, PVCInfo list) call" where
  "findPVCsForWorkloads C workloads defaultNamespace = do {
     pvcSet \<leftarrow> collect_workloads C defaultNamespace workloads [];
     result \<leftarrow> range_values C pvcSet;
     ret (Inr result)
   }"

definition discoverPVCsFromHelmRelease :: "'w client \<Rightarrow> helmlib \<Rightarrow> ManagedApp \<Rightarrow> ('w, PVCInfo list) call" where
  "discoverPVCsFromHelmRelease C H app =
     (case mas_HelmReleaseRef (ma_Spec app) of
        None \<Rightarrow> ret (Inl (ErrorString ''helmReleaseRef is not set''))
      | Some helmRef \<Rightarrow>
        (let ns = ns_or (ref_Namespace helmRef) (ma_Namespace app)
         in checked (wrap_err ''finding Helm release secret'' (findHelmReleaseSecret C (ref_Name helmRef) ns)) (\<lambda>secret.
            checked (wrap_err ''decoding Helm release secret'' (ret (decodeHelmReleaseSecret H secret))) (\<lambda>manifest.
            findPVCsForWorkloads C (parseManifestForWorkloads H manifest) ns))))"

section \<open>kustomization.go\<close>

definition inventory_workload :: "string \<Rightarrow> string \<Rightarrow> WorkloadInfo option" where
  "inventory_workload defaultNamespace entry =
     (let parts = Split ''_'' entry
      in if length parts < 4 then None
         else (let namespace = parts ! 0; name = parts ! 1; kind = parts ! 3
               in if kind \<noteq> KindDeployment \<and> kind \<noteq> KindStatefulSet then None
                  else Some \<lparr>wi_Kind = kind, wi_Name = name, wi_Namespace = ns_or namespace defaultNamespace\<rparr>))"

definition extractWorkloadsFromInventory :: "string list \<Rightarrow> string \<Rightarrow> WorkloadInfo list" where
  "extractWorkloadsFromInventory entries defaultNamespace =
     List.map_filter (inventory_workload defaultNamespace) entries"

definition discoverPVCsFromKustomization :: "'w client \<Rightarrow> ManagedApp \<Rightarrow> ('w, PVCInfo list) call" where
  "discoverPVCsFromKustomization C app =
     (let ksRef = mas_KustomizationRef (ma_Spec app);
          ksNamespace = ns_or (ref_Namespace ksRef) DefaultFluxNamespace
      in checked (wrap_err (''getting Kustomization '' @ ksNamespace @ ''/'' @ ref_Name ksRef)
             (GetKustomization C (NN (ref_Name ksRef) ksNamespace)))
           (\<lambda>ks. case ks_Inventory ks of
                   None \<Rightarrow> ret (Inr [])
                 | Some entries \<Rightarrow>
                     if length entries = 0 then ret (Inr [])
                     else findPVCsForWorkloads C (extractWorkloadsFromInventory entries (ma_Namespace app))
                            (ma_Namespace app)))"

definition findDeploymentForReplicaSet :: "string \<Rightarrow> string" where
  "findDeploymentForReplicaSet rsName =
     (case CutLast (CHR ''-'') rsName of
        None \<Rightarrow> []
      | Some (deployment, hash) \<Rightarrow>
          if length hash < 5 \<or> 12 < length hash then []
          else if list_ex (\<lambda>c. \<not> is_lower c \<and> \<not> is_digit c) hash then []
          else deployment)"

fun owner_loop :: "string \<Rightarrow> OwnerReference list \<Rightarrow> WorkloadInfo option" where
  "owner_loop ns [] = None"
| "owner_loop ns (owner # owners) =
     (if owner_Kind owner = KindStatefulSet
      then Some \<lparr>wi_Kind = KindStatefulSet, wi_Name = owner_Name owner, wi_Namespace = ns\<rparr>
      else if owner_Kind owner = ''ReplicaSet'' then
        (let deployment = findDeploymentForReplicaSet (owner_Name owner)
         in if deployment \<noteq> [] then Some \<lparr>wi_Kind = KindDeployment, wi_Name = deployment, wi_Namespace = ns\<rparr>
            else owner_loop ns owners)
      else owner_loop ns owners)"

definition getOwningWorkload :: "Pod \<Rightarrow> WorkloadInfo option" where
  "getOwningWorkload pod = owner_loop (om_Namespace (pod_meta pod)) (om_OwnerReferences (pod_meta pod))"

definition mounts_any :: "string list \<Rightarrow> Pod \<Rightarrow> bool" where
  "mounts_any pvcNames pod =
     list_ex (\<lambda>vol. case vol of None \<Rightarrow> False | Some claim \<Rightarrow> List.member pvcNames claim) (pod_Volumes pod)"

definition workload_key :: "WorkloadInfo \<Rightarrow> string" where
  "workload_key w = wi_Kind w @ ''/'' @ wi_Namespace w @ ''/'' @ wi_Name w"

fun workload_loop ::
  "string list \<Rightarrow> Pod list \<Rightarrow> (string \<times> WorkloadInfo) list \<Rightarrow> (string \<times> WorkloadInfo) list" where
  "workload_loop pvcNames [] workloadSet = workloadSet"
| "workload_loop pvcNames (pod # pods) workloadSet =
     (if \<not> mounts_any pvcNames pod then workload_loop pvcNames pods workloadSet
      else case getOwningWorkload pod of
             None \<Rightarrow> workload_loop pvcNames pods workloadSet
           | Some workload \<Rightarrow>
               workload_loop pvcNames pods (put_if_absent (workload_key workload) workload workloadSet))"

definition discoverWorkloadsFromPVCs :: "'w client \<Rightarrow> string list \<Rightarrow> string \<Rightarrow> ('w, WorkloadInfo list) call" where
  "discoverWorkloadsFromPVCs C pvcNames namespace =
     checked (wrap_err ''listing pods'' (ListPods C namespace None)) (\<lambda>pods. do {
       result \<leftarrow> range_values C (workload_loop pvcNames pods []);
       ret (Inr result)
     })"

section \<open>Entry points\<close>

definition DiscoverPVCs :: "'w client \<Rightarrow> helmlib \<Rightarrow> ManagedApp \<Rightarrow> ('w, PVCInfo list) call" where
  "DiscoverPVCs C H app =
     (if 0 < length (explicit_pvcs app) then getExplicitPVCs C app
      else
        checked (if mas_HelmReleaseRef (ma_Spec app) \<noteq> None then discoverPVCsFromHelmRelease C H app
                 else discoverPVCsFromKustomization C app)
          (\<lambda>pvcs. ret (Inr (filterPVCs pvcs app))))"

definition DiscoverWorkloadsForPVCs :: "'w client \<Rightarrow> string list \<Rightarrow> string \<Rightarrow> ('w, WorkloadInfo list) call" where
  "DiscoverWorkloadsForPVCs C pvcNames namespace = discoverWorkloadsFromPVCs C pvcNames namespace"

definition DiscoverWorkloads :: "'w client \<Rightarrow> helmlib \<Rightarrow> ManagedApp \<Rightarrow> ('w, WorkloadInfo list) call" where
  "DiscoverWorkloads C H app =
     checked (wrap_err ''discovering PVCs'' (DiscoverPVCs C H app)) (\<lambda>pvcs.
     if length pvcs = 0 then ret (Inr [])
     else DiscoverWorkloadsForPVCs C (map pi_Name pvcs) (ma_Namespace app))"

lemmas discovery_defs = getExplicitPVCs_def findHelmReleaseSecret_def findPodsForWorkload_def
  range_values_def findPVCsForWorkloads_def discoverPVCsFromHelmRelease_def
  discoverPVCsFromKustomization_def discoverWorkloadsFromPVCs_def DiscoverPVCs_def
  DiscoverWorkloadsForPVCs_def DiscoverWorkloads_def

section \<open>Which calls the discoverer makes\<close>

context api_inv
begin

lemma keeps_collect_volumes: "keeps I (collect_volumes C ns vols s) (\<lambda>_. True)"
  by (induction vols arbitrary: s) (auto intro!: keeps_rule keeps_GetPVC split: option.split)

lemma keeps_collect_workloads: "keeps I (collect_workloads C ns ws s) (\<lambda>_. True)"
  by (induction ws arbitrary: s)
    (auto simp: Let_def findPodsForWorkload_def intro!: keeps_rule keeps_collect_volumes keeps_ListPods)

lemma keeps_DiscoverPVCs:
  assumes "\<And>k r. P (GotKustomization k r)"
  shows "keeps I (DiscoverPVCs C H app) (\<lambda>_. True)"
  unfolding discovery_defs Let_def
  by (intro keeps_rule TrueI read_keeps keeps_collect_workloads keeps_GetKustomization assms)

lemma keeps_DiscoverWorkloads:
  assumes "\<And>k r. P (GotKustomization k r)"
  shows "keeps I (DiscoverWorkloads C H app) (\<lambda>_. True)"
  unfolding DiscoverWorkloads_def DiscoverWorkloadsForPVCs_def discoverWorkloadsFromPVCs_def range_values_def
  by (intro keeps_rule TrueI read_keeps keeps_DiscoverPVCs assms)

end

section \<open>Filtering\<close>

lemma filter_loop_eq:
  "filter_loop ex pvcs acc = acc @ filter (\<lambda>p. pvc_key (pi_Namespace p) (pi_Name p) \<notin> set ex \<and>
     ReadWriteOnce \<in> set (pi_AccessModes p)) pvcs"
  by (induction ex pvcs acc rule: filter_loop.induct) (auto simp: List.member_iff)

section \<open>Maps filled by put-if-absent\<close>

lemma map_of_put_if_absent:
  "map_of (put_if_absent k v m) x = (if map_of m k = None \<and> x = k then Some v else map_of m x)"
  by (auto simp: put_if_absent_def map_add_def split: option.split)

lemma distinct_put_if_absent: "distinct (map fst m) \<Longrightarrow> distinct (map fst (put_if_absent k v m))"
  by (auto simp: put_if_absent_def map_of_eq_None_iff)

lemma set_put_if_absent_cases: "x \<in> set (put_if_absent k v m) \<Longrightarrow> x \<in> set m \<or> x = (k, v)"
  by (auto simp: put_if_absent_def split: if_splits)

lemma values_of_map:
  assumes "distinct (map fst m)" and "mset keys = mset (map fst m)"
  shows "mset (List.map_filter (map_of m) keys) = mset (map snd m)"
proof -
  have "mset (List.map_filter (map_of m) keys) = mset (List.map_filter (map_of m) (map fst m))"
    using assms(2) unfolding List.map_filter_def by (simp add: mset_filter [symmetric] image_mset.compositionality [symmetric])
  also have "List.map_filter (map_of m) (map fst m) = map snd m"
    using assms(1)
  proof -
    have "List.map_filter (map_of m) (map fst xs) = map snd xs" if "set xs \<subseteq> set m" for xs
      using that assms(1) by (induction xs) (auto simp: map_filter_simps)
    then show ?thesis by simp
  qed
  finally show ?thesis .
qed

section \<open>Workloads found for a set of claims\<close>

definition owner_of_mounting_pod :: "string list \<Rightarrow> Pod list \<Rightarrow> WorkloadInfo \<Rightarrow> bool" where
  "owner_of_mounting_pod pvcNames pods w \<longleftrightarrow>
     (\<exists>pod\<in>set pods. mounts_any pvcNames pod \<and> getOwningWorkload pod = Some w)"

lemma workload_loop_distinct:
  "distinct (map fst s) \<Longrightarrow> distinct (map fst (workload_loop names pods s))"
  by (induction names pods s rule: workload_loop.induct)
    (auto split: option.split intro: distinct_put_if_absent)

lemma workload_loop_sound:
  "(k, w) \<in> set (workload_loop names pods s) \<Longrightarrow>
     (k, w) \<in> set s \<or> (k = workload_key w \<and> owner_of_mounting_pod names pods w)"
proof (induction names pods s rule: workload_loop.induct)
  case (2 names pod pods s)
  then show ?case
    by (auto simp: owner_of_mounting_pod_def split: if_splits option.splits dest!: set_put_if_absent_cases)
qed (simp add: owner_of_mounting_pod_def)

lemma put_if_absent_mono: "map_of m k = Some w \<Longrightarrow> map_of (put_if_absent k' v m) k = Some w"
  by (auto simp: map_of_put_if_absent)

lemma workload_loop_mono:
  "map_of s k = Some w \<Longrightarrow> map_of (workload_loop names pods s) k = Some w"
  by (induction names pods s rule: workload_loop.induct)
    (auto split: option.splits dest: put_if_absent_mono)

lemma workload_loop_complete:
  "owner_of_mounting_pod names pods w \<Longrightarrow> \<exists>w'. map_of (workload_loop names pods s) (workload_key w) = Some w'"
proof (induction names pods s rule: workload_loop.induct)
  case (2 names pod pods s)
  show ?case
  proof (cases "mounts_any names pod \<and> getOwningWorkload pod = Some w")
    case True
    have "\<exists>w'. map_of (put_if_absent (workload_key w) w s) (workload_key w) = Some w'"
      by (cases "map_of s (workload_key w)") (auto simp: map_of_put_if_absent)
    with True show ?thesis by (auto dest: workload_loop_mono)
  next
    case False
    with "2.prems" have "owner_of_mounting_pod names pods w"
      by (auto simp: owner_of_mounting_pod_def)
    with "2.IH" show ?thesis by (auto split: option.split)
  qed
qed (simp add: owner_of_mounting_pod_def)

text \<open>Kubernetes names hold no slash, so the map key determines the workload.\<close>

lemma owning_workload:
  assumes "getOwningWorkload pod = Some w"
  shows "wi_Kind w \<in> {KindDeployment, KindStatefulSet} \<and> wi_Namespace w = om_Namespace (pod_meta pod)"
proof -
  have "owner_loop ns os = Some w \<Longrightarrow> wi_Kind w \<in> {KindDeployment, KindStatefulSet} \<and> wi_Namespace w = ns" for ns os
    by (induction ns os rule: owner_loop.induct) (auto simp: Let_def split: if_splits)
  with assms show ?thesis by (simp add: getOwningWorkload_def)
qed

lemma workload_key_inj:
  assumes "workload_key v = workload_key w"
    and "wi_Kind v \<in> {KindDeployment, KindStatefulSet}" "wi_Kind w \<in> {KindDeployment, KindStatefulSet}"
    and "CHR ''/'' \<notin> set (wi_Namespace v)" "CHR ''/'' \<notin> set (wi_Namespace w)"
  shows "v = w"
proof -
  have kinds: "CHR ''/'' \<notin> set (wi_Kind v)" "CHR ''/'' \<notin> set (wi_Kind w)"
    using assms(2,3) by (auto simp: KindDeployment_def KindStatefulSet_def)
  from assms(1) have eq: "wi_Kind v @ CHR ''/'' # (wi_Namespace v @ CHR ''/'' # wi_Name v) =
      wi_Kind w @ CHR ''/'' # (wi_Namespace w @ CHR ''/'' # wi_Name w)"
    by (simp add: workload_key_def)
  have "wi_Kind v = wi_Kind w \<and> wi_Namespace v @ CHR ''/'' # wi_Name v = wi_Namespace w @ CHR ''/'' # wi_Name w"
    using Cut_at [OF kinds(1)] Cut_at [OF kinds(2)] eq by (metis option.inject prod.inject)
  moreover from this have "wi_Namespace v = wi_Namespace w \<and> wi_Name v = wi_Name w"
    using Cut_at [OF assms(4)] Cut_at [OF assms(5)] by (metis option.inject prod.inject)
  ultimately show ?thesis by simp
qed

lemma workload_loop_values:
  assumes ns: "\<forall>pod\<in>set pods. CHR ''/'' \<notin> set (om_Namespace (pod_meta pod))"
  shows "snd ` set (workload_loop names pods []) = {w. owner_of_mounting_pod names pods w}"
proof (intro equalityI subsetI)
  fix w
  assume "w \<in> snd ` set (workload_loop names pods [])"
  then show "w \<in> {w. owner_of_mounting_pod names pods w}"
    by (auto dest: workload_loop_sound)
next
  fix w
  assume "w \<in> {w. owner_of_mounting_pod names pods w}"
  then have w: "owner_of_mounting_pod names pods w" by simp
  obtain v where v: "map_of (workload_loop names pods []) (workload_key w) = Some v"
    using workload_loop_complete [OF w] by blast
  then have in_set: "(workload_key w, v) \<in> set (workload_loop names pods [])" by (rule map_of_SomeD)
  with workload_loop_sound [OF in_set] have key: "workload_key w = workload_key v"
    and own: "owner_of_mounting_pod names pods v" by auto
  have "v = w"
    using key own w ns
    by (intro workload_key_inj)
      (auto simp: owner_of_mounting_pod_def dest!: owning_workload)
  with in_set show "w \<in> snd ` set (workload_loop names pods [])" by force
qed

section \<open>Names\<close>

lemma CutLast_SomeD: "CutLast c s = Some (a, b) \<Longrightarrow> s = a @ c # b \<and> c \<notin> set b"
proof -
  assume cut: "CutLast c s = Some (a, b)"
  then have mem: "c \<in> set (rev s)" by (auto simp: CutLast_def split: if_splits)
  from split_list_first [OF mem] obtain ys zs where s: "rev s = ys @ c # zs" "c \<notin> set ys" by blast
  have "takeWhile (\<lambda>x. x \<noteq> c) (rev s) = ys" "dropWhile (\<lambda>x. x \<noteq> c) (rev s) = c # zs"
    using s span_at [of c ys zs] by simp_all
  with cut mem have "a = rev zs" "b = rev ys" by (auto simp: CutLast_def)
  moreover from s(1) have "s = rev zs @ c # rev ys" by (metis rev.simps(2) rev_append rev_rev_ident append.assoc append_Cons append_Nil)
  ultimately show "s = a @ c # b \<and> c \<notin> set b" using s(2) by simp
qed

definition hash_like :: "string \<Rightarrow> bool" where
  "hash_like h \<longleftrightarrow> 5 \<le> length h \<and> length h \<le> 12 \<and> list_all (\<lambda>c. is_lower c \<or> is_digit c) h"

lemma hash_no_dash: "hash_like h \<Longrightarrow> CHR ''-'' \<notin> set h"
  by (auto simp: hash_like_def list_all_iff is_lower_def is_digit_def)

lemma findDeployment_iff:
  assumes "d \<noteq> []"
  shows "findDeploymentForReplicaSet rs = d \<longleftrightarrow> (\<exists>h. rs = d @ ''-'' @ h \<and> hash_like h)"
proof
  assume "findDeploymentForReplicaSet rs = d"
  with assms obtain h where cut: "CutLast (CHR ''-'') rs = Some (d, h)" and "hash_like h"
    by (auto simp: findDeploymentForReplicaSet_def hash_like_def list_all_iff list_ex_iff
        split: option.splits if_splits)
  with CutLast_SomeD [OF cut] show "\<exists>h. rs = d @ ''-'' @ h \<and> hash_like h" by auto
next
  assume "\<exists>h. rs = d @ ''-'' @ h \<and> hash_like h"
  then obtain h where rs: "rs = d @ CHR ''-'' # h" and h: "hash_like h" by auto
  with hash_no_dash CutLast_at show "findDeploymentForReplicaSet rs = d"
    by (auto simp: findDeploymentForReplicaSet_def hash_like_def list_all_iff list_ex_iff)
qed

lemma inventory_parse:
  assumes "\<forall>s\<in>{ns, n, g, k}. CHR ''_'' \<notin> set s"
  shows "Split ''_'' (ns @ ''_'' @ n @ ''_'' @ g @ ''_'' @ k) = [ns, n, g, k]"
  using assms by (simp add: Split_step Split_last)

section \<open>The latest Helm release\<close>

definition revision_of :: "string \<Rightarrow> Secret \<Rightarrow> int option" where
  "revision_of prefix s =
     (if HasPrefix (om_Name (sec_meta s)) prefix then sscanf_d (TrimPrefix (om_Name (sec_meta s)) prefix) else None)"


lemma latest_secret_step:
  "latest_secret prefix (s # secs) n best =
     (case revision_of prefix s of
        None \<Rightarrow> latest_secret prefix secs n best
      | Some r \<Rightarrow> if n < r then latest_secret prefix secs r (Some s) else latest_secret prefix secs n best)"
  by (simp add: revision_of_def split: option.split)

text \<open>The scan returns a secret with the greatest revision above \<open>n\<close>, or the start value if there is none.\<close>

definition newest_among :: "string \<Rightarrow> Secret list \<Rightarrow> int \<Rightarrow> Secret option \<Rightarrow> Secret option \<Rightarrow> bool" where
  "newest_among prefix secs n best result \<longleftrightarrow>
     (result = best \<and> (\<forall>s\<in>set secs. \<forall>r. revision_of prefix s = Some r \<longrightarrow> r \<le> n)) \<or>
     (\<exists>s r. result = Some s \<and> s \<in> set secs \<and> revision_of prefix s = Some r \<and> n < r \<and>
        (\<forall>s'\<in>set secs. \<forall>r'. revision_of prefix s' = Some r' \<longrightarrow> r' \<le> r))"

lemma newest_among_skip:
  assumes "newest_among prefix secs n best result" and "\<And>r. revision_of prefix s = Some r \<Longrightarrow> r \<le> n"
  shows "newest_among prefix (s # secs) n best result"
  using assms unfolding newest_among_def by (simp, meson dual_order.trans less_imp_le)

lemma newest_among_take:
  assumes "newest_among prefix secs r (Some s) result" and "revision_of prefix s = Some r" and "n < r"
  shows "newest_among prefix (s # secs) n best result"
proof -
  from assms(1) consider "result = Some s" "\<forall>s\<in>set secs. \<forall>ra. revision_of prefix s = Some ra \<longrightarrow> ra \<le> r"
    | s2 r2 where "result = Some s2" "s2 \<in> set secs" "revision_of prefix s2 = Some r2" "r < r2"
        "\<forall>s'\<in>set secs. \<forall>r'. revision_of prefix s' = Some r' \<longrightarrow> r' \<le> r2"
    unfolding newest_among_def by blast
  then show ?thesis
    unfolding newest_among_def using assms(2,3) by cases (auto intro!: disjI2)
qed

lemma latest_secret_newest: "newest_among prefix secs n best (latest_secret prefix secs n best)"
proof (induction secs arbitrary: n best)
  case Nil
  then show ?case by (simp add: newest_among_def)
next
  case (Cons s secs)
  show ?case
    unfolding latest_secret_step using Cons.IH
    by (auto split: option.split intro: newest_among_skip newest_among_take)
qed

end
