(* ===== verification/Health.thy ===== *)
theory Health
  imports Discovery
begin

text \<open>
  \<open>internal/health/check.go\<close>: the health check of an application, first the Ready condition of its
  Kustomization, then the ready replicas of each workload that discovery finds.
\<close>

record WorkloadStatus =
  wst_Kind :: string
  wst_Name :: string
  wst_Namespace :: string
  wst_DesiredReplicas :: int
  wst_ReadyReplicas :: int
  wst_Ready :: bool

record HealthResult =
  hr_Healthy :: bool
  hr_FluxReady :: bool
  hr_WorkloadsReady :: bool
  hr_Message :: string
  hr_WorkloadStatuses :: "WorkloadStatus list"

definition replicas_ready :: "int \<Rightarrow> int \<Rightarrow> bool" where
  "replicas_ready desired ready \<longleftrightarrow> desired = 0 \<or> desired \<le> ready"

definition workload_status :: "string \<Rightarrow> string \<Rightarrow> string \<Rightarrow> int option \<Rightarrow> int \<Rightarrow> WorkloadStatus" where
  "workload_status kind name namespace replicas ready =
     \<lparr>wst_Kind = kind, wst_Name = name, wst_Namespace = namespace,
      wst_DesiredReplicas = replicas_or_default replicas, wst_ReadyReplicas = ready,
      wst_Ready = replicas_ready (replicas_or_default replicas) ready\<rparr>"

definition checkFluxResourceReady :: "'w client \<Rightarrow> ManagedApp \<Rightarrow> ('w, bool \<times> string) call" where
  "checkFluxResourceReady C app =
     (let kref = mas_KustomizationRef (ma_Spec app);
          ns = ns_or (ref_Namespace kref) DefaultFluxNamespace
      in checked (GetKustomization C (NN (ref_Name kref) ns)) (\<lambda>ks.
         ret (Inr (case find (\<lambda>cond. c_Type cond = ''Ready'') (ks_Conditions ks) of
                     Some cond \<Rightarrow>
                       if c_Status cond = ConditionTrue then (True, ''Kustomization is ready'')
                       else (False, ''Kustomization not ready: '' @ c_Message cond)
                   | None \<Rightarrow> (False, ''Kustomization has no Ready condition'')))))"

definition checkWorkloadReady :: "'w client \<Rightarrow> string \<Rightarrow> string \<Rightarrow> string \<Rightarrow> ('w, WorkloadStatus) call" where
  "checkWorkloadReady C kind name namespace =
     (if kind = KindDeployment then
        checked (wrap_err ''getting deployment'' (GetDeployment C (NN name namespace)))
          (\<lambda>deploy. ret (Inr (workload_status kind name namespace (dep_Replicas deploy) (dep_ReadyReplicas deploy))))
      else if kind = KindStatefulSet then
        checked (wrap_err ''getting statefulset'' (GetStatefulSet C (NN name namespace)))
          (\<lambda>sts. ret (Inr (workload_status kind name namespace (sts_Replicas sts) (sts_ReadyReplicas sts))))
      else ret (Inl (unsupported_kind kind)))"

definition health_of_statuses :: "WorkloadStatus list \<Rightarrow> HealthResult" where
  "health_of_statuses sts =
     (let allReady = list_all wst_Ready sts;
          total = itoa (int (length sts));
          notReady = itoa (int (length (filter (\<lambda>ws. \<not> wst_Ready ws) sts)))
      in \<lparr>hr_Healthy = allReady, hr_FluxReady = True, hr_WorkloadsReady = allReady,
          hr_Message =
            (if allReady then ''All checks passed: Flux ready, '' @ total @ ''/'' @ total @ '' workloads ready''
             else ''Flux ready, but '' @ notReady @ ''/'' @ total @ '' workloads not ready''),
          hr_WorkloadStatuses = sts\<rparr>)"

definition CheckHealth :: "'w client \<Rightarrow> helmlib \<Rightarrow> ManagedApp \<Rightarrow> ('w, HealthResult) call" where
  "CheckHealth C H app =
     checked (wrap_err ''checking Flux resource'' (checkFluxResourceReady C app)) (\<lambda>(fluxReady, fluxMsg).
     if \<not> fluxReady then
       ret (Inr \<lparr>hr_Healthy = False, hr_FluxReady = False, hr_WorkloadsReady = False, hr_Message = fluxMsg,
                 hr_WorkloadStatuses = []\<rparr>)
     else
       checked (wrap_err ''discovering workloads'' (DiscoverWorkloads C H app)) (\<lambda>workloads.
       if length workloads = 0 then
         ret (Inr \<lparr>hr_Healthy = True, hr_FluxReady = True, hr_WorkloadsReady = True,
                   hr_Message = ''Flux resource is ready, no workloads to check'', hr_WorkloadStatuses = []\<rparr>)
       else
         checked (for_each (\<lambda>w.
             let ns = ns_or (wi_Namespace w) (ma_Namespace app)
             in wrap_err (''checking workload '' @ ns @ ''/'' @ wi_Name w)
                  (checkWorkloadReady C (wi_Kind w) (wi_Name w) ns)) workloads)
           (\<lambda>sts. ret (Inr (health_of_statuses sts)))))"

definition IsHealthy :: "'w client \<Rightarrow> helmlib \<Rightarrow> ManagedApp \<Rightarrow> ('w, bool) call" where
  "IsHealthy C H app = checked (CheckHealth C H app) (\<lambda>result. ret (Inr (hr_Healthy result)))"

lemmas health_defs = checkFluxResourceReady_def checkWorkloadReady_def CheckHealth_def IsHealthy_def

section \<open>Which calls the checker makes\<close>

context api_inv
begin

lemma keeps_CheckHealth:
  assumes "\<And>k r. P (GotKustomization k r)"
  shows "keeps I (CheckHealth C H app) (\<lambda>_. True)"
  unfolding CheckHealth_def checkFluxResourceReady_def checkWorkloadReady_def Let_def
  by (intro keeps_rule TrueI read_keeps keeps_GetKustomization keeps_DiscoverWorkloads assms)

end

section \<open>What a healthy verdict means\<close>

text \<open>The result is healthy exactly if Flux is ready and every workload status is.\<close>

lemma CheckHealth_result:
  assumes "run_state (CheckHealth C H app) w = (Inr result, w')"
  shows "hr_Healthy result \<longleftrightarrow> hr_FluxReady result \<and> list_all wst_Ready (hr_WorkloadStatuses result)"
    and "hr_Healthy result \<longleftrightarrow> hr_FluxReady result \<and> hr_WorkloadsReady result"
  using assms
  by (auto simp: CheckHealth_def run_on_err run_wrap_err health_of_statuses_def Let_def
      split: prod.splits sum.splits if_splits)

end
