(* ===== verification/Controller.thy ===== *)
theory Controller
  imports YamlEditor Git Flux Snapshot Health
begin

text \<open>
  What the controllers of \<open>internal/controller\<close> share: the reconciler's collaborators, the phase
  timeouts, the choice of the Kustomization to suspend, and the summary of a dry run. The locale
  \<open>rec_inv\<close> lifts the invariants of the API client and of Git to a whole reconciler; \<open>traced_rec\<close>
  is a reconciler whose calls are recorded.
\<close>

section \<open>The reconciler\<close>

record ('w, 'n) reconciler =
  rc_Client :: "'w client"
  rc_Lib :: klib
  rc_Git :: "'w git_manager option"
  rc_Yaml :: "'n kyaml"
  rc_Helm :: helmlib

definition TimeoutSuspend :: int where "TimeoutSuspend = 2 * Minute"
definition TimeoutScaleDown :: int where "TimeoutScaleDown = 5 * Minute"
definition TimeoutScaleUp :: int where "TimeoutScaleUp = 5 * Minute"
definition TimeoutSnapshot :: int where "TimeoutSnapshot = 30 * Minute"
definition TimeoutReconcile :: int where "TimeoutReconcile = 10 * Minute"
definition TimeoutHealthCheck :: int where "TimeoutHealthCheck = 5 * Minute"
definition TimeoutVolumeRestore :: int where "TimeoutVolumeRestore = 30 * Minute"
definition TimeoutResume :: int where "TimeoutResume = 2 * Minute"

definition reasonNotReady :: string where
  "reasonNotReady = ''NotReady''"

record preflightResult =
  pf_Workloads :: "WorkloadInfo list"
  pf_PVCs :: "PVCInfo list"
  pf_Summary :: "string list"
  pf_Warnings :: "string list"

definition getSuspendTarget :: "ManagedApp \<Rightarrow> string \<times> string" where
  "getSuspendTarget app =
     (case mas_SuspendRef (ma_Spec app) of
        Some sref \<Rightarrow> (ref_Name sref, ns_or (ref_Namespace sref) DefaultFluxNamespace)
      | None \<Rightarrow> (ref_Name (mas_KustomizationRef (ma_Spec app)),
                 ns_or (ref_Namespace (mas_KustomizationRef (ma_Spec app))) DefaultFluxNamespace))"

definition getSuspendRefStruct :: "ManagedApp \<Rightarrow> NamespacedName option" where
  "getSuspendRefStruct app =
     (case mas_SuspendRef (ma_Spec app) of
        None \<Rightarrow> None
      | Some sref \<Rightarrow> Some (NN (ref_Name sref) (ns_or (ref_Namespace sref) DefaultFluxNamespace)))"

definition suspend_key :: "ManagedApp \<Rightarrow> NamespacedName" where
  "suspend_key app = NN (fst (getSuspendTarget app)) (snd (getSuspendTarget app))"

text \<open>The Kustomization that applies the application, with the default namespace.\<close>

definition kustomization_key :: "ManagedApp \<Rightarrow> NamespacedName" where
  "kustomization_key app =
     NN (ref_Name (mas_KustomizationRef (ma_Spec app)))
        (ns_or (ref_Namespace (mas_KustomizationRef (ma_Spec app))) DefaultFluxNamespace)"

definition workloadNS :: "WorkloadInfo \<Rightarrow> string \<Rightarrow> string" where
  "workloadNS w defaultNS = (if wi_Namespace w \<noteq> [] then wi_Namespace w else defaultNS)"

definition allWorkloadsScaledDown ::
  "('w, 'n) reconciler \<Rightarrow> WorkloadInfo list \<Rightarrow> string \<Rightarrow> ('w, bool) call" where
  "allWorkloadsScaledDown R workloads defaultNS =
     all_of (\<lambda>w. IsScaledDown (rc_Client R) (rc_Lib R) (wi_Kind w) (wi_Name w) (workloadNS w defaultNS)) workloads"

definition buildDryRunSummary ::
  "string \<Rightarrow> preflightResult \<Rightarrow> string \<Rightarrow> string \<Rightarrow> string \<Rightarrow> string \<Rightarrow> string" where
  "buildDryRunSummary operation preflight currentVersion newVersion versionPath gitPath =
     (let part1 = (if versionPath \<noteq> []
            then [''Would '' @ operation @ '' from '' @ currentVersion @ '' to '' @ newVersion
                  @ '' ('' @ versionPath @ '' in '' @ gitPath @ '')''] else []);
          part2 = (if length (pf_Summary preflight) > 0
            then [''Preflight: '' @ Join ''; '' (pf_Summary preflight)] else []);
          verified = [''suspend/resume: verified''] @
            (if length (pf_Workloads preflight) > 0
             then [''scale down/up: verified ('' @
                   Join '', '' (map (\<lambda>w. wi_Kind w @ ''/'' @ wi_Name w) (pf_Workloads preflight)) @ '')'']
             else []);
          part3 = [Join ''. '' verified @ ''.'']
      in ''Dry run passed. '' @ Join '' '' (part1 @ part2 @ part3))"

definition reason_of :: "goerror \<Rightarrow> string" where
  "reason_of err = (case err of ReasonedError reason _ \<Rightarrow> reason | _ \<Rightarrow> ''PreflightFailed'')"

definition snapshots_enabled :: "ManagedApp \<Rightarrow> bool" where
  "snapshots_enabled app =
     (case mas_VolumeSnapshots (ma_Spec app) of None \<Rightarrow> False | Some v \<Rightarrow> vsc_Enabled v)"

definition configured_version_path :: "ManagedApp \<Rightarrow> string" where
  "configured_version_path app =
     (case mas_VersionPolicy (ma_Spec app) of None \<Rightarrow> [] | Some v \<Rightarrow> vp_VersionPath v)"

definition version_path_of :: "ManagedApp \<Rightarrow> string" where
  "version_path_of app =
     (if configured_version_path app \<noteq> [] then configured_version_path app else DefaultHelmReleaseVersionPath)"

section \<open>Steps that both state machines take\<close>

definition managed_app_key :: "UpgradeRequest \<Rightarrow> NamespacedName" where
  "managed_app_key u =
     NN (ref_Name (urs_ManagedAppRef (ur_Spec u)))
        (ns_or (ref_Namespace (urs_ManagedAppRef (ur_Spec u))) (om_Namespace (ur_meta u)))"

definition kustomization_summary :: "ManagedApp \<Rightarrow> bool \<Rightarrow> string" where
  "kustomization_summary app reconciled =
     ''Kustomization '' @ nn_Namespace (kustomization_key app) @ ''/'' @ nn_Name (kustomization_key app) @ '' ''
     @ (if reconciled then ''Ready'' else reasonNotReady)"

definition preflight_warnings :: "ManagedApp \<Rightarrow> goerror + bool \<Rightarrow> goerror + bool \<Rightarrow> string list" where
  "preflight_warnings app reconciled suspended =
     (case reconciled of
        Inr False \<Rightarrow> [''Kustomization '' @ nn_Namespace (kustomization_key app) @ ''/'' @ nn_Name (kustomization_key app)
           @ '' is not Ready '' @ em_dash @ '' operation may fail at reconciliation'']
      | _ \<Rightarrow> []) @
     (case suspended of
        Inr True \<Rightarrow> [''Kustomization '' @ nn_Namespace (suspend_key app) @ ''/'' @ nn_Name (suspend_key app)
           @ '' is already suspended '' @ em_dash @ '' operation will resume it upon completion'']
      | _ \<Rightarrow> [])"

text \<open>\<open>Inl\<close> is the handler's result with \<open>shouldContinue = false\<close>, \<open>Inr\<close> the request to go on with.\<close>

definition stop_with :: "('w, Result) call \<Rightarrow> ('w, (goerror + Result) + 'u) state" where
  "stop_with m = do { r \<leftarrow> m; ret (Inl r) }"

definition scale_down_all ::
  "('w, 'n) reconciler \<Rightarrow> ManagedApp \<Rightarrow> WorkloadInfo list \<Rightarrow> ('w, string + WorkloadScalingInfo list) state" where
  "scale_down_all R app workloads =
     for_each (\<lambda>w. do {
        r \<leftarrow> ScaleDown (rc_Client R) (wi_Kind w) (wi_Name w) (ns_or (wi_Namespace w) (ma_Namespace app));
        ret (case r of
               Inl e \<Rightarrow> Inl (''Failed to scale down '' @ ns_or (wi_Namespace w) (ma_Namespace app) @ ''/''
                          @ wi_Name w @ '': '' @ Error e)
             | Inr _ \<Rightarrow> Inr \<lparr>wsi_Kind = wi_Kind w, wsi_Name = wi_Name w,
                             wsi_Namespace = ns_or (wi_Namespace w) (ma_Namespace app)\<rparr>)
      }) workloads"

definition recorded_snapshots :: "UpgradeRequest \<Rightarrow> PVCSnapshotInfo list" where
  "recorded_snapshots u =
     (case urst_Snapshot (ur_Status u) of None \<Rightarrow> [] | Some s \<Rightarrow> sns_PVCSnapshots s)"

definition health_timeout :: "klib \<Rightarrow> ManagedApp \<Rightarrow> int" where
  "health_timeout L app =
     (case mas_HealthCheck (ma_Spec app) of
        None \<Rightarrow> TimeoutHealthCheck
      | Some hc \<Rightarrow>
          if hcc_Timeout hc \<noteq> []
          then (case ParseDuration L (hcc_Timeout hc) of None \<Rightarrow> TimeoutHealthCheck | Some d \<Rightarrow> d)
          else TimeoutHealthCheck)"

section \<open>Invariants of a whole reconciler\<close>

locale rec_inv =
  fixes R :: "('w, 'n) reconciler" and I :: "'w \<Rightarrow> bool" and P :: "event \<Rightarrow> bool"
  assumes client_inv: "api_inv (rc_Client R) I P"
    and git_inv_rec: "rc_Git R = Some g \<Longrightarrow> git_inv g I P"

sublocale rec_inv \<subseteq> api_inv "rc_Client R" I P
  by (rule client_inv)

context rec_inv
begin

lemma keeps_git_read: "rc_Git R = Some g \<Longrightarrow> keeps I (gm_ReadFile g p) (\<lambda>_. True)"
  using git_inv_rec git_inv.keeps_ReadFile by blast

lemma keeps_git_commit:
  "rc_Git R = Some g \<Longrightarrow> P (CommittedFile (fc_Path ch) (fc_Content ch) msg) \<Longrightarrow>
     keeps I (gm_CommitFile g ch msg) (\<lambda>_. True)"
  using git_inv_rec git_inv.keeps_CommitFile by blast

lemma keeps_allWorkloadsScaledDown: "keeps I (allWorkloadsScaledDown R ws ns) (\<lambda>_. True)"
  unfolding allWorkloadsScaledDown_def by (intro keeps_rule keeps_scaler_reads)

end

definition traced_rec :: "('w, 'n) reconciler \<Rightarrow> ('w \<times> event list, 'n) reconciler" where
  "traced_rec R = \<lparr>rc_Client = traced (rc_Client R), rc_Lib = rc_Lib R,
     rc_Git = map_option traced_git (rc_Git R), rc_Yaml = rc_Yaml R, rc_Helm = rc_Helm R\<rparr>"

lemma traced_rec_simps [simp]:
  "rc_Client (traced_rec R) = traced (rc_Client R)" "rc_Lib (traced_rec R) = rc_Lib R"
  "rc_Git (traced_rec R) = map_option traced_git (rc_Git R)" "rc_Yaml (traced_rec R) = rc_Yaml R"
  "rc_Helm (traced_rec R) = rc_Helm R"
  by (simp_all add: traced_rec_def)

interpretation trr: rec_inv "traced_rec R" "log_all P" P for R :: "('w, 'n) reconciler" and P
proof (rule rec_inv.intro)
  show "api_inv (rc_Client (traced_rec R)) (log_all P) P"
    by (simp add: tr.api_inv_axioms)
  show "git_inv g (log_all P) P" if "rc_Git (traced_rec R) = Some g" for g
    using that by (auto simp: trg.git_inv_axioms)
qed

text \<open>The events of a run that starts with an empty record.\<close>

definition trace_of :: "('w \<times> event list, 'a) state \<Rightarrow> 'w \<Rightarrow> event list" where
  "trace_of m w = snd (snd (run_state m (w, [])))"

lemma keeps_trace: "keeps (log_all P) m R \<Longrightarrow> list_all P (trace_of m w)"
  using keeps_run [of "log_all P" m R "(w, [])"] by (simp add: log_all_def trace_of_def)

end
