(* ===== verification/Traces.thy ===== *)
theory Traces
  imports Controller
begin

text \<open>
  How the calls of a traced reconciler run: each one runs the call of the original reconciler and
  adds its event to the record. The kinds of events that the safety properties speak of, and the
  step from an invariant to a precondition and postcondition.
\<close>

section \<open>Calls of a traced reconciler\<close>

lemma run_traced_get [simp]:
  "run_state (GetUpgradeRequest (traced C) k) (w, l) =
     (case run_state (GetUpgradeRequest C k) w of (r, w') \<Rightarrow> (r, (w', l)))"
  "run_state (GetManagedApp (traced C) k) (w, l) =
     (case run_state (GetManagedApp C k) w of (r, w') \<Rightarrow> (r, (w', l)))"
  "run_state (GetKustomization (traced C) k) (w, l) =
     (case run_state (GetKustomization C k) w of (r, w') \<Rightarrow> (r, (w', l @ [GotKustomization k r])))"
  "run_state (Now (traced C)) (w, l) = (case run_state (Now C) w of (t, w') \<Rightarrow> (t, (w', l)))"
  by (simp_all add: traced_def run_unlogged run_logged)

lemma run_traced_write [simp]:
  "run_state (UpdateUpgradeRequest (traced C) u) (w, l) =
     (case run_state (UpdateUpgradeRequest C u) w of (r, w') \<Rightarrow> (r, (w', l @ [UpdatedUpgradeRequest u])))"
  "run_state (StatusUpdateUpgradeRequest (traced C) u) (w, l) =
     (case run_state (StatusUpdateUpgradeRequest C u) w of (r, w') \<Rightarrow> (r, (w', l @ [WroteUpgradeStatus u])))"
  "run_state (UpdateKustomization (traced C) x) (w, l) =
     (case run_state (UpdateKustomization C x) w of (r, w') \<Rightarrow> (r, (w', l @ [UpdatedKustomization x])))"
  "run_state (CreateRollbackRequest (traced C) rr) (w, l) =
     (case run_state (CreateRollbackRequest C rr) w of (r, w') \<Rightarrow> (r, (w', l @ [CreatedRollbackRequest rr])))"
  by (simp_all add: traced_def run_logged)

lemma run_traced_app:
  "run_state (StatusUpdateManagedApp (traced C) a) (w, l) =
     (case run_state (StatusUpdateManagedApp C a) w of (r, w') \<Rightarrow> (r, (w', l @ [WroteManagedAppStatus a])))"
  by (simp add: traced_def run_logged)

lemma run_traced_git [simp]:
  "run_state (gm_ReadFile (traced_git G) p) (w, l) =
     (case run_state (gm_ReadFile G p) w of (r, w') \<Rightarrow> (r, (w', l)))"
  "run_state (gm_CommitFile (traced_git G) ch msg) (w, l) =
     (case run_state (gm_CommitFile G ch msg) w of (r, w') \<Rightarrow>
        (r, (w', l @ [CommittedFile (fc_Path ch) (fc_Content ch) msg])))"
  by (simp_all add: traced_git_def run_unlogged run_logged)

lemma run_traced_Resume:
  "run_state (ResumeKustomization (traced C) n ns) (w, l) =
     (case run_state (GetKustomization C (NN n ns)) w of
        (Inl e, w1) \<Rightarrow> (Inl (Wrap ''getting kustomization'' e), (w1, l @ [GotKustomization (NN n ns) (Inl e)]))
      | (Inr ks, w1) \<Rightarrow>
          if \<not> ks_Suspend ks then (Inr (), (w1, l @ [GotKustomization (NN n ns) (Inr ks)]))
          else (case run_state (UpdateKustomization C (ks\<lparr>ks_Suspend := False\<rparr>)) w1 of
                  (Inl e, w2) \<Rightarrow> (Inl (Wrap ''resuming kustomization'' e),
                     (w2, l @ [GotKustomization (NN n ns) (Inr ks), UpdatedKustomization (ks\<lparr>ks_Suspend := False\<rparr>)]))
                | (Inr _, w2) \<Rightarrow> (case run_state (GetKustomization C (NN n ns)) w2 of (r, w3) \<Rightarrow>
                     (Inr (), (w3, l @ [GotKustomization (NN n ns) (Inr ks),
                        UpdatedKustomization (ks\<lparr>ks_Suspend := False\<rparr>), GotKustomization (NN n ns) r])))))"
  by (auto simp: ResumeKustomization_def run_on_err run_wrap_err split: prod.split sum.split)

section \<open>Commits and suspended reads\<close>

fun is_commit :: "event \<Rightarrow> bool" where
  "is_commit (CommittedFile _ _ _) = True"
| "is_commit _ = False"

fun suspended_read :: "event \<Rightarrow> bool" where
  "suspended_read (GotKustomization _ (Inr ks)) = ks_Suspend ks"
| "suspended_read _ = False"

abbreviation commits_are :: "event list \<Rightarrow> 'w \<times> event list \<Rightarrow> bool" where
  "commits_are es wl \<equiv> filter is_commit (snd wl) = es"

lemma commits_unlogged: "keeps (commits_are es) (unlogged m) (\<lambda>_. True)"
  by (rule keepsI) (auto simp: unlogged_def split: prod.splits)

lemma commits_logged: "(\<And>a. \<not> is_commit (ev a)) \<Longrightarrow> keeps (commits_are es) (logged ev m) (\<lambda>_. True)"
  by (rule keepsI) (auto simp: logged_def split: prod.splits)

lemma triple_of_keeps:
  "keeps I m (\<lambda>_. True) \<Longrightarrow> (\<And>w. J w \<Longrightarrow> I w) \<Longrightarrow> triple J m (\<lambda>_. I)"
  unfolding keeps_def by (erule triple_conseq) auto

section \<open>The record only grows\<close>

abbreviation extends :: "event list \<Rightarrow> 'w \<times> event list \<Rightarrow> bool" where
  "extends l0 wl \<equiv> (\<exists>es. snd wl = l0 @ es)"

lemma extends_unlogged: "keeps (extends l0) (unlogged m) (\<lambda>_. True)"
  by (rule keepsI) (auto simp: unlogged_def split: prod.splits)

lemma extends_logged: "keeps (extends l0) (logged ev m) (\<lambda>_. True)"
  by (rule keepsI) (auto simp: logged_def split: prod.splits)

end
