(* ===== verification/Upgrade.thy ===== *)
theory Upgrade
  imports Controller
begin

text \<open>
  \<open>internal/controller/upgraderequest_controller.go\<close>: the upgrade state machine, one definition per
  method. A method that gets the request by pointer takes it as an argument; where the caller goes
  on with the modified object (\<open>handleScaleDown\<close> with \<open>shouldContinue\<close>, and every use after a
  status update, which overwrites the local object with the server's answer) the new object is
  returned or bound. Log output is not modelled.
\<close>

section \<open>Conditions and the phase timer\<close>

definition set_condition ::
  "klib \<Rightarrow> string \<Rightarrow> string \<Rightarrow> string \<Rightarrow> string \<Rightarrow> UpgradeRequest \<Rightarrow> UpgradeRequest" where
  "set_condition L ctype status reason message u =
     u\<lparr>ur_Status := (ur_Status u)\<lparr>urst_Conditions :=
        SetStatusCondition L (ur_Conditions u)
          \<lparr>c_Type = ctype, c_Status = status, c_Reason = reason, c_Message = message,
           c_ObservedGeneration = om_Generation (ur_meta u)\<rparr>\<rparr>\<rparr>"

abbreviation cond_true :: "('w, 'n) reconciler \<Rightarrow> UpgradeRequest \<Rightarrow> string \<Rightarrow> bool" where
  "cond_true R u t \<equiv> IsStatusConditionTrue (rc_Lib R) (ur_Conditions u) t"

definition set_phase_start :: "time option \<Rightarrow> UpgradeRequest \<Rightarrow> UpgradeRequest" where
  "set_phase_start t u = u\<lparr>ur_Status := (ur_Status u)\<lparr>urst_PhaseStartedAt := t\<rparr>\<rparr>"

definition setPhaseStartIfNeeded :: "('w, 'n) reconciler \<Rightarrow> UpgradeRequest \<Rightarrow> ('w, UpgradeRequest) state" where
  "setPhaseStartIfNeeded R u =
     (if urst_PhaseStartedAt (ur_Status u) = None
      then do { now \<leftarrow> Now (rc_Client R); ret (set_phase_start (Some now) u) }
      else ret u)"

definition resetPhaseStart :: "UpgradeRequest \<Rightarrow> UpgradeRequest" where
  "resetPhaseStart u = set_phase_start None u"

definition isPhaseTimedOut :: "('w, 'n) reconciler \<Rightarrow> UpgradeRequest \<Rightarrow> int \<Rightarrow> ('w, bool) state" where
  "isPhaseTimedOut R u timeout =
     (case urst_PhaseStartedAt (ur_Status u) of
        None \<Rightarrow> ret False
      | Some start \<Rightarrow> do { now \<leftarrow> Now (rc_Client R); ret (timeout < now - start) })"

text \<open>\<open>if err := r.Status().Update(ctx, upgrade); err != nil { return ctrl.Result{}, err }\<close> and a result.\<close>

definition save_status :: "('w, 'n) reconciler \<Rightarrow> UpgradeRequest \<Rightarrow> Result \<Rightarrow> ('w, Result) call" where
  "save_status R u result = checked (StatusUpdateUpgradeRequest (rc_Client R) u) (\<lambda>_. ret (Inr result))"

definition remove_finalizer :: "('w, 'n) reconciler \<Rightarrow> UpgradeRequest \<Rightarrow> ('w, Result) call" where
  "remove_finalizer R u =
     (if ContainsFinalizer (rc_Lib R) (om_Finalizers (ur_meta u)) OperationFinalizer
      then checked (UpdateUpgradeRequest (rc_Client R)
               (u\<lparr>ur_meta := (ur_meta u)\<lparr>om_Finalizers :=
                   RemoveFinalizer (rc_Lib R) (om_Finalizers (ur_meta u)) OperationFinalizer\<rparr>\<rparr>))
             (\<lambda>_. ret (Inr ResultDone))
      else ret (Inr ResultDone))"

definition getManagedApp :: "('w, 'n) reconciler \<Rightarrow> UpgradeRequest \<Rightarrow> ('w, ManagedApp) call" where
  "getManagedApp R u = GetManagedApp (rc_Client R) (managed_app_key u)"

section \<open>Failure\<close>

definition auto_rollback :: "klib \<Rightarrow> UpgradeRequest \<Rightarrow> ManagedApp \<Rightarrow> time \<Rightarrow> RollbackRequest" where
  "auto_rollback L u app now =
     \<lparr>rr_meta = (new_meta (ma_Name app @ ''-auto-rollback-'' @ FormatTime L now) (om_Namespace (ur_meta u)) [])
        \<lparr>om_OwnerReferences := [\<lparr>owner_APIVersion = ''fluxup.dev/v1alpha1'', owner_Kind = ''UpgradeRequest'',
           owner_Name = om_Name (ur_meta u), owner_UID = om_UID (ur_meta u)\<rparr>]\<rparr>,
      rr_Spec = \<lparr>rrs_UpgradeRequestRef = \<lparr>ref_Name = om_Name (ur_meta u), ref_Namespace = []\<rparr>,
                 rrs_AutoTriggered = True, rrs_DryRun = False\<rparr>,
      rr_Status = \<lparr>rrst_RestoredFrom = None, rrst_Scaling = None, rrst_VolumeRestore = None,
        rrst_GitRevert = None, rrst_StartedAt = None, rrst_CompletedAt = None, rrst_PhaseStartedAt = None,
        rrst_Conditions = []\<rparr>\<rparr>"

definition createAutoRollback :: "('w, 'n) reconciler \<Rightarrow> UpgradeRequest \<Rightarrow> ManagedApp \<Rightarrow> ('w, unit) call" where
  "createAutoRollback R u app = do {
     now \<leftarrow> Now (rc_Client R);
     checked (wrap_err ''creating RollbackRequest''
         (CreateRollbackRequest (rc_Client R) (auto_rollback (rc_Lib R) u app now)))
       (\<lambda>_. ret (Inr ()))
   }"

text \<open>The message of a failure after the commit, and the rollback request if the application asks for it.\<close>

definition rollback_or_message :: "('w, 'n) reconciler \<Rightarrow> UpgradeRequest \<Rightarrow> string \<Rightarrow> ('w, string) state" where
  "rollback_or_message R u message = do {
     app \<leftarrow> getManagedApp R u;
     (case app of
        Inl _ \<Rightarrow> ret (message @ '' - rollback required'')
      | Inr app \<Rightarrow>
          if mas_AutoRollback (ma_Spec app) then do {
            r \<leftarrow> createAutoRollback R u app;
            ret (case r of
                   Inl e \<Rightarrow> message @ '' - rollback required (auto-rollback failed: '' @ Error e @ '')''
                 | Inr _ \<Rightarrow> message @ '' - auto-rollback initiated'')
          }
          else ret (message @ '' - rollback required''))
   }"

definition resume_after_failure :: "('w, 'n) reconciler \<Rightarrow> UpgradeRequest \<Rightarrow> ('w, UpgradeRequest) state" where
  "resume_after_failure R u =
     (if cond_true R u ConditionTypeSuspended then do {
        app \<leftarrow> getManagedApp R u;
        (case app of
           Inl _ \<Rightarrow> ret u
         | Inr app \<Rightarrow> do {
             r \<leftarrow> ResumeKustomization (rc_Client R) (fst (getSuspendTarget app)) (snd (getSuspendTarget app));
             ret (case r of
                    Inl _ \<Rightarrow> u
                  | Inr _ \<Rightarrow> set_condition (rc_Lib R) ConditionTypeSuspended ConditionFalse ''ResumedAfterFailure''
                      ''Kustomization resumed after upgrade failure'' u)
           })
      }
      else ret u)"

definition setFailed :: "('w, 'n) reconciler \<Rightarrow> UpgradeRequest \<Rightarrow> string \<Rightarrow> string \<Rightarrow> ('w, Result) call" where
  "setFailed R u reason message = do {
     u' \<leftarrow> (if cond_true R u ConditionTypeGitCommitted then do {
              message' \<leftarrow> rollback_or_message R u message;
              ret (set_condition (rc_Lib R) ConditionTypeComplete ConditionFalse reason message' u)
            }
            else resume_after_failure R
                   (set_condition (rc_Lib R) ConditionTypeComplete ConditionFalse reason message u));
     checked (StatusUpdateUpgradeRequest (rc_Client R) u') (\<lambda>u''. remove_finalizer R u'')
   }"

text \<open>The most frequent error branch.\<close>

abbreviation or_fail ::
  "('w, 'n) reconciler \<Rightarrow> UpgradeRequest \<Rightarrow> string \<Rightarrow> ('w, 'a) call \<Rightarrow> ('a \<Rightarrow> ('w, Result) call) \<Rightarrow> ('w, Result) call" where
  "or_fail R u reason m k \<equiv> on_err m (\<lambda>e. setFailed R u reason (Error e)) k"

definition setDryRunFailed ::
  "('w, 'n) reconciler \<Rightarrow> UpgradeRequest \<Rightarrow> ManagedApp \<Rightarrow> string \<Rightarrow> ('w, Result) call" where
  "setDryRunFailed R u app message =
     (if cond_true R u ConditionTypeSuspended then do {
        r \<leftarrow> ResumeKustomization (rc_Client R) (fst (getSuspendTarget app)) (snd (getSuspendTarget app));
        setFailed R u ''DryRunFailed''
          (case r of
             Inl _ \<Rightarrow> message @ '' (WARNING: Kustomization may still be suspended '' @ em_dash @ '' manual resume required)''
           | Inr _ \<Rightarrow> message)
      }
      else setFailed R u ''DryRunFailed'' message)"

section \<open>Preflight\<close>

definition check_snapshot_class :: "('w, 'n) reconciler \<Rightarrow> ManagedApp \<Rightarrow> ('w, unit) call" where
  "check_snapshot_class R app =
     (case mas_VolumeSnapshots (ma_Spec app) of
        None \<Rightarrow> ret (Inr ())
      | Some v \<Rightarrow>
          if vsc_VolumeSnapshotClassName v \<noteq> []
          then wrap_err (''VolumeSnapshotClass '' @ go_quote (vsc_VolumeSnapshotClassName v) @ '' not found'')
                 (GetVolumeSnapshotClass (rc_Client R) (vsc_VolumeSnapshotClassName v))
          else ret (Inr ()))"

definition runUpgradePreflight ::
  "('w, 'n) reconciler \<Rightarrow> ManagedApp \<Rightarrow> bool \<Rightarrow> ('w, preflightResult) call" where
  "runUpgradePreflight R app snapshotsEnabled =
     (let C = rc_Client R; ks = kustomization_key app; sk = suspend_key app
      in checked (wrap_err ''invalid suspend target'' (ValidateSuspendTarget C ks (getSuspendRefStruct app))) (\<lambda>_. do {
           rec \<leftarrow> IsReconciled C (nn_Name ks) (nn_Namespace ks);
           susp \<leftarrow> IsSuspended C (nn_Name sk) (nn_Namespace sk);
           (if snapshotsEnabled then
              checked (wrap_err ''PVC discovery failed'' (DiscoverPVCs C (rc_Helm R) app)) (\<lambda>pvcs.
              checked (wrap_err ''workload discovery failed'' (DiscoverWorkloads C (rc_Helm R) app)) (\<lambda>workloads.
              checked (check_snapshot_class R app) (\<lambda>_.
              ret (Inr \<lparr>pf_Workloads = workloads, pf_PVCs = pvcs,
                pf_Summary = [kustomization_summary app (rec = Inr True) @ ''. ''
                   @ itoa (int (length pvcs)) @ '' PVCs to snapshot, ''
                   @ itoa (int (length workloads)) @ '' workloads to scale''],
                pf_Warnings = preflight_warnings app rec susp\<rparr>))))
            else
              ret (Inr \<lparr>pf_Workloads = [], pf_PVCs = [],
                pf_Summary = [kustomization_summary app (rec = Inr True) @ ''. Snapshots disabled''],
                pf_Warnings = preflight_warnings app rec susp\<rparr>))
         }))"

text \<open>\<open>targetVersion := upgrade.Spec.TargetVersion; if nil, app.Status.AvailableUpdate\<close>.\<close>

definition target_version :: "UpgradeRequest \<Rightarrow> ManagedApp \<Rightarrow> VersionInfo option" where
  "target_version u app =
     (case urs_TargetVersion (ur_Spec u) of Some v \<Rightarrow> Some v | None \<Rightarrow> mast_AvailableUpdate (ma_Status app))"

definition runGitDiffPreview ::
  "('w, 'n) reconciler \<Rightarrow> 'w git_manager \<Rightarrow> ManagedApp \<Rightarrow> VersionInfo \<Rightarrow> ('w, string \<times> string \<times> string) call" where
  "runGitDiffPreview R G app targetVersion =
     checked
       (ret (if vi_Chart targetVersion \<noteq> [] then Inr (vi_Chart targetVersion)
             else case vi_Images targetVersion of
                    img # _ \<Rightarrow>
                      if configured_version_path app = []
                      then Inl (ReasonedError ''MissingVersionPath'' ''VersionPath must be specified for image updates'')
                      else Inr (img_Tag img)
                  | [] \<Rightarrow> Inl (ErrorString ''no chart version or images specified'')))
       (\<lambda>newVersion.
     checked (wrap_err (''cannot read Git file '' @ mas_GitPath (ma_Spec app)) (gm_ReadFile G (mas_GitPath (ma_Spec app))))
       (\<lambda>content.
     if configured_version_path app = [] \<and> \<not> IsHelmRelease (rc_Yaml R) content
     then ret (Inl (ReasonedError ''MissingVersionPath'' ''VersionPath must be specified for non-HelmRelease resources''))
     else
       checked (wrap_err (''cannot read version at path '' @ version_path_of app)
           (ret (GetVersion (rc_Yaml R) content (version_path_of app))))
         (\<lambda>currentVersion.
       checked (wrap_err ''version update would produce invalid YAML''
           (ret (UpdateVersion (rc_Yaml R) content (version_path_of app) newVersion)))
         (\<lambda>_. ret (Inr (currentVersion, newVersion, version_path_of app))))))"

text \<open>The preview of \<open>handleDryRun\<close> and \<open>handleSuspend\<close>, skipped when there is no Git manager.\<close>

definition git_preview ::
  "('w, 'n) reconciler \<Rightarrow> ManagedApp \<Rightarrow> VersionInfo \<Rightarrow> ('w, string \<times> string \<times> string) call" where
  "git_preview R app targetVersion =
     (case rc_Git R of
        None \<Rightarrow> ret (Inr ([], [], []))
      | Some G \<Rightarrow> runGitDiffPreview R G app targetVersion)"

definition preflight_checks ::
  "('w, 'n) reconciler \<Rightarrow> UpgradeRequest \<Rightarrow>
     (ManagedApp \<Rightarrow> (string \<times> string \<times> string) \<Rightarrow> preflightResult \<Rightarrow> ('w, Result) call) \<Rightarrow> ('w, Result) call" where
  "preflight_checks R u k =
     or_fail R u ''ManagedAppNotFound'' (getManagedApp R u) (\<lambda>app.
     case target_version u app of
       None \<Rightarrow> setFailed R u ''NoUpdateAvailable'' ''No update available for this app''
     | Some targetVersion \<Rightarrow>
         on_err (git_preview R app targetVersion) (\<lambda>e. setFailed R u (reason_of e) (Error e)) (\<lambda>versions.
         or_fail R u ''PreflightFailed''
           (runUpgradePreflight R app (\<not> urs_SkipSnapshot (ur_Spec u) \<and> snapshots_enabled app)) (\<lambda>preflight.
         k app versions preflight)))"

section \<open>Dry run\<close>

text \<open>A phase that is not done yet: fail if it timed out, else store the request and look again later.\<close>

definition retry_or_fail ::
  "('w, 'n) reconciler \<Rightarrow> UpgradeRequest \<Rightarrow> ManagedApp \<Rightarrow> int \<Rightarrow> string \<Rightarrow> int \<Rightarrow> ('w, Result) call" where
  "retry_or_fail R u app timeout message seconds = do {
     timedOut \<leftarrow> isPhaseTimedOut R u timeout;
     (if timedOut then setDryRunFailed R u app message
      else save_status R u (ResultRequeueAfter (seconds * Second)))
   }"

definition dryRunSuspend ::
  "('w, 'n) reconciler \<Rightarrow> UpgradeRequest \<Rightarrow> ManagedApp \<Rightarrow> string \<Rightarrow> string \<Rightarrow> ('w, Result) call" where
  "dryRunSuspend R u0 app suspendName suspendNS = do {
     u \<leftarrow> setPhaseStartIfNeeded R u0;
     on_err (SuspendKustomization (rc_Client R) suspendName suspendNS)
       (\<lambda>e. retry_or_fail R u app TimeoutSuspend (''Suspend timed out: '' @ Error e) 5)
       (\<lambda>_. do {
          suspended \<leftarrow> IsSuspended (rc_Client R) suspendName suspendNS;
          (if suspended \<noteq> Inr True
           then retry_or_fail R u app TimeoutSuspend ''Suspend verification timed out'' 2
           else save_status R
                  (set_condition (rc_Lib R) ConditionTypeSuspended ConditionTrue ''DryRunSuspended''
                     (''Dry run: suspended '' @ suspendNS @ ''/'' @ suspendName) (resetPhaseStart u))
                  ResultRequeue)
        })
   }"

definition dryRunScaleDown ::
  "('w, 'n) reconciler \<Rightarrow> UpgradeRequest \<Rightarrow> ManagedApp \<Rightarrow> WorkloadInfo list \<Rightarrow> ('w, Result) call" where
  "dryRunScaleDown R u0 app workloads = do {
     u \<leftarrow> setPhaseStartIfNeeded R u0;
     on_err
       (for_each (\<lambda>w. do {
            r \<leftarrow> ScaleDown (rc_Client R) (wi_Kind w) (wi_Name w) (workloadNS w (ma_Namespace app));
            ret (case r of
                   Inl e \<Rightarrow> Inl (''Scale down failed for '' @ wi_Kind w @ ''/'' @ wi_Name w @ '': '' @ Error e)
                 | Inr _ \<Rightarrow> Inr ())
          }) workloads)
       (\<lambda>message. setDryRunFailed R u app message)
       (\<lambda>_.
          on_err (allWorkloadsScaledDown R workloads (ma_Namespace app))
            (\<lambda>e. setDryRunFailed R u app (''Scale down check failed: '' @ Error e))
            (\<lambda>allDown.
               if \<not> allDown then retry_or_fail R u app TimeoutScaleDown ''Scale down timed out'' 5
               else save_status R
                      (set_condition (rc_Lib R) ConditionTypeWorkloadStopped ConditionTrue ''DryRunScaledDown''
                         (''Dry run: scaled down '' @ itoa (int (length workloads)) @ '' workloads'') (resetPhaseStart u))
                      ResultRequeue))
   }"

definition dryRunScaleUp ::
  "('w, 'n) reconciler \<Rightarrow> UpgradeRequest \<Rightarrow> ManagedApp \<Rightarrow> WorkloadInfo list \<Rightarrow> string \<Rightarrow> string \<Rightarrow> ('w, Result) call" where
  "dryRunScaleUp R u0 app workloads suspendName suspendNS =
     on_err (VerifyStillSuspended (rc_Client R) suspendName suspendNS)
       (\<lambda>e. setDryRunFailed R u0 app (''External interference detected before scale-up: '' @ Error e))
       (\<lambda>_. do {
          u \<leftarrow> setPhaseStartIfNeeded R u0;
          on_err
            (for_each (\<lambda>w. do {
                 r \<leftarrow> ScaleUp (rc_Client R) (wi_Kind w) (wi_Name w) (workloadNS w (ma_Namespace app)) 1;
                 ret (case r of
                        Inl e \<Rightarrow> Inl (''Scale up failed for '' @ wi_Kind w @ ''/'' @ wi_Name w @ '': '' @ Error e)
                      | Inr _ \<Rightarrow> Inr ())
               }) workloads)
            (\<lambda>message. setDryRunFailed R u app message)
            (\<lambda>_.
               on_err (allWorkloadsScaledDown R workloads (ma_Namespace app))
                 (\<lambda>e. setDryRunFailed R u app (''Scale up check failed: '' @ Error e))
                 (\<lambda>allDown.
                    if allDown then retry_or_fail R u app TimeoutScaleUp ''Scale up timed out'' 5
                    else
                      on_err (VerifyStillSuspended (rc_Client R) suspendName suspendNS)
                        (\<lambda>e. setDryRunFailed R (resetPhaseStart u) app
                               (''External interference detected after scale-up: '' @ Error e))
                        (\<lambda>_. save_status R
                           (set_condition (rc_Lib R) ConditionTypeSnapshotReady ConditionTrue ''DryRunScaledUp''
                              (''Dry run: scaled up '' @ itoa (int (length workloads)) @ '' workloads'')
                              (resetPhaseStart u))
                           ResultRequeue)))
        })"

definition dryRunResumeAndComplete ::
  "('w, 'n) reconciler \<Rightarrow> UpgradeRequest \<Rightarrow> ManagedApp \<Rightarrow> preflightResult \<Rightarrow> string \<Rightarrow> string \<Rightarrow>
     string \<times> string \<times> string \<Rightarrow> ('w, Result) call" where
  "dryRunResumeAndComplete R u0 app preflight suspendName suspendNS versions = do {
     u \<leftarrow> setPhaseStartIfNeeded R u0;
     on_err (ResumeKustomization (rc_Client R) suspendName suspendNS)
       (\<lambda>e. retry_or_fail R u app TimeoutResume (''Resume timed out: '' @ Error e) 5)
       (\<lambda>_. do {
          suspended \<leftarrow> IsSuspended (rc_Client R) suspendName suspendNS;
          (if suspended \<noteq> Inr False
           then retry_or_fail R u app TimeoutResume ''Resume verification timed out'' 2
           else
             checked (StatusUpdateUpgradeRequest (rc_Client R)
                 (set_condition (rc_Lib R) ConditionTypeComplete ConditionTrue ''DryRunSucceeded''
                    (case versions of (currentVersion, newVersion, versionPath) \<Rightarrow>
                       buildDryRunSummary ''upgrade'' preflight currentVersion newVersion versionPath
                         (mas_GitPath (ma_Spec app)))
                    (resetPhaseStart u)))
               (\<lambda>u'. remove_finalizer R u'))
        })
   }"

definition runDryRunQuiescence ::
  "('w, 'n) reconciler \<Rightarrow> UpgradeRequest \<Rightarrow> ManagedApp \<Rightarrow> preflightResult \<Rightarrow>
     string \<times> string \<times> string \<Rightarrow> ('w, Result) call" where
  "runDryRunQuiescence R u app preflight versions =
     (let suspendName = fst (getSuspendTarget app); suspendNS = snd (getSuspendTarget app)
      in if \<not> cond_true R u ConditionTypeSuspended then dryRunSuspend R u app suspendName suspendNS
         else if length (pf_Workloads preflight) > 0 \<and> \<not> cond_true R u ConditionTypeWorkloadStopped
         then dryRunScaleDown R u app (pf_Workloads preflight)
         else if length (pf_Workloads preflight) > 0 \<and> \<not> cond_true R u ConditionTypeSnapshotReady
         then dryRunScaleUp R u app (pf_Workloads preflight) suspendName suspendNS
         else dryRunResumeAndComplete R u app preflight suspendName suspendNS versions)"

definition handleDryRun :: "('w, 'n) reconciler \<Rightarrow> UpgradeRequest \<Rightarrow> ('w, Result) call" where
  "handleDryRun R u =
     preflight_checks R u (\<lambda>app versions preflight. runDryRunQuiescence R u app preflight versions)"

section \<open>The phases of an upgrade\<close>

definition snapshots_skipped :: "UpgradeRequest \<Rightarrow> ManagedApp \<Rightarrow> bool" where
  "snapshots_skipped u app \<longleftrightarrow> urs_SkipSnapshot (ur_Spec u) \<or> \<not> snapshots_enabled app"

definition handleSuspend :: "('w, 'n) reconciler \<Rightarrow> UpgradeRequest \<Rightarrow> ('w, Result) call" where
  "handleSuspend R u =
     preflight_checks R u (\<lambda>app _ _.
       let suspendName = fst (getSuspendTarget app); suspendNS = snd (getSuspendTarget app)
       in or_fail R u ''SuspendFailed'' (SuspendKustomization (rc_Client R) suspendName suspendNS) (\<lambda>_.
          let u1 = set_condition (rc_Lib R) ConditionTypeSuspended ConditionTrue ''KustomizationSuspended''
                     (''Suspended '' @ suspendNS @ ''/'' @ suspendName) u;
              u2 = (if snapshots_skipped u app
                    then set_condition (rc_Lib R) ConditionTypeSnapshotReady ConditionTrue ''SnapshotsSkipped''
                           ''Snapshots disabled or not configured'' u1
                    else u1)
          in save_status R u2 ResultRequeue))"

definition skip_scale_down ::
  "('w, 'n) reconciler \<Rightarrow> UpgradeRequest \<Rightarrow> string \<Rightarrow> string \<Rightarrow> ('w, (goerror + Result) + UpgradeRequest) state" where
  "skip_scale_down R u reason message =
     on_err (StatusUpdateUpgradeRequest (rc_Client R)
         (set_condition (rc_Lib R) ConditionTypeWorkloadStopped ConditionTrue reason message u))
       (\<lambda>e. ret (Inl (Inl e))) (\<lambda>u'. ret (Inr u'))"

definition set_scaling :: "WorkloadScalingInfo list \<Rightarrow> UpgradeRequest \<Rightarrow> UpgradeRequest" where
  "set_scaling ws u =
     u\<lparr>ur_Status := (ur_Status u)\<lparr>urst_Scaling :=
        Some ((case urst_Scaling (ur_Status u) of None \<Rightarrow> \<lparr>ss_Workloads = [], ss_ScaledDownAt = None\<rparr> | Some s \<Rightarrow> s)
          \<lparr>ss_Workloads := ws\<rparr>)\<rparr>\<rparr>"

definition set_scaled_down_at :: "time \<Rightarrow> UpgradeRequest \<Rightarrow> UpgradeRequest" where
  "set_scaled_down_at now u =
     u\<lparr>ur_Status := (ur_Status u)\<lparr>urst_Scaling :=
        map_option (\<lambda>s. s\<lparr>ss_ScaledDownAt := Some now\<rparr>) (urst_Scaling (ur_Status u))\<rparr>\<rparr>"

definition handleScaleDown ::
  "('w, 'n) reconciler \<Rightarrow> UpgradeRequest \<Rightarrow> ('w, (goerror + Result) + UpgradeRequest) state" where
  "handleScaleDown R u0 = do {
     u \<leftarrow> setPhaseStartIfNeeded R u0;
     on_err (getManagedApp R u) (\<lambda>e. stop_with (setFailed R u ''ManagedAppNotFound'' (Error e))) (\<lambda>app.
     if snapshots_skipped u app
     then skip_scale_down R u ''SnapshotsDisabled'' ''Workload scale-down skipped (snapshots disabled)''
     else
       on_err (DiscoverWorkloads (rc_Client R) (rc_Helm R) app)
         (\<lambda>e. stop_with (setFailed R u ''WorkloadDiscoveryFailed'' (Error e))) (\<lambda>workloads.
       if length workloads = 0
       then skip_scale_down R u ''NoWorkloadsFound'' ''No workloads discovered that mount RWO PVCs''
       else
         on_err (scale_down_all R app workloads) (\<lambda>message. stop_with (setFailed R u ''ScaleDownFailed'' message)) (\<lambda>scaled.
         on_err (all_of (\<lambda>w. IsScaledDown (rc_Client R) (rc_Lib R) (wsi_Kind w) (wsi_Name w) (wsi_Namespace w)) scaled)
           (\<lambda>e. stop_with (setFailed R (set_scaling scaled u) ''ScaleDownCheckFailed'' (Error e))) (\<lambda>allScaledDown.
         if \<not> allScaledDown then do {
           timedOut \<leftarrow> isPhaseTimedOut R (set_scaling scaled u) TimeoutScaleDown;
           stop_with
             (if timedOut
              then setFailed R (set_scaling scaled u) ''ScaleDownTimeout'' ''Workloads did not scale down within timeout''
              else save_status R (set_scaling scaled u) (ResultRequeueAfter (5 * Second)))
         }
         else do {
           now \<leftarrow> Now (rc_Client R);
           stop_with (save_status R
             (set_condition (rc_Lib R) ConditionTypeWorkloadStopped ConditionTrue ''WorkloadsStopped''
                (''Scaled down '' @ itoa (int (length scaled)) @ '' workloads'')
                (set_scaled_down_at now (resetPhaseStart (set_scaling scaled u))))
             ResultRequeue)
         }))))
   }"

definition set_snapshot :: "SnapshotStatus \<Rightarrow> UpgradeRequest \<Rightarrow> UpgradeRequest" where
  "set_snapshot s u = u\<lparr>ur_Status := (ur_Status u)\<lparr>urst_Snapshot := Some s\<rparr>\<rparr>"

text \<open>The readiness check of \<open>handleSnapshotting\<close> on the recorded snapshots.\<close>

definition check_snapshots :: "('w, 'n) reconciler \<Rightarrow> UpgradeRequest \<Rightarrow> ManagedApp \<Rightarrow> ('w, Result) call" where
  "check_snapshots R u app =
     (case urst_Snapshot (ur_Status u) of
        None \<Rightarrow> ret (Inl nil_deref)
      | Some snap \<Rightarrow>
          or_fail R u ''SnapshotCheckFailed''
            (all_of (\<lambda>s. IsSnapshotReady (rc_Client R) (psi_SnapshotName s) (ma_Namespace app)) (sns_PVCSnapshots snap))
            (\<lambda>allReady.
               if \<not> allReady then do {
                 timedOut \<leftarrow> isPhaseTimedOut R u TimeoutSnapshot;
                 (if timedOut then setFailed R u ''SnapshotTimeout'' ''Snapshots did not become ready within timeout''
                  else ret (Inr (ResultRequeueAfter (10 * Second))))
               }
               else do {
                 now \<leftarrow> Now (rc_Client R);
                 save_status R
                   (set_condition (rc_Lib R) ConditionTypeSnapshotReady ConditionTrue ''SnapshotsReady''
                      (itoa (int (length (sns_PVCSnapshots snap))) @ '' snapshots ready'')
                      (set_snapshot (snap\<lparr>sns_ReadyAt := Some now\<rparr>) (resetPhaseStart u)))
                   ResultRequeue
               }))"

definition handleSnapshotting :: "('w, 'n) reconciler \<Rightarrow> UpgradeRequest \<Rightarrow> ('w, Result) call" where
  "handleSnapshotting R u0 = do {
     u \<leftarrow> setPhaseStartIfNeeded R u0;
     or_fail R u ''ManagedAppNotFound'' (getManagedApp R u) (\<lambda>app.
     if length (recorded_snapshots u) = 0 then
       or_fail R u ''PVCDiscoveryFailed'' (DiscoverPVCs (rc_Client R) (rc_Helm R) app) (\<lambda>discoveredPVCs.
       if length discoveredPVCs = 0 then
         save_status R
           (set_condition (rc_Lib R) ConditionTypeSnapshotReady ConditionTrue ''NoPVCsFound''
              ''No RWO PVCs discovered to snapshot'' u)
           ResultRequeue
       else
         (case mas_VolumeSnapshots (ma_Spec app) of
            None \<Rightarrow> ret (Inl nil_deref)
          | Some v \<Rightarrow>
              or_fail R u ''SnapshotCreationFailed''
                (CreateSnapshotsForUpgrade (rc_Client R) (rc_Lib R) (ma_Name app) (ma_Namespace app)
                   (map (\<lambda>pvc. \<lparr>pvcref_Name = pi_Name pvc, pvcref_Namespace = pi_Namespace pvc\<rparr>) discoveredPVCs)
                   (vsc_VolumeSnapshotClassName v))
                (\<lambda>snapshots. do {
                   now \<leftarrow> Now (rc_Client R);
                   checked (StatusUpdateUpgradeRequest (rc_Client R)
                       (set_snapshot \<lparr>sns_PVCSnapshots =
                            map (\<lambda>s. \<lparr>psi_PVCName = sni_PVCName s, psi_SnapshotName = sni_SnapshotName s\<rparr>) snapshots,
                          sns_CreatedAt = Some now, sns_ReadyAt = None\<rparr> u))
                     (\<lambda>u'. check_snapshots R u' app)
                 })))
     else check_snapshots R u app)
   }"

text \<open>
  The version strings of \<open>handleCommitting\<close>: the new version, the current one (empty if unknown),
  or the reason and message of the failure.
\<close>

definition commit_versions :: "ManagedApp \<Rightarrow> VersionInfo \<Rightarrow> (string \<times> string) + (string \<times> string)" where
  "commit_versions app targetVersion =
     (if vi_Chart targetVersion \<noteq> [] then
        Inr (vi_Chart targetVersion,
             case mast_CurrentVersion (ma_Status app) of None \<Rightarrow> [] | Some v \<Rightarrow> vi_Chart v)
      else case vi_Images targetVersion of
             img # _ \<Rightarrow>
               if configured_version_path app = []
               then Inl (''MissingVersionPath'',
                      ''VersionPath must be specified in ManagedApp.spec.versionPolicy for image updates'')
               else Inr (img_Tag img,
                      case mast_CurrentVersion (ma_Status app) of None \<Rightarrow> []
                      | Some v \<Rightarrow> (case vi_Images v of [] \<Rightarrow> [] | cur # _ \<Rightarrow> img_Tag cur))
           | [] \<Rightarrow> Inl (''InvalidTargetVersion'', ''No chart version or images specified''))"

definition committed :: "klib \<Rightarrow> UpgradeRequest \<Rightarrow> ManagedApp \<Rightarrow> VersionInfo \<Rightarrow> string \<Rightarrow> time \<Rightarrow> UpgradeRequest" where
  "committed L u app targetVersion sha now =
     set_condition L ConditionTypeGitCommitted ConditionTrue ''Committed'' (''Commit '' @ sha)
       (u\<lparr>ur_Status := (ur_Status u)\<lparr>urst_Upgrade :=
           Some \<lparr>us_PreviousVersion = mast_CurrentVersion (ma_Status app), us_NewVersion = Some targetVersion,
                 us_GitCommit = sha, us_StartedAt = Some now, us_CompletedAt = None\<rparr>\<rparr>\<rparr>)"

definition handleCommitting :: "('w, 'n) reconciler \<Rightarrow> UpgradeRequest \<Rightarrow> ('w, Result) call" where
  "handleCommitting R u =
     or_fail R u ''ManagedAppNotFound'' (getManagedApp R u) (\<lambda>app.
     or_fail R u ''SuspendVerificationFailed''
       (VerifyStillSuspended (rc_Client R) (fst (getSuspendTarget app)) (snd (getSuspendTarget app))) (\<lambda>_.
     case target_version u app of
       None \<Rightarrow> ret (Inl nil_deref)
     | Some targetVersion \<Rightarrow>
       (case commit_versions app targetVersion of
          Inl (reason, message) \<Rightarrow> setFailed R u reason message
        | Inr (newVersion, currentVersion) \<Rightarrow>
          (case rc_Git R of
             None \<Rightarrow> ret (Inl nil_deref)
           | Some G \<Rightarrow>
             or_fail R u ''GitReadFailed'' (gm_ReadFile G (mas_GitPath (ma_Spec app))) (\<lambda>content.
             if configured_version_path app = [] \<and> \<not> IsHelmRelease (rc_Yaml R) content
             then setFailed R u ''MissingVersionPath''
                    ''VersionPath must be specified in ManagedApp.spec.versionPolicy for non-HelmRelease resources''
             else
               or_fail R u ''YAMLUpdateFailed'' (ret (UpdateVersion (rc_Yaml R) content (version_path_of app) newVersion))
                 (\<lambda>newContent.
               or_fail R u ''GitCommitFailed''
                 (gm_CommitFile G \<lparr>fc_Path = mas_GitPath (ma_Spec app), fc_Content = newContent\<rparr>
                    (FormatCommitMessage (ma_Name app) currentVersion newVersion
                       (map psi_SnapshotName (recorded_snapshots u))))
                 (\<lambda>commitInfo. do {
                    now \<leftarrow> Now (rc_Client R);
                    save_status R (committed (rc_Lib R) u app targetVersion (ci_SHA commitInfo) now) ResultRequeue
                  })))))))"

definition handleReconciling :: "('w, 'n) reconciler \<Rightarrow> UpgradeRequest \<Rightarrow> ('w, Result) call" where
  "handleReconciling R u0 = do {
     u \<leftarrow> setPhaseStartIfNeeded R u0;
     or_fail R u ''ManagedAppNotFound'' (getManagedApp R u) (\<lambda>app.
     let suspendName = fst (getSuspendTarget app); suspendNS = snd (getSuspendTarget app);
         u1 = set_condition (rc_Lib R) ConditionTypeSuspended ConditionFalse ''KustomizationResumed''
                (''Resumed '' @ suspendNS @ ''/'' @ suspendName) u
     in or_fail R u ''ResumeFailed'' (ResumeKustomization (rc_Client R) suspendName suspendNS) (\<lambda>_.
        or_fail R u1 ''ReconciliationCheckFailed''
          (IsReconciled (rc_Client R) (nn_Name (kustomization_key app)) (nn_Namespace (kustomization_key app)))
          (\<lambda>reconciled.
             if \<not> reconciled then do {
               timedOut \<leftarrow> isPhaseTimedOut R u1 TimeoutReconcile;
               (if timedOut
                then setFailed R u1 ''ReconciliationTimeout'' ''Kustomization did not reconcile within timeout''
                else save_status R u1 (ResultRequeueAfter (10 * Second)))
             }
             else save_status R
                    (set_condition (rc_Lib R) ConditionTypeReconciled ConditionTrue ''ReconciliationSucceeded''
                       ''Flux reconciled the changes'' (resetPhaseStart u1))
                    ResultRequeue)))
   }"

definition health_passed :: "klib \<Rightarrow> string \<Rightarrow> time \<Rightarrow> UpgradeRequest \<Rightarrow> UpgradeRequest" where
  "health_passed L message now u =
     set_condition L ConditionTypeHealthy ConditionTrue ''HealthCheckPassed'' message
       (u\<lparr>ur_Status := (ur_Status u)\<lparr>
           urst_HealthCheck := Some \<lparr>hcs_Status = ''Passed'', hcs_CheckedAt = Some now, hcs_Message = message\<rparr>,
           urst_Upgrade := map_option (\<lambda>up. up\<lparr>us_CompletedAt := Some now\<rparr>) (urst_Upgrade (ur_Status u))\<rparr>\<rparr>)"

definition handleHealthChecking :: "('w, 'n) reconciler \<Rightarrow> UpgradeRequest \<Rightarrow> ('w, Result) call" where
  "handleHealthChecking R u0 = do {
     u \<leftarrow> setPhaseStartIfNeeded R u0;
     or_fail R u ''ManagedAppNotFound'' (getManagedApp R u) (\<lambda>app.
     or_fail R u ''HealthCheckError'' (CheckHealth (rc_Client R) (rc_Helm R) app) (\<lambda>healthResult.
     if \<not> hr_Healthy healthResult then do {
       timedOut \<leftarrow> isPhaseTimedOut R u (health_timeout (rc_Lib R) app);
       (if timedOut
        then setFailed R u ''HealthCheckTimeout''
               (''App did not become healthy within timeout: '' @ hr_Message healthResult)
        else ret (Inr (ResultRequeueAfter (10 * Second))))
     }
     else do {
       now \<leftarrow> Now (rc_Client R);
       save_status R (health_passed (rc_Lib R) (hr_Message healthResult) now u) ResultRequeue
     }))
   }"

definition upgraded_app :: "klib \<Rightarrow> UpgradeStatus \<Rightarrow> time \<Rightarrow> ManagedApp \<Rightarrow> ManagedApp" where
  "upgraded_app L up now app =
     app\<lparr>ma_Status := (ma_Status app)\<lparr>
        mast_CurrentVersion := us_NewVersion up,
        mast_AvailableUpdate := None,
        mast_LastUpgrade := Some \<lparr>ui_FromVersion = us_PreviousVersion up, ui_ToVersion = us_NewVersion up,
                                   ui_Timestamp = Some now, ui_Status = ''Succeeded''\<rparr>,
        mast_Conditions := SetStatusCondition L (mast_Conditions (ma_Status app))
          \<lparr>c_Type = ConditionTypeUpdateAvailable, c_Status = ConditionFalse, c_Reason = ''UpgradeCompleted'',
           c_Message = ''No pending updates'', c_ObservedGeneration = om_Generation (ma_meta app)\<rparr>\<rparr>\<rparr>"

text \<open>Returns the object behind the \<open>app\<close> pointer after the call; the error is only logged.\<close>

definition updateManagedAppAfterUpgrade ::
  "('w, 'n) reconciler \<Rightarrow> ManagedApp \<Rightarrow> UpgradeRequest \<Rightarrow> ('w, ManagedApp) state" where
  "updateManagedAppAfterUpgrade R app u =
     (case urst_Upgrade (ur_Status u) of
        None \<Rightarrow> ret app
      | Some up \<Rightarrow> do {
          now \<leftarrow> Now (rc_Client R);
          r \<leftarrow> StatusUpdateManagedApp (rc_Client R) (upgraded_app (rc_Lib R) up now app);
          ret (case r of Inl _ \<Rightarrow> upgraded_app (rc_Lib R) up now app | Inr app' \<Rightarrow> app')
        })"

definition max_snapshots :: "VolumeSnapshotConfig \<Rightarrow> int" where
  "max_snapshots v =
     (case vsc_RetentionPolicy v of
        None \<Rightarrow> DefaultMaxSnapshotCount
      | Some p \<Rightarrow> (case rp_MaxCount p of None \<Rightarrow> DefaultMaxSnapshotCount | Some n \<Rightarrow> n))"

text \<open>Errors are only logged; a panic is not.\<close>

definition applySnapshotRetention :: "('w, 'n) reconciler \<Rightarrow> ManagedApp \<Rightarrow> VolumeSnapshotConfig \<Rightarrow> ('w, unit) call" where
  "applySnapshotRetention R app v = do {
     r \<leftarrow> ApplyRetentionPolicy (rc_Client R) (ma_Name app) (ma_Namespace app) (max_snapshots v);
     ret (case r of Inl (Panic m) \<Rightarrow> Inl (Panic m) | _ \<Rightarrow> Inr ())
   }"

definition completed :: "klib \<Rightarrow> UpgradeRequest \<Rightarrow> UpgradeRequest" where
  "completed L u =
     (let versionStr = (case urst_Upgrade (ur_Status u) of
            None \<Rightarrow> ''unknown''
          | Some up \<Rightarrow> (case us_NewVersion up of None \<Rightarrow> ''unknown'' | Some v \<Rightarrow> vi_Chart v))
      in set_condition L ConditionTypeComplete ConditionTrue ''UpgradeSucceeded'' (''Upgraded to '' @ versionStr)
           (set_condition L ConditionTypeSuspended ConditionFalse ''KustomizationResumed''
              ''Kustomization resumed after upgrade completion'' u))"

definition handleCompleted :: "('w, 'n) reconciler \<Rightarrow> UpgradeRequest \<Rightarrow> ('w, Result) call" where
  "handleCompleted R u =
     or_fail R u ''ManagedAppNotFound'' (getManagedApp R u) (\<lambda>app. do {
       app' \<leftarrow> updateManagedAppAfterUpgrade R app (completed (rc_Lib R) u);
       checked
         (case mas_VolumeSnapshots (ma_Spec app') of
            None \<Rightarrow> ret (Inr ())
          | Some v \<Rightarrow> if vsc_Enabled v then applySnapshotRetention R app' v else ret (Inr ()))
         (\<lambda>_.
       checked (StatusUpdateUpgradeRequest (rc_Client R) (completed (rc_Lib R) u)) (\<lambda>u'.
       remove_finalizer R u'))
     })"

section \<open>Reconcile\<close>

text \<open>The phases after the scale-down, in the order of the checks.\<close>

definition later_phases :: "('w, 'n) reconciler \<Rightarrow> UpgradeRequest \<Rightarrow> ('w, Result) call" where
  "later_phases R u =
     (if \<not> cond_true R u ConditionTypeSnapshotReady then handleSnapshotting R u
      else if \<not> cond_true R u ConditionTypeGitCommitted then handleCommitting R u
      else if \<not> cond_true R u ConditionTypeReconciled then handleReconciling R u
      else if \<not> cond_true R u ConditionTypeHealthy then handleHealthChecking R u
      else handleCompleted R u)"

definition phase_step :: "('w, 'n) reconciler \<Rightarrow> UpgradeRequest \<Rightarrow> ('w, Result) call" where
  "phase_step R u =
     (if urs_DryRun (ur_Spec u) then handleDryRun R u
      else if FindStatusCondition (rc_Lib R) (ur_Conditions u) ConditionTypeSuspended = None then handleSuspend R u
      else if \<not> cond_true R u ConditionTypeWorkloadStopped
      then on_err (handleScaleDown R u) (\<lambda>result. ret result) (\<lambda>u'. later_phases R u')
      else later_phases R u)"

definition terminal :: "('w, 'n) reconciler \<Rightarrow> UpgradeRequest \<Rightarrow> bool" where
  "terminal R u \<longleftrightarrow>
     cond_true R u ConditionTypeComplete \<or>
     (case FindStatusCondition (rc_Lib R) (ur_Conditions u) ConditionTypeComplete of
        None \<Rightarrow> False | Some cond \<Rightarrow> c_Status cond = ConditionFalse)"

definition Reconcile :: "('w, 'n) reconciler \<Rightarrow> NamespacedName \<Rightarrow> ('w, Result) call" where
  "Reconcile R req =
     on_err (GetUpgradeRequest (rc_Client R) req)
       (\<lambda>e. ret (case IgnoreNotFound (rc_Lib R) e of None \<Rightarrow> Inr ResultDone | Some e' \<Rightarrow> Inl e'))
       (\<lambda>u.
          if om_DeletionTimestamp (ur_meta u) \<noteq> None then remove_finalizer R u
          else if \<not> ContainsFinalizer (rc_Lib R) (om_Finalizers (ur_meta u)) OperationFinalizer
          then checked (UpdateUpgradeRequest (rc_Client R)
                 (u\<lparr>ur_meta := (ur_meta u)\<lparr>om_Finalizers :=
                     AddFinalizer (rc_Lib R) (om_Finalizers (ur_meta u)) OperationFinalizer\<rparr>\<rparr>))
               (\<lambda>_. ret (Inr ResultRequeue))
          else if terminal R u then ret (Inr ResultDone)
          else phase_step R u)"

end
