(* ===== verification/UpgradeCalls.thy ===== *)
theory UpgradeCalls
  imports Upgrade
begin

text \<open>
  Which calls the upgrade controller makes. The locale \<open>upgrade_calls\<close> is a reconciler whose
  bookkeeping calls (reads, status and finalizer writes, suspending, scaling) keep an invariant;
  in it every handler is shown to keep the invariant too, with the calls that matter (commits,
  snapshots, rollback requests, deletions) as explicit premises of the handlers that make them.
\<close>

lemma set_phase_start_conditions [simp]: "ur_Conditions (set_phase_start t u) = ur_Conditions u"
  by (simp add: set_phase_start_def)

lemma set_phase_start_spec [simp]:
  "ur_Spec (set_phase_start t u) = ur_Spec u" "ur_meta (set_phase_start t u) = ur_meta u"
  by (simp_all add: set_phase_start_def)

lemma resetPhaseStart_conditions [simp]: "ur_Conditions (resetPhaseStart u) = ur_Conditions u"
  by (simp add: resetPhaseStart_def)

lemma set_scaling_conditions [simp]:
  "ur_Conditions (set_scaling ws u) = ur_Conditions u" "ur_Conditions (set_scaled_down_at t u) = ur_Conditions u"
  "ur_Conditions (set_snapshot s u) = ur_Conditions u"
  by (simp_all add: set_scaling_def set_scaled_down_at_def set_snapshot_def)

lemma set_condition_conditions:
  "ur_Conditions (set_condition L t s r m u) = SetStatusCondition L (ur_Conditions u)
     \<lparr>c_Type = t, c_Status = s, c_Reason = r, c_Message = m, c_ObservedGeneration = om_Generation (ur_meta u)\<rparr>"
  by (simp add: set_condition_def)

text \<open>A request whose conditions and spec are those of another one: only bookkeeping fields differ.\<close>

definition same_request :: "UpgradeRequest \<Rightarrow> UpgradeRequest \<Rightarrow> bool" where
  "same_request u v \<longleftrightarrow> ur_Conditions v = ur_Conditions u \<and> ur_Spec v = ur_Spec u \<and> ur_meta v = ur_meta u"

locale upgrade_calls = rec_inv +
  assumes got_ks: "P (GotKustomization k r)" and updated_ks: "P (UpdatedKustomization x)"
    and updated_ur: "P (UpdatedUpgradeRequest u)" and wrote_status: "P (WroteUpgradeStatus u)"
    and patched_dep: "P (PatchedDeployment d)" and patched_sts: "P (PatchedStatefulSet st)"
begin

lemmas basic = got_ks updated_ks updated_ur wrote_status patched_dep patched_sts

lemmas basic_keeps = read_keeps keeps_UpdateUpgradeRequest [OF updated_ur]
  keeps_StatusUpdateUpgradeRequest [OF wrote_status] keeps_flux_reads [OF got_ks]
  keeps_flux_writes [OF got_ks updated_ks] keeps_scaler_reads keeps_scaler_writes [OF patched_dep patched_sts]
  keeps_snapshot_reads keeps_DiscoverPVCs [OF got_ks] keeps_DiscoverWorkloads [OF got_ks]
  keeps_CheckHealth [OF got_ks] keeps_allWorkloadsScaledDown

lemma keeps_setPhaseStart: "keeps I (setPhaseStartIfNeeded R u) (same_request u)"
  unfolding setPhaseStartIfNeeded_def
  by (intro keeps_rule basic_keeps) (simp_all add: same_request_def)

lemma keeps_isPhaseTimedOut: "keeps I (isPhaseTimedOut R u t) (\<lambda>_. True)"
  unfolding isPhaseTimedOut_def by (intro keeps_rule TrueI basic_keeps)

lemma keeps_save_status: "keeps I (save_status R u res) (\<lambda>_. True)"
  unfolding save_status_def by (intro keeps_rule TrueI basic_keeps)

lemma keeps_remove_finalizer: "keeps I (remove_finalizer R u) (\<lambda>_. True)"
  unfolding remove_finalizer_def by (intro keeps_rule TrueI basic_keeps)

lemma keeps_getManagedApp: "keeps I (getManagedApp R u) (\<lambda>_. True)"
  unfolding getManagedApp_def by (intro basic_keeps)

lemmas step_keeps = keeps_isPhaseTimedOut keeps_save_status keeps_remove_finalizer keeps_getManagedApp

lemma keeps_setFailed:
  assumes "\<And>rr. cond_true R u ConditionTypeGitCommitted \<Longrightarrow> P (CreatedRollbackRequest rr)"
  shows "keeps I (setFailed R u reason msg) (\<lambda>_. True)"
  unfolding setFailed_def rollback_or_message_def createAutoRollback_def resume_after_failure_def
  by (intro keeps_rule TrueI basic_keeps step_keeps keeps_CreateRollbackRequest assms)

lemma keeps_setDryRunFailed:
  assumes "\<And>rr. cond_true R u ConditionTypeGitCommitted \<Longrightarrow> P (CreatedRollbackRequest rr)"
  shows "keeps I (setDryRunFailed R u app msg) (\<lambda>_. True)"
  unfolding setDryRunFailed_def
  by (intro keeps_rule TrueI basic_keeps keeps_setFailed assms)

lemma keeps_retry_or_fail:
  assumes "\<And>rr. cond_true R u ConditionTypeGitCommitted \<Longrightarrow> P (CreatedRollbackRequest rr)"
  shows "keeps I (retry_or_fail R u app t msg n) (\<lambda>_. True)"
  unfolding retry_or_fail_def
  by (intro keeps_rule TrueI step_keeps keeps_setDryRunFailed assms)

lemma keeps_git_preview: "keeps I (git_preview R app v) (\<lambda>_. True)"
  unfolding git_preview_def runGitDiffPreview_def
  by (intro keeps_rule TrueI keeps_git_read)

lemma keeps_runUpgradePreflight: "keeps I (runUpgradePreflight R app b) (\<lambda>_. True)"
  unfolding runUpgradePreflight_def check_snapshot_class_def Let_def
  by (intro keeps_rule TrueI basic_keeps)

lemma keeps_preflight_checks:
  assumes "\<And>rr. cond_true R u ConditionTypeGitCommitted \<Longrightarrow> P (CreatedRollbackRequest rr)"
    and "\<And>app versions pf. keeps I (k app versions pf) (\<lambda>_. True)"
  shows "keeps I (preflight_checks R u k) (\<lambda>_. True)"
  unfolding preflight_checks_def
  by (intro keeps_rule TrueI step_keeps keeps_git_preview keeps_runUpgradePreflight keeps_setFailed assms)

lemmas fail_keeps = keeps_setFailed keeps_setDryRunFailed keeps_retry_or_fail

lemma keeps_runDryRunQuiescence:
  assumes "\<And>rr. cond_true R u ConditionTypeGitCommitted \<Longrightarrow> P (CreatedRollbackRequest rr)"
  shows "keeps I (runDryRunQuiescence R u app pf vs) (\<lambda>_. True)"
proof -
  note phase = keeps_bind_res [OF keeps_setPhaseStart]
  have 1: "keeps I (dryRunSuspend R u app n ns) (\<lambda>_. True)" for n ns
    unfolding dryRunSuspend_def
    by (rule phase, intro keeps_rule TrueI basic_keeps step_keeps fail_keeps)
      (auto simp: same_request_def intro: assms)
  have 2: "keeps I (dryRunScaleDown R u app ws) (\<lambda>_. True)" for ws
    unfolding dryRunScaleDown_def
    by (rule phase, intro keeps_rule TrueI basic_keeps step_keeps fail_keeps)
      (auto simp: same_request_def intro: assms)
  have 3: "keeps I (dryRunScaleUp R u app ws n ns) (\<lambda>_. True)" for ws n ns
    unfolding dryRunScaleUp_def
    by (rule keeps_on_err, rule keeps_flux_reads(5) [OF got_ks], rule keeps_setDryRunFailed, erule assms,
        rule phase, intro keeps_rule TrueI basic_keeps step_keeps fail_keeps)
      (auto simp: same_request_def intro: assms)
  have 4: "keeps I (dryRunResumeAndComplete R u app pf n ns vs) (\<lambda>_. True)" for n ns
    unfolding dryRunResumeAndComplete_def
    by (rule phase, intro keeps_rule TrueI basic_keeps step_keeps fail_keeps)
      (auto simp: same_request_def intro: assms)
  show ?thesis
    unfolding runDryRunQuiescence_def Let_def by (intro keeps_rule 1 2 3 4)
qed

lemma keeps_handleDryRun:
  assumes "\<And>rr. cond_true R u ConditionTypeGitCommitted \<Longrightarrow> P (CreatedRollbackRequest rr)"
  shows "keeps I (handleDryRun R u) (\<lambda>_. True)"
  unfolding handleDryRun_def by (intro keeps_preflight_checks keeps_runDryRunQuiescence assms)

lemma keeps_handleSuspend:
  assumes "\<And>rr. cond_true R u ConditionTypeGitCommitted \<Longrightarrow> P (CreatedRollbackRequest rr)"
  shows "keeps I (handleSuspend R u) (\<lambda>_. True)"
  unfolding handleSuspend_def Let_def
  by (intro keeps_preflight_checks keeps_rule TrueI basic_keeps step_keeps fail_keeps assms)

lemma keeps_handleScaleDown:
  assumes "\<And>rr. cond_true R u ConditionTypeGitCommitted \<Longrightarrow> P (CreatedRollbackRequest rr)"
  shows "keeps I (handleScaleDown R u) (\<lambda>_. True)"
  unfolding handleScaleDown_def stop_with_def skip_scale_down_def scale_down_all_def
  by (rule keeps_bind_res [OF keeps_setPhaseStart],
      intro keeps_rule TrueI basic_keeps step_keeps fail_keeps)
    (auto simp: same_request_def intro: assms)

lemma keeps_handleSnapshotting:
  assumes "\<And>rr. P (CreatedRollbackRequest rr)" and "\<And>v. P (CreatedVolumeSnapshot v)"
  shows "keeps I (handleSnapshotting R u) (\<lambda>_. True)"
  unfolding handleSnapshotting_def check_snapshots_def
  by (rule keeps_bind_res [OF keeps_setPhaseStart],
      intro keeps_rule TrueI basic_keeps step_keeps fail_keeps keeps_CreateSnapshotsForUpgrade assms)

lemma keeps_handleReconciling:
  assumes "\<And>rr. P (CreatedRollbackRequest rr)"
  shows "keeps I (handleReconciling R u) (\<lambda>_. True)"
  unfolding handleReconciling_def Let_def
  by (rule keeps_bind_res [OF keeps_setPhaseStart],
      intro keeps_rule TrueI basic_keeps step_keeps fail_keeps assms)

lemma keeps_handleHealthChecking:
  assumes "\<And>rr. P (CreatedRollbackRequest rr)"
  shows "keeps I (handleHealthChecking R u) (\<lambda>_. True)"
  unfolding handleHealthChecking_def
  by (rule keeps_bind_res [OF keeps_setPhaseStart],
      intro keeps_rule TrueI basic_keeps step_keeps fail_keeps assms)

lemma keeps_handleCompleted:
  assumes "\<And>rr. P (CreatedRollbackRequest rr)" and "\<And>a. P (WroteManagedAppStatus a)"
    and "\<And>k. P (DeletedVolumeSnapshot k)"
  shows "keeps I (handleCompleted R u) (\<lambda>_. True)"
  unfolding handleCompleted_def updateManagedAppAfterUpgrade_def applySnapshotRetention_def
  by (intro keeps_rule TrueI basic_keeps step_keeps fail_keeps keeps_StatusUpdateManagedApp
      keeps_ApplyRetentionPolicy assms)

text \<open>The whole reconcile, given what holds of the commit handler.\<close>

lemma keeps_later_phases:
  assumes "\<And>rr. P (CreatedRollbackRequest rr)" and "\<And>a. P (WroteManagedAppStatus a)"
    and "\<And>k. P (DeletedVolumeSnapshot k)" and "\<And>v. P (CreatedVolumeSnapshot v)"
    and "\<And>u. keeps I (handleCommitting R u) (\<lambda>_. True)"
  shows "keeps I (later_phases R u) (\<lambda>_. True)"
  unfolding later_phases_def
  by (intro keeps_if keeps_handleSnapshotting keeps_handleReconciling keeps_handleHealthChecking
      keeps_handleCompleted assms)

lemma keeps_Reconcile:
  assumes "\<And>rr. P (CreatedRollbackRequest rr)" and "\<And>a. P (WroteManagedAppStatus a)"
    and "\<And>k. P (DeletedVolumeSnapshot k)" and "\<And>v. P (CreatedVolumeSnapshot v)"
    and "\<And>u. keeps I (handleCommitting R u) (\<lambda>_. True)"
  shows "keeps I (Reconcile R req) (\<lambda>_. True)"
  unfolding Reconcile_def phase_step_def
  by (intro keeps_rule TrueI basic_keeps step_keeps keeps_handleDryRun keeps_handleSuspend
      keeps_handleScaleDown keeps_later_phases assms)

end

end
