(* ===== verification/Waits.thy ===== *)
theory Waits
  imports Snapshot Workload Flux
begin

text \<open>
  The blocking wait functions return: under a clock that advances while the program sleeps and
  that no API call sets back (\<open>monotone_clock\<close>), every wait loop of the snapshot manager, the scaler
  and the Flux helper gives a result within \<open>poll_fuel\<close> rounds of its timeout, whatever the
  API server answers.
\<close>

lemma keeps_after:
  fixes clock :: "'w \<Rightarrow> time"
  assumes "\<And>t. keeps (\<lambda>w. t \<le> clock w) m (\<lambda>_. True)" and "run_state m w = (a, w')"
  shows "clock w \<le> clock w'"
  using keepsD [OF assms(1) order_refl assms(2)] by blast

locale monotone_clock = running_clock C clock for C :: "'w client" and clock :: "'w \<Rightarrow> time" +
  assumes clock_inv: "api_inv C (\<lambda>w. t \<le> clock w) (\<lambda>_. True)"
begin

lemmas clock_keeps = api_inv.read_keeps [OF clock_inv] api_inv.keeps_GetKustomization [OF clock_inv]
  api_inv.keeps_scaler_reads [OF clock_inv]

lemma poll_round_returns:
  assumes "\<And>t. keeps (\<lambda>w. t \<le> clock w) body (\<lambda>_. True)"
  shows "\<exists>r w'. run_state (poll (poll_fuel timeout) C timeout body err) w = (Some r, w')"
  by (rule poll_returns) (rule keeps_after [OF assms])

lemma WaitForSnapshotReady_returns:
  "\<exists>r w'. run_state (WaitForSnapshotReady (poll_fuel timeout) C n ns timeout) w = (Some r, w')"
  unfolding WaitForSnapshotReady_def
  by (rule poll_round_returns) (intro keeps_rule TrueI clock_keeps)

lemma WaitForPVCBound_returns:
  "\<exists>r w'. run_state (WaitForPVCBound (poll_fuel timeout) C n ns timeout) w = (Some r, w')"
  unfolding WaitForPVCBound_def
  by (rule poll_round_returns) (intro keeps_rule TrueI clock_keeps)

lemma WaitForPVCDeleted_returns:
  "\<exists>r w'. run_state (WaitForPVCDeleted (poll_fuel timeout) C L n ns timeout) w = (Some r, w')"
  unfolding WaitForPVCDeleted_def
  by (rule poll_round_returns) (intro keeps_rule TrueI clock_keeps)

lemma WaitForScaleDown_returns:
  "\<exists>r w'. run_state (WaitForScaleDown (poll_fuel timeout) C L kd n ns timeout) w = (Some r, w')"
  unfolding WaitForScaleDown_def
  by (rule poll_round_returns) (intro keeps_rule TrueI clock_keeps)

lemma WaitForScaleUp_returns:
  "\<exists>r w'. run_state (WaitForScaleUp (poll_fuel timeout) C kd n ns target timeout) w = (Some r, w')"
  unfolding WaitForScaleUp_def
  by (rule poll_round_returns) (intro keeps_rule TrueI clock_keeps)

text \<open>The Flux wait reads the Kustomization once between the clock and the loop.\<close>

lemma WaitForReconciliation_returns:
  "\<exists>r w'. run_state (WaitForReconciliation (poll_fuel timeout) C n ns timeout) w = (Some r, w')"
proof -
  obtain t w1 where now: "run_state (Now C) w = (t, w1)" by fastforce
  obtain x w2 where get: "run_state (GetKustomization C (NN n ns)) w1 = (x, w2)" by fastforce
  have "clock w1 \<le> clock w2"
    by (rule keeps_after [OF api_inv.keeps_GetKustomization [OF clock_inv TrueI] get])
  show ?thesis
  proof (cases x)
    case (Inl e)
    with now get show ?thesis by (simp add: WaitForReconciliation_def run_on_err run_wrap_err)
  next
    case (Inr ks)
    obtain k where k: "poll_fuel timeout = Suc k" by (rule poll_fuel_Suc)
    have "(t + timeout) - clock w2 \<le> int k * PollInterval"
      using now_reads [OF now] poll_fuel_covers [OF k] \<open>clock w1 \<le> clock w2\<close> by linarith
    then have loop: "\<exists>r w'. run_state (poll_loop (Suc k) C (t + timeout) body err) w2 = (Some r, w')"
      if "\<And>t. keeps (\<lambda>w. t \<le> clock w) body (\<lambda>_. True)" for body err
      by (rule poll_loop_returns [rotated]) (rule keeps_after [OF that])
    show ?thesis
      unfolding WaitForReconciliation_def k
      by (simp add: now get Inr run_on_err run_wrap_err del: poll_loop.simps)
        (intro loop keeps_rule TrueI clock_keeps)
  qed
qed

end

end
