(* ===== verification/MemCluster.thy ===== *)
theory MemCluster
  imports Controller Waits "HOL-Library.AList"
begin

text \<open>
  A reference environment: an in-memory API server, the apimachinery helpers, a line-based YAML
  library and the repository of \<open>MockManager\<close> in one state record. It gives every boundary locale
  of the development an instance, so the contracts the theorems assume are satisfiable, and
  serves as the cluster of the concrete scenarios.
\<close>

section \<open>The store\<close>

record cluster =
  cl_Now :: time
  cl_Upgrades :: "UpgradeRequest list"
  cl_Rollbacks :: "RollbackRequest list"
  cl_Apps :: "ManagedApp list"
  cl_Kustomizations :: "Kustomization list"
  cl_Deployments :: "Deployment list"
  cl_StatefulSets :: "StatefulSet list"
  cl_PVCs :: "PersistentVolumeClaim list"
  cl_Snapshots :: "VolumeSnapshot list"
  cl_Classes :: "string list"
  cl_ConfigMaps :: "ConfigMap list"
  cl_Pods :: "Pod list"
  cl_Secrets :: "Secret list"
  cl_Git :: MockManager

definition not_found :: goerror where
  "not_found = APIError ''NotFound'' ''not found''"

definition lookup_obj :: "('a \<Rightarrow> NamespacedName) \<Rightarrow> 'a list \<Rightarrow> NamespacedName \<Rightarrow> 'a option" where
  "lookup_obj key xs k = find (\<lambda>x. key x = k) xs"

definition replace_obj :: "('a \<Rightarrow> NamespacedName) \<Rightarrow> 'a \<Rightarrow> 'a list \<Rightarrow> 'a list" where
  "replace_obj key x xs = map (\<lambda>y. if key y = key x then x else y) xs"

lemma lookup_replace:
  "lookup_obj key xs (key x) = Some y \<Longrightarrow>
     lookup_obj key (replace_obj key x xs) = (lookup_obj key xs)(key x \<mapsto> x)"
proof (rule ext)
  fix k
  assume found: "lookup_obj key xs (key x) = Some y"
  show "lookup_obj key (replace_obj key x xs) k = ((lookup_obj key xs)(key x \<mapsto> x)) k"
  proof (cases "k = key x")
    case True
    with found show ?thesis by (induction xs) (auto simp: lookup_obj_def replace_obj_def split: if_splits)
  next
    case False
    then show ?thesis by (induction xs) (auto simp: lookup_obj_def replace_obj_def)
  qed
qed

lemma lookup_key: "lookup_obj key xs k = Some x \<Longrightarrow> key x = k"
  by (auto simp: lookup_obj_def find_Some_iff)

definition mem_get :: "('a \<Rightarrow> NamespacedName) \<Rightarrow> (cluster \<Rightarrow> 'a list) \<Rightarrow> NamespacedName \<Rightarrow> (cluster, 'a) call" where
  "mem_get key sel k =
     State (\<lambda>c. (case lookup_obj key (sel c) k of None \<Rightarrow> Inl not_found | Some x \<Rightarrow> Inr x, c))"

text \<open>Store \<open>f old\<close> under an existing key.\<close>

definition mem_modify ::
  "('a \<Rightarrow> NamespacedName) \<Rightarrow> (cluster \<Rightarrow> 'a list) \<Rightarrow> (('a list \<Rightarrow> 'a list) \<Rightarrow> cluster \<Rightarrow> cluster) \<Rightarrow>
     NamespacedName \<Rightarrow> ('a \<Rightarrow> 'a) \<Rightarrow> (cluster, 'a) call" where
  "mem_modify key sel upd k f =
     State (\<lambda>c. case lookup_obj key (sel c) k of
        None \<Rightarrow> (Inl not_found, c)
      | Some old \<Rightarrow> (Inr (f old), upd (replace_obj key (f old)) c))"

definition mem_create ::
  "('a \<Rightarrow> NamespacedName) \<Rightarrow> (cluster \<Rightarrow> 'a list) \<Rightarrow> (('a list \<Rightarrow> 'a list) \<Rightarrow> cluster \<Rightarrow> cluster) \<Rightarrow>
     'a \<Rightarrow> (cluster, 'a) call" where
  "mem_create key sel upd x =
     State (\<lambda>c. case lookup_obj key (sel c) (key x) of
        None \<Rightarrow> (Inr x, upd (\<lambda>xs. xs @ [x]) c)
      | Some _ \<Rightarrow> (Inl (APIError ''AlreadyExists'' ''already exists''), c))"

definition mem_delete ::
  "('a \<Rightarrow> NamespacedName) \<Rightarrow> (cluster \<Rightarrow> 'a list) \<Rightarrow> (('a list \<Rightarrow> 'a list) \<Rightarrow> cluster \<Rightarrow> cluster) \<Rightarrow>
     NamespacedName \<Rightarrow> (cluster, unit) call" where
  "mem_delete key sel upd k =
     State (\<lambda>c. case lookup_obj key (sel c) k of
        None \<Rightarrow> (Inl not_found, c)
      | Some _ \<Rightarrow> (Inr (), upd (filter (\<lambda>x. key x \<noteq> k)) c))"

definition mem_list :: "(cluster \<Rightarrow> 'a list) \<Rightarrow> ('a \<Rightarrow> bool) \<Rightarrow> (cluster, 'a list) call" where
  "mem_list sel p = State (\<lambda>c. (Inr (filter p (sel c)), c))"

abbreviation ur_key :: "UpgradeRequest \<Rightarrow> NamespacedName" where "ur_key u \<equiv> meta_key (ur_meta u)"
abbreviation rr_key :: "RollbackRequest \<Rightarrow> NamespacedName" where "rr_key u \<equiv> meta_key (rr_meta u)"
abbreviation ma_key :: "ManagedApp \<Rightarrow> NamespacedName" where "ma_key u \<equiv> meta_key (ma_meta u)"

definition mem_client :: "cluster client" where
  "mem_client = \<lparr>
     Now = State (\<lambda>c. (cl_Now c, c)),
     SleepOrDone = (\<lambda>d. State (\<lambda>c. (None, c\<lparr>cl_Now := cl_Now c + max 0 d\<rparr>))),
     RangeKeys = (\<lambda>ks. ret ks),
     RangeNames = (\<lambda>ks. ret ks),
     GetUpgradeRequest = mem_get ur_key cl_Upgrades,
     GetRollbackRequest = mem_get rr_key cl_Rollbacks,
     GetManagedApp = mem_get ma_key cl_Apps,
     GetKustomization = mem_get ks_key cl_Kustomizations,
     GetDeployment = mem_get dep_key cl_Deployments,
     GetStatefulSet = mem_get sts_key cl_StatefulSets,
     GetPVC = mem_get (\<lambda>p. meta_key (pvc_meta p)) cl_PVCs,
     GetVolumeSnapshot = mem_get vs_key cl_Snapshots,
     GetVolumeSnapshotClass = (\<lambda>n. State (\<lambda>c. (if List.member (cl_Classes c) n then Inr () else Inl not_found, c))),
     GetConfigMap = mem_get (\<lambda>p. meta_key (cm_meta p)) cl_ConfigMaps,
     ListPods = (\<lambda>ns sel. mem_list cl_Pods (\<lambda>p. om_Namespace (pod_meta p) = ns \<and>
        (case sel of None \<Rightarrow> True | Some ls \<Rightarrow> list_all (List.member (om_Labels (pod_meta p))) ls))),
     ListSecrets = (\<lambda>ns. mem_list cl_Secrets (\<lambda>s. om_Namespace (sec_meta s) = ns)),
     ListVolumeSnapshots = (\<lambda>ns l. mem_list cl_Snapshots (\<lambda>v. om_Namespace (vs_meta v) = ns \<and>
        List.member (om_Labels (vs_meta v)) l)),
     ListManagedApps = mem_list cl_Apps (\<lambda>_. True),
     UpdateUpgradeRequest = (\<lambda>u. mem_modify ur_key cl_Upgrades cl_Upgrades_update (ur_key u)
        (\<lambda>old. u\<lparr>ur_Status := ur_Status old\<rparr>)),
     UpdateRollbackRequest = (\<lambda>u. mem_modify rr_key cl_Rollbacks cl_Rollbacks_update (rr_key u)
        (\<lambda>old. u\<lparr>rr_Status := rr_Status old\<rparr>)),
     UpdateKustomization = (\<lambda>x. mem_modify ks_key cl_Kustomizations cl_Kustomizations_update (ks_key x) (\<lambda>_. x)),
     PatchDeployment = (\<lambda>x. mem_modify dep_key cl_Deployments cl_Deployments_update (dep_key x) (\<lambda>_. x)),
     PatchStatefulSet = (\<lambda>x. mem_modify sts_key cl_StatefulSets cl_StatefulSets_update (sts_key x) (\<lambda>_. x)),
     StatusUpdateUpgradeRequest = (\<lambda>u. mem_modify ur_key cl_Upgrades cl_Upgrades_update (ur_key u)
        (\<lambda>old. old\<lparr>ur_Status := ur_Status u\<rparr>)),
     StatusUpdateRollbackRequest = (\<lambda>u. mem_modify rr_key cl_Rollbacks cl_Rollbacks_update (rr_key u)
        (\<lambda>old. old\<lparr>rr_Status := rr_Status u\<rparr>)),
     StatusUpdateManagedApp = (\<lambda>u. mem_modify ma_key cl_Apps cl_Apps_update (ma_key u)
        (\<lambda>old. old\<lparr>ma_Status := ma_Status u\<rparr>)),
     CreateRollbackRequest = mem_create rr_key cl_Rollbacks cl_Rollbacks_update,
     CreateVolumeSnapshot = mem_create vs_key cl_Snapshots cl_Snapshots_update,
     CreatePVC = mem_create (\<lambda>p. meta_key (pvc_meta p)) cl_PVCs cl_PVCs_update,
     DeleteVolumeSnapshot = mem_delete vs_key cl_Snapshots cl_Snapshots_update,
     DeletePVC = mem_delete (\<lambda>p. meta_key (pvc_meta p)) cl_PVCs cl_PVCs_update\<rparr>"

lemmas mem_ops = mem_get_def mem_modify_def mem_create_def mem_delete_def mem_list_def

interpretation memks: ks_store mem_client "\<lambda>c. lookup_obj ks_key (cl_Kustomizations c)"
  by unfold_locales
    (auto simp: mem_client_def mem_ops lookup_replace split: option.splits dest: lookup_key)

interpretation memwl: workload_store mem_client
  "\<lambda>c. lookup_obj dep_key (cl_Deployments c)" "\<lambda>c. lookup_obj sts_key (cl_StatefulSets c)"
  by unfold_locales
    (auto simp: mem_client_def mem_ops lookup_replace split: option.splits dest: lookup_key)

interpretation memclock: running_clock mem_client cl_Now
  by unfold_locales (auto simp: mem_client_def)

lemma mem_clock_inv: "api_inv mem_client (\<lambda>c. t \<le> cl_Now c) (\<lambda>_. True)"
  by unfold_locales (auto simp: mem_client_def mem_ops keeps_def triple_def split: option.splits)

interpretation memmono: monotone_clock mem_client cl_Now
  by (rule monotone_clock.intro [OF memclock.running_clock_axioms], rule monotone_clock_axioms.intro, rule mem_clock_inv)

interpretation memrange: go_range mem_client
  by unfold_locales (auto simp: mem_client_def)

section \<open>apimachinery\<close>

fun set_status_condition :: "Condition list \<Rightarrow> Condition \<Rightarrow> Condition list" where
  "set_status_condition [] c = [c]"
| "set_status_condition (d # ds) c = (if c_Type d = c_Type c then c # ds else d # set_status_condition ds c)"

fun mem_IsNotFound :: "goerror \<Rightarrow> bool" where
  "mem_IsNotFound (APIError reason _) = (reason = ''NotFound'')"
| "mem_IsNotFound (Wrap _ e) = mem_IsNotFound e"
| "mem_IsNotFound _ = False"

definition find_condition :: "Condition list \<Rightarrow> string \<Rightarrow> Condition option" where
  "find_condition cs t = find (\<lambda>c. c_Type c = t) cs"

definition mem_lib :: klib where
  "mem_lib = \<lparr>
     SetStatusCondition = set_status_condition,
     FindStatusCondition = find_condition,
     IsStatusConditionTrue = (\<lambda>cs t. case find_condition cs t of None \<Rightarrow> False | Some c \<Rightarrow> c_Status c = ConditionTrue),
     ContainsFinalizer = List.member,
     AddFinalizer = (\<lambda>fs f. if List.member fs f then fs else fs @ [f]),
     RemoveFinalizer = (\<lambda>fs f. filter (\<lambda>g. g \<noteq> f) fs),
     IsNotFound = mem_IsNotFound,
     IgnoreNotFound = (\<lambda>e. if mem_IsNotFound e then None else Some e),
     ValidatedSelectorFromSet = Inr,
     FormatTime = itoa,
     ParseDuration = (\<lambda>_. None)\<rparr>"

lemma find_set_status_condition:
  "find_condition (set_status_condition cs c) t = (if t = c_Type c then Some c else find_condition cs t)"
  by (induction cs c rule: set_status_condition.induct) (auto simp: find_condition_def)

interpretation memcond: conditions_api mem_lib
  by unfold_locales
    (auto simp: mem_lib_def find_set_status_condition split: option.splits, simp add: find_condition_def)

interpretation memfin: finalizer_api mem_lib
  by unfold_locales (auto simp: mem_lib_def List.member_iff)

section \<open>Git\<close>

definition on_git :: "(MockManager, 'a) state \<Rightarrow> (cluster, 'a) state" where
  "on_git m = State (\<lambda>c. case run_state m (cl_Git c) of (a, g) \<Rightarrow> (a, c\<lparr>cl_Git := g\<rparr>))"

definition mem_git :: "cluster git_manager" where
  "mem_git = \<lparr>gm_ReadFile = (\<lambda>p. on_git (mock_ReadFile p)),
     gm_CommitFile = (\<lambda>ch msg. on_git (mock_CommitFile ch msg)),
     gm_CommitFiles = (\<lambda>chs msg. on_git (mock_CommitFiles chs msg)),
     gm_GetLatestCommit = on_git mock_GetLatestCommit\<rparr>"

interpretation memgit: git_repo mem_git "\<lambda>c. mk_Files (cl_Git c)"
  by unfold_locales
    (auto simp: mem_git_def on_git_def split: prod.splits
      dest: mock.read_keeps_files [unfolded mock_manager_def, simplified]
        mock.read_result [unfolded mock_manager_def, simplified]
        mock.commit_failure [unfolded mock_manager_def, simplified]
        mock.commit_success [unfolded mock_manager_def, simplified])

section \<open>A line-based YAML library\<close>

text \<open>A document is a list of \<open>path: scalar\<close> lines; printing refuses what would not read back.\<close>

datatype ydoc = YDoc "(string \<times> string) list" | YScalar string

fun parse_lines :: "string list \<Rightarrow> (string \<times> string) list option" where
  "parse_lines [] = Some []"
| "parse_lines (l # ls) =
     (case (Cut '': '' l, parse_lines ls) of (Some kv, Some kvs) \<Rightarrow> Some (kv # kvs) | _ \<Rightarrow> None)"

definition mem_parse :: "string \<Rightarrow> goerror + ydoc" where
  "mem_parse s = (case parse_lines (Split newline s) of
     None \<Rightarrow> Inl (ErrorString ''malformed document'') | Some kvs \<Rightarrow> Inr (YDoc kvs))"

definition mem_print :: "(string \<times> string) list \<Rightarrow> string" where
  "mem_print kvs = Join newline (map (\<lambda>(k, v). k @ '': '' @ v) kvs)"

definition dotless :: "string list \<Rightarrow> bool" where
  "dotless p \<longleftrightarrow> p \<noteq> [] \<and> list_all (\<lambda>s. CHR ''.'' \<notin> set s) p"

definition mem_yaml :: "ydoc kyaml" where
  "mem_yaml = \<lparr>
     yaml_Parse = mem_parse,
     yaml_LookupCreateSet = (\<lambda>p v n. case n of
        YDoc kvs \<Rightarrow> if dotless p then Inr (YDoc (AList.update (Join ''.'' p) v kvs)) else Inl (ErrorString ''bad path'')
      | YScalar _ \<Rightarrow> Inl (ErrorString ''not a mapping'')),
     yaml_Lookup = (\<lambda>p n. case n of
        YDoc kvs \<Rightarrow> Inr (if dotless p then map_option YScalar (map_of kvs (Join ''.'' p)) else None)
      | YScalar _ \<Rightarrow> Inl (ErrorString ''not a mapping'')),
     yaml_GetValue = (\<lambda>n. case n of YScalar s \<Rightarrow> s | YDoc _ \<Rightarrow> []),
     yaml_String = (\<lambda>n. case n of
        YDoc kvs \<Rightarrow> if mem_parse (mem_print kvs) = Inr n then Inr (mem_print kvs) else Inl (ErrorString ''cannot print'')
      | YScalar _ \<Rightarrow> Inl (ErrorString ''not a mapping''))\<rparr>"

lemma Join_dot_single:
  assumes "p \<noteq> []" and "CHR ''.'' \<notin> set k" and "Join ''.'' p = k"
  shows "p = [k]"
  using assms by (cases p; cases "tl p") auto

interpretation memyaml: kyaml_api mem_yaml
proof
  fix n s
  assume "yaml_String mem_yaml n = Inr s"
  then show "\<exists>n'. yaml_Parse mem_yaml s = Inr n' \<and> (\<forall>p. yaml_Lookup mem_yaml p n' = yaml_Lookup mem_yaml p n)"
    by (auto simp: mem_yaml_def split: ydoc.splits if_splits)
next
  fix p v n n'
  assume "yaml_LookupCreateSet mem_yaml p v n = Inr n'"
  then show "\<exists>m. yaml_Lookup mem_yaml p n' = Inr (Some m) \<and> yaml_GetValue mem_yaml m = v"
    by (auto simp: mem_yaml_def update_conv split: ydoc.splits if_splits)
next
  fix p v n n' k m
  assume set: "yaml_LookupCreateSet mem_yaml p v n = Inr n'" and "yaml_Lookup mem_yaml [k] n = Inr (Some m)"
    and "p \<noteq> []" and "hd p \<noteq> k"
  moreover have "Join ''.'' p \<noteq> k" if "CHR ''.'' \<notin> set k"
    using Join_dot_single [OF \<open>p \<noteq> []\<close> that] \<open>hd p \<noteq> k\<close> by (metis list.sel(1))
  ultimately show "yaml_Lookup mem_yaml [k] n' = Inr (Some m)"
    by (auto simp: mem_yaml_def update_conv dotless_def split: ydoc.splits if_splits)
qed

definition mem_helm :: helmlib where
  "mem_helm = \<lparr>hl_GzipReader = Inr, hl_ReadAll = Inr, hl_UnmarshalManifest = Inr,
     hl_UnmarshalYAML = (\<lambda>_. Inr [])\<rparr>"

definition mem_rec :: "(cluster, ydoc) reconciler" where
  "mem_rec = \<lparr>rc_Client = mem_client, rc_Lib = mem_lib, rc_Git = Some mem_git, rc_Yaml = mem_yaml,
     rc_Helm = mem_helm\<rparr>"

end
