(* ===== verification/UpgradeSafety.thy ===== *)
theory UpgradeSafety
  imports Traces UpgradeCalls MemCluster
begin

text \<open>
  Safety of single reconciles of the upgrade controller, on the record of the calls it makes: what
  a dry run may do, what guards a Git commit, how a failure before and after the commit is handled,
  and what a finished request still triggers.
\<close>

section \<open>Running a reconcile on a traced reconciler\<close>

lemma run_Reconcile:
  assumes "run_state (GetUpgradeRequest (rc_Client R) req) w = (Inr u, w1)"
  shows "run_state (Reconcile (traced_rec R) req) (w, l) =
     run_state
       (if om_DeletionTimestamp (ur_meta u) \<noteq> None then remove_finalizer (traced_rec R) u
        else if \<not> ContainsFinalizer (rc_Lib R) (om_Finalizers (ur_meta u)) OperationFinalizer
        then checked (UpdateUpgradeRequest (traced (rc_Client R))
               (u\<lparr>ur_meta := (ur_meta u)\<lparr>om_Finalizers :=
                   AddFinalizer (rc_Lib R) (om_Finalizers (ur_meta u)) OperationFinalizer\<rparr>\<rparr>))
             (\<lambda>_. ret (Inr ResultRequeue))
        else if terminal R u then ret (Inr ResultDone)
        else phase_step (traced_rec R) u) (w1, l)"
  using assms by (simp add: Reconcile_def run_on_err terminal_def)

lemma Reconcile_trace:
  assumes "run_state (GetUpgradeRequest (rc_Client R) req) w = (Inr u, w1)"
    and "keeps (log_all P) (remove_finalizer (traced_rec R) u) (\<lambda>_. True)"
    and "keeps (log_all P) (phase_step (traced_rec R) u) (\<lambda>_. True)"
    and "\<And>v. keeps (log_all P) (UpdateUpgradeRequest (traced (rc_Client R)) v) (\<lambda>_. True)"
  shows "list_all P (trace_of (Reconcile (traced_rec R) req) w)"
proof -
  have "keeps (log_all P)
      (if om_DeletionTimestamp (ur_meta u) \<noteq> None then remove_finalizer (traced_rec R) u
       else if \<not> ContainsFinalizer (rc_Lib R) (om_Finalizers (ur_meta u)) OperationFinalizer
       then checked (UpdateUpgradeRequest (traced (rc_Client R))
              (u\<lparr>ur_meta := (ur_meta u)\<lparr>om_Finalizers :=
                  AddFinalizer (rc_Lib R) (om_Finalizers (ur_meta u)) OperationFinalizer\<rparr>\<rparr>))
            (\<lambda>_. ret (Inr ResultRequeue))
       else if terminal R u then ret (Inr ResultDone)
       else phase_step (traced_rec R) u) (\<lambda>_. True)"
    by (intro keeps_if keeps_on_err keeps_ret TrueI assms(2-4))
  from keeps_run [OF this, of "(w1, [])"] show ?thesis
    by (simp add: trace_of_def run_Reconcile [OF assms(1)] log_all_def)
qed

section \<open>Dry runs\<close>

text \<open>What a dry run may do to the cluster: bookkeeping on its own request, suspending and scaling.\<close>

fun dry_run_event :: "event \<Rightarrow> bool" where
  "dry_run_event (CommittedFile _ _ _) = False"
| "dry_run_event (CreatedVolumeSnapshot _) = False"
| "dry_run_event (DeletedVolumeSnapshot _) = False"
| "dry_run_event (CreatedPVC _) = False"
| "dry_run_event (DeletedPVC _) = False"
| "dry_run_event (WroteManagedAppStatus _) = False"
| "dry_run_event (CreatedRollbackRequest _) = False"
| "dry_run_event _ = True"

interpretation dr: upgrade_calls "traced_rec R" "log_all dry_run_event" dry_run_event
  for R :: "('w, 'n) reconciler"
  by (intro upgrade_calls.intro trr.rec_inv_axioms upgrade_calls_axioms.intro) simp_all

lemma dry_run_step_keeps:
  assumes "\<not> IsStatusConditionTrue (rc_Lib R) (ur_Conditions u) ConditionTypeGitCommitted"
    and "urs_DryRun (ur_Spec u)"
  shows "keeps (log_all dry_run_event) (phase_step (traced_rec R) u) (\<lambda>_. True)"
  unfolding phase_step_def using assms by (auto intro!: dr.keeps_handleDryRun)

section \<open>Commits are guarded by a suspended Kustomization\<close>

text \<open>Every commit directly follows a read that found the Kustomization suspended.\<close>

fun guarded_after :: "bool \<Rightarrow> event list \<Rightarrow> bool" where
  "guarded_after ok [] \<longleftrightarrow> True"
| "guarded_after ok (e # es) \<longleftrightarrow> (is_commit e \<longrightarrow> ok) \<and> guarded_after (suspended_read e) es"

definition commits_guarded :: "event list \<Rightarrow> bool" where
  "commits_guarded es \<longleftrightarrow> guarded_after False es"

definition just_verified :: "event list \<Rightarrow> bool" where
  "just_verified es \<longleftrightarrow> es \<noteq> [] \<and> suspended_read (last es)"

lemma guarded_after_snoc:
  "guarded_after ok (es @ [e]) \<longleftrightarrow>
     guarded_after ok es \<and> (is_commit e \<longrightarrow> (if es = [] then ok else suspended_read (last es)))"
  by (induction ok es rule: guarded_after.induct) auto

lemma commits_guarded_snoc:
  "commits_guarded (es @ [e]) \<longleftrightarrow> commits_guarded es \<and> (is_commit e \<longrightarrow> just_verified es)"
  by (auto simp: commits_guarded_def guarded_after_snoc just_verified_def)

abbreviation guarded_world :: "'w \<times> event list \<Rightarrow> bool" where
  "guarded_world wl \<equiv> commits_guarded (snd wl)"

lemma guarded_unlogged: "keeps guarded_world (unlogged m) (\<lambda>_. True)"
  by (rule keepsI) (auto simp: unlogged_def split: prod.splits)

lemma guarded_logged: "(\<And>a. \<not> is_commit (ev a)) \<Longrightarrow> keeps guarded_world (logged ev m) (\<lambda>_. True)"
  by (rule keepsI) (auto simp: logged_def commits_guarded_snoc split: prod.splits)

interpretation gd: upgrade_calls "traced_rec R" guarded_world "\<lambda>e. \<not> is_commit e"
  for R :: "('w, 'n) reconciler"
proof (intro upgrade_calls.intro rec_inv.intro upgrade_calls_axioms.intro)
  show "api_inv (rc_Client (traced_rec R)) guarded_world (\<lambda>e. \<not> is_commit e)"
    by unfold_locales (simp_all add: traced_def guarded_unlogged guarded_logged)
  show "git_inv g guarded_world (\<lambda>e. \<not> is_commit e)" if "rc_Git (traced_rec R) = Some g" for g
    using that by unfold_locales (auto simp: traced_git_def guarded_unlogged)
qed simp_all

text \<open>Only the commit handler adds commits.\<close>

interpretation ca: upgrade_calls "traced_rec R" "commits_are es" "\<lambda>e. \<not> is_commit e"
  for R :: "('w, 'n) reconciler" and es
proof (intro upgrade_calls.intro rec_inv.intro upgrade_calls_axioms.intro)
  show "api_inv (rc_Client (traced_rec R)) (commits_are es) (\<lambda>e. \<not> is_commit e)"
    by unfold_locales (simp_all add: traced_def commits_unlogged commits_logged)
  show "git_inv g (commits_are es) (\<lambda>e. \<not> is_commit e)" if "rc_Git (traced_rec R) = Some g" for g
    using that by unfold_locales (auto simp: traced_git_def commits_unlogged)
qed simp_all

abbreviation verified_world :: "'w \<times> event list \<Rightarrow> bool" where
  "verified_world wl \<equiv> commits_guarded (snd wl) \<and> just_verified (snd wl)"

lemma verify_establishes:
  "triple guarded_world (VerifyStillSuspended (traced C) n ns)
     (\<lambda>r wl. commits_guarded (snd wl) \<and> (\<forall>x. r = Inr x \<longrightarrow> just_verified (snd wl)))"
  by (rule tripleI)
    (auto simp: VerifyStillSuspended_def IsSuspended_def run_on_err run_wrap_err commits_guarded_snoc
      just_verified_def split: prod.splits sum.splits if_splits)

lemma triple_git_read: "triple verified_world (gm_ReadFile (traced_git G) p) (\<lambda>_. verified_world)"
  by (rule tripleI) (auto split: prod.splits)

lemma triple_git_commit: "triple verified_world (gm_CommitFile (traced_git G) ch msg) (\<lambda>_. guarded_world)"
  by (rule tripleI) (auto simp: commits_guarded_snoc split: prod.splits)

lemma guarded_setFailed: "triple verified_world (setFailed (traced_rec R) u reason msg) (\<lambda>_. guarded_world)"
  by (rule triple_of_keeps [OF gd.keeps_setFailed]) simp_all

lemma commit_phase_guarded:
  "triple verified_world
     (case rc_Git (traced_rec R) of None \<Rightarrow> ret (Inl nil_deref)
      | Some G \<Rightarrow> or_fail (traced_rec R) u ''GitReadFailed'' (gm_ReadFile G p) (\<lambda>content.
          if b content then setFailed (traced_rec R) u reason msg
          else or_fail (traced_rec R) u ''YAMLUpdateFailed'' (ret (f content)) (\<lambda>c.
            or_fail (traced_rec R) u ''GitCommitFailed'' (gm_CommitFile G (ch c) msg') (\<lambda>ci. do {
              now \<leftarrow> Now (rc_Client (traced_rec R));
              save_status (traced_rec R) (g ci now) ResultRequeue }))))
     (\<lambda>_. guarded_world)"
proof (cases "rc_Git R")
  case None
  then show ?thesis by (simp add: triple_def)
next
  case (Some G)
  have save: "triple guarded_world (do {
      now \<leftarrow> Now (rc_Client (traced_rec R)); save_status (traced_rec R) (g ci now) ResultRequeue }) (\<lambda>_. guarded_world)"
    for ci
    by (rule triple_of_keeps) (intro keeps_rule gd.basic_keeps gd.step_keeps, simp)
  have commit: "triple verified_world (or_fail (traced_rec R) u ''GitCommitFailed''
      (gm_CommitFile (traced_git G) (ch c) msg') (\<lambda>ci. do {
        now \<leftarrow> Now (rc_Client (traced_rec R)); save_status (traced_rec R) (g ci now) ResultRequeue }))
      (\<lambda>_. guarded_world)" for c
    by (rule triple_on_err [OF triple_git_commit _ save],
        rule triple_of_keeps [OF gd.keeps_setFailed]) simp_all
  have "triple verified_world (or_fail (traced_rec R) u ''YAMLUpdateFailed'' (ret (f content)) (\<lambda>c.
      or_fail (traced_rec R) u ''GitCommitFailed''
      (gm_CommitFile (traced_git G) (ch c) msg') (\<lambda>ci. do {
        now \<leftarrow> Now (rc_Client (traced_rec R)); save_status (traced_rec R) (g ci now) ResultRequeue })))
      (\<lambda>_. guarded_world)" for content
    by (rule triple_on_err [where A = "\<lambda>_. verified_world", OF triple_ret guarded_setFailed commit])
  with Some show ?thesis
    by (simp, intro triple_on_err [OF triple_git_read guarded_setFailed] triple_if guarded_setFailed) simp_all
qed

lemma guarded_handleCommitting: "keeps guarded_world (handleCommitting (traced_rec R) u) (\<lambda>_. True)"
proof -
  have rest: "triple verified_world
      (case target_version u app of None \<Rightarrow> ret (Inl nil_deref)
       | Some tv \<Rightarrow> (case commit_versions app tv of
           Inl (reason, message) \<Rightarrow> setFailed (traced_rec R) u reason message
         | Inr (newV, curV) \<Rightarrow> k tv newV curV)) (\<lambda>_. guarded_world)"
    if "\<And>tv newV curV. triple verified_world (k tv newV curV) (\<lambda>_. guarded_world)"
    for app :: ManagedApp and k :: "VersionInfo \<Rightarrow> string \<Rightarrow> string \<Rightarrow> ('a \<times> event list, Result) call"
    using that
    by (auto intro!: guarded_setFailed split: option.split sum.split simp: triple_def [of _ "ret _"])
  have fail: "triple guarded_world (setFailed (traced_rec R) u reason msg) (\<lambda>_. guarded_world)" for reason msg
    by (rule triple_of_keeps [OF gd.keeps_setFailed]) simp_all
  have fail': "triple (\<lambda>wl. commits_guarded (snd wl) \<and> (\<forall>x. Inl e = Inr x \<longrightarrow> just_verified (snd wl)))
      (setFailed (traced_rec R) u reason msg) (\<lambda>_. guarded_world)" for e :: goerror and reason msg
    by (rule triple_of_keeps [OF gd.keeps_setFailed]) simp_all
  have get: "triple guarded_world (getManagedApp (traced_rec R) u) (\<lambda>_. guarded_world)"
    by (rule triple_of_keeps [OF gd.keeps_getManagedApp])
  have "triple guarded_world (handleCommitting (traced_rec R) u) (\<lambda>_. guarded_world)"
    unfolding handleCommitting_def traced_rec_simps(1)
    by (rule triple_on_err [OF get fail], rule triple_on_err [OF verify_establishes fail'],
        rule triple_conseq, rule rest, rule commit_phase_guarded [unfolded traced_rec_simps(1)]) auto
  then show ?thesis by (simp add: keeps_def)
qed

section \<open>The record only grows\<close>

interpretation ex: upgrade_calls "traced_rec R" "extends l0" "\<lambda>_. True"
  for R :: "('w, 'n) reconciler" and l0
proof (intro upgrade_calls.intro rec_inv.intro upgrade_calls_axioms.intro)
  show "api_inv (rc_Client (traced_rec R)) (extends l0) (\<lambda>_. True)"
    by unfold_locales (simp_all only: traced_rec_simps traced_def client.simps extends_unlogged extends_logged)
  show "git_inv g (extends l0) (\<lambda>_. True)" if "rc_Git (traced_rec R) = Some g" for g
    using that by unfold_locales (auto simp: traced_git_def extends_unlogged extends_logged simp del: split_paired_Ex)
qed simp_all

section \<open>The trace of the failure handler\<close>

fun is_rollback :: "event \<Rightarrow> bool" where
  "is_rollback (CreatedRollbackRequest _) = True"
| "is_rollback _ = False"

fun is_status_write :: "event \<Rightarrow> bool" where
  "is_status_write (WroteUpgradeStatus _) = True"
| "is_status_write _ = False"

fun is_finalizer_write :: "event \<Rightarrow> bool" where
  "is_finalizer_write (UpdatedUpgradeRequest _) = True"
| "is_finalizer_write _ = False"

lemma finalizer_write_neq [simp]:
  "is_finalizer_write e \<Longrightarrow> \<not> is_rollback e" "is_finalizer_write e \<Longrightarrow> \<not> is_status_write e"
  by (cases e; simp)+

lemma finalizer_writes_filter [simp]:
  "list_all is_finalizer_write es \<Longrightarrow> filter is_rollback es = []"
  "list_all is_finalizer_write es \<Longrightarrow> filter is_status_write es = []"
  by (induction es) auto

text \<open>The common end of every finished request: write the status, then drop the finalizer.\<close>

lemma run_traced_finish:
  "\<exists>r w' es. run_state (checked (StatusUpdateUpgradeRequest (traced (rc_Client R)) u) (\<lambda>v. remove_finalizer (traced_rec R) v)) (w, l) =
     (r, (w', l @ WroteUpgradeStatus u # es)) \<and> list_all is_finalizer_write es"
  by (auto simp: run_on_err remove_finalizer_def split: prod.split sum.split)

lemma run_rollback_or_message:
  "run_state (rollback_or_message (traced_rec R) u msg) (w, l) =
     (case run_state (GetManagedApp (rc_Client R) (managed_app_key u)) w of
        (Inl _, w1) \<Rightarrow> (msg @ '' - rollback required'', (w1, l))
      | (Inr app, w1) \<Rightarrow>
          if mas_AutoRollback (ma_Spec app) then
            (case run_state (Now (rc_Client R)) w1 of (now, w2) \<Rightarrow>
               (case run_state (CreateRollbackRequest (rc_Client R) (auto_rollback (rc_Lib R) u app now)) w2 of (r, w3) \<Rightarrow>
                  (case r of
                     Inl e \<Rightarrow> msg @ '' - rollback required (auto-rollback failed: creating RollbackRequest: '' @ Error e @ '')''
                   | Inr _ \<Rightarrow> msg @ '' - auto-rollback initiated'',
                   (w3, l @ [CreatedRollbackRequest (auto_rollback (rc_Lib R) u app now)]))))
          else (msg @ '' - rollback required'', (w1, l)))"
  by (auto simp: rollback_or_message_def createAutoRollback_def getManagedApp_def run_on_err run_wrap_err
      split: prod.split sum.split)

lemma trace_setFailed_committed:
  assumes "IsStatusConditionTrue (rc_Lib R) (ur_Conditions u) ConditionTypeGitCommitted"
  shows "\<exists>msg' es. trace_of (setFailed (traced_rec R) u reason msg) w =
      snd (snd (run_state (rollback_or_message (traced_rec R) u msg) (w, []))) @
      WroteUpgradeStatus (set_condition (rc_Lib R) ConditionTypeComplete ConditionFalse reason msg' u) # es \<and>
      list_all is_finalizer_write es"
proof -
  obtain m w1 l1 where m: "run_state (rollback_or_message (traced_rec R) u msg) (w, []) = (m, (w1, l1))"
    by (metis prod.collapse)
  let ?v = "set_condition (rc_Lib R) ConditionTypeComplete ConditionFalse reason m u"
  obtain r w' es where "run_state (checked (StatusUpdateUpgradeRequest (traced (rc_Client R)) ?v)
      (\<lambda>v. remove_finalizer (traced_rec R) v)) (w1, l1) = (r, (w', l1 @ WroteUpgradeStatus ?v # es))"
    and "list_all is_finalizer_write es"
    using run_traced_finish [where R = R and u = ?v and w = w1 and l = l1] by (elim exE conjE) (rule that)
  with m assms show ?thesis by (auto simp: trace_of_def setFailed_def)
qed

lemma trace_setFailed_uncommitted:
  assumes "\<not> IsStatusConditionTrue (rc_Lib R) (ur_Conditions u) ConditionTypeGitCommitted"
    and "run_state (resume_after_failure (traced_rec R)
      (set_condition (rc_Lib R) ConditionTypeComplete ConditionFalse reason msg u)) (w, []) = (v, (w1, l1))"
  shows "\<exists>es. trace_of (setFailed (traced_rec R) u reason msg) w = l1 @ WroteUpgradeStatus v # es \<and>
      list_all is_finalizer_write es"
proof -
  obtain r w' es where "run_state (checked (StatusUpdateUpgradeRequest (traced (rc_Client R)) v)
      (\<lambda>v. remove_finalizer (traced_rec R) v)) (w1, l1) = (r, (w', l1 @ WroteUpgradeStatus v # es))"
    and "list_all is_finalizer_write es"
    using run_traced_finish [where R = R and u = v and w = w1 and l = l1] by (elim exE conjE) (rule that)
  with assms show ?thesis by (auto simp: trace_of_def setFailed_def)
qed

end
