(* ===== verification/UpgradePhases.thy ===== *)
theory UpgradePhases
  imports UpgradeCalls MemCluster
begin

text \<open>
  The order of the phases of an upgrade as an invariant of the stored status conditions. The locale
  \<open>upgrade_phases\<close> is an environment in which the requests that are read are in order and ordered
  requests may be written; every handler is shown to write only ordered requests; \<open>upgrade_store\<close> adds that the requests that
  are read are in order. The first is interpreted on the traced reconciler here, both on the
  in-memory cluster in \<open>System\<close>.
\<close>

section \<open>The invariant\<close>

text \<open>The request is marked complete by \<open>handleCompleted\<close>.\<close>

definition succeeded :: "klib \<Rightarrow> Condition list \<Rightarrow> bool" where
  "succeeded L cs =
     (case FindStatusCondition L cs ConditionTypeComplete of
        None \<Rightarrow> False
      | Some c \<Rightarrow> c_Status c = ConditionTrue \<and> c_Reason c = ''UpgradeSucceeded'')"

definition phases_ok :: "klib \<Rightarrow> Condition list \<Rightarrow> bool" where
  "phases_ok L cs \<longleftrightarrow>
     (IsStatusConditionTrue L cs ConditionTypeGitCommitted \<longrightarrow>
        FindStatusCondition L cs ConditionTypeSuspended \<noteq> None \<and>
        IsStatusConditionTrue L cs ConditionTypeWorkloadStopped \<and>
        IsStatusConditionTrue L cs ConditionTypeSnapshotReady) \<and>
     (IsStatusConditionTrue L cs ConditionTypeReconciled \<longrightarrow> IsStatusConditionTrue L cs ConditionTypeGitCommitted) \<and>
     (IsStatusConditionTrue L cs ConditionTypeHealthy \<longrightarrow> IsStatusConditionTrue L cs ConditionTypeReconciled) \<and>
     (succeeded L cs \<longrightarrow> IsStatusConditionTrue L cs ConditionTypeHealthy)"

context conditions_api
begin

lemma phases_ok_empty: "phases_ok L []"
  by (simp add: phases_ok_def succeeded_def is_true_empty find_empty)

lemma succeeded_set:
  "succeeded L (SetStatusCondition L cs c) =
     (if c_Type c = ConditionTypeComplete then c_Status c = ConditionTrue \<and> c_Reason c = ''UpgradeSucceeded''
      else succeeded L cs)"
  by (simp add: succeeded_def find_set)

text \<open>Setting a condition that the order allows; only \<open>Suspended\<close> and \<open>Complete\<close> are ever set to false.\<close>

definition allowed :: "Condition list \<Rightarrow> Condition \<Rightarrow> bool" where
  "allowed cs c \<longleftrightarrow>
     (c_Type c \<noteq> ConditionTypeSuspended \<and> c_Type c \<noteq> ConditionTypeComplete \<longrightarrow> c_Status c = ConditionTrue) \<and>
     (c_Type c = ConditionTypeGitCommitted \<longrightarrow> FindStatusCondition L cs ConditionTypeSuspended \<noteq> None \<and>
        IsStatusConditionTrue L cs ConditionTypeWorkloadStopped \<and> IsStatusConditionTrue L cs ConditionTypeSnapshotReady) \<and>
     (c_Type c = ConditionTypeReconciled \<longrightarrow> IsStatusConditionTrue L cs ConditionTypeGitCommitted) \<and>
     (c_Type c = ConditionTypeHealthy \<longrightarrow> IsStatusConditionTrue L cs ConditionTypeReconciled) \<and>
     (c_Type c = ConditionTypeComplete \<and> c_Status c = ConditionTrue \<and> c_Reason c = ''UpgradeSucceeded'' \<longrightarrow>
        IsStatusConditionTrue L cs ConditionTypeHealthy)"

lemma phases_ok_set: "phases_ok L cs \<Longrightarrow> allowed cs c \<Longrightarrow> phases_ok L (SetStatusCondition L cs c)"
  unfolding phases_ok_def allowed_def is_true_set succeeded_set find_set by simp

end

section \<open>Environments in which the order holds\<close>

locale upgrade_phases = rec_inv R I P + conditions_api "rc_Lib R"
  for R :: "('w, 'n) reconciler" and I :: "'w \<Rightarrow> bool" and P :: "event \<Rightarrow> bool" +
  assumes ph_events: "P (GotKustomization k r)" "P (UpdatedKustomization x)" "P (PatchedDeployment d)"
      "P (PatchedStatefulSet st)" "P (CreatedRollbackRequest (auto_rollback (rc_Lib R) u app now))" "P (CreatedVolumeSnapshot vs)"
      "P (DeletedVolumeSnapshot k)" "P (WroteManagedAppStatus a)" "P (CommittedFile p c m)"
    and ph_update: "P (UpdatedUpgradeRequest u)"
    and ph_write: "phases_ok (rc_Lib R) (ur_Conditions u) \<Longrightarrow>
      keeps I (StatusUpdateUpgradeRequest (rc_Client R) u)
        (\<lambda>r. \<forall>u'. r = Inr u' \<longrightarrow> ur_Conditions u' = ur_Conditions u)"
begin

lemmas ph_basic = keeps_UpdateUpgradeRequest [OF ph_update] keeps_flux_reads [OF ph_events(1)]
  keeps_flux_writes [OF ph_events(1,2)] keeps_scaler_reads keeps_scaler_writes [OF ph_events(3,4)]
  keeps_snapshot_reads keeps_DiscoverPVCs [OF ph_events(1)] keeps_DiscoverWorkloads [OF ph_events(1)]
  keeps_CheckHealth [OF ph_events(1)] keeps_allWorkloadsScaledDown keeps_Now keeps_GetManagedApp
  keeps_CreateRollbackRequest [OF ph_events(5)] keeps_CreateSnapshotsForUpgrade [OF ph_events(6)]
  keeps_ApplyRetentionPolicy [OF ph_events(7)] keeps_StatusUpdateManagedApp [OF ph_events(8)]
  keeps_GetVolumeSnapshotClass

lemma ph_setPhaseStart: "keeps I (setPhaseStartIfNeeded R u) (same_request u)"
  unfolding setPhaseStartIfNeeded_def
  by (intro keeps_rule ph_basic) (simp_all add: same_request_def)

lemma ph_isPhaseTimedOut: "keeps I (isPhaseTimedOut R u t) (\<lambda>_. True)"
  unfolding isPhaseTimedOut_def by (intro keeps_rule TrueI ph_basic)

lemma ph_getManagedApp: "keeps I (getManagedApp R u) (\<lambda>_. True)"
  unfolding getManagedApp_def by (intro ph_basic)

lemma ph_remove_finalizer: "keeps I (remove_finalizer R u) (\<lambda>_. True)"
  unfolding remove_finalizer_def by (intro keeps_rule TrueI ph_basic)

lemma ph_save: "phases_ok (rc_Lib R) (ur_Conditions u) \<Longrightarrow> keeps I (save_status R u res) (\<lambda>_. True)"
  unfolding save_status_def by (intro keeps_rule TrueI keeps_any [OF ph_write])

lemma ph_set_condition:
  assumes "phases_ok (rc_Lib R) (ur_Conditions u)"
    and "allowed (ur_Conditions u) \<lparr>c_Type = t, c_Status = st, c_Reason = r, c_Message = m,
      c_ObservedGeneration = om_Generation (ur_meta u)\<rparr>"
  shows "phases_ok (rc_Lib R) (ur_Conditions (set_condition (rc_Lib R) t st r m u))"
  using phases_ok_set [OF assms] by (simp add: set_condition_conditions)

lemma ph_set_failed:
  "phases_ok (rc_Lib R) (ur_Conditions u) \<Longrightarrow>
     phases_ok (rc_Lib R) (ur_Conditions (set_condition (rc_Lib R) ConditionTypeComplete ConditionFalse r m u))"
  by (rule ph_set_condition) (simp_all add: allowed_def)

lemma ph_set_suspended:
  "phases_ok (rc_Lib R) (ur_Conditions u) \<Longrightarrow>
     phases_ok (rc_Lib R) (ur_Conditions (set_condition (rc_Lib R) ConditionTypeSuspended st r m u))"
  by (rule ph_set_condition) (simp_all add: allowed_def)

lemma ph_set_early:
  "t \<in> {ConditionTypeWorkloadStopped, ConditionTypeSnapshotReady} \<Longrightarrow>
   phases_ok (rc_Lib R) (ur_Conditions u) \<Longrightarrow>
     phases_ok (rc_Lib R) (ur_Conditions (set_condition (rc_Lib R) t ConditionTrue r m u))"
  by (rule ph_set_condition) (auto simp: allowed_def)

lemma ph_setFailed:
  assumes "phases_ok (rc_Lib R) (ur_Conditions u)"
  shows "keeps I (setFailed R u reason msg) (\<lambda>_. True)"
proof -
  let ?ok = "\<lambda>v. phases_ok (rc_Lib R) (ur_Conditions v)"
  have early: "keeps I (resume_after_failure R v) ?ok" if "?ok v" for v
    unfolding resume_after_failure_def
    by (intro keeps_rule ph_basic ph_getManagedApp that) (auto intro: that ph_set_suspended split: sum.split)
  have late: "keeps I (rollback_or_message R u m) (\<lambda>_. True)" for m
    unfolding rollback_or_message_def createAutoRollback_def
    by (intro keeps_rule TrueI ph_basic ph_getManagedApp)
  show ?thesis
    unfolding setFailed_def
    by (rule keeps_bind_res [where A = ?ok], intro keeps_if keeps_bind late keeps_ret early ph_set_failed assms,
        intro keeps_on_err keeps_any [OF ph_write] keeps_ret TrueI ph_remove_finalizer)
qed

lemma ph_or_fail:
  "keeps I m (\<lambda>_. True) \<Longrightarrow> phases_ok (rc_Lib R) (ur_Conditions u) \<Longrightarrow> (\<And>v. keeps I (k v) (\<lambda>_. True)) \<Longrightarrow>
     keeps I (or_fail R u reason m k) (\<lambda>_. True)"
  by (intro keeps_on_err ph_setFailed)

lemma ph_setDryRunFailed:
  "phases_ok (rc_Lib R) (ur_Conditions u) \<Longrightarrow> keeps I (setDryRunFailed R u app msg) (\<lambda>_. True)"
  unfolding setDryRunFailed_def by (intro keeps_rule TrueI ph_basic ph_setFailed)

lemma ph_retry_or_fail:
  "phases_ok (rc_Lib R) (ur_Conditions u) \<Longrightarrow> keeps I (retry_or_fail R u app t msg n) (\<lambda>_. True)"
  unfolding retry_or_fail_def by (intro keeps_rule TrueI ph_isPhaseTimedOut ph_setDryRunFailed ph_save)

lemmas ph_fail = ph_setFailed ph_setDryRunFailed ph_retry_or_fail
lemmas ph_step = ph_isPhaseTimedOut ph_getManagedApp ph_remove_finalizer ph_save

lemma ph_preflight_checks:
  assumes "phases_ok (rc_Lib R) (ur_Conditions u)"
    and "\<And>app versions pf. keeps I (k app versions pf) (\<lambda>_. True)"
  shows "keeps I (preflight_checks R u k) (\<lambda>_. True)"
proof -
  have git: "keeps I (git_preview R app v) (\<lambda>_. True)" for app v
    unfolding git_preview_def runGitDiffPreview_def by (intro keeps_rule TrueI keeps_git_read)
  have pre: "keeps I (runUpgradePreflight R app b) (\<lambda>_. True)" for app b
    unfolding runUpgradePreflight_def check_snapshot_class_def Let_def by (intro keeps_rule TrueI ph_basic)
  show ?thesis
    unfolding preflight_checks_def by (intro keeps_rule TrueI ph_step git pre ph_setFailed assms)
qed

lemma ph_runDryRunQuiescence:
  assumes "phases_ok (rc_Lib R) (ur_Conditions u)"
  shows "keeps I (runDryRunQuiescence R u app pf vs) (\<lambda>_. True)"
proof -
  note phase = keeps_bind_res [OF ph_setPhaseStart]
  note rules = keeps_rule TrueI ph_basic ph_step ph_fail
  have 1: "keeps I (dryRunSuspend R u app n ns) (\<lambda>_. True)" for n ns
    unfolding dryRunSuspend_def
    by (rule phase, intro rules) (auto simp: same_request_def assms intro!: ph_set_suspended)
  have 2: "keeps I (dryRunScaleDown R u app ws) (\<lambda>_. True)" for ws
    unfolding dryRunScaleDown_def
    by (rule phase, intro rules) (auto simp: same_request_def assms intro!: ph_set_early)
  have 3: "keeps I (dryRunScaleUp R u app ws n ns) (\<lambda>_. True)" for ws n ns
    unfolding dryRunScaleUp_def
    by (rule keeps_on_err, rule keeps_flux_reads(5) [OF ph_events(1)], rule ph_setDryRunFailed [OF assms],
        rule phase, intro rules) (auto simp: same_request_def assms intro!: ph_set_early)
  have fin: "phases_ok (rc_Lib R) (ur_Conditions
      (set_condition (rc_Lib R) ConditionTypeComplete ConditionTrue ''DryRunSucceeded'' m v))"
    if "phases_ok (rc_Lib R) (ur_Conditions v)" for m v
    using that by (rule ph_set_condition) (simp add: allowed_def)
  have 4: "keeps I (dryRunResumeAndComplete R u app pf n ns vs) (\<lambda>_. True)" for n ns
    unfolding dryRunResumeAndComplete_def
    by (rule phase, intro rules keeps_any [OF ph_write]) (auto simp: same_request_def assms intro!: fin)
  show ?thesis
    unfolding runDryRunQuiescence_def Let_def by (intro keeps_if 1 2 3 4)
qed

lemma ph_handleSuspend:
  assumes "phases_ok (rc_Lib R) (ur_Conditions u)"
  shows "keeps I (handleSuspend R u) (\<lambda>_. True)"
  unfolding handleSuspend_def Let_def
  by (intro ph_preflight_checks keeps_rule TrueI ph_basic ph_step ph_fail assms)
    (auto intro!: ph_set_suspended ph_set_early assms)

text \<open>What \<open>handleScaleDown\<close> guarantees of the request when the reconcile goes on with it.\<close>

definition ready_for_later :: "UpgradeRequest \<Rightarrow> bool" where
  "ready_for_later u \<longleftrightarrow> phases_ok (rc_Lib R) (ur_Conditions u) \<and>
     FindStatusCondition (rc_Lib R) (ur_Conditions u) ConditionTypeSuspended \<noteq> None \<and>
     cond_true R u ConditionTypeWorkloadStopped"

lemma ph_skip_scale_down:
  assumes "phases_ok (rc_Lib R) (ur_Conditions u)"
    and "FindStatusCondition (rc_Lib R) (ur_Conditions u) ConditionTypeSuspended \<noteq> None"
  shows "keeps I (skip_scale_down R u reason msg) (\<lambda>r. \<forall>u'. r = Inr u' \<longrightarrow> ready_for_later u')"
proof -
  let ?v = "set_condition (rc_Lib R) ConditionTypeWorkloadStopped ConditionTrue reason msg u"
  have ok: "phases_ok (rc_Lib R) (ur_Conditions ?v)" by (rule ph_set_early) (simp_all add: assms)
  have "ready_for_later v" if "ur_Conditions v = ur_Conditions ?v" for v
    using ok that assms(2) by (simp add: ready_for_later_def set_condition_conditions find_set is_true_set)
  then show ?thesis
    unfolding skip_scale_down_def
    by (intro keeps_on_err_res [OF ph_write [OF ok]] keeps_ret) auto
qed

lemma ph_stop_with: "keeps I m (\<lambda>_. True) \<Longrightarrow> keeps I (stop_with m) (\<lambda>r. \<forall>u'. r = Inr u' \<longrightarrow> Q u')"
  unfolding stop_with_def by (intro keeps_bind keeps_ret) simp_all

lemma ph_handleScaleDown:
  assumes "phases_ok (rc_Lib R) (ur_Conditions u)"
    and "FindStatusCondition (rc_Lib R) (ur_Conditions u) ConditionTypeSuspended \<noteq> None"
  shows "keeps I (handleScaleDown R u) (\<lambda>r. \<forall>u'. r = Inr u' \<longrightarrow> ready_for_later u')"
proof -
  have all: "keeps I (scale_down_all R app ws) (\<lambda>_. True)" for app ws
    unfolding scale_down_all_def by (intro keeps_rule TrueI ph_basic)
  have checks: "keeps I (all_of (\<lambda>w. IsScaledDown (rc_Client R) (rc_Lib R) (wsi_Kind w) (wsi_Name w) (wsi_Namespace w)) ws)
      (\<lambda>_. True)" for ws
    by (intro keeps_rule TrueI ph_basic)
  show ?thesis
    unfolding handleScaleDown_def
    by (rule keeps_bind_res [OF ph_setPhaseStart],
        intro keeps_on_err keeps_if keeps_bind ph_stop_with ph_skip_scale_down ph_fail ph_step ph_basic all checks)
      (auto simp: same_request_def assms intro!: ph_set_early)
qed

lemma ph_check_snapshots:
  assumes "phases_ok (rc_Lib R) (ur_Conditions u)"
  shows "keeps I (check_snapshots R u app) (\<lambda>_. True)"
  unfolding check_snapshots_def
  by (intro keeps_rule TrueI ph_basic ph_step ph_fail) (auto intro!: ph_set_early assms)

lemma ph_handleSnapshotting:
  assumes "phases_ok (rc_Lib R) (ur_Conditions u)"
  shows "keeps I (handleSnapshotting R u) (\<lambda>_. True)"
proof -
  have wr: "keeps I (checked (StatusUpdateUpgradeRequest (rc_Client R) (set_snapshot st v))
      (\<lambda>u'. check_snapshots R u' app)) (\<lambda>_. True)" if "phases_ok (rc_Lib R) (ur_Conditions v)" for st v app
    using that by (intro keeps_on_err_res [OF ph_write] keeps_ret ph_check_snapshots) auto
  show ?thesis
    unfolding handleSnapshotting_def
    by (rule keeps_bind_res [OF ph_setPhaseStart],
        intro keeps_on_err keeps_if keeps_case_option keeps_bind keeps_ret TrueI wr ph_check_snapshots ph_fail ph_step ph_basic)
      (auto simp: same_request_def assms intro!: ph_set_early)
qed

lemma ph_handleCommitting:
  assumes "ready_for_later u" and "cond_true R u ConditionTypeSnapshotReady"
  shows "keeps I (handleCommitting R u) (\<lambda>_. True)"
proof -
  have ok: "phases_ok (rc_Lib R) (ur_Conditions u)" using assms(1) by (simp add: ready_for_later_def)
  have "phases_ok (rc_Lib R) (ur_Conditions (committed (rc_Lib R) u app v sha now))" for app v sha now
    unfolding committed_def using ok assms by (intro ph_set_condition) (auto simp: allowed_def ready_for_later_def)
  then show ?thesis
    unfolding handleCommitting_def
    by (intro keeps_rule TrueI keeps_git_read keeps_git_commit ph_events(9) ph_basic ph_step ph_fail ok)
qed

lemma ph_handleReconciling:
  assumes "phases_ok (rc_Lib R) (ur_Conditions u)" and "cond_true R u ConditionTypeGitCommitted"
  shows "keeps I (handleReconciling R u) (\<lambda>_. True)"
proof -
  have "phases_ok (rc_Lib R) (ur_Conditions (set_condition (rc_Lib R) ConditionTypeReconciled ConditionTrue r m
      (resetPhaseStart (set_condition (rc_Lib R) ConditionTypeSuspended st r' m' v))))"
    if "ur_Conditions v = ur_Conditions u" for r m st r' m' v
    using that assms ph_set_suspended [of v]
    by (intro ph_set_condition) (auto simp: allowed_def set_condition_conditions is_true_set)
  then show ?thesis
    unfolding handleReconciling_def Let_def
    by (intro keeps_bind_res [OF ph_setPhaseStart] keeps_on_err keeps_if keeps_bind ph_basic ph_step ph_fail)
      (auto simp: same_request_def assms intro!: ph_set_suspended)
qed

lemma ph_handleHealthChecking:
  assumes "phases_ok (rc_Lib R) (ur_Conditions u)" and "cond_true R u ConditionTypeReconciled"
  shows "keeps I (handleHealthChecking R u) (\<lambda>_. True)"
proof -
  have "phases_ok (rc_Lib R) (ur_Conditions (health_passed (rc_Lib R) m now v))"
    if "ur_Conditions v = ur_Conditions u" for m now v
    unfolding health_passed_def using that assms by (intro ph_set_condition) (auto simp: allowed_def)
  then show ?thesis
    unfolding handleHealthChecking_def
    by (intro keeps_bind_res [OF ph_setPhaseStart] keeps_on_err keeps_if keeps_bind keeps_ret TrueI ph_basic ph_step ph_fail)
      (auto simp: same_request_def assms)
qed

lemma ph_handleCompleted:
  assumes "phases_ok (rc_Lib R) (ur_Conditions u)" and "cond_true R u ConditionTypeHealthy"
  shows "keeps I (handleCompleted R u) (\<lambda>_. True)"
proof -
  have "phases_ok (rc_Lib R) (ur_Conditions (completed (rc_Lib R) u))"
    unfolding completed_def Let_def using assms ph_set_suspended [of u]
    by (intro ph_set_condition) (auto simp: allowed_def set_condition_conditions is_true_set)
  then show ?thesis
    unfolding handleCompleted_def updateManagedAppAfterUpgrade_def applySnapshotRetention_def
    by (intro keeps_rule TrueI keeps_any [OF ph_write] ph_basic ph_step ph_fail assms)
qed

lemma ph_later_phases:
  assumes "ready_for_later u"
  shows "keeps I (later_phases R u) (\<lambda>_. True)"
  unfolding later_phases_def using assms
  by (intro keeps_if ph_handleSnapshotting ph_handleCommitting ph_handleReconciling ph_handleHealthChecking
      ph_handleCompleted) (auto simp: ready_for_later_def)

lemma ph_phase_step:
  assumes "phases_ok (rc_Lib R) (ur_Conditions u)"
  shows "keeps I (phase_step R u) (\<lambda>_. True)"
  unfolding phase_step_def handleDryRun_def using assms
  by (intro keeps_if ph_preflight_checks ph_runDryRunQuiescence ph_handleSuspend
      keeps_on_err_res [OF ph_handleScaleDown] keeps_ret TrueI ph_later_phases)
    (auto simp: ready_for_later_def)

end

text \<open>A store in which every request is in order.\<close>

locale upgrade_store = upgrade_phases +
  assumes ph_get: "keeps I (GetUpgradeRequest (rc_Client R) k)
      (\<lambda>r. \<forall>u. r = Inr u \<longrightarrow> phases_ok (rc_Lib R) (ur_Conditions u))"
begin

lemma ph_Reconcile: "keeps I (Reconcile R req) (\<lambda>_. True)"
  unfolding Reconcile_def
  by (rule keeps_on_err_res [OF ph_get])
    (auto intro!: keeps_if keeps_on_err keeps_ret ph_basic ph_remove_finalizer ph_phase_step)

end

section \<open>Traces\<close>

fun ordered_write :: "klib \<Rightarrow> event \<Rightarrow> bool" where
  "ordered_write L (WroteUpgradeStatus u) = phases_ok L (ur_Conditions u)"
| "ordered_write L _ = True"

text \<open>What the API server promises: a status update answers with the conditions that were sent.\<close>

definition answers_status :: "('w, 'n) reconciler \<Rightarrow> bool" where
  "answers_status R \<longleftrightarrow>
     (\<forall>u. yields (StatusUpdateUpgradeRequest (rc_Client R) u)
        (\<lambda>r. \<forall>u'. r = Inr u' \<longrightarrow> ur_Conditions u' = ur_Conditions u))"

lemma traced_phases:
  assumes "conditions_api (rc_Lib R)" and "answers_status R"
  shows "upgrade_phases (traced_rec R) (log_all (ordered_write (rc_Lib R))) (ordered_write (rc_Lib R))"
proof (intro upgrade_phases.intro upgrade_phases_axioms.intro trr.rec_inv_axioms)
  show "conditions_api (rc_Lib (traced_rec R))" using assms(1) by simp
  show "keeps (log_all (ordered_write (rc_Lib R))) (StatusUpdateUpgradeRequest (rc_Client (traced_rec R)) u)
      (\<lambda>r. \<forall>u'. r = Inr u' \<longrightarrow> ur_Conditions u' = ur_Conditions u)"
    if "phases_ok (rc_Lib (traced_rec R)) (ur_Conditions u)" for u
    using assms(2) that unfolding traced_rec_simps
    by (intro keeps_yields [OF tr.keeps_StatusUpdateUpgradeRequest])
      (simp_all add: answers_status_def traced_def yields_logged)
qed simp_all

lemma mem_answers: "answers_status mem_rec"
  unfolding answers_status_def
  by (intro allI yieldsI) (auto simp: mem_rec_def mem_client_def mem_modify_def split: option.splits)

end
