(* ===== verification/Scenario.thy ===== *)
theory Scenario
  imports MemCluster
begin

text \<open>
  A concrete cluster on which the controllers are run by evaluation: one application whose HelmRelease
  is kept in Git at version 1.0, one request to upgrade it to 2.0, and a Kustomization that Flux
  reports ready.
\<close>

definition plain_meta :: "string \<Rightarrow> string \<Rightarrow> ObjectMeta" where
  "plain_meta name ns = new_meta name ns []"

definition demo_app :: ManagedApp where
  "demo_app = \<lparr>ma_meta = plain_meta ''app'' ''d'',
     ma_Spec = \<lparr>mas_GitPath = ''f'', mas_KustomizationRef = \<lparr>ref_Name = ''ks'', ref_Namespace = ''x''\<rparr>,
       mas_SuspendRef = None, mas_HelmReleaseRef = None, mas_VolumeSnapshots = None, mas_VersionPolicy = None,
       mas_HealthCheck = None, mas_AutoRollback = True\<rparr>,
     ma_Status = \<lparr>mast_CurrentVersion = Some \<lparr>vi_Chart = ''1.0'', vi_Images = []\<rparr>, mast_AvailableUpdate = None,
       mast_LastUpgrade = None, mast_Conditions = []\<rparr>\<rparr>"

definition demo_request :: UpgradeRequest where
  "demo_request = \<lparr>ur_meta = plain_meta ''up'' ''d'',
     ur_Spec = \<lparr>urs_ManagedAppRef = \<lparr>ref_Name = ''app'', ref_Namespace = []\<rparr>,
       urs_TargetVersion = Some \<lparr>vi_Chart = ''2.0'', vi_Images = []\<rparr>, urs_SkipSnapshot = False, urs_DryRun = False\<rparr>,
     ur_Status = \<lparr>urst_Scaling = None, urst_Snapshot = None, urst_Upgrade = None, urst_HealthCheck = None,
       urst_PhaseStartedAt = None, urst_Conditions = []\<rparr>\<rparr>"

definition demo_ks :: Kustomization where
  "demo_ks = \<lparr>ks_meta = plain_meta ''ks'' ''x'', ks_Suspend = False,
     ks_Conditions = [\<lparr>c_Type = ''Ready'', c_Status = ''True'', c_Reason = [], c_Message = [], c_ObservedGeneration = 0\<rparr>],
     ks_ObservedGeneration = 1, ks_Inventory = None\<rparr>"

definition demo_file :: string where
  "demo_file = mem_print [(''kind'', ''HelmRelease''), (''spec.chart.spec.version'', ''1.0'')]"

definition demo_cluster :: cluster where
  "demo_cluster = \<lparr>cl_Now = 0, cl_Upgrades = [demo_request], cl_Rollbacks = [], cl_Apps = [demo_app],
     cl_Kustomizations = [demo_ks], cl_Deployments = [], cl_StatefulSets = [], cl_PVCs = [], cl_Snapshots = [],
     cl_Classes = [], cl_ConfigMaps = [], cl_Pods = [], cl_Secrets = [],
     cl_Git = mock_SetFile ''f'' demo_file NewMockManager\<rparr>"

definition demo_key :: NamespacedName where
  "demo_key = NN ''up'' ''d''"

text \<open>Clusters that hold one given request beside the demo application.\<close>

definition started_request :: UpgradeRequest where
  "started_request = demo_request\<lparr>ur_meta := (ur_meta demo_request)\<lparr>om_Finalizers := [OperationFinalizer]\<rparr>\<rparr>"

definition with_request :: "UpgradeRequest \<Rightarrow> cluster" where
  "with_request u = demo_cluster\<lparr>cl_Upgrades := [u]\<rparr>"

definition with_conditions :: "(string \<times> string) list \<Rightarrow> UpgradeRequest \<Rightarrow> UpgradeRequest" where
  "with_conditions cs u = u\<lparr>ur_Status := (ur_Status u)\<lparr>urst_Conditions :=
     map (\<lambda>(t, s). \<lparr>c_Type = t, c_Status = s, c_Reason = [], c_Message = [], c_ObservedGeneration = 0\<rparr>) cs\<rparr>\<rparr>"

lemma with_conditions_simps [simp]:
  "ur_meta (with_conditions cs u) = ur_meta u" "ur_Spec (with_conditions cs u) = ur_Spec u"
  by (simp_all add: with_conditions_def)

lemma mem_rec_simps [simp]:
  "rc_Client mem_rec = mem_client" "rc_Lib mem_rec = mem_lib" "rc_Git mem_rec = Some mem_git"
  "rc_Yaml mem_rec = mem_yaml"
  by (simp_all add: mem_rec_def)

lemma started_meta [simp]:
  "om_DeletionTimestamp (ur_meta started_request) = None"
  "ContainsFinalizer mem_lib (om_Finalizers (ur_meta started_request)) OperationFinalizer"
  "meta_key (ur_meta started_request) = demo_key"
  by (simp_all add: started_request_def demo_request_def plain_meta_def new_meta_def mem_lib_def
      meta_key_def demo_key_def List.member_iff)

lemma get_with_request:
  "meta_key (ur_meta u) = demo_key \<Longrightarrow>
     run_state (GetUpgradeRequest mem_client demo_key) (with_request u) = (Inr u, with_request u)"
  by (simp add: with_request_def mem_client_def mem_get_def lookup_obj_def)

lemma get_demo_app:
  "run_state (GetManagedApp mem_client (NN ''app'' ''d'')) (with_request u) = (Inr demo_app, with_request u)"
  by (simp add: with_request_def demo_cluster_def demo_app_def mem_client_def mem_get_def lookup_obj_def
      meta_key_def plain_meta_def new_meta_def)

lemma demo_app_key [simp]: "managed_app_key started_request = NN ''app'' ''d''"
  by (simp add: managed_app_key_def started_request_def demo_request_def ns_or_def plain_meta_def new_meta_def)

lemma with_conditions_app_key [simp]: "managed_app_key (with_conditions cs u) = managed_app_key u"
  by (simp add: managed_app_key_def)

end
