(* ===== verification/UpgradeTheorems.thy ===== *)
theory UpgradeTheorems
  imports UpgradeSafety UpgradePhases Scenario
begin

text \<open>
  The properties of the upgrade controller. Each one is stated over the definitions of \<open>Upgrade\<close>
  and rests on the interpretations of \<open>UpgradeSafety\<close> and \<open>UpgradePhases\<close>; its witness applies it to
  the cluster of \<open>Scenario\<close>.
\<close>

section \<open>Commits\<close>

text \<open>
  C1. In every reconcile, with any API server and any Git provider, each Git commit is made
  directly after a read of a Kustomization that found it suspended: no other write comes between.
\<close>

theorem commit_only_when_suspended:
  "commits_guarded (trace_of (Reconcile (traced_rec R) req) w)"
proof -
  have "keeps guarded_world (Reconcile (traced_rec R) req) (\<lambda>_. True)"
    by (rule gd.keeps_Reconcile) (simp_all add: guarded_handleCommitting)
  from keeps_run [OF this, of "(w, [])"] show ?thesis
    by (simp add: trace_of_def commits_guarded_def)
qed

section \<open>The order of the phases\<close>

text \<open>
  C8. With any API server that answers a status update with the conditions that were sent, every
  status that a reconcile of an ordered request writes is in order again.
\<close>

theorem writes_in_order:
  assumes "conditions_api (rc_Lib R)" and "answers_status R"
    and "run_state (GetUpgradeRequest (rc_Client R) req) w = (Inr u, w1)" and "phases_ok (rc_Lib R) (ur_Conditions u)"
  shows "list_all (ordered_write (rc_Lib R)) (trace_of (Reconcile (traced_rec R) req) w)"
proof -
  note ph = traced_phases [OF assms(1,2)]
  have "keeps (log_all (ordered_write (rc_Lib R))) (remove_finalizer (traced_rec R) u) (\<lambda>_. True)"
    by (rule upgrade_phases.ph_remove_finalizer [OF ph])
  moreover have "keeps (log_all (ordered_write (rc_Lib R))) (phase_step (traced_rec R) u) (\<lambda>_. True)"
    using assms(4) by (intro upgrade_phases.ph_phase_step [OF ph]) simp
  moreover have "keeps (log_all (ordered_write (rc_Lib R))) (UpdateUpgradeRequest (traced (rc_Client R)) v) (\<lambda>_. True)" for v
    by (rule tr.keeps_UpdateUpgradeRequest) simp
  ultimately show ?thesis
    by (rule Reconcile_trace [OF assms(3)])
qed

theorem writes_in_order_witness:
  "list_all (ordered_write mem_lib) (trace_of (Reconcile (traced_rec mem_rec) demo_key) (with_request started_request))"
proof -
  have "conditions_api (rc_Lib mem_rec)" by (simp add: memcond.conditions_api_axioms)
  moreover have "answers_status mem_rec" by (rule mem_answers)
  moreover have "run_state (GetUpgradeRequest (rc_Client mem_rec) demo_key) (with_request started_request) =
      (Inr started_request, with_request started_request)"
    by (simp add: get_with_request)
  moreover have "phases_ok (rc_Lib mem_rec) (ur_Conditions started_request)" by code_simp
  ultimately have "list_all (ordered_write (rc_Lib mem_rec))
      (trace_of (Reconcile (traced_rec mem_rec) demo_key) (with_request started_request))"
    by (rule writes_in_order)
  then show ?thesis by simp
qed

section \<open>Dry runs\<close>

text \<open>
  C10. Reconciling a dry-run request that has not committed never commits to Git, creates or deletes
  snapshots or volume claims, writes a ManagedApp, or requests a rollback, whatever fails.
\<close>

theorem dry_run_changes_nothing:
  assumes "run_state (GetUpgradeRequest (rc_Client R) req) w = (Inr u, w1)"
    and "urs_DryRun (ur_Spec u)"
    and "\<not> IsStatusConditionTrue (rc_Lib R) (ur_Conditions u) ConditionTypeGitCommitted"
  shows "list_all dry_run_event (trace_of (Reconcile (traced_rec R) req) w)"
proof -
  have "keeps (log_all dry_run_event) (remove_finalizer (traced_rec R) u) (\<lambda>_. True)"
    by (rule dr.keeps_remove_finalizer)
  moreover have "keeps (log_all dry_run_event) (phase_step (traced_rec R) u) (\<lambda>_. True)"
    by (rule dry_run_step_keeps [OF assms(3,2)])
  moreover have "keeps (log_all dry_run_event) (UpdateUpgradeRequest (traced (rc_Client R)) v) (\<lambda>_. True)" for v
    by (rule tr.keeps_UpdateUpgradeRequest) simp
  ultimately show ?thesis
    by (rule Reconcile_trace [OF assms(1)])
qed

theorem dry_run_changes_nothing_witness:
  "list_all dry_run_event (trace_of (Reconcile (traced_rec mem_rec) demo_key)
     (with_request (started_request\<lparr>ur_Spec := (ur_Spec started_request)\<lparr>urs_DryRun := True\<rparr>\<rparr>)))"
  by (rule dry_run_changes_nothing, simp, rule get_with_request)
    (simp_all add: started_request_def demo_request_def mem_lib_def find_condition_def
      meta_key_def demo_key_def plain_meta_def new_meta_def)

section \<open>Failures\<close>

fun aftermath :: "event \<Rightarrow> bool" where
  "aftermath (CreatedRollbackRequest _) = True"
| "aftermath (WroteUpgradeStatus _) = True"
| "aftermath (UpdatedUpgradeRequest _) = True"
| "aftermath _ = False"

text \<open>
  C16. A failure after the Git commit leaves Flux alone: whatever the API server answers, the
  failure handler only creates a rollback request and writes the request itself.
\<close>

theorem failure_after_commit_leaves_flux:
  assumes "IsStatusConditionTrue (rc_Lib R) (ur_Conditions u) ConditionTypeGitCommitted"
  shows "list_all aftermath (trace_of (setFailed (traced_rec R) u reason msg) w)"
proof -
  have "keeps (log_all aftermath) (rollback_or_message (traced_rec R) u msg) (\<lambda>_. True)"
    unfolding rollback_or_message_def createAutoRollback_def getManagedApp_def traced_rec_simps
    by (intro keeps_rule TrueI tr.keeps_Now tr.keeps_GetManagedApp tr.keeps_CreateRollbackRequest) simp
  moreover have "keeps (log_all aftermath) (remove_finalizer (traced_rec R) v) (\<lambda>_. True)" for v
    unfolding remove_finalizer_def traced_rec_simps
    by (intro keeps_rule TrueI tr.keeps_UpdateUpgradeRequest) simp
  ultimately have "keeps (log_all aftermath) (setFailed (traced_rec R) u reason msg) (\<lambda>_. True)"
    unfolding setFailed_def using assms
    by (simp, intro keeps_rule TrueI tr.keeps_StatusUpdateUpgradeRequest) simp_all
  then show ?thesis by (rule keeps_trace)
qed

theorem failure_after_commit_leaves_flux_witness:
  "list_all aftermath (trace_of (setFailed (traced_rec mem_rec)
      (with_conditions [(ConditionTypeGitCommitted, ConditionTrue)] started_request) ''HealthCheckError'' [])
     (with_request started_request))"
  by (rule failure_after_commit_leaves_flux) code_simp

text \<open>
  C15. A failure after the Git commit requests a rollback of this very upgrade, once and before the
  status is written, if the application can be read and asks for automatic rollbacks; otherwise none is
  requested. The rollback request lies in the namespace of the upgrade and refers to it by its name, is
  owned by it, is no dry run and starts without conditions.
\<close>

theorem auto_rollback_iff_configured:
  assumes "IsStatusConditionTrue (rc_Lib R) (ur_Conditions u) ConditionTypeGitCommitted"
    and "run_state (GetManagedApp (rc_Client R) (managed_app_key u)) w = (r, w1)"
  shows "case r of
      Inr app \<Rightarrow>
        if mas_AutoRollback (ma_Spec app)
        then \<exists>rr now.
             filter is_rollback (trace_of (setFailed (traced_rec R) u reason msg) w) = [CreatedRollbackRequest rr] \<and>
             hd (trace_of (setFailed (traced_rec R) u reason msg) w) = CreatedRollbackRequest rr \<and>
             rrs_UpgradeRequestRef (rr_Spec rr) = \<lparr>ref_Name = om_Name (ur_meta u), ref_Namespace = []\<rparr> \<and>
             om_Namespace (rr_meta rr) = om_Namespace (ur_meta u) \<and>
             rrs_AutoTriggered (rr_Spec rr) \<and> \<not> rrs_DryRun (rr_Spec rr) \<and> rrst_Conditions (rr_Status rr) = [] \<and>
             om_Name (rr_meta rr) = ma_Name app @ ''-auto-rollback-'' @ FormatTime (rc_Lib R) now \<and>
             om_OwnerReferences (rr_meta rr) = [\<lparr>owner_APIVersion = ''fluxup.dev/v1alpha1'',
               owner_Kind = ''UpgradeRequest'', owner_Name = om_Name (ur_meta u), owner_UID = om_UID (ur_meta u)\<rparr>]
        else filter is_rollback (trace_of (setFailed (traced_rec R) u reason msg) w) = []
    | Inl _ \<Rightarrow> filter is_rollback (trace_of (setFailed (traced_rec R) u reason msg) w) = []"
proof -
  obtain msg' es where tr: "trace_of (setFailed (traced_rec R) u reason msg) w =
      snd (snd (run_state (rollback_or_message (traced_rec R) u msg) (w, []))) @
      WroteUpgradeStatus (set_condition (rc_Lib R) ConditionTypeComplete ConditionFalse reason msg' u) # es"
    and "list_all is_finalizer_write es"
    using trace_setFailed_committed [OF assms(1)] by blast
  with assms(2) show ?thesis
    by (cases r) (auto simp: tr run_rollback_or_message auto_rollback_def new_meta_def split: prod.split)
qed

theorem auto_rollback_iff_configured_witness:
  "\<exists>rr. filter is_rollback (trace_of (setFailed (traced_rec mem_rec)
        (with_conditions [(ConditionTypeGitCommitted, ConditionTrue)] started_request) [] [])
      (with_request started_request)) = [CreatedRollbackRequest rr] \<and>
     rrs_UpgradeRequestRef (rr_Spec rr) = \<lparr>ref_Name = ''up'', ref_Namespace = []\<rparr> \<and> om_Namespace (rr_meta rr) = ''d'' \<and>
     map owner_Name (om_OwnerReferences (rr_meta rr)) = [''up'']"
proof -
  let ?u = "with_conditions [(ConditionTypeGitCommitted, ConditionTrue)] started_request"
  have "IsStatusConditionTrue (rc_Lib mem_rec) (ur_Conditions ?u) ConditionTypeGitCommitted" by code_simp
  moreover have "run_state (GetManagedApp (rc_Client mem_rec) (managed_app_key ?u)) (with_request started_request) =
      (Inr demo_app, with_request started_request)"
    by (simp add: get_demo_app)
  moreover have "mas_AutoRollback (ma_Spec demo_app)" by (simp add: demo_app_def)
  moreover have "om_Name (ur_meta started_request) = ''up''" and "om_Namespace (ur_meta started_request) = ''d''"
    by (simp_all add: started_request_def demo_request_def plain_meta_def new_meta_def)
  ultimately show ?thesis
    using auto_rollback_iff_configured [of mem_rec ?u "with_request started_request" "Inr demo_app"
      "with_request started_request" "[]" "[]"] by auto
qed

fun failed_write :: "klib \<Rightarrow> string \<Rightarrow> event \<Rightarrow> bool" where
  "failed_write L reason (WroteUpgradeStatus v) =
     (case FindStatusCondition L (ur_Conditions v) ConditionTypeComplete of
        None \<Rightarrow> False | Some c \<Rightarrow> c_Status c = ConditionFalse \<and> c_Reason c = reason)"
| "failed_write L reason _ = True"

text \<open>
  C18. Every failure handled by the controller writes the status of the request exactly once, with
  condition \<open>Complete\<close> false for the given reason.
\<close>

theorem failure_is_recorded:
  assumes "conditions_api (rc_Lib R)"
  shows "\<exists>v. filter is_status_write (trace_of (setFailed (traced_rec R) u reason msg) w) = [WroteUpgradeStatus v] \<and>
     failed_write (rc_Lib R) reason (WroteUpgradeStatus v)"
proof -
  note set = conditions_api.find_set [OF assms] conditions_api.is_true_set [OF assms]
  show ?thesis
  proof (cases "IsStatusConditionTrue (rc_Lib R) (ur_Conditions u) ConditionTypeGitCommitted")
    case True
    have "filter is_status_write (snd (snd (run_state (rollback_or_message (traced_rec R) u msg) (w, [])))) = []"
      by (simp add: run_rollback_or_message split: prod.split sum.split)
    with trace_setFailed_committed [OF True, of reason msg w] show ?thesis
      by (auto simp: set_condition_conditions set)
  next
    case False
    let ?u = "set_condition (rc_Lib R) ConditionTypeComplete ConditionFalse reason msg u"
    obtain v w1 l1 where run: "run_state (resume_after_failure (traced_rec R) ?u) (w, []) = (v, (w1, l1))"
      by (metis prod.collapse)
    then have "filter is_status_write l1 = [] \<and> failed_write (rc_Lib R) reason (WroteUpgradeStatus v)"
      by (auto simp: resume_after_failure_def getManagedApp_def run_traced_Resume set_condition_conditions set
          split: prod.splits sum.splits if_splits)
    with trace_setFailed_uncommitted [OF False run] show ?thesis by auto
  qed
qed

theorem failure_is_recorded_witness:
  "\<exists>v. filter is_status_write (trace_of (setFailed (traced_rec mem_rec) started_request ''SuspendFailed'' [])
      (with_request started_request)) = [WroteUpgradeStatus v] \<and>
     failed_write mem_lib ''SuspendFailed'' (WroteUpgradeStatus v)"
  using failure_is_recorded [of mem_rec started_request "''SuspendFailed''" "[]" "with_request started_request"]
  by (simp add: memcond.conditions_api_axioms)

text \<open>
  C17. A failure before the commit, of a request that suspended the Kustomization, reads the
  suspend target of the application and, if it is suspended, writes it back with the suspend flag
  off before it writes the request.
\<close>

theorem failure_before_commit_resumes:
  assumes "conditions_api (rc_Lib R)"
    and "\<not> IsStatusConditionTrue (rc_Lib R) (ur_Conditions u) ConditionTypeGitCommitted"
    and "IsStatusConditionTrue (rc_Lib R) (ur_Conditions u) ConditionTypeSuspended"
    and "run_state (GetManagedApp (rc_Client R) (managed_app_key u)) w = (Inr app, w1)"
    and "run_state (GetKustomization (rc_Client R) (suspend_key app)) w1 = (Inr ks, w2)" and "ks_Suspend ks"
  shows "take 2 (trace_of (setFailed (traced_rec R) u reason msg) w) =
     [GotKustomization (suspend_key app) (Inr ks), UpdatedKustomization (ks\<lparr>ks_Suspend := False\<rparr>)]"
proof -
  note set = conditions_api.find_set [OF assms(1)] conditions_api.is_true_set [OF assms(1)]
  let ?u = "set_condition (rc_Lib R) ConditionTypeComplete ConditionFalse reason msg u"
  obtain v w' l' where run: "run_state (resume_after_failure (traced_rec R) ?u) (w, []) = (v, (w', l'))"
    by (metis prod.collapse)
  have key: "managed_app_key ?u = managed_app_key u"
    by (simp add: managed_app_key_def set_condition_def)
  have "take 2 l' = [GotKustomization (suspend_key app) (Inr ks), UpdatedKustomization (ks\<lparr>ks_Suspend := False\<rparr>)]"
    using run assms(3-6)
    by (auto simp: resume_after_failure_def getManagedApp_def run_traced_Resume set_condition_conditions set key
        suspend_key_def split: prod.splits sum.splits)
  then obtain rest where "l' = [GotKustomization (suspend_key app) (Inr ks),
      UpdatedKustomization (ks\<lparr>ks_Suspend := False\<rparr>)] @ rest"
    by (metis append_take_drop_id)
  with trace_setFailed_uncommitted [OF assms(2) run] show ?thesis by (auto simp: numeral_2_eq_2)
qed

theorem failure_before_commit_resumes_witness:
  "take 2 (trace_of (setFailed (traced_rec mem_rec)
      (with_conditions [(ConditionTypeSuspended, ConditionTrue)] started_request) [] [])
      ((with_request started_request)\<lparr>cl_Kustomizations := [demo_ks\<lparr>ks_Suspend := True\<rparr>]\<rparr>)) =
     [GotKustomization (suspend_key demo_app) (Inr (demo_ks\<lparr>ks_Suspend := True\<rparr>)), UpdatedKustomization demo_ks]"
proof -
  let ?w = "(with_request started_request)\<lparr>cl_Kustomizations := [demo_ks\<lparr>ks_Suspend := True\<rparr>]\<rparr>"
  let ?u = "with_conditions [(ConditionTypeSuspended, ConditionTrue)] started_request"
  have "run_state (GetManagedApp (rc_Client mem_rec) (managed_app_key ?u)) ?w = (Inr demo_app, ?w)"
    by (simp add: with_request_def demo_cluster_def demo_app_def mem_client_def mem_get_def lookup_obj_def
        meta_key_def plain_meta_def new_meta_def)
  moreover have "run_state (GetKustomization (rc_Client mem_rec) (suspend_key demo_app)) ?w =
      (Inr (demo_ks\<lparr>ks_Suspend := True\<rparr>), ?w)"
    by (simp add: mem_client_def mem_get_def lookup_obj_def suspend_key_def getSuspendTarget_def demo_app_def
        demo_ks_def ks_key_def plain_meta_def new_meta_def ns_or_def)
  moreover have "\<not> IsStatusConditionTrue (rc_Lib mem_rec) (ur_Conditions ?u) ConditionTypeGitCommitted" by code_simp
  moreover have "IsStatusConditionTrue (rc_Lib mem_rec) (ur_Conditions ?u) ConditionTypeSuspended" by code_simp
  moreover have "demo_ks\<lparr>ks_Suspend := False\<rparr> = demo_ks" by (simp add: demo_ks_def)
  ultimately show ?thesis
    using failure_before_commit_resumes [of mem_rec ?u ?w demo_app ?w "demo_ks\<lparr>ks_Suspend := True\<rparr>" ?w "[]" "[]"]
    by (simp add: memcond.conditions_api_axioms)
qed

section \<open>Committing\<close>





section \<open>Completion\<close>

text \<open>
  C22. Completing an upgrade first writes to the application that its current version is the one
  that was committed, with the pending update cleared and the upgrade recorded as succeeded.
\<close>

theorem completion_updates_app:
  assumes "run_state (GetManagedApp (rc_Client R) (managed_app_key u)) w = (Inr app, w1)"
    and "urst_Upgrade (ur_Status u) = Some up"
  shows "\<exists>a es. trace_of (handleCompleted (traced_rec R) u) w = WroteManagedAppStatus a # es \<and>
     ma_Spec a = ma_Spec app \<and> mast_CurrentVersion (ma_Status a) = us_NewVersion up \<and>
     mast_AvailableUpdate (ma_Status a) = None \<and>
     map_option ui_Status (mast_LastUpgrade (ma_Status a)) = Some ''Succeeded''"
proof -
  obtain now w2 where now: "run_state (Now (rc_Client R)) w1 = (now, w2)" by fastforce
  let ?a = "upgraded_app (rc_Lib R) up now app"
  obtain r w3 where wr: "run_state (StatusUpdateManagedApp (rc_Client R) ?a) w2 = (r, w3)" by fastforce
  define rest where "rest = (\<lambda>app'. checked
         (case mas_VolumeSnapshots (ma_Spec app') of
            None \<Rightarrow> ret (Inr ())
          | Some v \<Rightarrow> if vsc_Enabled v then applySnapshotRetention (traced_rec R) app' v else ret (Inr ()))
         (\<lambda>_.
       checked (StatusUpdateUpgradeRequest (rc_Client (traced_rec R)) (completed (rc_Lib R) u)) (\<lambda>u'.
       remove_finalizer (traced_rec R) u')))"
  let ?app' = "case r of Inl _ \<Rightarrow> ?a | Inr app' \<Rightarrow> app'"
  have up: "urst_Upgrade (ur_Status (completed (rc_Lib R) u)) = Some up"
    using assms(2) by (simp add: completed_def set_condition_def Let_def)
  have "handleCompleted (traced_rec R) u = or_fail (traced_rec R) u ''ManagedAppNotFound'' (getManagedApp (traced_rec R) u)
      (\<lambda>app. State_Monad.bind (updateManagedAppAfterUpgrade (traced_rec R) app (completed (rc_Lib R) u)) rest)"
    by (simp add: handleCompleted_def rest_def)
  then have run: "run_state (handleCompleted (traced_rec R) u) (w, []) =
      run_state (rest ?app') (w3, [WroteManagedAppStatus ?a])"
    using assms(1) now wr up
    by (simp add: getManagedApp_def updateManagedAppAfterUpgrade_def run_on_err run_traced_app cong: sum.case_cong)
  have "keeps (extends [WroteManagedAppStatus ?a]) (rest app') (\<lambda>_. True)" for app'
    unfolding rest_def applySnapshotRetention_def
    by (intro keeps_rule TrueI ex.basic_keeps ex.step_keeps ex.keeps_ApplyRetentionPolicy)
  from keeps_run [OF this, of "(w3, [WroteManagedAppStatus ?a])"]
  obtain es where "trace_of (handleCompleted (traced_rec R) u) w = WroteManagedAppStatus ?a # es"
    by (auto simp: trace_of_def run)
  moreover have "ma_Spec ?a = ma_Spec app" "mast_CurrentVersion (ma_Status ?a) = us_NewVersion up"
    "mast_AvailableUpdate (ma_Status ?a) = None"
    "map_option ui_Status (mast_LastUpgrade (ma_Status ?a)) = Some ''Succeeded''"
    by (simp_all add: upgraded_app_def)
  ultimately show ?thesis by blast
qed

theorem completion_updates_app_witness:
  "\<exists>a es. trace_of (handleCompleted (traced_rec mem_rec)
       (started_request\<lparr>ur_Status := (ur_Status started_request)\<lparr>urst_Upgrade := Some \<lparr>us_PreviousVersion = None,
          us_NewVersion = Some \<lparr>vi_Chart = ''2.0'', vi_Images = []\<rparr>, us_GitCommit = [], us_StartedAt = None,
          us_CompletedAt = None\<rparr>\<rparr>\<rparr>)) (with_request started_request) = WroteManagedAppStatus a # es \<and>
     mast_CurrentVersion (ma_Status a) = Some \<lparr>vi_Chart = ''2.0'', vi_Images = []\<rparr>"
proof -
  let ?up = "\<lparr>us_PreviousVersion = None, us_NewVersion = Some \<lparr>vi_Chart = ''2.0'', vi_Images = []\<rparr>,
    us_GitCommit = [], us_StartedAt = None, us_CompletedAt = None\<rparr>"
  let ?u = "started_request\<lparr>ur_Status := (ur_Status started_request)\<lparr>urst_Upgrade := Some ?up\<rparr>\<rparr>"
  have "run_state (GetManagedApp (rc_Client mem_rec) (managed_app_key ?u)) (with_request started_request) =
      (Inr demo_app, with_request started_request)"
    using demo_app_key get_demo_app by (simp add: managed_app_key_def)
  from completion_updates_app [OF this, of ?up] show ?thesis by auto
qed

section \<open>Finished and deleted requests\<close>

text \<open>
  A request that is complete or failed and still holds its finalizer is left alone: the
  reconcile reads it and does nothing else.
\<close>

theorem terminal_request_untouched:
  assumes "run_state (GetUpgradeRequest (rc_Client R) req) w = (Inr u, w1)"
    and "om_DeletionTimestamp (ur_meta u) = None"
    and "ContainsFinalizer (rc_Lib R) (om_Finalizers (ur_meta u)) OperationFinalizer"
    and "terminal R u"
  shows "run_state (Reconcile R req) w = (Inr ResultDone, w1)"
  using assms by (simp add: Reconcile_def run_on_err)

theorem terminal_request_untouched_witness:
  "run_state (Reconcile mem_rec demo_key) (with_request (with_conditions [(ConditionTypeComplete, ConditionTrue)] started_request)) =
     (Inr ResultDone, with_request (with_conditions [(ConditionTypeComplete, ConditionTrue)] started_request))"
proof -
  have "terminal mem_rec (with_conditions [(ConditionTypeComplete, ConditionTrue)] started_request)" by code_simp
  then show ?thesis
    by (intro terminal_request_untouched, simp_all) (intro get_with_request, simp)
qed

text \<open>
  A finished request from which the completion handler removed the finalizer gets it back at
  the next reconcile, although the source expects it to stay removed: the finalizer is added
  before the terminal state is checked.
\<close>

theorem finalizer_returns_to_finished_request:
  assumes "finalizer_api (rc_Lib R)"
    and "run_state (GetUpgradeRequest (rc_Client R) req) w = (Inr u, w1)"
    and "om_DeletionTimestamp (ur_meta u) = None" and "terminal R u"
    and "\<not> ContainsFinalizer (rc_Lib R) (om_Finalizers (ur_meta u)) OperationFinalizer"
  shows "\<exists>v. trace_of (Reconcile (traced_rec R) req) w = [UpdatedUpgradeRequest v] \<and>
     ContainsFinalizer (rc_Lib R) (om_Finalizers (ur_meta v)) OperationFinalizer \<and> ur_Status v = ur_Status u"
  using assms(3,5)
  by (simp add: trace_of_def run_Reconcile [OF assms(2)] run_on_err finalizer_api.contains_add [OF assms(1)]
      split: prod.split sum.split)

theorem finalizer_returns_to_finished_request_witness:
  "\<exists>v. trace_of (Reconcile (traced_rec mem_rec) demo_key)
       (with_request (with_conditions [(ConditionTypeComplete, ConditionTrue)] demo_request)) = [UpdatedUpgradeRequest v] \<and>
     ContainsFinalizer mem_lib (om_Finalizers (ur_meta v)) OperationFinalizer"
proof -
  let ?u = "with_conditions [(ConditionTypeComplete, ConditionTrue)] demo_request"
  have "meta_key (ur_meta ?u) = demo_key"
    by (simp add: demo_request_def plain_meta_def new_meta_def meta_key_def demo_key_def)
  then have get: "run_state (GetUpgradeRequest (rc_Client mem_rec) demo_key) (with_request ?u) = (Inr ?u, with_request ?u)"
    by (simp add: get_with_request)
  have "om_DeletionTimestamp (ur_meta ?u) = None" and "terminal mem_rec ?u"
    and "\<not> ContainsFinalizer (rc_Lib mem_rec) (om_Finalizers (ur_meta ?u)) OperationFinalizer" by code_simp+
  with finalizer_returns_to_finished_request [OF _ get] memfin.finalizer_api_axioms
  show ?thesis by auto
qed

text \<open>
  Deleting a request that is in progress only drops its finalizer: nothing is resumed, even if
  the Kustomization is suspended on behalf of the request.
\<close>

theorem deletion_only_drops_finalizer:
  assumes "run_state (GetUpgradeRequest (rc_Client R) req) w = (Inr u, w1)"
    and "om_DeletionTimestamp (ur_meta u) \<noteq> None"
  shows "list_all is_finalizer_write (trace_of (Reconcile (traced_rec R) req) w)"
  using assms(2)
  by (simp add: trace_of_def run_Reconcile [OF assms(1)] remove_finalizer_def run_on_err split: prod.split sum.split)

theorem deletion_only_drops_finalizer_witness:
  "list_all is_finalizer_write (trace_of (Reconcile (traced_rec mem_rec) demo_key)
     (with_request (started_request\<lparr>ur_meta := (ur_meta started_request)\<lparr>om_DeletionTimestamp := Some 1\<rparr>\<rparr>)))"
  by (rule deletion_only_drops_finalizer, simp, rule get_with_request)
    (simp_all add: started_request_def demo_request_def meta_key_def demo_key_def plain_meta_def new_meta_def)

section \<open>The health-check timeout\<close>

text \<open>
  A round of the health phase without a recorded start time that finds the application unhealthy
  stores nothing: it ends in the world its reads left.
\<close>

lemma unhealthy_round:
  assumes "urst_PhaseStartedAt (ur_Status u) = None"
    and "run_state (Now (rc_Client R)) w = (t0, w1)"
    and "run_state (GetManagedApp (rc_Client R) (managed_app_key u)) w1 = (Inr app, w2)"
    and "run_state (CheckHealth (rc_Client R) (rc_Helm R) app) w2 = (Inr h, w3)" and "\<not> hr_Healthy h"
    and "run_state (Now (rc_Client R)) w3 = (t1, w4)" and "t1 - t0 \<le> health_timeout (rc_Lib R) app"
  shows "run_state (handleHealthChecking R u) w = (Inr (ResultRequeueAfter (10 * Second)), w4)"
  using assms
  by (simp add: handleHealthChecking_def setPhaseStartIfNeeded_def set_phase_start_def getManagedApp_def
      managed_app_key_def isPhaseTimedOut_def run_on_err)

text \<open>The reconciling phase ends by storing the request without a start time; a failure never asks for another round.\<close>

lemma failure_asks_nothing: "yields (setFailed R u reason msg) (\<lambda>r. r \<noteq> Inr ResultRequeue)"
proof (rule yieldsI)
  fix w r w'
  assume "run_state (setFailed R u reason msg) w = (r, w')"
  then show "r \<noteq> Inr ResultRequeue"
    by (auto simp: setFailed_def remove_finalizer_def run_on_err ResultDone_def ResultRequeue_def
        split: prod.splits sum.splits if_splits)
qed

lemma resume_keeps_requests:
  "keeps (\<lambda>c. cl_Upgrades c = us) (ResumeKustomization mem_client n ns) (\<lambda>_. True)"
  by (rule keepsI)
    (auto simp: ResumeKustomization_def run_on_err run_wrap_err mem_client_def mem_get_def mem_modify_def
      split: option.splits sum.splits prod.splits if_splits)

definition rests_healthless :: "UpgradeRequest \<Rightarrow> UpgradeRequest \<Rightarrow> bool" where
  "rests_healthless u v \<longleftrightarrow> ur_meta v = ur_meta u \<and> ur_Spec v = ur_Spec u \<and>
     urst_PhaseStartedAt (ur_Status v) = None \<and>
     IsStatusConditionTrue mem_lib (ur_Conditions v) ConditionTypeReconciled \<and>
     FindStatusCondition mem_lib (ur_Conditions v) ConditionTypeSuspended \<noteq> None \<and>
     (\<forall>t. t \<noteq> ConditionTypeReconciled \<and> t \<noteq> ConditionTypeSuspended \<longrightarrow>
        FindStatusCondition mem_lib (ur_Conditions v) t = FindStatusCondition mem_lib (ur_Conditions u) t)"

lemma reconciled_without_start:
  assumes stored: "lookup_obj ur_key (cl_Upgrades c) k = Some u"
    and run: "run_state (handleReconciling mem_rec u) c = (Inr ResultRequeue, c1)"
  shows "\<exists>v. lookup_obj ur_key (cl_Upgrades c1) k = Some v \<and> rests_healthless u v"
proof -
  obtain u' where start: "run_state (setPhaseStartIfNeeded mem_rec u) c = (u', c)"
    and u': "ur_meta u' = ur_meta u" "ur_Spec u' = ur_Spec u" "ur_Conditions u' = ur_Conditions u"
  proof (cases "urst_PhaseStartedAt (ur_Status u) = None")
    case True
    then show ?thesis
      by (intro that [of "set_phase_start (Some (cl_Now c)) u"])
        (simp_all add: setPhaseStartIfNeeded_def set_phase_start_def mem_client_def)
  next
    case False
    then show ?thesis by (intro that [of u]) (auto simp: setPhaseStartIfNeeded_def)
  qed
  obtain app where app: "run_state (GetManagedApp mem_client (managed_app_key u')) c = (Inr app, c)"
    using run start
    by (auto simp: handleReconciling_def getManagedApp_def run_on_err mem_client_def mem_get_def
        split: option.splits dest: yieldsD [OF failure_asks_nothing])
  define tgt where "tgt = getSuspendTarget app"
  define u1 where "u1 = set_condition mem_lib ConditionTypeSuspended ConditionFalse ''KustomizationResumed''
      (''Resumed '' @ snd tgt @ ''/'' @ fst tgt) u'"
  define u2 where "u2 = set_condition mem_lib ConditionTypeReconciled ConditionTrue ''ReconciliationSucceeded''
      ''Flux reconciled the changes'' (resetPhaseStart u1)"
  obtain c2 where c2: "run_state (ResumeKustomization mem_client (fst tgt) (snd tgt)) c = (Inr (), c2)"
    using run start app
    by (auto simp: handleReconciling_def getManagedApp_def run_on_err tgt_def Let_def
        split: sum.splits prod.splits dest: yieldsD [OF failure_asks_nothing])
  define check where "check = IsReconciled mem_client (nn_Name (kustomization_key app)) (nn_Namespace (kustomization_key app))"
  have reads: "snd (run_state check c2) = c2"
    by (simp add: check_def IsReconciled_def run_on_err run_wrap_err mem_client_def mem_get_def
        split: option.split sum.split prod.split)
  have "run_state (save_status mem_rec u2 ResultRequeue) c2 = (Inr ResultRequeue, c1)"
    using run start app c2 reads
    by (auto simp: handleReconciling_def getManagedApp_def run_on_err tgt_def [symmetric] Let_def u1_def
        u2_def check_def [symmetric] save_status_def ResultRequeue_def ResultRequeueAfter_def Second_def
        split: sum.splits prod.splits if_splits dest: yieldsD [OF failure_asks_nothing [unfolded ResultRequeue_def]])
  moreover have "cl_Upgrades c2 = cl_Upgrades c"
    using keepsD [OF resume_keeps_requests refl c2] by simp
  moreover have "ur_key u2 = k"
    using lookup_key [OF stored] by (simp add: u2_def u1_def set_condition_def resetPhaseStart_def set_phase_start_def u')
  ultimately have "lookup_obj ur_key (cl_Upgrades c1) k = Some (u\<lparr>ur_Status := ur_Status u2\<rparr>)"
    using stored lookup_replace [of ur_key "cl_Upgrades c" "u\<lparr>ur_Status := ur_Status u2\<rparr>" u] lookup_key [OF stored]
    by (auto simp: save_status_def run_on_err mem_client_def mem_modify_def)
  moreover have "rests_healthless u (u\<lparr>ur_Status := ur_Status u2\<rparr>)"
    using u' by (auto simp: rests_healthless_def u2_def u1_def set_condition_def resetPhaseStart_def set_phase_start_def
        memcond.find_set memcond.is_true_set)
  ultimately show ?thesis by blast
qed

text \<open>Reconciling a request again and again, each time after some waiting: the answers and the cluster left.\<close>

primrec rounds :: "NamespacedName \<Rightarrow> int list \<Rightarrow> cluster \<Rightarrow> (goerror + Result) list \<times> cluster" where
  "rounds k [] c = ([], c)"
| "rounds k (d # ds) c =
     (case run_state (Reconcile mem_rec k) (c\<lparr>cl_Now := cl_Now c + d\<rparr>) of
        (r, c1) \<Rightarrow> (case rounds k ds c1 of (rs, c2) \<Rightarrow> (r # rs, c2)))"

lemma unhealthy_reconcile:
  assumes stored: "lookup_obj ur_key (cl_Upgrades c) k = Some v"
    and live: "om_DeletionTimestamp (ur_meta v) = None"
      "ContainsFinalizer mem_lib (om_Finalizers (ur_meta v)) OperationFinalizer" "\<not> terminal mem_rec v"
      "\<not> urs_DryRun (ur_Spec v)" "FindStatusCondition mem_lib (ur_Conditions v) ConditionTypeSuspended \<noteq> None"
      "list_all (cond_true mem_rec v) [ConditionTypeWorkloadStopped, ConditionTypeSnapshotReady, ConditionTypeGitCommitted,
         ConditionTypeReconciled]" "\<not> cond_true mem_rec v ConditionTypeHealthy"
      "urst_PhaseStartedAt (ur_Status v) = None"
    and app: "lookup_obj ma_key (cl_Apps c) (managed_app_key v) = Some app" "0 \<le> health_timeout mem_lib app"
    and ill: "run_state (CheckHealth mem_client (rc_Helm mem_rec) app) c = (Inr h, c)" "\<not> hr_Healthy h"
  shows "run_state (Reconcile mem_rec k) c = (Inr (ResultRequeueAfter (10 * Second)), c)"
proof -
  have "run_state (Now (rc_Client mem_rec)) c = (cl_Now c, c)"
    by (simp add: mem_client_def)
  moreover have "run_state (GetManagedApp (rc_Client mem_rec) (managed_app_key v)) c = (Inr app, c)"
    using app(1) by (simp add: mem_client_def mem_get_def)
  ultimately have "run_state (handleHealthChecking mem_rec v) c = (Inr (ResultRequeueAfter (10 * Second)), c)"
    using unhealthy_round [of v mem_rec c "cl_Now c" c app c h c "cl_Now c" c] live(8) ill app(2) by simp
  moreover have "run_state (GetUpgradeRequest mem_client k) c = (Inr v, c)"
    using stored by (simp add: mem_client_def mem_get_def)
  ultimately show ?thesis
    using live by (auto simp: Reconcile_def run_on_err phase_step_def later_phases_def)
qed

text \<open>
  C39. The timeout of the health check never fires. On the in-memory cluster, once a reconcile has ended
  the reconciling phase of a request by asking for another round, the stored request carries no start time;
  and if the application is unhealthy then, whatever the clock says, every later reconcile only asks to be
  called again after ten seconds and stores nothing at all, however often and after however long waits it is
  called: the start of the phase is never recorded and the request never fails as \<open>HealthCheckTimeout\<close>.
\<close>

theorem health_timeout_never_recorded:
  assumes stored: "lookup_obj ur_key (cl_Upgrades c) k = Some u"
    and live: "om_DeletionTimestamp (ur_meta u) = None"
      "ContainsFinalizer mem_lib (om_Finalizers (ur_meta u)) OperationFinalizer" "\<not> terminal mem_rec u"
      "\<not> urs_DryRun (ur_Spec u)" "FindStatusCondition mem_lib (ur_Conditions u) ConditionTypeSuspended \<noteq> None"
      "list_all (cond_true mem_rec u) [ConditionTypeWorkloadStopped, ConditionTypeSnapshotReady, ConditionTypeGitCommitted]"
      "\<not> cond_true mem_rec u ConditionTypeReconciled" "\<not> cond_true mem_rec u ConditionTypeHealthy"
    and ended: "run_state (Reconcile mem_rec k) c = (Inr ResultRequeue, c1)"
    and app: "lookup_obj ma_key (cl_Apps c1) (managed_app_key u) = Some app" "0 \<le> health_timeout mem_lib app"
    and ill: "\<forall>t. \<exists>h. run_state (CheckHealth mem_client (rc_Helm mem_rec) app) (c1\<lparr>cl_Now := t\<rparr>) = (Inr h, c1\<lparr>cl_Now := t\<rparr>) \<and>
      \<not> hr_Healthy h"
  shows "(\<exists>v. lookup_obj ur_key (cl_Upgrades c1) k = Some v \<and> urst_PhaseStartedAt (ur_Status v) = None \<and>
       cond_true mem_rec v ConditionTypeReconciled \<and> \<not> terminal mem_rec v) \<and>
     rounds k ds c1 = (replicate (length ds) (Inr (ResultRequeueAfter (10 * Second))), c1\<lparr>cl_Now := cl_Now c1 + sum_list ds\<rparr>)"
proof -
  have "run_state (GetUpgradeRequest mem_client k) c = (Inr u, c)"
    using stored by (simp add: mem_client_def mem_get_def)
  then have "run_state (handleReconciling mem_rec u) c = (Inr ResultRequeue, c1)"
    using ended live by (auto simp: Reconcile_def run_on_err phase_step_def later_phases_def)
  from reconciled_without_start [OF stored this]
  obtain v where v: "lookup_obj ur_key (cl_Upgrades c1) k = Some v" "rests_healthless u v" by blast
  have live': "om_DeletionTimestamp (ur_meta v) = None"
      "ContainsFinalizer mem_lib (om_Finalizers (ur_meta v)) OperationFinalizer" "\<not> terminal mem_rec v"
      "\<not> urs_DryRun (ur_Spec v)" "FindStatusCondition mem_lib (ur_Conditions v) ConditionTypeSuspended \<noteq> None"
      "list_all (cond_true mem_rec v) [ConditionTypeWorkloadStopped, ConditionTypeSnapshotReady, ConditionTypeGitCommitted,
         ConditionTypeReconciled]" "\<not> cond_true mem_rec v ConditionTypeHealthy"
      "urst_PhaseStartedAt (ur_Status v) = None"
    using v(2) live by (simp_all add: rests_healthless_def terminal_def memcond.is_true_iff condition_type_defs)
  have key: "managed_app_key v = managed_app_key u"
    using v(2) by (simp add: rests_healthless_def managed_app_key_def)
  have round: "run_state (Reconcile mem_rec k) (c1\<lparr>cl_Now := t\<rparr>) = (Inr (ResultRequeueAfter (10 * Second)), c1\<lparr>cl_Now := t\<rparr>)" for t
  proof -
    from ill obtain h where "run_state (CheckHealth mem_client (rc_Helm mem_rec) app) (c1\<lparr>cl_Now := t\<rparr>) = (Inr h, c1\<lparr>cl_Now := t\<rparr>)"
      and "\<not> hr_Healthy h" by blast
    then show ?thesis
      by (intro unhealthy_reconcile [where v = v and app = app] live' app(2)) (simp_all add: v(1) key app(1))
  qed
  have "rounds k ds (c1\<lparr>cl_Now := t\<rparr>) =
      (replicate (length ds) (Inr (ResultRequeueAfter (10 * Second))), c1\<lparr>cl_Now := t + sum_list ds\<rparr>)" for t
    by (induction ds arbitrary: t) (simp_all add: round add.assoc)
  from this [of "cl_Now c1"] show ?thesis using v live' by auto
qed

text \<open>
  A cluster in which Flux has reconciled the new version and the application's only workload never gets
  ready: the application keeps its data in one claim, mounted by the pod of a StatefulSet.
\<close>

definition sick_app :: ManagedApp where
  "sick_app = demo_app\<lparr>ma_Spec := (ma_Spec demo_app)\<lparr>mas_VolumeSnapshots := Some \<lparr>vsc_Enabled = True,
     vsc_VolumeSnapshotClassName = [], vsc_PVCs = [\<lparr>pvcref_Name = ''data'', pvcref_Namespace = []\<rparr>], vsc_ExcludePVCs = [],
     vsc_RetentionPolicy = None\<rparr>\<rparr>\<rparr>"

definition sick_claim :: PersistentVolumeClaim where
  "sick_claim = \<lparr>pvc_meta = plain_meta ''data'' ''d'', pvc_AccessModes = [], pvc_StorageClassName = None,
     pvc_StorageRequest = ''1Gi'', pvc_DataSource = None, pvc_Phase = ''Bound''\<rparr>"

definition sick_pod :: Pod where
  "sick_pod = \<lparr>pod_meta = (plain_meta ''db-0'' ''d'')\<lparr>om_OwnerReferences := [\<lparr>owner_APIVersion = ''apps/v1'',
     owner_Kind = ''StatefulSet'', owner_Name = ''db'', owner_UID = []\<rparr>]\<rparr>, pod_Volumes = [Some ''data'']\<rparr>"

definition sick_workload :: StatefulSet where
  "sick_workload = \<lparr>sts_meta = plain_meta ''db'' ''d'', sts_Replicas = Some 1, sts_Selector = None, sts_ReadyReplicas = 0\<rparr>"

definition sick_request :: UpgradeRequest where
  "sick_request = with_conditions [(ConditionTypeSuspended, ConditionTrue), (ConditionTypeWorkloadStopped, ConditionTrue),
     (ConditionTypeSnapshotReady, ConditionTrue), (ConditionTypeGitCommitted, ConditionTrue)] started_request"

definition sick_demo :: cluster where
  "sick_demo = (with_request sick_request)\<lparr>cl_Apps := [sick_app], cl_PVCs := [sick_claim], cl_Pods := [sick_pod],
     cl_StatefulSets := [sick_workload]\<rparr>"

lemma sick_health:
  assumes "cl_Kustomizations c = [demo_ks]" and "cl_PVCs c = [sick_claim]" and "cl_Pods c = [sick_pod]"
    and "cl_StatefulSets c = [sick_workload]"
  shows "\<exists>h. run_state (CheckHealth mem_client H sick_app) c = (Inr h, c) \<and> \<not> hr_Healthy h"
  using assms
  by (simp add: CheckHealth_def checkFluxResourceReady_def checkWorkloadReady_def health_of_statuses_def workload_status_def
      replicas_ready_def replicas_or_default_def discovery_defs explicit_pvcs_def filterPVCs_def excluded_keys_def
      mounts_any_def workload_key_def getOwningWorkload_def put_if_absent_def run_on_err run_wrap_err mem_client_def
      mem_get_def mem_list_def lookup_obj_def sick_app_def sick_claim_def sick_pod_def sick_workload_def demo_app_def
      demo_ks_def ks_key_def meta_key_def sts_key_def plain_meta_def new_meta_def ns_or_def Let_def
      KindStatefulSet_def KindDeployment_def ConditionTrue_def)

definition sick_cluster :: "cluster \<Rightarrow> bool" where
  "sick_cluster c \<longleftrightarrow> cl_Kustomizations c = [demo_ks] \<and> cl_PVCs c = [sick_claim] \<and> cl_Pods c = [sick_pod] \<and>
     cl_StatefulSets c = [sick_workload] \<and> cl_Apps c = [sick_app]"

definition sick_round :: "(goerror + Result) \<times> cluster \<Rightarrow> bool" where
  "sick_round rc \<longleftrightarrow> fst rc = Inr ResultRequeue \<and> sick_cluster (snd rc)"

definition sick_request_live :: bool where
  "sick_request_live \<longleftrightarrow> om_DeletionTimestamp (ur_meta sick_request) = None \<and>
     ContainsFinalizer mem_lib (om_Finalizers (ur_meta sick_request)) OperationFinalizer \<and> \<not> terminal mem_rec sick_request \<and>
     \<not> urs_DryRun (ur_Spec sick_request) \<and>
     FindStatusCondition mem_lib (ur_Conditions sick_request) ConditionTypeSuspended \<noteq> None \<and>
     list_all (cond_true mem_rec sick_request)
       [ConditionTypeWorkloadStopped, ConditionTypeSnapshotReady, ConditionTypeGitCommitted] \<and>
     \<not> cond_true mem_rec sick_request ConditionTypeReconciled \<and> \<not> cond_true mem_rec sick_request ConditionTypeHealthy"

text \<open>Half an hour of waiting, six times the timeout.\<close>

theorem health_timeout_never_recorded_witness:
  "\<exists>c1. run_state (Reconcile mem_rec demo_key) sick_demo = (Inr ResultRequeue, c1) \<and>
     rounds demo_key [10 * Minute, 10 * Minute, 10 * Minute] c1 =
       ([Inr (ResultRequeueAfter (10 * Second)), Inr (ResultRequeueAfter (10 * Second)),
         Inr (ResultRequeueAfter (10 * Second))], c1\<lparr>cl_Now := cl_Now c1 + 30 * Minute\<rparr>) \<and>
     health_timeout mem_lib sick_app < 30 * Minute"
proof -
  have "sick_round (run_state (Reconcile mem_rec demo_key) sick_demo)" by code_simp
  then obtain c1 where run: "run_state (Reconcile mem_rec demo_key) sick_demo = (Inr ResultRequeue, c1)"
    and sick: "sick_cluster c1" by (auto simp: sick_round_def prod_eq_iff)
  have live: "sick_request_live" by code_simp
  have key: "ur_key sick_request = demo_key" "managed_app_key sick_request = NN ''app'' ''d''"
    using demo_app_key by (simp_all add: sick_request_def)
  have stored: "lookup_obj ur_key (cl_Upgrades sick_demo) demo_key = Some sick_request"
    by (simp add: sick_demo_def with_request_def lookup_obj_def key)
  have app: "lookup_obj ma_key (cl_Apps c1) (managed_app_key sick_request) = Some sick_app"
    using sick by (simp add: sick_cluster_def lookup_obj_def key sick_app_def demo_app_def meta_key_def plain_meta_def new_meta_def)
  have limit: "health_timeout mem_lib sick_app = 5 * Minute"
    by (simp add: health_timeout_def sick_app_def demo_app_def TimeoutHealthCheck_def)
  have ill: "\<forall>t. \<exists>h. run_state (CheckHealth mem_client (rc_Helm mem_rec) sick_app) (c1\<lparr>cl_Now := t\<rparr>) =
      (Inr h, c1\<lparr>cl_Now := t\<rparr>) \<and> \<not> hr_Healthy h"
    using sick by (intro allI sick_health) (simp_all add: sick_cluster_def)
  have "rounds demo_key [10 * Minute, 10 * Minute, 10 * Minute] c1 =
      ([Inr (ResultRequeueAfter (10 * Second)), Inr (ResultRequeueAfter (10 * Second)),
         Inr (ResultRequeueAfter (10 * Second))], c1\<lparr>cl_Now := cl_Now c1 + 30 * Minute\<rparr>)"
    using health_timeout_never_recorded [OF stored _ _ _ _ _ _ _ _ run app _ ill, of "[10 * Minute, 10 * Minute, 10 * Minute]"]
      live limit by (simp add: sick_request_live_def Minute_def Second_def)
  with run limit show ?thesis by (simp add: Minute_def Second_def)
qed

end
