(* ===== verification/Rollback.thy ===== *)
theory Rollback
  imports Controller
begin

text \<open>
  \<open>internal/controller/rollbackrequest_controller.go\<close>: the rollback state machine, one definition
  per method, named as in the source. The methods mirror those of the upgrade controller on a
  \<open>RollbackRequest\<close>; where both theories are loaded they are told apart by their qualifier.
\<close>

section \<open>Conditions and the phase timer\<close>

abbreviation rr_Conditions :: "RollbackRequest \<Rightarrow> Condition list" where
  "rr_Conditions u \<equiv> rrst_Conditions (rr_Status u)"

definition set_condition ::
  "klib \<Rightarrow> string \<Rightarrow> string \<Rightarrow> string \<Rightarrow> string \<Rightarrow> RollbackRequest \<Rightarrow> RollbackRequest" where
  "set_condition L ctype status reason message u =
     u\<lparr>rr_Status := (rr_Status u)\<lparr>rrst_Conditions :=
        SetStatusCondition L (rr_Conditions u)
          \<lparr>c_Type = ctype, c_Status = status, c_Reason = reason, c_Message = message,
           c_ObservedGeneration = om_Generation (rr_meta u)\<rparr>\<rparr>\<rparr>"

abbreviation cond_true :: "('w, 'n) reconciler \<Rightarrow> RollbackRequest \<Rightarrow> string \<Rightarrow> bool" where
  "cond_true R u t \<equiv> IsStatusConditionTrue (rc_Lib R) (rr_Conditions u) t"

definition set_phase_start :: "time option \<Rightarrow> RollbackRequest \<Rightarrow> RollbackRequest" where
  "set_phase_start t u = u\<lparr>rr_Status := (rr_Status u)\<lparr>rrst_PhaseStartedAt := t\<rparr>\<rparr>"

definition setPhaseStartIfNeeded :: "('w, 'n) reconciler \<Rightarrow> RollbackRequest \<Rightarrow> ('w, RollbackRequest) state" where
  "setPhaseStartIfNeeded R u =
     (if rrst_PhaseStartedAt (rr_Status u) = None
      then do { now \<leftarrow> Now (rc_Client R); ret (set_phase_start (Some now) u) }
      else ret u)"

definition resetPhaseStart :: "RollbackRequest \<Rightarrow> RollbackRequest" where
  "resetPhaseStart u = set_phase_start None u"

definition isPhaseTimedOut :: "('w, 'n) reconciler \<Rightarrow> RollbackRequest \<Rightarrow> int \<Rightarrow> ('w, bool) state" where
  "isPhaseTimedOut R u timeout =
     (case rrst_PhaseStartedAt (rr_Status u) of
        None \<Rightarrow> ret False
      | Some start \<Rightarrow> do { now \<leftarrow> Now (rc_Client R); ret (timeout < now - start) })"

definition save_status :: "('w, 'n) reconciler \<Rightarrow> RollbackRequest \<Rightarrow> Result \<Rightarrow> ('w, Result) call" where
  "save_status R u result = checked (StatusUpdateRollbackRequest (rc_Client R) u) (\<lambda>_. ret (Inr result))"

definition remove_finalizer :: "('w, 'n) reconciler \<Rightarrow> RollbackRequest \<Rightarrow> ('w, Result) call" where
  "remove_finalizer R u =
     (if ContainsFinalizer (rc_Lib R) (om_Finalizers (rr_meta u)) OperationFinalizer
      then checked (UpdateRollbackRequest (rc_Client R)
               (u\<lparr>rr_meta := (rr_meta u)\<lparr>om_Finalizers :=
                   RemoveFinalizer (rc_Lib R) (om_Finalizers (rr_meta u)) OperationFinalizer\<rparr>\<rparr>))
             (\<lambda>_. ret (Inr ResultDone))
      else ret (Inr ResultDone))"

section \<open>Lookups\<close>

definition upgrade_request_key :: "RollbackRequest \<Rightarrow> NamespacedName" where
  "upgrade_request_key u =
     NN (ref_Name (rrs_UpgradeRequestRef (rr_Spec u)))
        (ns_or (ref_Namespace (rrs_UpgradeRequestRef (rr_Spec u))) (om_Namespace (rr_meta u)))"

definition getUpgradeRequest :: "('w, 'n) reconciler \<Rightarrow> RollbackRequest \<Rightarrow> ('w, UpgradeRequest) call" where
  "getUpgradeRequest R u = GetUpgradeRequest (rc_Client R) (upgrade_request_key u)"

definition getManagedApp :: "('w, 'n) reconciler \<Rightarrow> UpgradeRequest \<Rightarrow> ('w, ManagedApp) call" where
  "getManagedApp R upgrade = GetManagedApp (rc_Client R) (managed_app_key upgrade)"

definition isUpgradeTerminal :: "('w, 'n) reconciler \<Rightarrow> UpgradeRequest \<Rightarrow> bool" where
  "isUpgradeTerminal R upgrade \<longleftrightarrow>
     FindStatusCondition (rc_Lib R) (ur_Conditions upgrade) ConditionTypeComplete \<noteq> None"

definition unknownVersion :: string where
  "unknownVersion = ''unknown''"

definition getVersionString :: "VersionInfo option \<Rightarrow> string" where
  "getVersionString v =
     (case v of
        None \<Rightarrow> unknownVersion
      | Some v \<Rightarrow>
          if vi_Chart v \<noteq> [] then vi_Chart v
          else (case vi_Images v of img # _ \<Rightarrow> img_Tag img | [] \<Rightarrow> unknownVersion))"

section \<open>Failure\<close>

definition setFailed :: "('w, 'n) reconciler \<Rightarrow> RollbackRequest \<Rightarrow> string \<Rightarrow> string \<Rightarrow> ('w, Result) call" where
  "setFailed R u reason message =
     checked (StatusUpdateRollbackRequest (rc_Client R)
         (set_condition (rc_Lib R) ConditionTypeComplete ConditionFalse reason message u))
       (\<lambda>u'. remove_finalizer R u')"

abbreviation or_fail ::
  "('w, 'n) reconciler \<Rightarrow> RollbackRequest \<Rightarrow> string \<Rightarrow> ('w, 'a) call \<Rightarrow> ('a \<Rightarrow> ('w, Result) call) \<Rightarrow> ('w, Result) call" where
  "or_fail R u reason m k \<equiv> on_err m (\<lambda>e. setFailed R u reason (Error e)) k"

definition setRollbackDryRunFailed ::
  "('w, 'n) reconciler \<Rightarrow> RollbackRequest \<Rightarrow> ManagedApp \<Rightarrow> string \<Rightarrow> ('w, Result) call" where
  "setRollbackDryRunFailed R u app message =
     (if cond_true R u ConditionTypeSuspended then do {
        r \<leftarrow> ResumeKustomization (rc_Client R) (fst (getSuspendTarget app)) (snd (getSuspendTarget app));
        setFailed R u ''DryRunFailed''
          (case r of
             Inl _ \<Rightarrow> message @ '' (WARNING: Kustomization may still be suspended '' @ em_dash @ '' manual resume required)''
           | Inr _ \<Rightarrow> message)
      }
      else setFailed R u ''DryRunFailed'' message)"

section \<open>Preflight\<close>

text \<open>\<open>upgrade.Status.Snapshot != nil && len(...) > 0 && !upgrade.Spec.SkipSnapshot\<close>.\<close>

definition has_snapshots :: "UpgradeRequest \<Rightarrow> bool" where
  "has_snapshots upgrade \<longleftrightarrow> length (recorded_snapshots upgrade) > 0 \<and> \<not> urs_SkipSnapshot (ur_Spec upgrade)"

definition verify_snapshots ::
  "('w, 'n) reconciler \<Rightarrow> ManagedApp \<Rightarrow> PVCSnapshotInfo list \<Rightarrow> ('w, unit list) call" where
  "verify_snapshots R app snaps =
     for_each (\<lambda>snap.
       checked (wrap_err (''snapshot '' @ psi_SnapshotName snap @ '' no longer exists or cannot be checked'')
           (IsSnapshotReady (rc_Client R) (psi_SnapshotName snap) (ma_Namespace app)))
         (\<lambda>ready. ret (if ready then Inr ()
            else Inl (ErrorString (''snapshot '' @ psi_SnapshotName snap @ '' is not ready''))))) snaps"

definition runRollbackPreflight ::
  "('w, 'n) reconciler \<Rightarrow> ManagedApp \<Rightarrow> UpgradeRequest \<Rightarrow> ('w, preflightResult) call" where
  "runRollbackPreflight R app upgrade =
     (let C = rc_Client R; ks = kustomization_key app; sk = suspend_key app; snaps = recorded_snapshots upgrade
      in checked (wrap_err ''invalid suspend target'' (ValidateSuspendTarget C ks (getSuspendRefStruct app))) (\<lambda>_. do {
           rec \<leftarrow> IsReconciled C (nn_Name ks) (nn_Namespace ks);
           susp \<leftarrow> IsSuspended C (nn_Name sk) (nn_Namespace sk);
           (if has_snapshots upgrade then
              checked (verify_snapshots R app snaps) (\<lambda>_.
              checked (wrap_err ''workload discovery for PVCs failed''
                  (DiscoverWorkloadsForPVCs C (map psi_PVCName snaps) (ma_Namespace app))) (\<lambda>workloads.
              ret (Inr \<lparr>pf_Workloads = workloads, pf_PVCs = [],
                pf_Summary = [kustomization_summary app (rec = Inr True) @ ''. ''
                   @ itoa (int (length snaps)) @ '' snapshots to restore, ''
                   @ itoa (int (length workloads)) @ '' workloads to scale''],
                pf_Warnings = preflight_warnings app rec susp\<rparr>)))
            else
              ret (Inr \<lparr>pf_Workloads = [], pf_PVCs = [],
                pf_Summary = [kustomization_summary app (rec = Inr True) @ ''. No snapshots to restore''],
                pf_Warnings = preflight_warnings app rec susp\<rparr>))
         }))"

text \<open>
  The version a rollback goes back to. \<open>up\<close> is the object behind \<open>upgrade.Status.Upgrade\<close>, which
  both callers have checked.
\<close>

definition revert_version :: "VersionInfo \<Rightarrow> string option" where
  "revert_version targetVersion =
     (if vi_Chart targetVersion \<noteq> [] then Some (vi_Chart targetVersion)
      else case vi_Images targetVersion of img # _ \<Rightarrow> Some (img_Tag img) | [] \<Rightarrow> None)"

definition runRollbackGitDiffPreview ::
  "('w, 'n) reconciler \<Rightarrow> 'w git_manager \<Rightarrow> ManagedApp \<Rightarrow> UpgradeStatus \<Rightarrow> ('w, string \<times> string \<times> string) call" where
  "runRollbackGitDiffPreview R G app up =
     (case us_PreviousVersion up of
        None \<Rightarrow> ret (Inl (ErrorString ''no previous version recorded''))
      | Some targetVersion \<Rightarrow>
        (case revert_version targetVersion of
           None \<Rightarrow> ret (Inl (ErrorString ''no chart version or images in previous version''))
         | Some revertVersion \<Rightarrow>
           checked (wrap_err (''cannot read Git file '' @ mas_GitPath (ma_Spec app))
               (gm_ReadFile G (mas_GitPath (ma_Spec app)))) (\<lambda>content.
           checked (wrap_err (''cannot read version at path '' @ version_path_of app)
               (ret (GetVersion (rc_Yaml R) content (version_path_of app)))) (\<lambda>currentVersion.
           checked (wrap_err ''version revert would produce invalid YAML''
               (ret (UpdateVersion (rc_Yaml R) content (version_path_of app) revertVersion))) (\<lambda>_.
           ret (Inr (currentVersion, revertVersion, version_path_of app)))))))"

definition git_preview ::
  "('w, 'n) reconciler \<Rightarrow> ManagedApp \<Rightarrow> UpgradeStatus \<Rightarrow> ('w, string \<times> string \<times> string) call" where
  "git_preview R app up =
     (case rc_Git R of
        None \<Rightarrow> ret (Inr ([], [], []))
      | Some G \<Rightarrow> runRollbackGitDiffPreview R G app up)"

section \<open>Dry run\<close>

definition retry_or_fail ::
  "('w, 'n) reconciler \<Rightarrow> RollbackRequest \<Rightarrow> ManagedApp \<Rightarrow> int \<Rightarrow> string \<Rightarrow> int \<Rightarrow> ('w, Result) call" where
  "retry_or_fail R u app timeout message seconds = do {
     timedOut \<leftarrow> isPhaseTimedOut R u timeout;
     (if timedOut then setRollbackDryRunFailed R u app message
      else save_status R u (ResultRequeueAfter (seconds * Second)))
   }"

definition rollbackDryRunSuspend ::
  "('w, 'n) reconciler \<Rightarrow> RollbackRequest \<Rightarrow> ManagedApp \<Rightarrow> string \<Rightarrow> string \<Rightarrow> ('w, Result) call" where
  "rollbackDryRunSuspend R u0 app suspendName suspendNS = do {
     u \<leftarrow> setPhaseStartIfNeeded R u0;
     on_err (SuspendKustomization (rc_Client R) suspendName suspendNS)
       (\<lambda>e. retry_or_fail R u app TimeoutSuspend (''Suspend timed out: '' @ Error e) 5)
       (\<lambda>_. do {
          suspended \<leftarrow> IsSuspended (rc_Client R) suspendName suspendNS;
          (if suspended \<noteq> Inr True
           then retry_or_fail R u app TimeoutSuspend ''Suspend verification timed out'' 2
           else save_status R
                  (set_condition (rc_Lib R) ConditionTypeSuspended ConditionTrue ''DryRunSuspended''
                     (''Dry run: suspended '' @ suspendNS @ ''/'' @ suspendName) (resetPhaseStart u))
                  ResultRequeue)
        })
   }"

definition rollbackDryRunScaleDown ::
  "('w, 'n) reconciler \<Rightarrow> RollbackRequest \<Rightarrow> ManagedApp \<Rightarrow> WorkloadInfo list \<Rightarrow> ('w, Result) call" where
  "rollbackDryRunScaleDown R u0 app workloads = do {
     u \<leftarrow> setPhaseStartIfNeeded R u0;
     on_err
       (for_each (\<lambda>w. do {
            r \<leftarrow> ScaleDown (rc_Client R) (wi_Kind w) (wi_Name w) (workloadNS w (ma_Namespace app));
            ret (case r of
                   Inl e \<Rightarrow> Inl (''Scale down failed for '' @ wi_Kind w @ ''/'' @ wi_Name w @ '': '' @ Error e)
                 | Inr _ \<Rightarrow> Inr ())
          }) workloads)
       (\<lambda>message. setRollbackDryRunFailed R u app message)
       (\<lambda>_.
          on_err (allWorkloadsScaledDown R workloads (ma_Namespace app))
            (\<lambda>e. setRollbackDryRunFailed R u app (''Scale down check failed: '' @ Error e))
            (\<lambda>allDown.
               if \<not> allDown then retry_or_fail R u app TimeoutScaleDown ''Scale down timed out'' 5
               else save_status R
                      (set_condition (rc_Lib R) ConditionTypeWorkloadStopped ConditionTrue ''DryRunScaledDown''
                         (''Dry run: scaled down '' @ itoa (int (length workloads)) @ '' workloads'') (resetPhaseStart u))
                      ResultRequeue))
   }"

definition rollbackDryRunScaleUp ::
  "('w, 'n) reconciler \<Rightarrow> RollbackRequest \<Rightarrow> ManagedApp \<Rightarrow> WorkloadInfo list \<Rightarrow> string \<Rightarrow> string \<Rightarrow> ('w, Result) call" where
  "rollbackDryRunScaleUp R u0 app workloads suspendName suspendNS =
     on_err (VerifyStillSuspended (rc_Client R) suspendName suspendNS)
       (\<lambda>e. setRollbackDryRunFailed R u0 app (''External interference detected before scale-up: '' @ Error e))
       (\<lambda>_. do {
          u \<leftarrow> setPhaseStartIfNeeded R u0;
          on_err
            (for_each (\<lambda>w. do {
                 r \<leftarrow> ScaleUp (rc_Client R) (wi_Kind w) (wi_Name w) (workloadNS w (ma_Namespace app)) 1;
                 ret (case r of
                        Inl e \<Rightarrow> Inl (''Scale up failed for '' @ wi_Kind w @ ''/'' @ wi_Name w @ '': '' @ Error e)
                      | Inr _ \<Rightarrow> Inr ())
               }) workloads)
            (\<lambda>message. setRollbackDryRunFailed R u app message)
            (\<lambda>_.
               on_err (allWorkloadsScaledDown R workloads (ma_Namespace app))
                 (\<lambda>e. setRollbackDryRunFailed R u app (''Scale up check failed: '' @ Error e))
                 (\<lambda>allDown.
                    if allDown then retry_or_fail R u app TimeoutScaleUp ''Scale up timed out'' 5
                    else
                      on_err (VerifyStillSuspended (rc_Client R) suspendName suspendNS)
                        (\<lambda>e. setRollbackDryRunFailed R (resetPhaseStart u) app
                               (''External interference detected after scale-up: '' @ Error e))
                        (\<lambda>_. save_status R
                           (set_condition (rc_Lib R) ConditionTypeVolumesRestored ConditionTrue ''DryRunScaledUp''
                              (''Dry run: scaled up '' @ itoa (int (length workloads)) @ '' workloads'')
                              (resetPhaseStart u))
                           ResultRequeue)))
        })"

definition rollbackDryRunResumeAndComplete ::
  "('w, 'n) reconciler \<Rightarrow> RollbackRequest \<Rightarrow> ManagedApp \<Rightarrow> preflightResult \<Rightarrow> string \<Rightarrow> string \<Rightarrow>
     string \<times> string \<times> string \<Rightarrow> ('w, Result) call" where
  "rollbackDryRunResumeAndComplete R u0 app preflight suspendName suspendNS versions = do {
     u \<leftarrow> setPhaseStartIfNeeded R u0;
     on_err (ResumeKustomization (rc_Client R) suspendName suspendNS)
       (\<lambda>e. retry_or_fail R u app TimeoutResume (''Resume timed out: '' @ Error e) 5)
       (\<lambda>_. do {
          suspended \<leftarrow> IsSuspended (rc_Client R) suspendName suspendNS;
          (if suspended \<noteq> Inr False
           then retry_or_fail R u app TimeoutResume ''Resume verification timed out'' 2
           else
             checked (StatusUpdateRollbackRequest (rc_Client R)
                 (set_condition (rc_Lib R) ConditionTypeComplete ConditionTrue ''DryRunSucceeded''
                    (case versions of (currentVersion, revertVersion, versionPath) \<Rightarrow>
                       buildDryRunSummary ''rollback'' preflight currentVersion revertVersion versionPath
                         (mas_GitPath (ma_Spec app)))
                    (resetPhaseStart u)))
               (\<lambda>u'. remove_finalizer R u'))
        })
   }"

definition runRollbackDryRunQuiescence ::
  "('w, 'n) reconciler \<Rightarrow> RollbackRequest \<Rightarrow> ManagedApp \<Rightarrow> preflightResult \<Rightarrow>
     string \<times> string \<times> string \<Rightarrow> ('w, Result) call" where
  "runRollbackDryRunQuiescence R u app preflight versions =
     (let suspendName = fst (getSuspendTarget app); suspendNS = snd (getSuspendTarget app)
      in if \<not> cond_true R u ConditionTypeSuspended then rollbackDryRunSuspend R u app suspendName suspendNS
         else if length (pf_Workloads preflight) > 0 \<and> \<not> cond_true R u ConditionTypeWorkloadStopped
         then rollbackDryRunScaleDown R u app (pf_Workloads preflight)
         else if length (pf_Workloads preflight) > 0 \<and> \<not> cond_true R u ConditionTypeVolumesRestored
         then rollbackDryRunScaleUp R u app (pf_Workloads preflight) suspendName suspendNS
         else rollbackDryRunResumeAndComplete R u app preflight suspendName suspendNS versions)"

text \<open>The object behind \<open>upgrade.Status.Upgrade\<close> if it records a previous version.\<close>

definition reversible_upgrade :: "UpgradeRequest \<Rightarrow> UpgradeStatus option" where
  "reversible_upgrade upgrade =
     (case urst_Upgrade (ur_Status upgrade) of
        None \<Rightarrow> None | Some up \<Rightarrow> if us_PreviousVersion up = None then None else Some up)"

definition handleDryRun :: "('w, 'n) reconciler \<Rightarrow> RollbackRequest \<Rightarrow> ('w, Result) call" where
  "handleDryRun R u =
     or_fail R u ''UpgradeRequestNotFound'' (getUpgradeRequest R u) (\<lambda>upgrade.
     if \<not> isUpgradeTerminal R upgrade
     then setFailed R u ''UpgradeInProgress'' ''Cannot rollback an in-progress upgrade''
     else if length (recorded_snapshots upgrade) = 0
     then setFailed R u ''NoSnapshotsAvailable'' ''UpgradeRequest has no snapshots to restore from''
     else (case reversible_upgrade upgrade of
        None \<Rightarrow> setFailed R u ''NoPreviousVersion'' ''UpgradeRequest has no previous version recorded''
      | Some up \<Rightarrow>
          or_fail R u ''ManagedAppNotFound'' (getManagedApp R upgrade) (\<lambda>app.
          or_fail R u ''PreflightFailed'' (git_preview R app up) (\<lambda>versions.
          or_fail R u ''PreflightFailed'' (runRollbackPreflight R app upgrade) (\<lambda>preflight.
          runRollbackDryRunQuiescence R u app preflight versions)))))"

section \<open>The phases of a rollback\<close>

definition set_started_if_needed :: "('w, 'n) reconciler \<Rightarrow> RollbackRequest \<Rightarrow> ('w, RollbackRequest) state" where
  "set_started_if_needed R u =
     (if rrst_StartedAt (rr_Status u) = None
      then do { now \<leftarrow> Now (rc_Client R); ret (u\<lparr>rr_Status := (rr_Status u)\<lparr>rrst_StartedAt := Some now\<rparr>\<rparr>) }
      else ret u)"

definition set_restored_from :: "UpgradeRequest \<Rightarrow> UpgradeStatus \<Rightarrow> RollbackRequest \<Rightarrow> RollbackRequest" where
  "set_restored_from upgrade up u =
     u\<lparr>rr_Status := (rr_Status u)\<lparr>rrst_RestoredFrom :=
        Some \<lparr>rfs_UpgradeRequestName = om_Name (ur_meta upgrade), rfs_TargetVersion = us_PreviousVersion up,
              rfs_RolledBackVersion = us_NewVersion up\<rparr>\<rparr>\<rparr>"

definition handleSuspend :: "('w, 'n) reconciler \<Rightarrow> RollbackRequest \<Rightarrow> ('w, Result) call" where
  "handleSuspend R u00 = do {
     u0 \<leftarrow> set_started_if_needed R u00;
     or_fail R u0 ''UpgradeRequestNotFound'' (getUpgradeRequest R u0) (\<lambda>upgrade.
     if \<not> isUpgradeTerminal R upgrade
     then setFailed R u0 ''UpgradeInProgress'' ''Cannot rollback an in-progress upgrade''
     else
       or_fail R u0 ''ManagedAppNotFound'' (getManagedApp R upgrade) (\<lambda>app.
       if \<not> urs_SkipSnapshot (ur_Spec upgrade) \<and> length (recorded_snapshots upgrade) = 0
       then setFailed R u0 ''NoSnapshotsAvailable'' ''UpgradeRequest has no snapshots to restore from''
       else (case reversible_upgrade upgrade of
          None \<Rightarrow> setFailed R u0 ''NoPreviousVersion'' ''UpgradeRequest has no previous version recorded''
        | Some up \<Rightarrow>
            let u = set_restored_from upgrade up u0;
                suspendName = fst (getSuspendTarget app); suspendNS = snd (getSuspendTarget app)
            in or_fail R u ''PreflightFailed'' (git_preview R app up) (\<lambda>_.
               or_fail R u ''PreflightFailed'' (runRollbackPreflight R app upgrade) (\<lambda>_.
               or_fail R u ''SuspendFailed'' (SuspendKustomization (rc_Client R) suspendName suspendNS) (\<lambda>_.
               let u1 = set_condition (rc_Lib R) ConditionTypeSuspended ConditionTrue ''KustomizationSuspended''
                          (''Suspended '' @ suspendNS @ ''/'' @ suspendName) u;
                   u2 = (if \<not> has_snapshots upgrade
                         then set_condition (rc_Lib R) ConditionTypeVolumesRestored ConditionTrue ''VolumesSkipped''
                                ''No snapshots to restore (upgrade had skipSnapshot=true or no snapshots)'' u1
                         else u1)
               in save_status R u2 ResultRequeue))))))
   }"

definition skip_stop ::
  "('w, 'n) reconciler \<Rightarrow> RollbackRequest \<Rightarrow> string \<Rightarrow> string \<Rightarrow> ('w, (goerror + Result) + RollbackRequest) state" where
  "skip_stop R u reason message =
     on_err (StatusUpdateRollbackRequest (rc_Client R)
         (set_condition (rc_Lib R) ConditionTypeWorkloadStopped ConditionTrue reason message u))
       (\<lambda>e. ret (Inl (Inl e))) (\<lambda>u'. ret (Inr u'))"

definition set_scaling :: "WorkloadScalingInfo list \<Rightarrow> RollbackRequest \<Rightarrow> RollbackRequest" where
  "set_scaling ws u =
     u\<lparr>rr_Status := (rr_Status u)\<lparr>rrst_Scaling :=
        Some ((case rrst_Scaling (rr_Status u) of None \<Rightarrow> \<lparr>ss_Workloads = [], ss_ScaledDownAt = None\<rparr> | Some s \<Rightarrow> s)
          \<lparr>ss_Workloads := ws\<rparr>)\<rparr>\<rparr>"

definition set_scaled_down_at :: "time \<Rightarrow> RollbackRequest \<Rightarrow> RollbackRequest" where
  "set_scaled_down_at now u =
     u\<lparr>rr_Status := (rr_Status u)\<lparr>rrst_Scaling :=
        map_option (\<lambda>s. s\<lparr>ss_ScaledDownAt := Some now\<rparr>) (rrst_Scaling (rr_Status u))\<rparr>\<rparr>"

text \<open>\<open>Inl\<close> is the handler's result with \<open>shouldContinue = false\<close>, \<open>Inr\<close> the request to go on with.\<close>

definition handleStopWorkload ::
  "('w, 'n) reconciler \<Rightarrow> RollbackRequest \<Rightarrow> ('w, (goerror + Result) + RollbackRequest) state" where
  "handleStopWorkload R u0 = do {
     u \<leftarrow> setPhaseStartIfNeeded R u0;
     on_err (getUpgradeRequest R u) (\<lambda>e. stop_with (setFailed R u ''UpgradeRequestNotFound'' (Error e))) (\<lambda>upgrade.
     on_err (getManagedApp R upgrade) (\<lambda>e. stop_with (setFailed R u ''ManagedAppNotFound'' (Error e))) (\<lambda>app.
     if \<not> has_snapshots upgrade
     then skip_stop R u ''NoVolumesToRestore'' ''Workload stop skipped (no volumes to restore)''
     else
       on_err (DiscoverWorkloadsForPVCs (rc_Client R) (map psi_PVCName (recorded_snapshots upgrade)) (ma_Namespace app))
         (\<lambda>e. stop_with (setFailed R u ''WorkloadDiscoveryFailed'' (Error e))) (\<lambda>workloads.
       if length workloads = 0
       then skip_stop R u ''NoWorkloadsFound'' ''No workloads found mounting the PVCs''
       else
         on_err (scale_down_all R app workloads) (\<lambda>message. stop_with (setFailed R u ''ScaleDownFailed'' message)) (\<lambda>scaled.
         on_err (all_of (\<lambda>w. IsScaledDown (rc_Client R) (rc_Lib R) (wsi_Kind w) (wsi_Name w) (wsi_Namespace w)) scaled)
           (\<lambda>e. stop_with (setFailed R (set_scaling scaled u) ''ScaleDownCheckFailed'' (Error e))) (\<lambda>allScaledDown.
         if \<not> allScaledDown then do {
           timedOut \<leftarrow> isPhaseTimedOut R (set_scaling scaled u) TimeoutScaleDown;
           stop_with
             (if timedOut
              then setFailed R (set_scaling scaled u) ''ScaleDownTimeout'' ''Workloads did not scale down within timeout''
              else save_status R (set_scaling scaled u) (ResultRequeueAfter (5 * Second)))
         }
         else do {
           now \<leftarrow> Now (rc_Client R);
           stop_with (save_status R
             (set_condition (rc_Lib R) ConditionTypeWorkloadStopped ConditionTrue ''WorkloadsStopped''
                (''Scaled down '' @ itoa (int (length scaled)) @ '' workloads'')
                (set_scaled_down_at now (resetPhaseStart (set_scaling scaled u))))
             ResultRequeue)
         })))))
   }"

section \<open>Restoring the volumes\<close>

definition set_volume_restore :: "VolumeRestoreStatus \<Rightarrow> RollbackRequest \<Rightarrow> RollbackRequest" where
  "set_volume_restore v u = u\<lparr>rr_Status := (rr_Status u)\<lparr>rrst_VolumeRestore := Some v\<rparr>\<rparr>"

definition restore_request :: "ManagedApp \<Rightarrow> PVCSnapshotInfo \<Rightarrow> RestoreRequest" where
  "restore_request app snap = \<lparr>
     rq_SnapshotName = psi_SnapshotName snap, rq_SnapshotNamespace = ma_Namespace app,
     rq_NewPVCName = psi_PVCName snap, rq_NewPVCNamespace = ma_Namespace app,
     rq_StorageClassName = [], rq_Labels = [(''fluxup.dev/restored-from'', psi_SnapshotName snap)]\<rparr>"

text \<open>
  The loop over the recorded snapshots. A claim that the status lists is skipped; any other one is
  deleted, and once it is gone created from its snapshot and recorded. \<open>Inl\<close> returns from the
  handler, \<open>Inr\<close> is the request after the loop.
\<close>

primrec restore_claims ::
  "('w, 'n) reconciler \<Rightarrow> ManagedApp \<Rightarrow> PVCSnapshotInfo list \<Rightarrow> RollbackRequest \<Rightarrow>
     ('w, (goerror + Result) + RollbackRequest) state" where
  "restore_claims R app [] u = ret (Inr u)"
| "restore_claims R app (snap # snaps) u =
     (case rrst_VolumeRestore (rr_Status u) of
        None \<Rightarrow> ret (Inl (Inl nil_deref))
      | Some vr \<Rightarrow>
          if list_ex (\<lambda>r. rpi_PVCName r = psi_PVCName snap) (vrs_RestoredPVCs vr)
          then restore_claims R app snaps u
          else do {
            d \<leftarrow> Manager_DeletePVC (rc_Client R) (psi_PVCName snap) (ma_Namespace app);
            (case (case d of Inl e \<Rightarrow> if \<not> IsNotFound (rc_Lib R) e then Some e else None | Inr _ \<Rightarrow> None) of
               Some e \<Rightarrow> stop_with (setFailed R u ''PVCDeleteFailed'' (Error e))
             | None \<Rightarrow>
                 on_err (IsPVCDeleted (rc_Client R) (rc_Lib R) (psi_PVCName snap) (ma_Namespace app))
                   (\<lambda>e. stop_with (setFailed R u ''PVCDeleteCheckFailed'' (Error e))) (\<lambda>deleted.
                 if \<not> deleted then do {
                   timedOut \<leftarrow> isPhaseTimedOut R u TimeoutVolumeRestore;
                   stop_with
                     (if timedOut then setFailed R u ''PVCDeleteTimeout'' ''PVC deletion timed out''
                      else ret (Inr (ResultRequeueAfter (10 * Second))))
                 }
                 else
                   on_err (RestorePVCFromSnapshot (rc_Client R) (restore_request app snap))
                     (\<lambda>e. stop_with (setFailed R u ''PVCRestoreFailed'' (Error e))) (\<lambda>_.
                   on_err (StatusUpdateRollbackRequest (rc_Client R)
                       (set_volume_restore (vr\<lparr>vrs_RestoredPVCs := vrs_RestoredPVCs vr @
                          [\<lparr>rpi_PVCName = psi_PVCName snap, rpi_SnapshotName = psi_SnapshotName snap,
                            rpi_RestorationState = ''Pending''\<rparr>]\<rparr>) u))
                     (\<lambda>e. ret (Inl (Inl e))) (\<lambda>u'. restore_claims R app snaps u'))))
          })"

text \<open>
  The loop that waits for the restored claims to be bound: \<open>bound\<close> are the entries it has gone
  over, marked \<open>Restored\<close> in the local object only.
\<close>

primrec await_bound ::
  "('w, 'n) reconciler \<Rightarrow> ManagedApp \<Rightarrow> VolumeRestoreStatus \<Rightarrow> RollbackRequest \<Rightarrow> RestoredPVCInfo list \<Rightarrow>
     RestoredPVCInfo list \<Rightarrow> ('w, (goerror + Result) + RestoredPVCInfo list) state" where
  "await_bound R app vr u bound [] = ret (Inr bound)"
| "await_bound R app vr u bound (r # rs) =
     (let v = set_volume_restore (vr\<lparr>vrs_RestoredPVCs := bound @ r # rs\<rparr>) u
      in if rpi_RestorationState r = ''Restored'' then await_bound R app vr u (bound @ [r]) rs
         else
           on_err (IsPVCBound (rc_Client R) (rpi_PVCName r) (ma_Namespace app))
             (\<lambda>e. stop_with (setFailed R v ''PVCBoundCheckFailed'' (Error e))) (\<lambda>isBound.
           if \<not> isBound then do {
             timedOut \<leftarrow> isPhaseTimedOut R v TimeoutVolumeRestore;
             stop_with
               (if timedOut then setFailed R v ''PVCBindTimeout'' ''PVC binding timed out''
                else ret (Inr (ResultRequeueAfter (10 * Second))))
           }
           else await_bound R app vr u (bound @ [r\<lparr>rpi_RestorationState := ''Restored''\<rparr>]) rs))"

definition volumes_restored ::
  "klib \<Rightarrow> VolumeRestoreStatus \<Rightarrow> RestoredPVCInfo list \<Rightarrow> time \<Rightarrow> RollbackRequest \<Rightarrow> RollbackRequest" where
  "volumes_restored L vr bound now u =
     set_condition L ConditionTypeVolumesRestored ConditionTrue ''AllPVCsRestored''
       (''Restored '' @ itoa (int (length bound)) @ '' PVCs from snapshots'')
       (set_volume_restore (vr\<lparr>vrs_RestoredPVCs := bound, vrs_CompletedAt := Some now\<rparr>) (resetPhaseStart u))"

definition init_volume_restore :: "('w, 'n) reconciler \<Rightarrow> RollbackRequest \<Rightarrow> ('w, RollbackRequest) state" where
  "init_volume_restore R u =
     (case rrst_VolumeRestore (rr_Status u) of
        None \<Rightarrow> do {
          now \<leftarrow> Now (rc_Client R);
          ret (set_volume_restore \<lparr>vrs_RestoredPVCs = [], vrs_StartedAt = Some now, vrs_CompletedAt = None\<rparr> u)
        }
      | Some _ \<Rightarrow> ret u)"

definition restore_volumes ::
  "('w, 'n) reconciler \<Rightarrow> UpgradeRequest \<Rightarrow> ManagedApp \<Rightarrow> RollbackRequest \<Rightarrow> ('w, Result) call" where
  "restore_volumes R upgrade app u1 = do {
     u2 \<leftarrow> init_volume_restore R u1;
     (case urst_Snapshot (ur_Status upgrade) of
        None \<Rightarrow> ret (Inl nil_deref)
      | Some snap \<Rightarrow>
          on_err (restore_claims R app (sns_PVCSnapshots snap) u2) (\<lambda>result. ret result) (\<lambda>u.
          case rrst_VolumeRestore (rr_Status u) of
            None \<Rightarrow> ret (Inl nil_deref)
          | Some vr \<Rightarrow>
              on_err (await_bound R app vr u [] (vrs_RestoredPVCs vr)) (\<lambda>result. ret result) (\<lambda>bound. do {
                now \<leftarrow> Now (rc_Client R);
                save_status R (volumes_restored (rc_Lib R) vr bound now u) ResultRequeue
              })))
   }"

definition handleVolumeRestore :: "('w, 'n) reconciler \<Rightarrow> RollbackRequest \<Rightarrow> ('w, Result) call" where
  "handleVolumeRestore R u0 = do {
     u \<leftarrow> setPhaseStartIfNeeded R u0;
     or_fail R u ''UpgradeRequestNotFound'' (getUpgradeRequest R u) (\<lambda>upgrade.
     or_fail R u ''ManagedAppNotFound'' (getManagedApp R upgrade) (\<lambda>app.
     or_fail R u ''SuspendVerificationFailed''
       (VerifyStillSuspended (rc_Client R) (fst (getSuspendTarget app)) (snd (getSuspendTarget app))) (\<lambda>_.
     restore_volumes R upgrade app u)))
   }"

section \<open>Reverting Git\<close>

text \<open>The version strings of the revert: the previous version and the one it replaces (empty if unknown).\<close>

definition revert_versions :: "UpgradeStatus \<Rightarrow> VersionInfo \<Rightarrow> (string \<times> string) option" where
  "revert_versions up targetVersion =
     (if vi_Chart targetVersion \<noteq> [] then
        Some (vi_Chart targetVersion, case us_NewVersion up of None \<Rightarrow> [] | Some v \<Rightarrow> vi_Chart v)
      else case vi_Images targetVersion of
             img # _ \<Rightarrow> Some (img_Tag img,
               case us_NewVersion up of None \<Rightarrow> []
               | Some v \<Rightarrow> (case vi_Images v of [] \<Rightarrow> [] | cur # _ \<Rightarrow> img_Tag cur))
           | [] \<Rightarrow> None)"

definition reverted :: "klib \<Rightarrow> string \<Rightarrow> time \<Rightarrow> RollbackRequest \<Rightarrow> RollbackRequest" where
  "reverted L sha now u =
     set_condition L ConditionTypeGitReverted ConditionTrue ''VersionReverted'' (''Commit '' @ sha)
       (u\<lparr>rr_Status := (rr_Status u)\<lparr>rrst_GitRevert := Some \<lparr>grs_CommitSHA = sha, grs_CommittedAt = Some now\<rparr>\<rparr>\<rparr>)"

definition commit_revert ::
  "('w, 'n) reconciler \<Rightarrow> RollbackRequest \<Rightarrow> UpgradeRequest \<Rightarrow> ManagedApp \<Rightarrow> string \<Rightarrow> string \<Rightarrow> ('w, Result) call" where
  "commit_revert R u upgrade app revertVersion currentVersion =
     (case rc_Git R of
        None \<Rightarrow> ret (Inl nil_deref)
      | Some G \<Rightarrow>
          or_fail R u ''GitReadFailed'' (gm_ReadFile G (mas_GitPath (ma_Spec app))) (\<lambda>content.
          or_fail R u ''YAMLUpdateFailed'' (ret (UpdateVersion (rc_Yaml R) content (version_path_of app) revertVersion))
            (\<lambda>newContent.
          or_fail R u ''GitCommitFailed''
            (gm_CommitFile G \<lparr>fc_Path = mas_GitPath (ma_Spec app), fc_Content = newContent\<rparr>
               (FormatRevertCommitMessage (ma_Name app) currentVersion revertVersion (om_Name (ur_meta upgrade))))
            (\<lambda>commitInfo. do {
               now \<leftarrow> Now (rc_Client R);
               save_status R (reverted (rc_Lib R) (ci_SHA commitInfo) now u) ResultRequeue
             }))))"

definition handleGitRevert :: "('w, 'n) reconciler \<Rightarrow> RollbackRequest \<Rightarrow> ('w, Result) call" where
  "handleGitRevert R u =
     or_fail R u ''UpgradeRequestNotFound'' (getUpgradeRequest R u) (\<lambda>upgrade.
     or_fail R u ''ManagedAppNotFound'' (getManagedApp R upgrade) (\<lambda>app.
     or_fail R u ''SuspendVerificationFailed''
       (VerifyStillSuspended (rc_Client R) (fst (getSuspendTarget app)) (snd (getSuspendTarget app))) (\<lambda>_.
     case urst_Upgrade (ur_Status upgrade) of
       None \<Rightarrow> ret (Inl nil_deref)
     | Some up \<Rightarrow>
       (case us_PreviousVersion up of
          None \<Rightarrow> setFailed R u ''NoPreviousVersion'' ''UpgradeRequest has no previous version recorded''
        | Some targetVersion \<Rightarrow>
          (case revert_versions up targetVersion of
             None \<Rightarrow> setFailed R u ''InvalidTargetVersion'' ''No chart version or images in previous version''
           | Some (revertVersion, currentVersion) \<Rightarrow>
               commit_revert R u upgrade app revertVersion currentVersion)))))"

section \<open>Resuming and checking\<close>

definition handleReconciling :: "('w, 'n) reconciler \<Rightarrow> RollbackRequest \<Rightarrow> ('w, Result) call" where
  "handleReconciling R u0 = do {
     u \<leftarrow> setPhaseStartIfNeeded R u0;
     or_fail R u ''UpgradeRequestNotFound'' (getUpgradeRequest R u) (\<lambda>upgrade.
     or_fail R u ''ManagedAppNotFound'' (getManagedApp R upgrade) (\<lambda>app.
     let suspendName = fst (getSuspendTarget app); suspendNS = snd (getSuspendTarget app)
     in or_fail R u ''ResumeFailed'' (ResumeKustomization (rc_Client R) suspendName suspendNS) (\<lambda>_.
        checked (StatusUpdateRollbackRequest (rc_Client R)
            (set_condition (rc_Lib R) ConditionTypeSuspended ConditionFalse ''KustomizationResumed''
               (''Resumed '' @ suspendNS @ ''/'' @ suspendName) u)) (\<lambda>u1.
        or_fail R u1 ''ReconciliationCheckFailed''
          (IsReconciled (rc_Client R) (nn_Name (kustomization_key app)) (nn_Namespace (kustomization_key app)))
          (\<lambda>reconciled.
             if \<not> reconciled then do {
               timedOut \<leftarrow> isPhaseTimedOut R u1 TimeoutReconcile;
               (if timedOut
                then setFailed R u1 ''ReconciliationTimeout'' ''Kustomization did not reconcile within timeout''
                else ret (Inr (ResultRequeueAfter (10 * Second))))
             }
             else save_status R
                    (set_condition (rc_Lib R) ConditionTypeReconciled ConditionTrue ''ReconciliationSucceeded''
                       ''Flux reconciled the changes'' (resetPhaseStart u1))
                    ResultRequeue)))))
   }"

definition handleHealthChecking :: "('w, 'n) reconciler \<Rightarrow> RollbackRequest \<Rightarrow> ('w, Result) call" where
  "handleHealthChecking R u0 = do {
     u \<leftarrow> setPhaseStartIfNeeded R u0;
     or_fail R u ''UpgradeRequestNotFound'' (getUpgradeRequest R u) (\<lambda>upgrade.
     or_fail R u ''ManagedAppNotFound'' (getManagedApp R upgrade) (\<lambda>app.
     or_fail R u ''HealthCheckError'' (CheckHealth (rc_Client R) (rc_Helm R) app) (\<lambda>healthResult.
     if \<not> hr_Healthy healthResult then do {
       timedOut \<leftarrow> isPhaseTimedOut R u (health_timeout (rc_Lib R) app);
       (if timedOut
        then setFailed R u ''HealthCheckTimeout''
               (''App did not become healthy within timeout: '' @ hr_Message healthResult)
        else ret (Inr (ResultRequeueAfter (10 * Second))))
     }
     else save_status R
            (set_condition (rc_Lib R) ConditionTypeHealthy ConditionTrue ''HealthCheckPassed''
               (hr_Message healthResult) u)
            ResultRequeue)))
   }"

definition completed :: "klib \<Rightarrow> time \<Rightarrow> RollbackRequest \<Rightarrow> RollbackRequest" where
  "completed L now u =
     (let versionStr = (case rrst_RestoredFrom (rr_Status u) of
            None \<Rightarrow> unknownVersion
          | Some rf \<Rightarrow> if rfs_TargetVersion rf \<noteq> None then getVersionString (rfs_TargetVersion rf) else unknownVersion)
      in set_condition L ConditionTypeComplete ConditionTrue ''RollbackSucceeded'' (''Rolled back to '' @ versionStr)
           (u\<lparr>rr_Status := (rr_Status u)\<lparr>rrst_CompletedAt := Some now\<rparr>\<rparr>))"

definition handleCompleted :: "('w, 'n) reconciler \<Rightarrow> RollbackRequest \<Rightarrow> ('w, Result) call" where
  "handleCompleted R u = do {
     now \<leftarrow> Now (rc_Client R);
     checked (StatusUpdateRollbackRequest (rc_Client R) (completed (rc_Lib R) now u)) (\<lambda>u'. remove_finalizer R u')
   }"

section \<open>Reconcile\<close>

definition later_phases :: "('w, 'n) reconciler \<Rightarrow> RollbackRequest \<Rightarrow> ('w, Result) call" where
  "later_phases R u =
     (if \<not> cond_true R u ConditionTypeVolumesRestored then handleVolumeRestore R u
      else if \<not> cond_true R u ConditionTypeGitReverted then handleGitRevert R u
      else if \<not> cond_true R u ConditionTypeReconciled then handleReconciling R u
      else if \<not> cond_true R u ConditionTypeHealthy then handleHealthChecking R u
      else handleCompleted R u)"

definition phase_step :: "('w, 'n) reconciler \<Rightarrow> RollbackRequest \<Rightarrow> ('w, Result) call" where
  "phase_step R u =
     (if rrs_DryRun (rr_Spec u) then handleDryRun R u
      else if FindStatusCondition (rc_Lib R) (rr_Conditions u) ConditionTypeSuspended = None then handleSuspend R u
      else if \<not> cond_true R u ConditionTypeWorkloadStopped
      then on_err (handleStopWorkload R u) (\<lambda>result. ret result) (\<lambda>u'. later_phases R u')
      else later_phases R u)"

definition terminal :: "('w, 'n) reconciler \<Rightarrow> RollbackRequest \<Rightarrow> bool" where
  "terminal R u \<longleftrightarrow>
     cond_true R u ConditionTypeComplete \<or>
     (case FindStatusCondition (rc_Lib R) (rr_Conditions u) ConditionTypeComplete of
        None \<Rightarrow> False | Some cond \<Rightarrow> c_Status cond = ConditionFalse)"

definition Reconcile :: "('w, 'n) reconciler \<Rightarrow> NamespacedName \<Rightarrow> ('w, Result) call" where
  "Reconcile R req =
     on_err (GetRollbackRequest (rc_Client R) req)
       (\<lambda>e. ret (case IgnoreNotFound (rc_Lib R) e of None \<Rightarrow> Inr ResultDone | Some e' \<Rightarrow> Inl e'))
       (\<lambda>u.
          if om_DeletionTimestamp (rr_meta u) \<noteq> None then remove_finalizer R u
          else if \<not> ContainsFinalizer (rc_Lib R) (om_Finalizers (rr_meta u)) OperationFinalizer
          then checked (UpdateRollbackRequest (rc_Client R)
                 (u\<lparr>rr_meta := (rr_meta u)\<lparr>om_Finalizers :=
                     AddFinalizer (rc_Lib R) (om_Finalizers (rr_meta u)) OperationFinalizer\<rparr>\<rparr>))
               (\<lambda>_. ret (Inr ResultRequeue))
          else if terminal R u then ret (Inr ResultDone)
          else phase_step R u)"

end
