(* ===== verification/RollbackCalls.thy ===== *)
theory RollbackCalls
  imports Rollback Traces
begin

text \<open>
  Which calls the rollback controller makes. \<open>rollback_base\<close> is a reconciler whose reads and whose
  writes of the rollback request itself keep an invariant; \<open>rollback_calls\<close> adds the Kustomization
  and the workloads. In them every handler keeps the invariant, with the deletion and creation of
  claims and the Git commit as explicit premises of the handlers that make them.
\<close>

lemma set_phase_start_simps [simp]:
  "rr_Conditions (set_phase_start t u) = rr_Conditions u" "rr_Spec (set_phase_start t u) = rr_Spec u"
  "rr_meta (set_phase_start t u) = rr_meta u" "rr_Conditions (resetPhaseStart u) = rr_Conditions u"
  "rr_Conditions (set_scaling ws u) = rr_Conditions u" "rr_Conditions (set_scaled_down_at now u) = rr_Conditions u"
  "rr_Conditions (set_volume_restore v u) = rr_Conditions u"
  "rr_Conditions (set_restored_from up us u) = rr_Conditions u"
  by (simp_all add: set_phase_start_def resetPhaseStart_def set_scaling_def set_scaled_down_at_def
      set_volume_restore_def set_restored_from_def)

lemma set_condition_rr_conditions:
  "rr_Conditions (set_condition L t s r m u) = SetStatusCondition L (rr_Conditions u)
     \<lparr>c_Type = t, c_Status = s, c_Reason = r, c_Message = m, c_ObservedGeneration = om_Generation (rr_meta u)\<rparr>"
  by (simp add: set_condition_def)

text \<open>A request whose conditions are those of another one: only bookkeeping fields differ.\<close>

definition same_rollback :: "RollbackRequest \<Rightarrow> RollbackRequest \<Rightarrow> bool" where
  "same_rollback u v \<longleftrightarrow> rr_Conditions v = rr_Conditions u"

section \<open>The request itself\<close>

locale rollback_base = rec_inv +
  assumes updated_rr: "P (UpdatedRollbackRequest rr)" and wrote_rr: "P (WroteRollbackStatus rr)"
begin

lemmas base_keeps = read_keeps keeps_UpdateRollbackRequest [OF updated_rr]
  keeps_StatusUpdateRollbackRequest [OF wrote_rr] keeps_scaler_reads keeps_snapshot_reads
  keeps_allWorkloadsScaledDown

lemma keeps_phase: "keeps I (setPhaseStartIfNeeded R u) (same_rollback u)"
  unfolding setPhaseStartIfNeeded_def
  by (intro keeps_rule base_keeps) (simp_all add: same_rollback_def)

lemma keeps_timed_out: "keeps I (isPhaseTimedOut R u t) (\<lambda>_. True)"
  unfolding isPhaseTimedOut_def by (intro keeps_rule TrueI base_keeps)

lemma keeps_save: "keeps I (save_status R u res) (\<lambda>_. True)"
  unfolding save_status_def by (intro keeps_rule TrueI base_keeps)

lemma keeps_drop_finalizer: "keeps I (remove_finalizer R u) (\<lambda>_. True)"
  unfolding remove_finalizer_def by (intro keeps_rule TrueI base_keeps)

lemma keeps_lookups: "keeps I (getUpgradeRequest R u) (\<lambda>_. True)" "keeps I (getManagedApp R up) (\<lambda>_. True)"
  unfolding getUpgradeRequest_def getManagedApp_def by (intro base_keeps)+

lemma keeps_fail: "keeps I (setFailed R u reason msg) (\<lambda>_. True)"
  unfolding setFailed_def by (intro keeps_rule TrueI base_keeps keeps_drop_finalizer)

lemma keeps_stop_with: "keeps I m (\<lambda>_. True) \<Longrightarrow> keeps I (stop_with m) (\<lambda>_. True)"
  unfolding stop_with_def by (intro keeps_rule TrueI)

lemmas rb_keeps = base_keeps keeps_timed_out keeps_save keeps_drop_finalizer keeps_lookups keeps_fail keeps_stop_with

lemma keeps_restore_claims:
  assumes "\<And>k. P (DeletedPVC k)" and "\<And>p. P (CreatedPVC p)"
  shows "keeps I (restore_claims R app snaps u) (\<lambda>_. True)"
proof (induction snaps arbitrary: u)
  case Nil
  then show ?case by (simp add: keeps_ret)
next
  case (Cons snap snaps)
  show ?case
    unfolding restore_claims.simps
    by (intro keeps_rule TrueI rb_keeps Cons.IH keeps_restore_writes assms)
qed

lemma keeps_await_bound: "keeps I (await_bound R app vr u bound rs) (\<lambda>_. True)"
  by (induction rs arbitrary: bound) (simp_all add: keeps_ret Let_def keeps_if keeps_on_err keeps_bind rb_keeps)

lemma keeps_restore_volumes:
  assumes "\<And>k. P (DeletedPVC k)" and "\<And>p. P (CreatedPVC p)"
  shows "keeps I (restore_volumes R upgrade app u) (\<lambda>_. True)"
  unfolding restore_volumes_def init_volume_restore_def
  by (intro keeps_rule TrueI rb_keeps keeps_restore_claims keeps_await_bound assms)

lemma keeps_commit_revert:
  assumes "\<And>p c m. P (CommittedFile p c m)"
  shows "keeps I (commit_revert R u upgrade app newV curV) (\<lambda>_. True)"
  unfolding commit_revert_def
  by (intro keeps_rule TrueI rb_keeps keeps_git_read keeps_git_commit assms)

lemma keeps_completed: "keeps I (handleCompleted R u) (\<lambda>_. True)"
  unfolding handleCompleted_def by (intro keeps_rule TrueI rb_keeps)

end

section \<open>The whole controller\<close>

locale rollback_calls = rollback_base +
  assumes saw_ks: "P (GotKustomization k r)" and wrote_ks: "P (UpdatedKustomization x)"
    and scaled_dep: "P (PatchedDeployment d)" and scaled_sts: "P (PatchedStatefulSet st)"
begin

lemmas ks_keeps = keeps_flux_reads [OF saw_ks] keeps_flux_writes [OF saw_ks wrote_ks]
  keeps_scaler_writes [OF scaled_dep scaled_sts] keeps_CheckHealth [OF saw_ks]

lemma keeps_dry_run_failed: "keeps I (setRollbackDryRunFailed R u app msg) (\<lambda>_. True)"
  unfolding setRollbackDryRunFailed_def by (intro keeps_rule TrueI ks_keeps keeps_fail)

lemma keeps_retry: "keeps I (retry_or_fail R u app t msg n) (\<lambda>_. True)"
  unfolding retry_or_fail_def by (intro keeps_rule TrueI rb_keeps keeps_dry_run_failed)

lemma keeps_preview: "keeps I (git_preview R app up) (\<lambda>_. True)"
  unfolding git_preview_def runRollbackGitDiffPreview_def by (intro keeps_rule TrueI keeps_git_read)

lemma keeps_preflight: "keeps I (runRollbackPreflight R app upgrade) (\<lambda>_. True)"
  unfolding runRollbackPreflight_def verify_snapshots_def Let_def DiscoverWorkloadsForPVCs_def
    discoverWorkloadsFromPVCs_def range_values_def
  by (intro keeps_rule TrueI rb_keeps ks_keeps)

lemmas step_keeps = rb_keeps ks_keeps keeps_dry_run_failed keeps_retry keeps_preview keeps_preflight

lemma keeps_dry_run: "keeps I (handleDryRun R u) (\<lambda>_. True)"
  unfolding handleDryRun_def runRollbackDryRunQuiescence_def Let_def rollbackDryRunSuspend_def
    rollbackDryRunScaleDown_def rollbackDryRunScaleUp_def rollbackDryRunResumeAndComplete_def
  by (intro keeps_rule TrueI keeps_any [OF keeps_phase] step_keeps)

lemma keeps_suspend: "keeps I (handleSuspend R u) (\<lambda>_. True)"
  unfolding handleSuspend_def set_started_if_needed_def Let_def
  by (intro keeps_rule TrueI step_keeps)

lemma keeps_stop: "keeps I (handleStopWorkload R u) (\<lambda>_. True)"
  unfolding handleStopWorkload_def skip_stop_def scale_down_all_def DiscoverWorkloadsForPVCs_def
    discoverWorkloadsFromPVCs_def range_values_def
  by (intro keeps_rule TrueI keeps_any [OF keeps_phase] step_keeps)

lemma keeps_reconciling: "keeps I (handleReconciling R u) (\<lambda>_. True)"
  unfolding handleReconciling_def Let_def
  by (intro keeps_rule TrueI keeps_any [OF keeps_phase] step_keeps)

lemma keeps_health: "keeps I (handleHealthChecking R u) (\<lambda>_. True)"
  unfolding handleHealthChecking_def
  by (intro keeps_rule TrueI keeps_any [OF keeps_phase] step_keeps)

text \<open>A whole reconcile, given what holds of the two handlers that are not undone.\<close>

lemma keeps_rollback_step:
  assumes "\<And>v. \<not> rrs_DryRun (rr_Spec u) \<Longrightarrow> keeps I (handleVolumeRestore R v) (\<lambda>_. True)"
    and "\<And>v. \<not> rrs_DryRun (rr_Spec u) \<Longrightarrow> keeps I (handleGitRevert R v) (\<lambda>_. True)"
  shows "keeps I (phase_step R u) (\<lambda>_. True)"
  unfolding phase_step_def later_phases_def
  by (intro keeps_if keeps_on_err keeps_ret TrueI keeps_dry_run keeps_suspend keeps_stop keeps_reconciling
      keeps_health keeps_completed assms)

lemma keeps_rollback_reconcile:
  assumes "\<And>u. keeps I (handleVolumeRestore R u) (\<lambda>_. True)" and "\<And>u. keeps I (handleGitRevert R u) (\<lambda>_. True)"
  shows "keeps I (Reconcile R req) (\<lambda>_. True)"
  unfolding Reconcile_def
  by (intro keeps_rule TrueI step_keeps keeps_rollback_step assms)

end

end
