(* ===== verification/RollbackSafety.thy ===== *)
theory RollbackSafety
  imports RollbackCalls
begin

text \<open>
  Safety of single reconciles of the rollback controller, on the record of the calls it makes: what
  precedes the steps that cannot be undone (deleting a claim, committing to Git), what a dry run
  may do, and how a failure ends.
\<close>

section \<open>Running a rollback reconcile on a traced reconciler\<close>

lemma run_traced_rollback [simp]:
  "run_state (GetRollbackRequest (traced C) k) (w, l) =
     (case run_state (GetRollbackRequest C k) w of (r, w') \<Rightarrow> (r, (w', l)))"
  "run_state (UpdateRollbackRequest (traced C) u) (w, l) =
     (case run_state (UpdateRollbackRequest C u) w of (r, w') \<Rightarrow> (r, (w', l @ [UpdatedRollbackRequest u])))"
  "run_state (StatusUpdateRollbackRequest (traced C) u) (w, l) =
     (case run_state (StatusUpdateRollbackRequest C u) w of (r, w') \<Rightarrow> (r, (w', l @ [WroteRollbackStatus u])))"
  by (simp_all add: traced_def run_unlogged run_logged)

lemma run_traced_claims [simp]:
  "run_state (GetPVC (traced C) k) (w, l) = (case run_state (GetPVC C k) w of (r, w') \<Rightarrow> (r, (w', l)))"
  "run_state (GetVolumeSnapshot (traced C) k) (w, l) =
     (case run_state (GetVolumeSnapshot C k) w of (r, w') \<Rightarrow> (r, (w', l)))"
  "run_state (DeletePVC (traced C) k) (w, l) =
     (case run_state (DeletePVC C k) w of (r, w') \<Rightarrow> (r, (w', l @ [DeletedPVC k])))"
  "run_state (CreatePVC (traced C) p) (w, l) =
     (case run_state (CreatePVC C p) w of (r, w') \<Rightarrow> (r, (w', l @ [CreatedPVC p])))"
  by (simp_all add: traced_def run_unlogged run_logged)

lemma run_rollback_reconcile:
  assumes "run_state (GetRollbackRequest (rc_Client R) req) w = (Inr u, w1)"
  shows "run_state (Reconcile (traced_rec R) req) (w, l) =
     run_state
       (if om_DeletionTimestamp (rr_meta u) \<noteq> None then remove_finalizer (traced_rec R) u
        else if \<not> ContainsFinalizer (rc_Lib R) (om_Finalizers (rr_meta u)) OperationFinalizer
        then checked (UpdateRollbackRequest (traced (rc_Client R))
               (u\<lparr>rr_meta := (rr_meta u)\<lparr>om_Finalizers :=
                   AddFinalizer (rc_Lib R) (om_Finalizers (rr_meta u)) OperationFinalizer\<rparr>\<rparr>))
             (\<lambda>_. ret (Inr ResultRequeue))
        else if terminal R u then ret (Inr ResultDone)
        else phase_step (traced_rec R) u) (w1, l)"
  using assms by (simp add: Reconcile_def run_on_err terminal_def)

lemma rollback_reconcile_trace:
  assumes "run_state (GetRollbackRequest (rc_Client R) req) w = (Inr u, w1)"
    and "keeps (log_all P) (remove_finalizer (traced_rec R) u) (\<lambda>_. True)"
    and "keeps (log_all P) (phase_step (traced_rec R) u) (\<lambda>_. True)"
    and "\<And>v. keeps (log_all P) (UpdateRollbackRequest (traced (rc_Client R)) v) (\<lambda>_. True)"
  shows "list_all P (trace_of (Reconcile (traced_rec R) req) w)"
proof -
  have "keeps (log_all P)
      (if om_DeletionTimestamp (rr_meta u) \<noteq> None then remove_finalizer (traced_rec R) u
       else if \<not> ContainsFinalizer (rc_Lib R) (om_Finalizers (rr_meta u)) OperationFinalizer
       then checked (UpdateRollbackRequest (traced (rc_Client R))
              (u\<lparr>rr_meta := (rr_meta u)\<lparr>om_Finalizers :=
                  AddFinalizer (rc_Lib R) (om_Finalizers (rr_meta u)) OperationFinalizer\<rparr>\<rparr>))
            (\<lambda>_. ret (Inr ResultRequeue))
       else if terminal R u then ret (Inr ResultDone)
       else phase_step (traced_rec R) u) (\<lambda>_. True)"
    by (intro keeps_if keeps_on_err keeps_ret TrueI assms(2-4))
  from keeps_run [OF this, of "(w1, [])"] show ?thesis
    by (simp add: trace_of_def run_rollback_reconcile [OF assms(1)] log_all_def)
qed

section \<open>Steps that cannot be undone\<close>

fun irreversible :: "event \<Rightarrow> bool" where
  "irreversible (CommittedFile _ _ _) = True"
| "irreversible (DeletedPVC _) = True"
| "irreversible _ = False"

text \<open>
  The seal is the last thing the controller knows of the Kustomization: it holds from a read that
  found it suspended up to the next read or write of a Kustomization.
\<close>

fun seal :: "bool \<Rightarrow> event \<Rightarrow> bool" where
  "seal ok (GotKustomization k r) = suspended_read (GotKustomization k r)"
| "seal ok (UpdatedKustomization x) = False"
| "seal ok _ = ok"

fun sealed_steps :: "bool \<Rightarrow> event list \<Rightarrow> bool" where
  "sealed_steps ok [] \<longleftrightarrow> True"
| "sealed_steps ok (e # es) \<longleftrightarrow> (irreversible e \<longrightarrow> ok) \<and> sealed_steps (seal ok e) es"

definition under_seal :: "event list \<Rightarrow> bool" where
  "under_seal es \<longleftrightarrow> sealed_steps False es"

abbreviation sealed :: "event list \<Rightarrow> bool" where
  "sealed es \<equiv> foldl seal False es"

lemma sealed_steps_snoc:
  "sealed_steps ok (es @ [e]) \<longleftrightarrow> sealed_steps ok es \<and> (irreversible e \<longrightarrow> foldl seal ok es)"
  by (induction ok es rule: sealed_steps.induct) auto

lemma under_seal_snoc: "under_seal (es @ [e]) \<longleftrightarrow> under_seal es \<and> (irreversible e \<longrightarrow> sealed es)"
  by (simp add: under_seal_def sealed_steps_snoc)

abbreviation careful :: "'w \<times> event list \<Rightarrow> bool" where
  "careful wl \<equiv> under_seal (snd wl)"

abbreviation locked :: "'w \<times> event list \<Rightarrow> bool" where
  "locked wl \<equiv> under_seal (snd wl) \<and> sealed (snd wl)"

fun moves_seal :: "event \<Rightarrow> bool" where
  "moves_seal (GotKustomization _ _) = True"
| "moves_seal (UpdatedKustomization _) = True"
| "moves_seal _ = False"

lemma seal_other: "\<not> moves_seal e \<Longrightarrow> seal ok e = ok"
  by (cases e) simp_all

lemma careful_unlogged: "keeps careful (unlogged m) (\<lambda>_. True)"
  by (rule keepsI) (auto simp: unlogged_def split: prod.splits)

lemma careful_logged: "(\<And>a. \<not> irreversible (ev a)) \<Longrightarrow> keeps careful (logged ev m) (\<lambda>_. True)"
  by (rule keepsI) (auto simp: logged_def under_seal_snoc split: prod.splits)

lemma locked_unlogged: "keeps locked (unlogged m) (\<lambda>_. True)"
  by (rule keepsI) (auto simp: unlogged_def split: prod.splits)

lemma locked_logged: "(\<And>a. \<not> moves_seal (ev a)) \<Longrightarrow> keeps locked (logged ev m) (\<lambda>_. True)"
  by (rule keepsI) (auto simp: logged_def under_seal_snoc seal_other split: prod.splits)

interpretation careful: rollback_calls "traced_rec R" careful "\<lambda>e. \<not> irreversible e"
  for R :: "('w, 'n) reconciler"
proof (intro rollback_calls.intro rollback_base.intro rec_inv.intro rollback_base_axioms.intro rollback_calls_axioms.intro)
  show "api_inv (rc_Client (traced_rec R)) careful (\<lambda>e. \<not> irreversible e)"
    by unfold_locales (simp_all add: traced_def careful_unlogged careful_logged)
  show "git_inv g careful (\<lambda>e. \<not> irreversible e)" if "rc_Git (traced_rec R) = Some g" for g
    using that by unfold_locales (auto simp: traced_git_def careful_unlogged)
qed simp_all

text \<open>Once sealed, everything but Kustomizations may be written, and the seal stays.\<close>

interpretation locked: rollback_base "traced_rec R" locked "\<lambda>e. \<not> moves_seal e"
  for R :: "('w, 'n) reconciler"
proof (intro rollback_base.intro rec_inv.intro rollback_base_axioms.intro)
  show "api_inv (rc_Client (traced_rec R)) locked (\<lambda>e. \<not> moves_seal e)"
    by unfold_locales (simp_all add: traced_def locked_unlogged locked_logged del: foldl_append)
  show "git_inv g locked (\<lambda>e. \<not> moves_seal e)" if "rc_Git (traced_rec R) = Some g" for g
    using that by unfold_locales (auto simp: traced_git_def locked_unlogged intro!: locked_logged)
qed simp_all

lemma verify_locks:
  "triple careful (VerifyStillSuspended (traced C) n ns) (\<lambda>r wl. careful wl \<and> (\<forall>x. r = Inr x \<longrightarrow> locked wl))"
  by (rule tripleI)
    (auto simp: VerifyStillSuspended_def IsSuspended_def run_on_err run_wrap_err under_seal_snoc
      split: prod.splits sum.splits if_splits)

text \<open>Both handlers verify the suspension first; what follows runs under the seal.\<close>

lemma careful_after_verify:
  assumes "\<And>w. keeps locked (k w) (\<lambda>_. True)"
  shows "keeps careful (or_fail (traced_rec R) u reason (VerifyStillSuspended (traced (rc_Client R)) n ns) k) (\<lambda>_. True)"
proof -
  have "triple careful (or_fail (traced_rec R) u reason (VerifyStillSuspended (traced (rc_Client R)) n ns) k) (\<lambda>_. careful)"
  proof (rule triple_on_err [OF verify_locks])
    show "triple (\<lambda>wl. careful wl \<and> (\<forall>x. Inl e = Inr x \<longrightarrow> locked wl))
        (setFailed (traced_rec R) u reason (Error e)) (\<lambda>_. careful)" for e
      by (rule triple_of_keeps [OF careful.keeps_fail]) simp
    show "triple (\<lambda>wl. careful wl \<and> (\<forall>x. Inr v = Inr x \<longrightarrow> locked wl)) (k v) (\<lambda>_. careful)" for v
      by (rule triple_conseq [OF triple_of_keeps [OF assms, where J = locked]]) auto
  qed
  then show ?thesis by (simp add: keeps_def)
qed

lemma careful_volume_restore: "keeps careful (handleVolumeRestore (traced_rec R) u) (\<lambda>_. True)"
  unfolding handleVolumeRestore_def traced_rec_simps(1)
  by (rule keeps_bind [OF keeps_any [OF careful.keeps_phase]],
      intro keeps_on_err careful.keeps_lookups careful.keeps_fail careful_after_verify locked.keeps_restore_volumes)
    simp_all

lemma careful_git_revert: "keeps careful (handleGitRevert (traced_rec R) u) (\<lambda>_. True)"
  unfolding handleGitRevert_def traced_rec_simps(1)
  by (intro keeps_on_err careful.keeps_lookups careful.keeps_fail careful_after_verify keeps_case_option
      keeps_ret TrueI locked.keeps_fail keeps_case_prod locked.keeps_commit_revert) simp_all

lemma careful_Reconcile: "keeps careful (Reconcile (traced_rec R) req) (\<lambda>_. True)"
  by (rule careful.keeps_rollback_reconcile [OF careful_volume_restore careful_git_revert])

end
