(* ===== verification/RollbackPhases.thy ===== *)
theory RollbackPhases
  imports RollbackCalls MemCluster
begin

text \<open>
  The order of the phases of a rollback as an invariant of its status conditions. As for upgrades,
  the locale \<open>rollback_phases\<close> is an environment in which ordered requests may be written, and every
  handler is shown to write only ordered requests; \<open>rollback_store\<close> adds that the requests that
  are read are in order.
\<close>

section \<open>The invariant\<close>

definition rolled_back :: "klib \<Rightarrow> Condition list \<Rightarrow> bool" where
  "rolled_back L cs =
     (case FindStatusCondition L cs ConditionTypeComplete of
        None \<Rightarrow> False
      | Some c \<Rightarrow> c_Status c = ConditionTrue \<and> c_Reason c = ''RollbackSucceeded'')"

text \<open>The volumes were restored by \<open>handleVolumeRestore\<close>, not skipped.\<close>

definition claims_restored :: "klib \<Rightarrow> Condition list \<Rightarrow> bool" where
  "claims_restored L cs =
     (case FindStatusCondition L cs ConditionTypeVolumesRestored of
        None \<Rightarrow> False | Some c \<Rightarrow> c_Reason c = ''AllPVCsRestored'')"

definition rollback_ok :: "klib \<Rightarrow> Condition list \<Rightarrow> bool" where
  "rollback_ok L cs \<longleftrightarrow>
     (claims_restored L cs \<longrightarrow>
        FindStatusCondition L cs ConditionTypeSuspended \<noteq> None \<and>
        IsStatusConditionTrue L cs ConditionTypeWorkloadStopped) \<and>
     (IsStatusConditionTrue L cs ConditionTypeGitReverted \<longrightarrow>
        FindStatusCondition L cs ConditionTypeSuspended \<noteq> None \<and>
        IsStatusConditionTrue L cs ConditionTypeWorkloadStopped \<and>
        IsStatusConditionTrue L cs ConditionTypeVolumesRestored) \<and>
     (IsStatusConditionTrue L cs ConditionTypeReconciled \<longrightarrow> IsStatusConditionTrue L cs ConditionTypeGitReverted) \<and>
     (IsStatusConditionTrue L cs ConditionTypeHealthy \<longrightarrow> IsStatusConditionTrue L cs ConditionTypeReconciled) \<and>
     (rolled_back L cs \<longrightarrow> IsStatusConditionTrue L cs ConditionTypeHealthy)"

context conditions_api
begin

lemma rollback_ok_empty: "rollback_ok L []"
  by (simp add: rollback_ok_def rolled_back_def claims_restored_def is_true_empty find_empty)

lemma rolled_back_set:
  "rolled_back L (SetStatusCondition L cs c) =
     (if c_Type c = ConditionTypeComplete then c_Status c = ConditionTrue \<and> c_Reason c = ''RollbackSucceeded''
      else rolled_back L cs)"
  "claims_restored L (SetStatusCondition L cs c) =
     (if c_Type c = ConditionTypeVolumesRestored then c_Reason c = ''AllPVCsRestored'' else claims_restored L cs)"
  by (simp_all add: rolled_back_def claims_restored_def find_set)

text \<open>Setting a condition that the order allows; only \<open>Suspended\<close> and \<open>Complete\<close> are ever set to false.\<close>

definition rollback_allowed :: "Condition list \<Rightarrow> Condition \<Rightarrow> bool" where
  "rollback_allowed cs c \<longleftrightarrow>
     (c_Type c \<noteq> ConditionTypeSuspended \<and> c_Type c \<noteq> ConditionTypeComplete \<longrightarrow> c_Status c = ConditionTrue) \<and>
     (c_Type c = ConditionTypeVolumesRestored \<and> c_Reason c = ''AllPVCsRestored'' \<longrightarrow>
        FindStatusCondition L cs ConditionTypeSuspended \<noteq> None \<and>
        IsStatusConditionTrue L cs ConditionTypeWorkloadStopped) \<and>
     (c_Type c = ConditionTypeGitReverted \<longrightarrow> FindStatusCondition L cs ConditionTypeSuspended \<noteq> None \<and>
        IsStatusConditionTrue L cs ConditionTypeWorkloadStopped \<and> IsStatusConditionTrue L cs ConditionTypeVolumesRestored) \<and>
     (c_Type c = ConditionTypeReconciled \<longrightarrow> IsStatusConditionTrue L cs ConditionTypeGitReverted) \<and>
     (c_Type c = ConditionTypeHealthy \<longrightarrow> IsStatusConditionTrue L cs ConditionTypeReconciled) \<and>
     (c_Type c = ConditionTypeComplete \<and> c_Status c = ConditionTrue \<and> c_Reason c = ''RollbackSucceeded'' \<longrightarrow>
        IsStatusConditionTrue L cs ConditionTypeHealthy)"

lemma rollback_ok_set: "rollback_ok L cs \<Longrightarrow> rollback_allowed cs c \<Longrightarrow> rollback_ok L (SetStatusCondition L cs c)"
  unfolding rollback_ok_def rollback_allowed_def is_true_set rolled_back_set find_set by simp

end

section \<open>Environments in which the order holds\<close>

abbreviation ordered_rollback :: "('w, 'n) reconciler \<Rightarrow> RollbackRequest \<Rightarrow> bool" where
  "ordered_rollback R u \<equiv> rollback_ok (rc_Lib R) (rr_Conditions u)"

locale rollback_phases = rec_inv R I P + conditions_api "rc_Lib R"
  for R :: "('w, 'n) reconciler" and I :: "'w \<Rightarrow> bool" and P :: "event \<Rightarrow> bool" +
  assumes ro_events: "P (GotKustomization k r)" "P (UpdatedKustomization x)" "P (PatchedDeployment d)"
      "P (PatchedStatefulSet st)" "P (DeletedPVC k)" "P (CreatedPVC p)" "P (CommittedFile pa c m)"
    and ro_update: "P (UpdatedRollbackRequest u)"
    and ro_write: "ordered_rollback R u \<Longrightarrow>
      keeps I (StatusUpdateRollbackRequest (rc_Client R) u)
        (\<lambda>r. \<forall>u'. r = Inr u' \<longrightarrow> rr_Conditions u' = rr_Conditions u)"
begin

lemmas ro_basic = read_keeps keeps_UpdateRollbackRequest [OF ro_update] keeps_flux_reads [OF ro_events(1)]
  keeps_flux_writes [OF ro_events(1,2)] keeps_scaler_reads keeps_scaler_writes [OF ro_events(3,4)]
  keeps_snapshot_reads keeps_CheckHealth [OF ro_events(1)] keeps_allWorkloadsScaledDown
  keeps_restore_writes [OF ro_events(6,5)]

lemma ro_setPhaseStart: "keeps I (setPhaseStartIfNeeded R u) (same_rollback u)"
  unfolding setPhaseStartIfNeeded_def
  by (intro keeps_rule ro_basic) (simp_all add: same_rollback_def)

lemma ro_isPhaseTimedOut: "keeps I (isPhaseTimedOut R u t) (\<lambda>_. True)"
  unfolding isPhaseTimedOut_def by (intro keeps_rule TrueI ro_basic)

lemma ro_lookups: "keeps I (getUpgradeRequest R u) (\<lambda>_. True)" "keeps I (getManagedApp R up) (\<lambda>_. True)"
  unfolding getUpgradeRequest_def getManagedApp_def by (intro ro_basic)+

lemma ro_remove_finalizer: "keeps I (remove_finalizer R u) (\<lambda>_. True)"
  unfolding remove_finalizer_def by (intro keeps_rule TrueI ro_basic)

lemma ro_save: "ordered_rollback R u \<Longrightarrow> keeps I (save_status R u res) (\<lambda>_. True)"
  unfolding save_status_def by (intro keeps_rule TrueI keeps_any [OF ro_write])

lemma ro_set_condition:
  assumes "ordered_rollback R u"
    and "rollback_allowed (rr_Conditions u) \<lparr>c_Type = t, c_Status = st, c_Reason = r, c_Message = m,
      c_ObservedGeneration = om_Generation (rr_meta u)\<rparr>"
  shows "ordered_rollback R (set_condition (rc_Lib R) t st r m u)"
  using rollback_ok_set [OF assms] by (simp add: set_condition_rr_conditions)

lemma ro_set_failed:
  "ordered_rollback R u \<Longrightarrow> ordered_rollback R (set_condition (rc_Lib R) ConditionTypeComplete ConditionFalse r m u)"
  by (rule ro_set_condition) (simp_all add: rollback_allowed_def)

lemma ro_set_suspended:
  "ordered_rollback R u \<Longrightarrow> ordered_rollback R (set_condition (rc_Lib R) ConditionTypeSuspended st r m u)"
  by (rule ro_set_condition) (simp_all add: rollback_allowed_def)

lemma ro_set_early:
  "t = ConditionTypeWorkloadStopped \<or> t = ConditionTypeVolumesRestored \<and> r \<noteq> ''AllPVCsRestored'' \<Longrightarrow>
   ordered_rollback R u \<Longrightarrow> ordered_rollback R (set_condition (rc_Lib R) t ConditionTrue r m u)"
  by (rule ro_set_condition) (auto simp: rollback_allowed_def)

lemma ro_setFailed: "ordered_rollback R u \<Longrightarrow> keeps I (setFailed R u reason msg) (\<lambda>_. True)"
  unfolding setFailed_def
  by (intro keeps_on_err keeps_any [OF ro_write] ro_set_failed keeps_ret TrueI ro_remove_finalizer)

lemma ro_dry_run_failed: "ordered_rollback R u \<Longrightarrow> keeps I (setRollbackDryRunFailed R u app msg) (\<lambda>_. True)"
  unfolding setRollbackDryRunFailed_def by (intro keeps_rule TrueI ro_basic ro_setFailed)

lemma ro_retry: "ordered_rollback R u \<Longrightarrow> keeps I (retry_or_fail R u app t msg n) (\<lambda>_. True)"
  unfolding retry_or_fail_def by (intro keeps_rule TrueI ro_isPhaseTimedOut ro_dry_run_failed ro_save)

lemma ro_preview: "keeps I (git_preview R app up) (\<lambda>_. True)"
  unfolding git_preview_def runRollbackGitDiffPreview_def by (intro keeps_rule TrueI keeps_git_read)

lemma ro_discover: "keeps I (DiscoverWorkloadsForPVCs (rc_Client R) names ns) (\<lambda>_. True)"
  unfolding DiscoverWorkloadsForPVCs_def discoverWorkloadsFromPVCs_def range_values_def
  by (intro keeps_rule TrueI ro_basic)

lemma ro_preflight: "keeps I (runRollbackPreflight R app upgrade) (\<lambda>_. True)"
  unfolding runRollbackPreflight_def verify_snapshots_def Let_def
  by (intro keeps_rule TrueI ro_basic ro_discover)

lemmas ro_fail = ro_setFailed ro_dry_run_failed ro_retry
lemmas ro_step = ro_isPhaseTimedOut ro_lookups ro_remove_finalizer ro_save ro_preview ro_preflight ro_discover

lemma ro_dry_run_phases:
  assumes "ordered_rollback R u"
  shows "keeps I (runRollbackDryRunQuiescence R u app pf vs) (\<lambda>_. True)"
proof -
  note phase = keeps_bind_res [OF ro_setPhaseStart]
  note rules = keeps_rule TrueI ro_basic ro_step ro_fail
  have 1: "keeps I (rollbackDryRunSuspend R u app n ns) (\<lambda>_. True)" for n ns
    unfolding rollbackDryRunSuspend_def
    by (rule phase, intro rules) (auto simp: same_rollback_def assms intro!: ro_set_suspended)
  have 2: "keeps I (rollbackDryRunScaleDown R u app ws) (\<lambda>_. True)" for ws
    unfolding rollbackDryRunScaleDown_def
    by (rule phase, intro rules) (auto simp: same_rollback_def assms intro!: ro_set_early)
  have 3: "keeps I (rollbackDryRunScaleUp R u app ws n ns) (\<lambda>_. True)" for ws n ns
    unfolding rollbackDryRunScaleUp_def
    by (rule keeps_on_err, rule keeps_flux_reads(5) [OF ro_events(1)], rule ro_dry_run_failed [OF assms],
        rule phase, intro rules) (auto simp: same_rollback_def assms intro!: ro_set_early)
  have fin: "ordered_rollback R
      (set_condition (rc_Lib R) ConditionTypeComplete ConditionTrue ''DryRunSucceeded'' m v)"
    if "ordered_rollback R v" for m v
    using that by (rule ro_set_condition) (simp add: rollback_allowed_def)
  have 4: "keeps I (rollbackDryRunResumeAndComplete R u app pf n ns vs) (\<lambda>_. True)" for n ns
    unfolding rollbackDryRunResumeAndComplete_def
    by (rule phase, intro rules keeps_any [OF ro_write]) (auto simp: same_rollback_def assms intro!: fin)
  show ?thesis
    unfolding runRollbackDryRunQuiescence_def Let_def by (intro keeps_if 1 2 3 4)
qed

lemma ro_handleDryRun: "ordered_rollback R u \<Longrightarrow> keeps I (handleDryRun R u) (\<lambda>_. True)"
  unfolding handleDryRun_def by (intro keeps_rule TrueI ro_step ro_fail ro_dry_run_phases)

lemma ro_handleSuspend:
  assumes "ordered_rollback R u"
  shows "keeps I (handleSuspend R u) (\<lambda>_. True)"
proof -
  have "keeps I (set_started_if_needed R u) (same_rollback u)"
    unfolding set_started_if_needed_def by (intro keeps_rule ro_basic) (simp_all add: same_rollback_def)
  then show ?thesis
    unfolding handleSuspend_def Let_def
    by (rule keeps_bind_res, intro keeps_rule TrueI ro_basic ro_step ro_fail)
      (auto simp: same_rollback_def assms intro!: ro_set_suspended ro_set_early)
qed

text \<open>What \<open>handleStopWorkload\<close> guarantees of the request when the reconcile goes on with it.\<close>

definition stopped :: "RollbackRequest \<Rightarrow> bool" where
  "stopped u \<longleftrightarrow> ordered_rollback R u \<and>
     FindStatusCondition (rc_Lib R) (rr_Conditions u) ConditionTypeSuspended \<noteq> None \<and>
     cond_true R u ConditionTypeWorkloadStopped"

lemma stopped_ordered: "stopped u \<Longrightarrow> ordered_rollback R u"
  by (simp add: stopped_def)

lemma stopped_same: "stopped u \<Longrightarrow> rr_Conditions v = rr_Conditions u \<Longrightarrow> stopped v"
  by (simp add: stopped_def)

lemma ro_skip_stop:
  assumes "ordered_rollback R u"
    and "FindStatusCondition (rc_Lib R) (rr_Conditions u) ConditionTypeSuspended \<noteq> None"
  shows "keeps I (skip_stop R u reason msg) (\<lambda>r. \<forall>u'. r = Inr u' \<longrightarrow> stopped u')"
proof -
  let ?v = "set_condition (rc_Lib R) ConditionTypeWorkloadStopped ConditionTrue reason msg u"
  have ok: "ordered_rollback R ?v" by (rule ro_set_early) (simp_all add: assms)
  have "stopped v" if "rr_Conditions v = rr_Conditions ?v" for v
    using ok that assms(2) by (simp add: stopped_def set_condition_rr_conditions find_set is_true_set)
  then show ?thesis
    unfolding skip_stop_def
    by (intro keeps_on_err_res [OF ro_write [OF ok]] keeps_ret) auto
qed

lemma ro_stop_with: "keeps I m (\<lambda>_. True) \<Longrightarrow> keeps I (stop_with m) (\<lambda>r. \<forall>u'. r = Inr u' \<longrightarrow> Q u')"
  unfolding stop_with_def by (intro keeps_bind keeps_ret) simp_all

lemma ro_handleStopWorkload:
  assumes "ordered_rollback R u"
    and "FindStatusCondition (rc_Lib R) (rr_Conditions u) ConditionTypeSuspended \<noteq> None"
  shows "keeps I (handleStopWorkload R u) (\<lambda>r. \<forall>u'. r = Inr u' \<longrightarrow> stopped u')"
proof -
  have all: "keeps I (scale_down_all R app ws) (\<lambda>_. True)" for app ws
    unfolding scale_down_all_def by (intro keeps_rule TrueI ro_basic)
  have checks: "keeps I (all_of (\<lambda>w. IsScaledDown (rc_Client R) (rc_Lib R) (wsi_Kind w) (wsi_Name w) (wsi_Namespace w)) ws)
      (\<lambda>_. True)" for ws
    by (intro keeps_rule TrueI ro_basic)
  show ?thesis
    unfolding handleStopWorkload_def
    by (rule keeps_bind_res [OF ro_setPhaseStart],
        intro keeps_on_err keeps_if keeps_bind ro_stop_with ro_skip_stop ro_fail ro_step ro_basic all checks)
      (auto simp: same_rollback_def assms intro!: ro_set_early)
qed

lemma ro_restore_claims:
  "stopped u \<Longrightarrow> keeps I (restore_claims R app snaps u) (\<lambda>r. \<forall>u'. r = Inr u' \<longrightarrow> stopped u')"
proof (induction snaps arbitrary: u)
  case Nil
  then show ?case by (simp add: keeps_ret)
next
  case (Cons snap snaps)
  have wr: "keeps I (on_err (StatusUpdateRollbackRequest (rc_Client R) (set_volume_restore v u))
      (\<lambda>e. ret (Inl (Inl e))) (\<lambda>u'. restore_claims R app snaps u')) (\<lambda>r. \<forall>u'. r = Inr u' \<longrightarrow> stopped u')" for v
    using Cons by (intro keeps_on_err_res [OF ro_write] keeps_ret Cons.IH)
      (auto simp: stopped_ordered intro: stopped_same)
  show ?case
    unfolding restore_claims.simps
    by (intro keeps_case_option keeps_if keeps_bind keeps_on_err ro_basic ro_stop_with keeps_ret ro_fail ro_step
        Cons.IH Cons.prems stopped_ordered wr) simp_all
qed

lemma ro_await_bound:
  "ordered_rollback R u \<Longrightarrow> keeps I (await_bound R app vr u bound rs) (\<lambda>_. True)"
proof (induction rs arbitrary: bound)
  case Nil
  then show ?case by (simp add: keeps_ret)
next
  case (Cons r rs)
  then show ?case
    unfolding await_bound.simps Let_def stop_with_def
    by (intro keeps_if keeps_on_err keeps_bind ro_basic keeps_ret ro_fail ro_step TrueI) simp_all
qed

lemma ro_restore_volumes:
  assumes "stopped u"
  shows "keeps I (restore_volumes R upgrade app u) (\<lambda>_. True)"
proof -
  have init: "keeps I (init_volume_restore R u) stopped"
    unfolding init_volume_restore_def using assms
    by (intro keeps_case_option keeps_bind ro_basic keeps_ret) (auto intro: stopped_same)
  have fin: "ordered_rollback R (volumes_restored (rc_Lib R) vr bound now v)" if "stopped v" for vr bound now v
    unfolding volumes_restored_def using that
    by (intro ro_set_condition) (auto simp: rollback_allowed_def stopped_def)
  show ?thesis
    unfolding restore_volumes_def
    by (intro keeps_bind_res [OF init] keeps_case_option keeps_on_err_res [OF ro_restore_claims] keeps_on_err
        ro_await_bound keeps_bind keeps_ret TrueI ro_step ro_basic) (auto simp: stopped_ordered fin)
qed

lemma ro_handleVolumeRestore:
  assumes "stopped u"
  shows "keeps I (handleVolumeRestore R u) (\<lambda>_. True)"
  unfolding handleVolumeRestore_def
  by (rule keeps_bind_res [OF ro_setPhaseStart],
      intro keeps_on_err ro_basic ro_step ro_fail ro_restore_volumes stopped_ordered stopped_same [OF assms])
    (simp_all add: same_rollback_def)

lemma ro_handleGitRevert:
  assumes "stopped u" and "cond_true R u ConditionTypeVolumesRestored"
  shows "keeps I (handleGitRevert R u) (\<lambda>_. True)"
proof -
  have ok: "ordered_rollback R u" using assms(1) by (rule stopped_ordered)
  have "ordered_rollback R (reverted (rc_Lib R) sha now u)" for sha now
    unfolding reverted_def using assms by (intro ro_set_condition) (auto simp: rollback_allowed_def stopped_def)
  then show ?thesis
    unfolding handleGitRevert_def commit_revert_def
    by (intro keeps_rule TrueI keeps_git_read keeps_git_commit ro_events(7) ro_basic ro_step ro_fail ok)
qed

lemma ro_handleReconciling:
  assumes "ordered_rollback R u" and "cond_true R u ConditionTypeGitReverted"
  shows "keeps I (handleReconciling R u) (\<lambda>_. True)"
proof -
  have susp: "ordered_rollback R (set_condition (rc_Lib R) ConditionTypeSuspended st r m v) \<and>
      cond_true R (set_condition (rc_Lib R) ConditionTypeSuspended st r m v) ConditionTypeGitReverted"
    if "rr_Conditions v = rr_Conditions u" for st r m v
    using that assms ro_set_suspended [of v] by (simp add: set_condition_rr_conditions is_true_set)
  have fin: "ordered_rollback R (set_condition (rc_Lib R) ConditionTypeReconciled ConditionTrue r m (resetPhaseStart v))"
    if "ordered_rollback R v" and "cond_true R v ConditionTypeGitReverted" for r m v
    using that by (intro ro_set_condition) (simp_all add: rollback_allowed_def)
  have rest: "keeps I (on_err (StatusUpdateRollbackRequest (rc_Client R)
        (set_condition (rc_Lib R) ConditionTypeSuspended st r m v)) (\<lambda>e. ret (Inl e)) k) (\<lambda>_. True)"
    if "rr_Conditions v = rr_Conditions u"
      and "\<And>u1. ordered_rollback R u1 \<Longrightarrow> cond_true R u1 ConditionTypeGitReverted \<Longrightarrow> keeps I (k u1) (\<lambda>_. True)"
    for st r m v and k :: "RollbackRequest \<Rightarrow> ('w, Result) call"
    using susp [OF that(1)] that(2) by (intro keeps_on_err_res [OF ro_write] keeps_ret TrueI) auto
  show ?thesis
    unfolding handleReconciling_def Let_def
    by (rule keeps_bind_res [OF ro_setPhaseStart],
        intro keeps_on_err ro_basic ro_step ro_fail rest keeps_if keeps_bind keeps_ret TrueI fin)
      (simp_all add: same_rollback_def assms)
qed

lemma ro_handleHealthChecking:
  assumes "ordered_rollback R u" and "cond_true R u ConditionTypeReconciled"
  shows "keeps I (handleHealthChecking R u) (\<lambda>_. True)"
proof -
  have "ordered_rollback R (set_condition (rc_Lib R) ConditionTypeHealthy ConditionTrue r m v)"
    if "rr_Conditions v = rr_Conditions u" for r m v
    using that assms by (intro ro_set_condition) (auto simp: rollback_allowed_def)
  then show ?thesis
    unfolding handleHealthChecking_def
    by (intro keeps_bind_res [OF ro_setPhaseStart] keeps_on_err keeps_if keeps_bind keeps_ret TrueI ro_basic ro_step ro_fail)
      (auto simp: same_rollback_def assms)
qed

lemma ro_handleCompleted:
  assumes "ordered_rollback R u" and "cond_true R u ConditionTypeHealthy"
  shows "keeps I (handleCompleted R u) (\<lambda>_. True)"
proof -
  have "ordered_rollback R (completed (rc_Lib R) now u)" for now
    unfolding completed_def Let_def using assms
    by (intro ro_set_condition) (auto simp: rollback_allowed_def)
  then show ?thesis
    unfolding handleCompleted_def by (intro keeps_rule TrueI keeps_any [OF ro_write] ro_basic ro_step)
qed

lemma ro_later_phases: "stopped u \<Longrightarrow> keeps I (later_phases R u) (\<lambda>_. True)"
  unfolding later_phases_def
  by (intro keeps_if ro_handleVolumeRestore ro_handleGitRevert ro_handleReconciling ro_handleHealthChecking
      ro_handleCompleted) (auto simp: stopped_ordered)

lemma ro_phase_step: "ordered_rollback R u \<Longrightarrow> keeps I (phase_step R u) (\<lambda>_. True)"
  unfolding phase_step_def
  by (intro keeps_if ro_handleDryRun ro_handleSuspend keeps_on_err_res [OF ro_handleStopWorkload] keeps_ret TrueI
      ro_later_phases) (auto simp: stopped_def)

end

text \<open>A store in which every rollback request is in order.\<close>

locale rollback_store = rollback_phases +
  assumes ro_get: "keeps I (GetRollbackRequest (rc_Client R) k) (\<lambda>r. \<forall>u. r = Inr u \<longrightarrow> ordered_rollback R u)"
begin

lemma ro_Reconcile: "keeps I (Reconcile R req) (\<lambda>_. True)"
  unfolding Reconcile_def
  by (rule keeps_on_err_res [OF ro_get])
    (auto intro!: keeps_if keeps_on_err keeps_ret ro_basic ro_remove_finalizer ro_phase_step)

end

section \<open>Traces\<close>

fun ordered_rollback_write :: "klib \<Rightarrow> event \<Rightarrow> bool" where
  "ordered_rollback_write L (WroteRollbackStatus u) = rollback_ok L (rr_Conditions u)"
| "ordered_rollback_write L _ = True"

text \<open>What the API server promises: a status update answers with the conditions that were sent.\<close>

definition answers_rollback_status :: "('w, 'n) reconciler \<Rightarrow> bool" where
  "answers_rollback_status R \<longleftrightarrow>
     (\<forall>u. yields (StatusUpdateRollbackRequest (rc_Client R) u)
        (\<lambda>r. \<forall>u'. r = Inr u' \<longrightarrow> rr_Conditions u' = rr_Conditions u))"

lemma traced_rollback_phases:
  assumes "conditions_api (rc_Lib R)" and "answers_rollback_status R"
  shows "rollback_phases (traced_rec R) (log_all (ordered_rollback_write (rc_Lib R))) (ordered_rollback_write (rc_Lib R))"
proof (intro rollback_phases.intro rollback_phases_axioms.intro trr.rec_inv_axioms)
  show "conditions_api (rc_Lib (traced_rec R))" using assms(1) by simp
  show "keeps (log_all (ordered_rollback_write (rc_Lib R))) (StatusUpdateRollbackRequest (rc_Client (traced_rec R)) u)
      (\<lambda>r. \<forall>u'. r = Inr u' \<longrightarrow> rr_Conditions u' = rr_Conditions u)"
    if "rollback_ok (rc_Lib (traced_rec R)) (rr_Conditions u)" for u
    using assms(2) that unfolding traced_rec_simps
    by (intro keeps_yields [OF tr.keeps_StatusUpdateRollbackRequest])
      (simp_all add: answers_rollback_status_def traced_def yields_logged)
qed simp_all

lemma mem_answers_rollback: "answers_rollback_status mem_rec"
  unfolding answers_rollback_status_def
  by (intro allI yieldsI) (auto simp: mem_rec_def mem_client_def mem_modify_def split: option.splits)

end
