(* ===== verification/RollbackRestore.thy ===== *)
theory RollbackRestore
  imports RollbackSafety RollbackPhases
begin

text \<open>
  What \<open>handleVolumeRestore\<close> does to the claims. A second observer, \<open>watched_rec\<close>, writes down every
  call that concerns a claim and every status that is saved, each with the answer of the API server,
  so that a failed creation and what a read returned can be told. \<open>emits\<close> is a calculus for the
  events that a program adds to such a record.
\<close>

section \<open>The events a program adds\<close>

definition emits :: "('w \<times> 'e list, 'a) state \<Rightarrow> ('a \<Rightarrow> 'e list \<Rightarrow> bool) \<Rightarrow> bool" where
  "emits m Q \<longleftrightarrow> (\<forall>w l. case run_state m (w, l) of (a, (w', l')) \<Rightarrow> \<exists>es. l' = l @ es \<and> Q a es)"

lemma emitsI:
  "(\<And>w l a w' l'. run_state m (w, l) = (a, (w', l')) \<Longrightarrow> \<exists>es. l' = l @ es \<and> Q a es) \<Longrightarrow> emits m Q"
  by (auto simp: emits_def split: prod.split)

lemma emitsD: "emits m Q \<Longrightarrow> run_state m (w, l) = (a, (w', l')) \<Longrightarrow> \<exists>es. l' = l @ es \<and> Q a es"
  unfolding emits_def by (auto split: prod.splits)

lemma emits_ret: "Q a [] \<Longrightarrow> emits (ret a) Q"
  by (rule emitsI) simp

lemma emits_bind:
  assumes "emits m A" and "\<And>a es. A a es \<Longrightarrow> emits (f a) (\<lambda>b es'. Q b (es @ es'))"
  shows "emits (State_Monad.bind m f) Q"
proof (rule emitsI)
  fix w l b w' l'
  assume run: "run_state (State_Monad.bind m f) (w, l) = (b, (w', l'))"
  obtain a w1 l1 where m: "run_state m (w, l) = (a, (w1, l1))" by (metis prod.collapse)
  with assms(1) obtain es where es: "l1 = l @ es" "A a es" by (blast dest: emitsD)
  from run m have "run_state (f a) (w1, l1) = (b, (w', l'))" by simp
  with assms(2) [OF es(2)] obtain es' where "l' = l1 @ es'" "Q b (es @ es')" by (blast dest: emitsD)
  with es show "\<exists>es. l' = l @ es \<and> Q b es" by auto
qed

lemma emits_on_err:
  assumes "emits m A" and "\<And>e es. A (Inl e) es \<Longrightarrow> emits (h e) (\<lambda>b es'. Q b (es @ es'))"
    and "\<And>v es. A (Inr v) es \<Longrightarrow> emits (k v) (\<lambda>b es'. Q b (es @ es'))"
  shows "emits (on_err m h k) Q"
  unfolding on_err_def using assms by (auto intro!: emits_bind split: sum.split)

lemma emits_mono: "emits m A \<Longrightarrow> (\<And>a es. A a es \<Longrightarrow> Q a es) \<Longrightarrow> emits m Q"
  by (rule emitsI) (blast dest: emitsD)

lemma emits_if: "(b \<Longrightarrow> emits m Q) \<Longrightarrow> (\<not> b \<Longrightarrow> emits n Q) \<Longrightarrow> emits (if b then m else n) Q"
  by simp

lemma emits_case_option:
  "(x = None \<Longrightarrow> emits m Q) \<Longrightarrow> (\<And>v. x = Some v \<Longrightarrow> emits (k v) Q) \<Longrightarrow>
     emits (case x of None \<Rightarrow> m | Some v \<Rightarrow> k v) Q"
  by (simp split: option.split)

lemma emits_unlogged: "emits (unlogged m) (\<lambda>_ es. es = [])"
  by (rule emitsI) (auto simp: unlogged_def split: prod.splits)

lemma emits_logged: "yields m S \<Longrightarrow> emits (logged ev m) (\<lambda>a es. es = [ev a] \<and> S a)"
  by (rule emitsI) (auto simp: logged_def split: prod.splits dest: yieldsD)

section \<open>Watching the claims\<close>

datatype claim_event =
    ClaimDeleted NamespacedName "goerror + unit"
  | ClaimRead NamespacedName "goerror + PersistentVolumeClaim"
  | ClaimCreated PersistentVolumeClaim "goerror + PersistentVolumeClaim"
  | StatusSaved RollbackRequest "goerror + RollbackRequest"

definition watched :: "'w client \<Rightarrow> ('w \<times> claim_event list) client" where
  "watched C = \<lparr>
     Now = unlogged (Now C),
     SleepOrDone = (\<lambda>d. unlogged (SleepOrDone C d)),
     RangeKeys = (\<lambda>ks. unlogged (RangeKeys C ks)),
     RangeNames = (\<lambda>ks. unlogged (RangeNames C ks)),
     GetUpgradeRequest = (\<lambda>k. unlogged (GetUpgradeRequest C k)),
     GetRollbackRequest = (\<lambda>k. unlogged (GetRollbackRequest C k)),
     GetManagedApp = (\<lambda>k. unlogged (GetManagedApp C k)),
     GetKustomization = (\<lambda>k. unlogged (GetKustomization C k)),
     GetDeployment = (\<lambda>k. unlogged (GetDeployment C k)),
     GetStatefulSet = (\<lambda>k. unlogged (GetStatefulSet C k)),
     GetPVC = (\<lambda>k. logged (ClaimRead k) (GetPVC C k)),
     GetVolumeSnapshot = (\<lambda>k. unlogged (GetVolumeSnapshot C k)),
     GetVolumeSnapshotClass = (\<lambda>k. unlogged (GetVolumeSnapshotClass C k)),
     GetConfigMap = (\<lambda>k. unlogged (GetConfigMap C k)),
     ListPods = (\<lambda>ns sel. unlogged (ListPods C ns sel)),
     ListSecrets = (\<lambda>ns. unlogged (ListSecrets C ns)),
     ListVolumeSnapshots = (\<lambda>ns lb. unlogged (ListVolumeSnapshots C ns lb)),
     ListManagedApps = unlogged (ListManagedApps C),
     UpdateUpgradeRequest = (\<lambda>u. unlogged (UpdateUpgradeRequest C u)),
     UpdateRollbackRequest = (\<lambda>u. unlogged (UpdateRollbackRequest C u)),
     UpdateKustomization = (\<lambda>u. unlogged (UpdateKustomization C u)),
     PatchDeployment = (\<lambda>u. unlogged (PatchDeployment C u)),
     PatchStatefulSet = (\<lambda>u. unlogged (PatchStatefulSet C u)),
     StatusUpdateUpgradeRequest = (\<lambda>u. unlogged (StatusUpdateUpgradeRequest C u)),
     StatusUpdateRollbackRequest = (\<lambda>u. logged (StatusSaved u) (StatusUpdateRollbackRequest C u)),
     StatusUpdateManagedApp = (\<lambda>u. unlogged (StatusUpdateManagedApp C u)),
     CreateRollbackRequest = (\<lambda>u. unlogged (CreateRollbackRequest C u)),
     CreateVolumeSnapshot = (\<lambda>u. unlogged (CreateVolumeSnapshot C u)),
     CreatePVC = (\<lambda>p. logged (ClaimCreated p) (CreatePVC C p)),
     DeleteVolumeSnapshot = (\<lambda>k. unlogged (DeleteVolumeSnapshot C k)),
     DeletePVC = (\<lambda>k. logged (ClaimDeleted k) (DeletePVC C k))\<rparr>"

definition watched_git :: "'w git_manager \<Rightarrow> ('w \<times> claim_event list) git_manager" where
  "watched_git G = \<lparr>
     gm_ReadFile = (\<lambda>p. unlogged (gm_ReadFile G p)),
     gm_CommitFile = (\<lambda>ch msg. unlogged (gm_CommitFile G ch msg)),
     gm_CommitFiles = (\<lambda>chs msg. unlogged (gm_CommitFiles G chs msg)),
     gm_GetLatestCommit = unlogged (gm_GetLatestCommit G)\<rparr>"

definition watched_rec :: "('w, 'n) reconciler \<Rightarrow> ('w \<times> claim_event list, 'n) reconciler" where
  "watched_rec R = \<lparr>rc_Client = watched (rc_Client R), rc_Lib = rc_Lib R,
     rc_Git = map_option watched_git (rc_Git R), rc_Yaml = rc_Yaml R, rc_Helm = rc_Helm R\<rparr>"

text \<open>What a restore does to the claims, from the first call to the last.\<close>

definition claim_trace :: "('w, 'n) reconciler \<Rightarrow> UpgradeRequest \<Rightarrow> ManagedApp \<Rightarrow> RollbackRequest \<Rightarrow> 'w \<Rightarrow> claim_event list" where
  "claim_trace R upgrade app u w = snd (snd (run_state (restore_volumes (watched_rec R) upgrade app u) (w, [])))"

lemma emits_claim_trace:
  "emits (restore_volumes (watched_rec R) upgrade app u) Q \<Longrightarrow> \<exists>a. Q a (claim_trace R upgrade app u w)"
  by (cases "run_state (restore_volumes (watched_rec R) upgrade app u) (w, [])") (auto simp: claim_trace_def dest!: emitsD)

lemma watched_simps [simp]:
  "rc_Client (watched_rec R) = watched (rc_Client R)" "rc_Lib (watched_rec R) = rc_Lib R"
  "Now (watched C) = unlogged (Now C)" "GetPVC (watched C) k = logged (ClaimRead k) (GetPVC C k)"
  "GetVolumeSnapshot (watched C) k = unlogged (GetVolumeSnapshot C k)"
  "DeletePVC (watched C) k = logged (ClaimDeleted k) (DeletePVC C k)"
  "CreatePVC (watched C) p = logged (ClaimCreated p) (CreatePVC C p)"
  "UpdateRollbackRequest (watched C) u = unlogged (UpdateRollbackRequest C u)"
  "StatusUpdateRollbackRequest (watched C) u = logged (StatusSaved u) (StatusUpdateRollbackRequest C u)"
  by (simp_all add: watched_rec_def watched_def)

text \<open>What the single calls put into the record.\<close>

definition gone :: "klib \<Rightarrow> goerror + PersistentVolumeClaim \<Rightarrow> bool" where
  "gone L answer \<longleftrightarrow> (\<exists>e. answer = Inl e \<and> IgnoreNotFound L e = None)"

definition failure_saved :: "klib \<Rightarrow> claim_event list \<Rightarrow> bool" where
  "failure_saved L es \<longleftrightarrow>
     (\<exists>u reason message answer.
        es = [StatusSaved (set_condition L ConditionTypeComplete ConditionFalse reason message u) answer])"

lemma failure_savedI [intro]:
  "failure_saved L [StatusSaved (set_condition L ConditionTypeComplete ConditionFalse reason message u) answer]"
  unfolding failure_saved_def by blast

lemma emits_delete:
  "emits (Manager_DeletePVC (watched C) n ns)
     (\<lambda>r es. r = Inr () \<and> es = [ClaimDeleted (NN n ns) (Inr ())] \<or>
        (\<exists>e. r = Inl (Wrap (''deleting PVC '' @ ns @ ''/'' @ n) e) \<and> es = [ClaimDeleted (NN n ns) (Inl e)]))"
  by (rule emitsI) (auto simp: Manager_DeletePVC_def run_wrap_err run_logged split: prod.splits sum.splits)

lemma emits_is_deleted:
  "emits (IsPVCDeleted (watched C) L n ns)
     (\<lambda>r es. \<exists>g. es = [ClaimRead (NN n ns) g] \<and> (r = Inr True \<longleftrightarrow> gone L g))"
  by (rule emitsI) (auto simp: IsPVCDeleted_def run_on_err run_logged gone_def split: prod.splits sum.splits)

lemma emits_is_bound:
  "emits (IsPVCBound (watched C) n ns)
     (\<lambda>r es. \<exists>g. es = [ClaimRead (NN n ns) g] \<and>
        (r = Inr True \<longrightarrow> (\<exists>pvc. g = Inr pvc \<and> pvc_Phase pvc = ''Bound'')))"
  by (rule emitsI)
    (auto simp: IsPVCBound_def run_on_err run_wrap_err run_logged ClaimBound_def split: prod.splits sum.splits)

lemma emits_restore:
  "emits (RestorePVCFromSnapshot (watched C) req)
     (\<lambda>r es. es = [] \<and> isl r \<or> (\<exists>sz c. es = [ClaimCreated (restored_pvc req sz) c] \<and> isl r = isl c))"
  by (rule emitsI)
    (auto simp: RestorePVCFromSnapshot_def run_on_err run_wrap_err run_logged run_unlogged
      split: prod.splits sum.splits if_splits option.splits, blast+)

lemma emits_fail: "emits (setFailed (watched_rec R) u reason msg) (\<lambda>_ es. failure_saved (rc_Lib R) es)"
  by (rule emitsI)
    (auto simp: setFailed_def remove_finalizer_def run_on_err run_logged run_unlogged
      split: prod.splits sum.splits if_splits)

lemma emits_timed_out: "emits (isPhaseTimedOut (watched_rec R) u t) (\<lambda>_ es. es = [])"
  by (rule emitsI) (auto simp: isPhaseTimedOut_def run_unlogged split: prod.splits option.splits)

lemma emits_stop_with: "emits m (\<lambda>_ es. Q es) \<Longrightarrow> emits (stop_with m) (\<lambda>r es. isl r \<and> Q es)"
  unfolding stop_with_def by (rule emits_bind [where A = "\<lambda>_ es. Q es"]) (auto intro: emits_ret)

text \<open>A loop that finds it has to wait either fails the request, if the phase has taken too long, or asks for another round.\<close>

lemma emits_wait:
  "emits (do { timedOut \<leftarrow> isPhaseTimedOut (watched_rec R) u t;
       stop_with (if timedOut then setFailed (watched_rec R) u reason msg else ret x) })
     (\<lambda>r es. isl r \<and> (es = [] \<or> failure_saved (rc_Lib R) es))"
  by (rule emits_bind [OF emits_timed_out], hypsubst, unfold append_Nil, rule emits_stop_with, rule emits_if)
    (auto intro: emits_ret emits_mono [OF emits_fail])

section \<open>The protocol of the restore\<close>

text \<open>
  A run over the recorded snapshots, \<open>done_names\<close> being the claims listed in the status: a claim that is
  listed is skipped. Any other one is deleted, read, and only if the read finds it gone created again
  from its own snapshot; only if the creation succeeded the status that lists it too is saved, and only
  if that succeeded the run goes on with the next claim. A run that stops says at most that it failed.
\<close>

abbreviation claim_key :: "ManagedApp \<Rightarrow> PVCSnapshotInfo \<Rightarrow> NamespacedName" where
  "claim_key app s \<equiv> NN (psi_PVCName s) (ma_Namespace app)"

definition restored_from :: "ManagedApp \<Rightarrow> PVCSnapshotInfo \<Rightarrow> PersistentVolumeClaim \<Rightarrow> bool" where
  "restored_from app s p \<longleftrightarrow>
     om_Name (pvc_meta p) = psi_PVCName s \<and> om_Namespace (pvc_meta p) = ma_Namespace app \<and>
     pvc_DataSource p = Some (''snapshot.storage.k8s.io'', ''VolumeSnapshot'', psi_SnapshotName s)"

lemma restored_from_request [simp]: "restored_from app s (restored_pvc (restore_request app s) sz)"
  by (simp add: restored_from_def restored_pvc_def restore_request_def new_meta_def)

definition entries :: "RollbackRequest \<Rightarrow> RestoredPVCInfo list" where
  "entries u = (case rrst_VolumeRestore (rr_Status u) of None \<Rightarrow> [] | Some vr \<Rightarrow> vrs_RestoredPVCs vr)"

definition listed :: "RollbackRequest \<Rightarrow> string list" where
  "listed u = map rpi_PVCName (entries u)"

definition stops :: "klib \<Rightarrow> claim_event list \<Rightarrow> bool" where
  "stops L es \<longleftrightarrow> es = [] \<or> failure_saved L es"

primrec restores :: "klib \<Rightarrow> ManagedApp \<Rightarrow> string list \<Rightarrow> PVCSnapshotInfo list \<Rightarrow> claim_event list \<Rightarrow> bool" where
  "restores L app names [] es \<longleftrightarrow> es = []"
| "restores L app names (s # ss) es \<longleftrightarrow>
     (if psi_PVCName s \<in> set names then restores L app names ss es
      else \<exists>d es1. es = ClaimDeleted (claim_key app s) d # es1 \<and>
        (if \<exists>e. d = Inl e \<and> \<not> IsNotFound L (Wrap (''deleting PVC '' @ ma_Namespace app @ ''/'' @ psi_PVCName s) e)
         then failure_saved L es1
         else \<exists>g es2. es1 = ClaimRead (claim_key app s) g # es2 \<and>
           (if \<not> gone L g then stops L es2
            else failure_saved L es2 \<or>
              (\<exists>p c es3. es2 = ClaimCreated p c # es3 \<and> restored_from app s p \<and>
                 (case c of
                    Inl e \<Rightarrow> failure_saved L es3
                  | Inr q \<Rightarrow> \<exists>v a es4. es3 = StatusSaved v a # es4 \<and> listed v = names @ [psi_PVCName s] \<and>
                      (case a of
                         Inl e \<Rightarrow> es4 = []
                       | Inr v' \<Rightarrow> restores L app (names @ [psi_PVCName s]) ss es4))))))"

text \<open>What the API server promises: a status update answers with the status that was sent.\<close>

definition echoes_rollback_status :: "('w, 'n) reconciler \<Rightarrow> bool" where
  "echoes_rollback_status R \<longleftrightarrow>
     (\<forall>u. yields (StatusUpdateRollbackRequest (rc_Client R) u) (\<lambda>r. \<forall>u'. r = Inr u' \<longrightarrow> rr_Status u' = rr_Status u))"

lemma emits_save:
  "echoes_rollback_status R \<Longrightarrow>
     emits (StatusUpdateRollbackRequest (watched (rc_Client R)) v)
       (\<lambda>r es. es = [StatusSaved v r] \<and> (\<forall>u'. r = Inr u' \<longrightarrow> rr_Status u' = rr_Status v))"
  unfolding watched_simps by (rule emits_logged) (simp add: echoes_rollback_status_def)

lemma emits_restore_claims:
  assumes echo: "echoes_rollback_status R"
  shows "rrst_VolumeRestore (rr_Status u) \<noteq> None \<Longrightarrow>
     emits (restore_claims (watched_rec R) app ss u) (\<lambda>_ es. restores (rc_Lib R) app (listed u) ss es)"
proof (induction ss arbitrary: u)
  case Nil
  then show ?case by (simp add: emits_ret)
next
  case (Cons s ss)
  let ?L = "rc_Lib R" and ?n = "psi_PVCName s"
  obtain vr where vr: "rrst_VolumeRestore (rr_Status u) = Some vr" using Cons.prems by blast
  have here: "list_ex (\<lambda>r. rpi_PVCName r = ?n) (vrs_RestoredPVCs vr) \<longleftrightarrow> ?n \<in> set (listed u)"
    by (force simp: listed_def entries_def vr list_ex_iff)
  define saved where "saved = (\<lambda>es. \<exists>v a es4. es = StatusSaved v a # es4 \<and> listed v = listed u @ [?n] \<and>
      (case a of Inl e \<Rightarrow> es4 = [] | Inr v' \<Rightarrow> restores ?L app (listed u @ [?n]) ss es4))"
  define made where "made = (\<lambda>es. failure_saved ?L es \<or> (\<exists>p c es3. es = ClaimCreated p c # es3 \<and>
      restored_from app s p \<and> (case c of Inl e \<Rightarrow> failure_saved ?L es3 | Inr q \<Rightarrow> saved es3)))"
  define checked_gone where "checked_gone = (\<lambda>es. \<exists>g es2. es = ClaimRead (claim_key app s) g # es2 \<and>
      (if \<not> gone ?L g then stops ?L es2 else made es2))"
  have save: "emits (on_err (StatusUpdateRollbackRequest (rc_Client (watched_rec R))
        (set_volume_restore (vr\<lparr>vrs_RestoredPVCs := vrs_RestoredPVCs vr @ [r]\<rparr>) u))
      (\<lambda>e. ret (Inl (Inl e))) (\<lambda>u'. restore_claims (watched_rec R) app ss u')) (\<lambda>_. saved)"
    if "rpi_PVCName r = ?n" for r
  proof -
    let ?v = "set_volume_restore (vr\<lparr>vrs_RestoredPVCs := vrs_RestoredPVCs vr @ [r]\<rparr>) u"
    have v: "listed ?v = listed u @ [?n]" "rrst_VolumeRestore (rr_Status ?v) \<noteq> None"
      using that by (simp_all add: listed_def entries_def set_volume_restore_def vr)
    have more: "emits (restore_claims (watched_rec R) app ss u')
        (\<lambda>_ es. restores ?L app (listed u @ [?n]) ss es)" if "rr_Status u' = rr_Status ?v" for u'
      using Cons.IH [of u'] v that by (simp add: listed_def entries_def)
    show ?thesis
      unfolding watched_simps(1) by (rule emits_on_err [OF emits_save [OF echo]])
        (auto simp: saved_def v(1) intro!: emits_ret emits_mono [OF more])
  qed
  have create: "emits (on_err (RestorePVCFromSnapshot (rc_Client (watched_rec R)) (restore_request app s))
      (\<lambda>e. stop_with (setFailed (watched_rec R) u ''PVCRestoreFailed'' (Error e))) (\<lambda>_. m)) (\<lambda>_. made)"
    if m: "emits m (\<lambda>_. saved)" for m
  proof -
    have madeI: "made (ClaimCreated p c # es)"
      if "restored_from app s p" and "isl c \<Longrightarrow> failure_saved ?L es" and "\<not> isl c \<Longrightarrow> saved es" for p c es
      using that unfolding made_def by (cases c) auto
    have fails: "made es" if "failure_saved ?L es" for es
      using that by (simp add: made_def)
    show ?thesis
      unfolding watched_simps(1) by (intro emits_on_err [OF emits_restore])
        (auto intro!: emits_mono [OF emits_stop_with [OF emits_fail]] emits_mono [OF m] madeI intro: fails)
  qed
  have check: "emits (on_err (IsPVCDeleted (rc_Client (watched_rec R)) (rc_Lib (watched_rec R)) ?n (ma_Namespace app))
      (\<lambda>e. stop_with (setFailed (watched_rec R) u ''PVCDeleteCheckFailed'' (Error e)))
      (\<lambda>deleted. if \<not> deleted then w else m)) (\<lambda>_. checked_gone)"
    if w: "emits w (\<lambda>r es. isl r \<and> (es = [] \<or> failure_saved ?L es))" and m: "emits m (\<lambda>_. made)" for w m
  proof -
    have read: "checked_gone (ClaimRead (claim_key app s) g # es) \<longleftrightarrow> (if \<not> gone ?L g then stops ?L es else made es)" for g es
      by (simp add: checked_gone_def)
    show ?thesis
      unfolding watched_simps by (rule emits_on_err [OF emits_is_deleted])
        (auto simp: read stops_def
          intro!: emits_mono [OF emits_stop_with [OF emits_fail]] emits_mono [OF w] emits_mono [OF m])
  qed
  have gone_now: "emits (do {
        d \<leftarrow> Manager_DeletePVC (rc_Client (watched_rec R)) ?n (ma_Namespace app);
        (case (case d of Inl e \<Rightarrow> if \<not> IsNotFound (rc_Lib (watched_rec R)) e then Some e else None | Inr _ \<Rightarrow> None) of
           Some e \<Rightarrow> stop_with (setFailed (watched_rec R) u ''PVCDeleteFailed'' (Error e))
         | None \<Rightarrow> m) }) (\<lambda>_ es. restores ?L app (listed u) (s # ss) es)"
    if new: "?n \<notin> set (listed u)" and m: "emits m (\<lambda>_. checked_gone)" for m
  proof -
    let ?refused = "\<lambda>d. \<exists>e. d = Inl e \<and>
        \<not> IsNotFound ?L (Wrap (''deleting PVC '' @ ma_Namespace app @ ''/'' @ ?n) e)"
    have protocol: "restores ?L app (listed u) (s # ss) (ClaimDeleted (claim_key app s) d # es) \<longleftrightarrow>
        (if ?refused d then failure_saved ?L es else checked_gone es)" for d es
      unfolding restores.simps if_not_P [OF new] checked_gone_def made_def saved_def by blast
    show ?thesis
      unfolding watched_simps
      by (intro emits_bind [OF emits_delete])
        (auto simp: protocol simp del: restores.simps split: sum.splits
          intro!: emits_mono [OF emits_stop_with [OF emits_fail]] emits_mono [OF m])
  qed
  show ?case
  proof (cases "?n \<in> set (listed u)")
    case True
    with Cons.IH [OF Cons.prems] show ?thesis by (simp add: vr here)
  next
    case False
    have "emits (restore_claims (watched_rec R) app (s # ss) u) (\<lambda>_ es. restores ?L app (listed u) (s # ss) es)"
      unfolding restore_claims.simps using False
      by (simp add: vr here gone_now check create save emits_wait del: restores.simps watched_simps)
    then show ?thesis .
  qed
qed

text \<open>Waiting for the claims reads them and may fail the request; it touches no claim.\<close>

fun looks :: "claim_event \<Rightarrow> bool" where
  "looks (ClaimRead k r) = True"
| "looks (StatusSaved v a) = True"
| "looks _ = False"

lemma failure_looks: "failure_saved L es \<Longrightarrow> list_all looks es"
  by (auto simp: failure_saved_def)

lemma stops_looks: "stops L es \<Longrightarrow> list_all looks es"
  by (auto simp: stops_def failure_looks)

lemma emits_await_bound_looks: "emits (await_bound (watched_rec R) app vr u bound rs) (\<lambda>_ es. list_all looks es)"
proof (induction rs arbitrary: bound)
  case Nil
  then show ?case by (simp add: emits_ret)
next
  case (Cons r rs)
  show ?case
    unfolding await_bound.simps Let_def watched_simps
    by (intro emits_if emits_mono [OF Cons.IH] emits_on_err [OF emits_is_bound])
      (auto simp: failure_looks intro!: emits_mono [OF Cons.IH] emits_mono [OF emits_wait]
        emits_mono [OF emits_stop_with [OF emits_fail]])
qed

lemma init_has_record:
  "emits (init_volume_restore (watched_rec R) u)
     (\<lambda>v es. es = [] \<and> rrst_VolumeRestore (rr_Status v) \<noteq> None \<and> entries v = entries u \<and> rr_Conditions v = rr_Conditions u)"
  by (rule emitsI)
    (auto simp: init_volume_restore_def run_unlogged entries_def set_volume_restore_def split: option.splits prod.splits)

lemma emits_restore_volumes:
  assumes echo: "echoes_rollback_status R"
  shows "emits (restore_volumes (watched_rec R) upgrade app u)
     (\<lambda>_ es. \<exists>es1 es2. es = es1 @ es2 \<and>
        restores (rc_Lib R) app (listed u) (recorded_snapshots upgrade) es1 \<and> list_all looks es2)"
    (is "emits _ (\<lambda>_. ?P)")
proof -
  let ?L = "rc_Lib R"
  have save: "emits (do {
        now \<leftarrow> Now (rc_Client (watched_rec R));
        save_status (watched_rec R) (volumes_restored (rc_Lib (watched_rec R)) vr b now v) ResultRequeue })
      (\<lambda>_ es. list_all looks es)" for vr b v
    by (rule emitsI) (auto simp: save_status_def run_on_err run_unlogged run_logged split: prod.splits sum.splits)
  have after: "emits
      (case rrst_VolumeRestore (rr_Status v) of
         None \<Rightarrow> ret (Inl nil_deref)
       | Some vr \<Rightarrow>
           on_err (await_bound (watched_rec R) app vr v [] (vrs_RestoredPVCs vr)) (\<lambda>result. ret result) (\<lambda>bound. do {
             now \<leftarrow> Now (rc_Client (watched_rec R));
             save_status (watched_rec R) (volumes_restored (rc_Lib (watched_rec R)) vr bound now v) ResultRequeue
           })) (\<lambda>_ es. list_all looks es)" for v
    by (intro emits_case_option emits_on_err [OF emits_await_bound_looks])
      (auto intro!: emits_ret emits_mono [OF save [unfolded watched_simps]])
  have claims: "emits (restore_claims (watched_rec R) app (sns_PVCSnapshots snap) v)
      (\<lambda>_ es. restores ?L app (listed u) (sns_PVCSnapshots snap) es)"
    if "rrst_VolumeRestore (rr_Status v) \<noteq> None" and "entries v = entries u" for snap v
    using emits_restore_claims [OF echo that(1)] that(2) by (simp add: listed_def)
  have "emits
      (case urst_Snapshot (ur_Status upgrade) of
         None \<Rightarrow> ret (Inl nil_deref)
       | Some snap \<Rightarrow>
           on_err (restore_claims (watched_rec R) app (sns_PVCSnapshots snap) v) (\<lambda>result. ret result) k) (\<lambda>_. ?P)"
    if v: "rrst_VolumeRestore (rr_Status v) \<noteq> None" "entries v = entries u"
      and k: "\<And>v'. emits (k v') (\<lambda>_ es. list_all looks es)" for v k
  proof (cases "urst_Snapshot (ur_Status upgrade)")
    case None
    then show ?thesis by (auto simp: recorded_snapshots_def intro!: emits_ret)
  next
    case (Some snap)
    have stopped: "\<exists>es1 es2. es = es1 @ es2 \<and> restores ?L app (listed u) ss es1 \<and> list_all looks es2"
      if "restores ?L app (listed u) ss es" for ss es
      using that by (intro exI [of _ es] exI [of _ "[]"]) simp
    from Some show ?thesis
      by (auto simp: recorded_snapshots_def
          intro!: emits_on_err [OF claims [OF v]] emits_ret emits_mono [OF k] intro: stopped)
  qed
  then show ?thesis
    unfolding restore_volumes_def using after by (auto intro!: emits_bind [OF init_has_record])
qed

text \<open>At no moment of a run is more than one claim deleted and not created again.\<close>

fun missing_after :: "NamespacedName set \<Rightarrow> claim_event \<Rightarrow> NamespacedName set" where
  "missing_after M (ClaimDeleted k d) = insert k M"
| "missing_after M (ClaimCreated p (Inr q)) = M - {NN (om_Name (pvc_meta p)) (om_Namespace (pvc_meta p))}"
| "missing_after M _ = M"

primrec never_two_missing :: "NamespacedName set \<Rightarrow> claim_event list \<Rightarrow> bool" where
  "never_two_missing M [] \<longleftrightarrow> card M \<le> 1"
| "never_two_missing M (e # es) \<longleftrightarrow> card M \<le> 1 \<and> never_two_missing (missing_after M e) es"

lemma looks_misses: "looks e \<Longrightarrow> missing_after M e = M"
  by (cases e) simp_all

lemma looks_never_two: "list_all looks es \<Longrightarrow> card M \<le> 1 \<Longrightarrow> never_two_missing M es"
  by (induction es arbitrary: M) (simp_all add: looks_misses)

lemma restores_never_two:
  "restores L app names ss es \<Longrightarrow> list_all looks es' \<Longrightarrow> never_two_missing {} (es @ es')"
proof (induction ss arbitrary: names es)
  case Nil
  then show ?case by (simp add: looks_never_two)
next
  case (Cons s ss)
  have stop: "never_two_missing M (xs @ es')" if "stops L xs" and "card M \<le> 1" for xs M
    using stops_looks [OF that(1)] Cons.prems(2) that(2) by (simp add: looks_never_two)
  have fail: "never_two_missing M (xs @ es')" if "failure_saved L xs" and "card M \<le> 1" for xs M
    using that by (simp add: stop stops_def)
  show ?case
  proof (cases "psi_PVCName s \<in> set names")
    case True
    with Cons show ?thesis by simp
  next
    case False
    let ?k = "claim_key app s"
    have saved: "never_two_missing {} (es3 @ es')"
      if "es3 = StatusSaved v a # es4"
        and "case a of Inl e \<Rightarrow> es4 = [] | Inr v' \<Rightarrow> restores L app (names @ [psi_PVCName s]) ss es4" for es3 v a es4
      using that Cons.prems(2) Cons.IH by (cases a) (simp_all add: looks_never_two)
    have created: "never_two_missing {?k} (es2 @ es')"
      if "es2 = ClaimCreated p c # es3" and "restored_from app s p" and "\<And>e. c = Inl e \<Longrightarrow> failure_saved L es3"
        and "\<And>q. c = Inr q \<Longrightarrow> never_two_missing {} (es3 @ es')" for es2 p c es3
      using that by (cases c) (simp_all add: fail restored_from_def)
    let ?created = "\<lambda>es2. \<exists>p c es3. es2 = ClaimCreated p c # es3 \<and> restored_from app s p \<and>
        (case c of Inl e \<Rightarrow> failure_saved L es3
         | Inr q \<Rightarrow> \<exists>v a es4. es3 = StatusSaved v a # es4 \<and> listed v = names @ [psi_PVCName s] \<and>
             (case a of Inl e \<Rightarrow> es4 = [] | Inr v' \<Rightarrow> restores L app (names @ [psi_PVCName s]) ss es4))"
    have "never_two_missing {?k} (es2 @ es')" if "?created es2" for es2
    proof -
      from that obtain p c es3 where es2: "es2 = ClaimCreated p c # es3" "restored_from app s p"
        and c: "case c of Inl e \<Rightarrow> failure_saved L es3
         | Inr q \<Rightarrow> \<exists>v a es4. es3 = StatusSaved v a # es4 \<and> listed v = names @ [psi_PVCName s] \<and>
             (case a of Inl e \<Rightarrow> es4 = [] | Inr v' \<Rightarrow> restores L app (names @ [psi_PVCName s]) ss es4)"
        by blast
      show ?thesis
        by (rule created [OF es2]) (use c in \<open>auto intro: saved\<close>)
    qed
    moreover from Cons.prems(1) obtain d es1 where "es = ClaimDeleted ?k d # es1"
      and "failure_saved L es1 \<or> (\<exists>g es2. es1 = ClaimRead ?k g # es2 \<and> (stops L es2 \<or> ?created es2))"
      unfolding restores.simps if_not_P [OF False] stops_def
      by (elim exE conjE) (simp only: split: if_split_asm; blast)
    ultimately have "es = ClaimDeleted ?k d # es1"
      and "failure_saved L es1 \<or> (\<exists>g es2. es1 = ClaimRead ?k g # es2 \<and>
        (stops L es2 \<or> never_two_missing {?k} (es2 @ es')))" by blast+
    then show ?thesis by (auto simp: fail stop)
  qed
qed

section \<open>What the restore reports\<close>

text \<open>\<open>says U m S\<close>: every event that \<open>m\<close> adds satisfies \<open>U\<close>, and its result \<open>S\<close>.\<close>

definition says :: "('e \<Rightarrow> bool) \<Rightarrow> ('w \<times> 'e list, 'a) state \<Rightarrow> ('a \<Rightarrow> bool) \<Rightarrow> bool" where
  "says U m S \<longleftrightarrow> emits m (\<lambda>a es. list_all U es \<and> S a)"

lemma says_ret: "S a \<Longrightarrow> says U (ret a) S"
  by (simp add: says_def emits_ret)

lemma says_mono: "says U m A \<Longrightarrow> (\<And>a. A a \<Longrightarrow> S a) \<Longrightarrow> says U m S"
  unfolding says_def by (auto intro: emits_mono)

lemma says_bind: "says U m A \<Longrightarrow> (\<And>a. A a \<Longrightarrow> says U (f a) S) \<Longrightarrow> says U (State_Monad.bind m f) S"
  unfolding says_def by (rule emits_bind, assumption) (auto intro: emits_mono)

lemma says_on_err:
  "says U m A \<Longrightarrow> (\<And>e. A (Inl e) \<Longrightarrow> says U (h e) S) \<Longrightarrow> (\<And>v. A (Inr v) \<Longrightarrow> says U (k v) S) \<Longrightarrow>
     says U (on_err m h k) S"
  unfolding says_def by (rule emits_on_err, assumption) (auto intro: emits_mono)

lemma says_if: "(b \<Longrightarrow> says U m S) \<Longrightarrow> (\<not> b \<Longrightarrow> says U n S) \<Longrightarrow> says U (if b then m else n) S"
  by simp

lemma says_case_option:
  "(x = None \<Longrightarrow> says U m S) \<Longrightarrow> (\<And>v. x = Some v \<Longrightarrow> says U (k v) S) \<Longrightarrow>
     says U (case x of None \<Rightarrow> m | Some v \<Rightarrow> k v) S"
  by (simp split: option.split)

lemma says_stop_with: "says U m (\<lambda>_. True) \<Longrightarrow> says U (stop_with m) isl"
  unfolding stop_with_def by (rule says_bind [where A = "\<lambda>_. True"]) (simp_all add: says_ret)

text \<open>A claim whose restore is recorded as done was seen bound, in the phase that the API server reported.\<close>

definition seen_bound :: "ManagedApp \<Rightarrow> claim_event list \<Rightarrow> RestoredPVCInfo \<Rightarrow> bool" where
  "seen_bound app es r \<longleftrightarrow>
     list_ex (\<lambda>e. case e of
        ClaimRead k (Inr pvc) \<Rightarrow> k = NN (rpi_PVCName r) (ma_Namespace app) \<and> pvc_Phase pvc = ''Bound''
      | _ \<Rightarrow> False) es"

lemma seen_bound_simps [simp]:
  "\<not> seen_bound app [] r" "seen_bound app (xs @ ys) r \<longleftrightarrow> seen_bound app xs r \<or> seen_bound app ys r"
  "seen_bound app [ClaimRead (NN (rpi_PVCName r) (ma_Namespace app)) (Inr pvc)] r \<longleftrightarrow> pvc_Phase pvc = ''Bound''"
  by (simp_all add: seen_bound_def)

lemma seen_bound_read:
  "seen_bound app es r \<longleftrightarrow>
     (\<exists>pvc. ClaimRead (NN (rpi_PVCName r) (ma_Namespace app)) (Inr pvc) \<in> set es \<and> pvc_Phase pvc = ''Bound'')"
  unfolding seen_bound_def list_ex_iff
  by (auto split: claim_event.split_asm sum.split_asm) (auto intro!: bexI)

definition unreported :: "klib \<Rightarrow> claim_event \<Rightarrow> bool" where
  "unreported L e \<longleftrightarrow> (case e of StatusSaved v a \<Rightarrow> \<not> claims_restored L (rr_Conditions v) | _ \<Rightarrow> True)"

lemma unreported_simps [simp]:
  "unreported L (StatusSaved v a) \<longleftrightarrow> \<not> claims_restored L (rr_Conditions v)"
  "unreported L (ClaimRead k r)" "unreported L (ClaimDeleted k d)" "unreported L (ClaimCreated p c)"
  by (simp_all add: unreported_def)

locale restore_record =
  fixes R :: "('w, 'n) reconciler"
  assumes conds: "conditions_api (rc_Lib R)" and echo: "echoes_rollback_status R"
begin

abbreviation W :: "('w \<times> claim_event list, 'n) reconciler" where
  "W \<equiv> watched_rec R"

abbreviation U :: "claim_event \<Rightarrow> bool" where
  "U \<equiv> unreported (rc_Lib R)"

definition fresh :: "RollbackRequest \<Rightarrow> bool" where
  "fresh u \<longleftrightarrow> \<not> claims_restored (rc_Lib R) (rr_Conditions u)"

lemma fresh_volume_restore [simp]: "fresh (set_volume_restore v u) = fresh u"
  by (simp add: fresh_def set_volume_restore_def)

lemma says_saved:
  "fresh v \<Longrightarrow> says U (StatusUpdateRollbackRequest (rc_Client W) v) (\<lambda>r. \<forall>u'. r = Inr u' \<longrightarrow> rr_Status u' = rr_Status v)"
  unfolding says_def watched_simps(1) by (rule emits_mono [OF emits_save [OF echo]]) (simp add: fresh_def)

lemma says_failed: "fresh u \<Longrightarrow> says U (setFailed W u reason msg) (\<lambda>_. True)"
  unfolding setFailed_def remove_finalizer_def
  by (intro says_on_err [OF says_saved] says_if says_ret TrueI says_on_err [where A = "\<lambda>_. True"])
    (auto simp: says_def fresh_def set_condition_rr_conditions conditions_api.rolled_back_set [OF conds]
      intro: emits_mono [OF emits_unlogged])

lemma says_timed: "says U (isPhaseTimedOut W u t) (\<lambda>_. True)"
  unfolding says_def by (rule emits_mono [OF emits_timed_out]) simp

lemma says_claim_calls:
  "says U (Manager_DeletePVC (rc_Client W) n ns) (\<lambda>_. True)"
  "says U (IsPVCDeleted (rc_Client W) L n ns) (\<lambda>_. True)"
  "says U (RestorePVCFromSnapshot (rc_Client W) req) (\<lambda>_. True)"
  unfolding says_def watched_simps
  by (rule emits_mono [OF emits_delete], auto) (rule emits_mono [OF emits_is_deleted], auto,
      rule emits_mono [OF emits_restore], auto)

text \<open>
  The entries of the status after the loop: every recorded claim is listed, and an entry that is
  marked restored was so before.
\<close>

definition lists :: "string set \<Rightarrow> RestoredPVCInfo set \<Rightarrow> RollbackRequest \<Rightarrow> bool" where
  "lists names old u \<longleftrightarrow> fresh u \<and> names \<subseteq> set (listed u) \<and>
     (\<forall>r \<in> set (entries u). rpi_RestorationState r = ''Restored'' \<longrightarrow> r \<in> old)"

lemma says_restore_claims:
  "lists names old u \<Longrightarrow>
     says U (restore_claims W app ss u) (\<lambda>r. \<forall>u'. r = Inr u' \<longrightarrow> lists (names \<union> psi_PVCName ` set ss) old u')"
proof (induction ss arbitrary: u names)
  case Nil
  then show ?case by (simp add: says_ret)
next
  case (Cons s ss)
  let ?Q = "\<lambda>r. \<forall>u'. r = Inr u' \<longrightarrow> lists (names \<union> psi_PVCName ` set (s # ss)) old u'"
  have fresh: "fresh u" using Cons.prems by (simp add: lists_def)
  have more: "says U (restore_claims W app ss v) ?Q" if "lists (insert (psi_PVCName s) names) old v" for v
    by (rule says_mono [OF Cons.IH [OF that]]) (simp add: insert_commute)
  have here: "says U (restore_claims W app ss u) ?Q"
    if "rrst_VolumeRestore (rr_Status u) = Some vr" and "list_ex (\<lambda>r. rpi_PVCName r = psi_PVCName s) (vrs_RestoredPVCs vr)" for vr
    using that Cons.prems by (intro more) (force simp: lists_def listed_def entries_def list_ex_iff)
  have save: "says U (on_err (StatusUpdateRollbackRequest (rc_Client W)
        (set_volume_restore (vr\<lparr>vrs_RestoredPVCs := vrs_RestoredPVCs vr @ [r]\<rparr>) u))
      (\<lambda>e. ret (Inl (Inl e))) (\<lambda>u'. restore_claims W app ss u')) ?Q"
    if "rrst_VolumeRestore (rr_Status u) = Some vr" and "rpi_PVCName r = psi_PVCName s"
      and "rpi_RestorationState r \<noteq> ''Restored''" for vr r
    using that Cons.prems
    by (intro says_on_err [OF says_saved] says_ret more)
      (auto simp: lists_def listed_def entries_def fresh_def set_volume_restore_def)
  have stop: "says U (stop_with m) ?Q" if "says U m (\<lambda>_. True)" for m
    by (rule says_mono [OF says_stop_with [OF that]]) auto
  show ?case
    unfolding restore_claims.simps
    by (intro says_case_option says_if says_bind [OF says_claim_calls(1)] says_on_err [OF says_claim_calls(2)]
        says_on_err [OF says_claim_calls(3)] says_bind [OF says_timed] stop says_failed fresh here save says_ret)
      simp_all
qed

text \<open>The loop that waits goes on past an entry only if it was restored before or the claim is seen bound.\<close>

definition waited :: "ManagedApp \<Rightarrow> RestoredPVCInfo list \<Rightarrow> RestoredPVCInfo list \<Rightarrow> claim_event list \<Rightarrow> RestoredPVCInfo list \<Rightarrow> bool" where
  "waited app bound rs es b \<longleftrightarrow> (\<exists>more. b = bound @ more \<and> map rpi_PVCName more = map rpi_PVCName rs \<and>
     (\<forall>r \<in> set more. rpi_RestorationState r = ''Restored'' \<and> (r \<in> set rs \<or> seen_bound app es r)))"

lemma waited_Nil [simp]: "waited app bound [] es bound"
  by (simp add: waited_def)

lemma waited_old:
  "waited app (bound @ [r]) rs es b \<Longrightarrow> rpi_RestorationState r = ''Restored'' \<Longrightarrow> waited app bound (r # rs) es b"
  unfolding waited_def by auto

lemma waited_new:
  "waited app (bound @ [r\<lparr>rpi_RestorationState := ''Restored''\<rparr>]) rs es b \<Longrightarrow> seen_bound app es0 r \<Longrightarrow>
     waited app bound (r # rs) (es0 @ es) b"
  unfolding waited_def by (elim exE conjE) (force simp: seen_bound_def)

lemma emits_await_bound:
  "fresh u \<Longrightarrow> emits (await_bound W app vr u bound rs)
     (\<lambda>r es. list_all U es \<and> (\<forall>b. r = Inr b \<longrightarrow> waited app bound rs es b))"
proof (induction rs arbitrary: bound)
  case Nil
  then show ?case by (simp add: emits_ret)
next
  case (Cons r rs)
  let ?Q = "\<lambda>x es. list_all U es \<and> (\<forall>b. x = Inr b \<longrightarrow> waited app bound (r # rs) es b)"
  have stop: "emits (stop_with m) (\<lambda>x es. isl x \<and> list_all U es)" if "says U m (\<lambda>_. True)" for m
    using says_stop_with [OF that] by (auto simp: says_def intro: emits_mono)
  have fail: "emits (stop_with (setFailed W (set_volume_restore v u) reason msg)) (\<lambda>x es. isl x \<and> list_all U es)"
    for v reason msg
    by (rule stop, rule says_failed) (simp add: Cons.prems)
  have wait: "emits (do { timedOut \<leftarrow> isPhaseTimedOut W (set_volume_restore v u) t;
        stop_with (if timedOut then setFailed W (set_volume_restore v u) reason msg else ret x) })
      (\<lambda>x es. isl x \<and> list_all U es)" for v t reason msg x
    by (rule emits_bind [OF emits_timed_out], hypsubst, unfold append_Nil, rule stop)
      (intro says_if says_failed says_ret TrueI, simp add: Cons.prems)
  have look: "emits (on_err (IsPVCBound (rc_Client W) (rpi_PVCName r) (ma_Namespace app)) h k) ?Q"
    if h: "\<And>e. emits (h e) (\<lambda>x es. isl x \<and> list_all U es)"
      and k: "emits (k False) (\<lambda>x es. isl x \<and> list_all U es)"
      and go: "k True = await_bound W app vr u (bound @ [r\<lparr>rpi_RestorationState := ''Restored''\<rparr>]) rs" for h k
    unfolding watched_simps(1)
  proof (rule emits_on_err [OF emits_is_bound])
    show "emits (h e) (\<lambda>b es'. ?Q b (es @ es'))"
      if "\<exists>g. es = [ClaimRead (NN (rpi_PVCName r) (ma_Namespace app)) g] \<and>
         (Inl e = Inr True \<longrightarrow> (\<exists>pvc. g = Inr pvc \<and> pvc_Phase pvc = ''Bound''))" for e es
      using that by (auto intro!: emits_mono [OF h])
    show "emits (k v) (\<lambda>b es'. ?Q b (es @ es'))"
      if seen: "\<exists>g. es = [ClaimRead (NN (rpi_PVCName r) (ma_Namespace app)) g] \<and>
         (Inr v = Inr True \<longrightarrow> (\<exists>pvc. g = Inr pvc \<and> pvc_Phase pvc = ''Bound''))" for v es
    proof (cases v)
      case True
      with seen have "seen_bound app es r" and "list_all U es" by auto
      moreover from True have "k v = await_bound W app vr u (bound @ [r\<lparr>rpi_RestorationState := ''Restored''\<rparr>]) rs"
        by (simp add: go)
      ultimately show ?thesis
        by (simp only:, intro emits_mono [OF Cons.IH [OF Cons.prems]]) (auto intro: waited_new)
    next
      case False
      then show ?thesis using seen by (auto intro!: emits_mono [OF k])
    qed
  qed
  show ?case
    unfolding await_bound.simps Let_def
    by (intro emits_if look fail emits_mono [OF Cons.IH [OF Cons.prems]])
      (auto simp: wait intro: waited_old)
qed

text \<open>
  A status that reports the volumes restored lists every recorded claim, and each entry was restored
  before the run or has been seen bound in it before the status is saved.
\<close>

definition complete :: "ManagedApp \<Rightarrow> PVCSnapshotInfo list \<Rightarrow> RollbackRequest \<Rightarrow> claim_event list \<Rightarrow> RollbackRequest \<Rightarrow> bool" where
  "complete app ss u es v \<longleftrightarrow> psi_PVCName ` set ss \<subseteq> set (listed v) \<and>
     (\<forall>r \<in> set (entries v). rpi_RestorationState r = ''Restored'' \<and> (r \<in> set (entries u) \<or> seen_bound app es r))"

definition reported_complete :: "ManagedApp \<Rightarrow> PVCSnapshotInfo list \<Rightarrow> RollbackRequest \<Rightarrow> claim_event list \<Rightarrow> bool" where
  "reported_complete app ss u es \<longleftrightarrow>
     list_all U es \<or> (\<exists>es1 v a. es = es1 @ [StatusSaved v a] \<and> list_all U es1 \<and> complete app ss u es1 v)"

lemma reported_completeD:
  assumes "reported_complete app ss u es" and "es = pre @ StatusSaved v a # post" and "\<not> U (StatusSaved v a)"
  shows "complete app ss u pre v"
proof -
  have "\<not> list_all U es" using assms(2,3) by simp
  then obtain es1 v' a' where es: "es = es1 @ [StatusSaved v' a']" "list_all U es1" "complete app ss u es1 v'"
    using assms(1) by (auto simp: reported_complete_def)
  have "post = []"
  proof (rule ccontr)
    assume "post \<noteq> []"
    then have "es1 = pre @ StatusSaved v a # butlast post"
      using es(1) assms(2) by (metis butlast.simps(2) butlast_append butlast_snoc list.distinct(1))
    then show False using es(2) assms(3) by simp
  qed
  then show ?thesis using es assms(2) by simp
qed

lemma emits_report:
  assumes "lists (psi_PVCName ` set ss) (set (entries u)) v" and "rrst_VolumeRestore (rr_Status v) = Some vr"
    and "waited app [] (vrs_RestoredPVCs vr) es b" and "list_all U es"
  shows "emits (do {
        now \<leftarrow> Now (rc_Client W);
        save_status W (volumes_restored (rc_Lib W) vr b now v) ResultRequeue })
      (\<lambda>_ es'. reported_complete app ss u (es @ es'))"
proof -
  have names: "set (listed (volumes_restored L vr b now v)) = set (listed v)"
    and stored: "entries (volumes_restored L vr b now v) = b" for L now
    using assms(2,3) by (auto simp: volumes_restored_def set_condition_def set_volume_restore_def listed_def
        entries_def waited_def simp flip: set_map)
  have old: "entries v = vrs_RestoredPVCs vr" by (simp add: entries_def assms(2))
  have "complete app ss u es (volumes_restored L vr b now v)" for L now
    using assms(1,3) by (auto simp: complete_def names stored old waited_def lists_def)
  then have "reported_complete app ss u (es @ [StatusSaved (volumes_restored L vr b now v) a])" for L now a
    using assms(4) by (auto simp: reported_complete_def)
  then show ?thesis
    by (intro emitsI) (auto simp: save_status_def run_on_err run_unlogged run_logged split: prod.splits sum.splits)
qed

lemma reported_quiet: "list_all U es \<Longrightarrow> reported_complete app ss u es"
  by (simp add: reported_complete_def)

lemma emits_restore_volumes_report:
  assumes "fresh u"
  shows "emits (restore_volumes W upgrade app u) (\<lambda>_. reported_complete app (recorded_snapshots upgrade) u)"
proof -
  let ?ss = "recorded_snapshots upgrade"
  define k where "k = (\<lambda>v. case rrst_VolumeRestore (rr_Status v) of
      None \<Rightarrow> ret (Inl nil_deref)
    | Some vr \<Rightarrow>
        on_err (await_bound W app vr v [] (vrs_RestoredPVCs vr)) (\<lambda>result. ret result) (\<lambda>bound. do {
          now \<leftarrow> Now (rc_Client W);
          save_status W (volumes_restored (rc_Lib W) vr bound now v) ResultRequeue }))"
  have after: "emits (k v) (\<lambda>_ es'. reported_complete app ?ss u (es @ es'))"
    if v: "lists (psi_PVCName ` set ?ss) (set (entries u)) v" and es: "list_all U es" for v es
  proof (cases "rrst_VolumeRestore (rr_Status v)")
    case None
    then show ?thesis using es by (simp add: k_def emits_ret reported_quiet)
  next
    case (Some vr)
    have fresh: "fresh v" using v by (simp add: lists_def)
    have saved: "emits (do {
          now \<leftarrow> Now (rc_Client W);
          save_status W (volumes_restored (rc_Lib W) vr b now v) ResultRequeue })
        (\<lambda>_ es2. reported_complete app ?ss u (es @ es1 @ es2))"
      if "waited app [] (vrs_RestoredPVCs vr) es1 b" and "list_all U es1" for es1 b
      using emits_report [OF v Some, of app "es @ es1" b] that es
      by (auto simp: waited_def)
    show ?thesis
      unfolding k_def Some option.case
      by (rule emits_on_err [OF emits_await_bound [OF fresh]])
        (auto intro!: emits_ret reported_quiet saved [unfolded watched_simps] simp: es)
  qed
  have start: "lists {} (set (entries u)) v" if "entries v = entries u" and "rr_Conditions v = rr_Conditions u" for v
    using assms that by (simp add: lists_def fresh_def)
  have claims: "emits (on_err (restore_claims W app ?ss v) (\<lambda>result. ret result) k) (\<lambda>_. reported_complete app ?ss u)"
    if "lists {} (set (entries u)) v" for v
    using says_restore_claims [OF that, of app ?ss]
    unfolding says_def by (rule emits_on_err) (auto intro!: emits_ret reported_quiet after)
  show ?thesis
    unfolding restore_volumes_def k_def [symmetric]
    by (intro emits_bind [OF init_has_record] emits_case_option)
      (use claims start in \<open>auto simp: recorded_snapshots_def intro!: emits_ret reported_quiet\<close>)
qed

end

lemma mem_echoes: "echoes_rollback_status mem_rec"
  unfolding echoes_rollback_status_def
  by (intro allI yieldsI) (auto simp: mem_rec_def mem_client_def mem_modify_def split: option.splits)

interpretation memrestore: restore_record mem_rec
  by (rule restore_record.intro) (simp add: mem_rec_def memcond.conditions_api_axioms, rule mem_echoes)

end
