(* ===== verification/RollbackTheorems.thy ===== *)
theory RollbackTheorems
  imports RollbackSafety RollbackRestore Scenario
begin

text \<open>
  The properties of the rollback controller. Each one is stated over the definitions of \<open>Rollback\<close>
  and rests on the interpretations of \<open>RollbackSafety\<close>, \<open>RollbackPhases\<close> and \<open>RollbackRestore\<close>; the
  witnesses apply them to a cluster that holds a failed upgrade and a request to roll it back.
\<close>

section \<open>A cluster with a rollback request\<close>

definition broken_upgrade :: UpgradeRequest where
  "broken_upgrade =
     (with_conditions [(ConditionTypeGitCommitted, ConditionTrue), (ConditionTypeComplete, ConditionFalse)] started_request)
       \<lparr>ur_Status := (ur_Status (with_conditions [(ConditionTypeGitCommitted, ConditionTrue),
            (ConditionTypeComplete, ConditionFalse)] started_request))
          \<lparr>urst_Snapshot := Some \<lparr>sns_PVCSnapshots = [\<lparr>psi_PVCName = ''data'', psi_SnapshotName = ''data-snap''\<rparr>],
              sns_CreatedAt = None, sns_ReadyAt = None\<rparr>,
           urst_Upgrade := Some \<lparr>us_PreviousVersion = Some \<lparr>vi_Chart = ''1.0'', vi_Images = []\<rparr>,
              us_NewVersion = Some \<lparr>vi_Chart = ''2.0'', vi_Images = []\<rparr>, us_GitCommit = [], us_StartedAt = None,
              us_CompletedAt = None\<rparr>\<rparr>\<rparr>"

definition demo_rollback :: RollbackRequest where
  "demo_rollback = \<lparr>rr_meta = (plain_meta ''rb'' ''d'')\<lparr>om_Finalizers := [OperationFinalizer]\<rparr>,
     rr_Spec = \<lparr>rrs_UpgradeRequestRef = \<lparr>ref_Name = ''up'', ref_Namespace = []\<rparr>, rrs_AutoTriggered = False,
       rrs_DryRun = False\<rparr>,
     rr_Status = \<lparr>rrst_RestoredFrom = None, rrst_Scaling = None, rrst_VolumeRestore = None, rrst_GitRevert = None,
       rrst_StartedAt = None, rrst_CompletedAt = None, rrst_PhaseStartedAt = None, rrst_Conditions = []\<rparr>\<rparr>"

definition with_rollback :: "RollbackRequest \<Rightarrow> UpgradeRequest \<Rightarrow> cluster" where
  "with_rollback r u = (with_request u)\<lparr>cl_Rollbacks := [r]\<rparr>"

definition demo_rollback_key :: NamespacedName where
  "demo_rollback_key = NN ''rb'' ''d''"

definition suspended_rollback :: cluster where
  "suspended_rollback = (with_rollback demo_rollback broken_upgrade)\<lparr>cl_Kustomizations := [demo_ks\<lparr>ks_Suspend := True\<rparr>]\<rparr>"

lemma demo_rollback_meta [simp]:
  "om_DeletionTimestamp (rr_meta demo_rollback) = None"
  "ContainsFinalizer mem_lib (om_Finalizers (rr_meta demo_rollback)) OperationFinalizer"
  "rr_key demo_rollback = demo_rollback_key" "rr_Conditions demo_rollback = []"
  "rrst_PhaseStartedAt (rr_Status demo_rollback) = None" "rrst_StartedAt (rr_Status demo_rollback) = None"
  "rrst_VolumeRestore (rr_Status demo_rollback) = None"
  by (simp_all add: demo_rollback_def plain_meta_def new_meta_def mem_lib_def meta_key_def demo_rollback_key_def
      List.member_iff)

lemma get_with_rollback:
  "rr_key r = demo_rollback_key \<Longrightarrow>
     run_state (GetRollbackRequest mem_client demo_rollback_key) (with_rollback r u) = (Inr r, with_rollback r u)"
  by (simp add: with_rollback_def mem_client_def mem_get_def lookup_obj_def)

lemma get_upgrade_with_rollback:
  "ur_key u = demo_key \<Longrightarrow>
     run_state (GetUpgradeRequest mem_client demo_key) (with_rollback r u) = (Inr u, with_rollback r u)"
  by (simp add: with_rollback_def with_request_def mem_client_def mem_get_def lookup_obj_def)

lemma demo_rollback_upgrade [simp]: "upgrade_request_key demo_rollback = demo_key"
  by (simp add: upgrade_request_key_def demo_rollback_def demo_key_def ns_or_def plain_meta_def new_meta_def)

lemma broken_upgrade_simps [simp]:
  "om_Name (ur_meta broken_upgrade) = ''up''" "om_Namespace (ur_meta broken_upgrade) = ''d''"
  "ur_key broken_upgrade = demo_key" "managed_app_key broken_upgrade = NN ''app'' ''d''"
  "recorded_snapshots broken_upgrade = [\<lparr>psi_PVCName = ''data'', psi_SnapshotName = ''data-snap''\<rparr>]"
  using demo_app_key by (simp_all add: broken_upgrade_def managed_app_key_def recorded_snapshots_def
      started_request_def demo_request_def plain_meta_def new_meta_def meta_key_def demo_key_def)

section \<open>Steps that cannot be undone\<close>

text \<open>
  C3. In every reconcile of a rollback, with any API server and any Git provider, a claim is deleted
  and a file is committed only while the last thing read of the Kustomization is that it is
  suspended.
\<close>

theorem rollback_destroys_only_when_suspended:
  "under_seal (trace_of (Reconcile (traced_rec R) req) w)"
  using keeps_run [OF careful_Reconcile, of "(w, [])"] by (simp add: trace_of_def under_seal_def)

section \<open>Dry runs\<close>

fun rehearsal :: "event \<Rightarrow> bool" where
  "rehearsal (GotKustomization _ _) = True"
| "rehearsal (UpdatedKustomization _) = True"
| "rehearsal (PatchedDeployment _) = True"
| "rehearsal (PatchedStatefulSet _) = True"
| "rehearsal (UpdatedRollbackRequest _) = True"
| "rehearsal (WroteRollbackStatus _) = True"
| "rehearsal _ = False"

interpretation rh: rollback_calls "traced_rec R" "log_all rehearsal" rehearsal for R :: "('w, 'n) reconciler"
  by (intro rollback_calls.intro rollback_base.intro trr.rec_inv_axioms rollback_base_axioms.intro
      rollback_calls_axioms.intro) simp_all

text \<open>
  C11. Reconciling a dry-run rollback request, in whatever state it is, only suspends, resumes and
  scales, and writes the request itself: no claim is touched, nothing is committed or created.
\<close>

theorem rollback_dry_run_only_rehearses:
  assumes "run_state (GetRollbackRequest (rc_Client R) req) w = (Inr u, w1)" and "rrs_DryRun (rr_Spec u)"
  shows "list_all rehearsal (trace_of (Reconcile (traced_rec R) req) w)"
proof -
  have "keeps (log_all rehearsal) (phase_step (traced_rec R) u) (\<lambda>_. True)"
    by (rule rh.keeps_rollback_step) (simp_all add: assms(2))
  moreover have "keeps (log_all rehearsal) (UpdateRollbackRequest (traced (rc_Client R)) v) (\<lambda>_. True)" for v
    by (rule tr.keeps_UpdateRollbackRequest) simp
  ultimately show ?thesis
    by (rule rollback_reconcile_trace [OF assms(1) rh.keeps_drop_finalizer])
qed

theorem rollback_dry_run_only_rehearses_witness:
  "list_all rehearsal (trace_of (Reconcile (traced_rec mem_rec) demo_rollback_key)
     (with_rollback (demo_rollback\<lparr>rr_Spec := (rr_Spec demo_rollback)\<lparr>rrs_DryRun := True\<rparr>\<rparr>) broken_upgrade))"
  by (rule rollback_dry_run_only_rehearses, simp, rule get_with_rollback) simp_all

section \<open>The order of the phases\<close>

text \<open>
  C9. With any API server that answers a status update with the conditions that were sent, every
  status that a reconcile of an ordered rollback writes is in order again.
\<close>

theorem rollback_writes_in_order:
  assumes "conditions_api (rc_Lib R)" and "answers_rollback_status R"
    and "run_state (GetRollbackRequest (rc_Client R) req) w = (Inr u, w1)" and "rollback_ok (rc_Lib R) (rr_Conditions u)"
  shows "list_all (ordered_rollback_write (rc_Lib R)) (trace_of (Reconcile (traced_rec R) req) w)"
proof -
  note ro = traced_rollback_phases [OF assms(1,2)]
  have "keeps (log_all (ordered_rollback_write (rc_Lib R))) (phase_step (traced_rec R) u) (\<lambda>_. True)"
    using assms(4) by (intro rollback_phases.ro_phase_step [OF ro]) simp
  moreover have "keeps (log_all (ordered_rollback_write (rc_Lib R))) (UpdateRollbackRequest (traced (rc_Client R)) v) (\<lambda>_. True)" for v
    by (rule tr.keeps_UpdateRollbackRequest) simp
  ultimately show ?thesis
    by (rule rollback_reconcile_trace [OF assms(3) rollback_phases.ro_remove_finalizer [OF ro]])
qed

theorem rollback_writes_in_order_witness:
  "list_all (ordered_rollback_write mem_lib)
     (trace_of (Reconcile (traced_rec mem_rec) demo_rollback_key) (with_rollback demo_rollback broken_upgrade))"
proof -
  have "conditions_api (rc_Lib mem_rec)" by (simp add: memcond.conditions_api_axioms)
  moreover have "run_state (GetRollbackRequest (rc_Client mem_rec) demo_rollback_key) (with_rollback demo_rollback broken_upgrade) =
      (Inr demo_rollback, with_rollback demo_rollback broken_upgrade)"
    by (simp add: get_with_rollback)
  moreover have "rollback_ok (rc_Lib mem_rec) (rr_Conditions demo_rollback)"
    by (simp add: memcond.rollback_ok_empty)
  ultimately have "list_all (ordered_rollback_write (rc_Lib mem_rec))
      (trace_of (Reconcile (traced_rec mem_rec) demo_rollback_key) (with_rollback demo_rollback broken_upgrade))"
    by (intro rollback_writes_in_order mem_answers_rollback)
  then show ?thesis by simp
qed

section \<open>Restoring the claims\<close>

text \<open>
  C6. With any API server that answers a status update with the status that was sent, restoring the
  volumes goes over the recorded snapshots in order. A claim that the status lists is left alone. Any
  other one is deleted, and created again under its name from the snapshot recorded for it only if the
  deletion succeeded (or reported the claim not found) and a read finds it gone; the run goes on with
  the next claim only if the creation succeeded and the status that lists the claim was stored, and
  otherwise deletes nothing more. So at no moment is more than one claim deleted and not created again.
\<close>

theorem claims_restored_from_own_snapshots:
  assumes "echoes_rollback_status R"
  shows "\<exists>es1 es2. claim_trace R upgrade app u w = es1 @ es2 \<and>
     restores (rc_Lib R) app (listed u) (recorded_snapshots upgrade) es1 \<and> list_all looks es2 \<and>
     never_two_missing {} (claim_trace R upgrade app u w)"
proof -
  from emits_claim_trace [OF emits_restore_volumes [OF assms]]
  obtain es1 es2 where es: "claim_trace R upgrade app u w = es1 @ es2"
    "restores (rc_Lib R) app (listed u) (recorded_snapshots upgrade) es1" "list_all looks es2" by blast
  show ?thesis
    by (intro exI [of _ es1] exI [of _ es2] conjI) (use es in \<open>simp_all add: restores_never_two\<close>)
qed

text \<open>A cluster in which the volume can be restored: the claim is there, and its snapshot is ready.\<close>

definition demo_claim :: "string \<Rightarrow> PersistentVolumeClaim" where
  "demo_claim phase = \<lparr>pvc_meta = plain_meta ''data'' ''d'', pvc_AccessModes = [], pvc_StorageClassName = None,
     pvc_StorageRequest = ''1Gi'', pvc_DataSource = None, pvc_Phase = phase\<rparr>"

definition restorable_demo :: cluster where
  "restorable_demo = suspended_rollback\<lparr>cl_PVCs := [demo_claim ''Bound''],
     cl_Snapshots := [\<lparr>vs_meta = plain_meta ''data-snap'' ''d'', vs_PVCName = Some ''data'', vs_ClassName = None,
       vs_Status = Some \<lparr>vss_ReadyToUse = Some True, vss_RestoreSize = Some ''1Gi'', vss_Error = None\<rparr>\<rparr>]\<rparr>"

text \<open>The claim is deleted, found gone and created again, and the status that lists it is stored.\<close>

definition restored_in_order :: "claim_event list \<Rightarrow> bool" where
  "restored_in_order es \<longleftrightarrow>
     (case es of
        ClaimDeleted k (Inr _) # ClaimRead k' (Inl _) # ClaimCreated p (Inr _) # StatusSaved v (Inr _) # _ \<Rightarrow>
          k = NN ''data'' ''d'' \<and> k' = k \<and> listed v = [''data'']
      | _ \<Rightarrow> False)"

theorem claims_restored_from_own_snapshots_witness:
  "restored_in_order (claim_trace mem_rec broken_upgrade demo_app demo_rollback restorable_demo) \<and>
   (\<exists>es1 es2. claim_trace mem_rec broken_upgrade demo_app demo_rollback restorable_demo = es1 @ es2 \<and>
     restores (rc_Lib mem_rec) demo_app (listed demo_rollback) (recorded_snapshots broken_upgrade) es1 \<and>
     list_all looks es2 \<and>
     never_two_missing {} (claim_trace mem_rec broken_upgrade demo_app demo_rollback restorable_demo))"
proof (rule conjI)
  show "restored_in_order (claim_trace mem_rec broken_upgrade demo_app demo_rollback restorable_demo)" by code_simp
qed (rule claims_restored_from_own_snapshots [OF mem_echoes])

text \<open>
  C7. With any API server that answers a status update with the status that was sent, a status that
  reports the volumes restored lists every claim with a recorded snapshot, and each of its entries was
  marked restored before the run, or a read of that claim earlier in the run found its phase bound.
\<close>

theorem restore_reported_only_when_complete:
  assumes "conditions_api (rc_Lib R)" and "echoes_rollback_status R"
    and "\<not> claims_restored (rc_Lib R) (rr_Conditions u)"
    and "claim_trace R upgrade app u w = pre @ StatusSaved v answer # post"
    and "claims_restored (rc_Lib R) (rr_Conditions v)"
  shows "psi_PVCName ` set (recorded_snapshots upgrade) \<subseteq> set (map rpi_PVCName (entries v)) \<and>
     (\<forall>r \<in> set (entries v). rpi_RestorationState r = ''Restored'' \<and>
        (r \<in> set (entries u) \<or>
         (\<exists>pvc. ClaimRead (NN (rpi_PVCName r) (ma_Namespace app)) (Inr pvc) \<in> set pre \<and> pvc_Phase pvc = ''Bound'')))"
proof -
  have rec: "restore_record R" using assms(1,2) by (rule restore_record.intro)
  have "restore_record.fresh R u" using assms(3) by (simp add: restore_record.fresh_def [OF rec])
  from emits_claim_trace [OF restore_record.emits_restore_volumes_report [OF rec this]]
  have "restore_record.reported_complete R app (recorded_snapshots upgrade) u (claim_trace R upgrade app u w)" by blast
  from restore_record.reported_completeD [OF rec this assms(4)] assms(5)
  show ?thesis by (simp add: restore_record.complete_def [OF rec] seen_bound_read listed_def)
qed

text \<open>The round after the claim was created: the status lists it as pending, and the claim is bound.\<close>

definition pending_rollback :: RollbackRequest where
  "pending_rollback = set_volume_restore \<lparr>vrs_RestoredPVCs = [\<lparr>rpi_PVCName = ''data'', rpi_SnapshotName = ''data-snap'',
     rpi_RestorationState = ''Pending''\<rparr>], vrs_StartedAt = Some 0, vrs_CompletedAt = None\<rparr> demo_rollback"

definition restoring_demo :: cluster where
  "restoring_demo = restorable_demo\<lparr>cl_Rollbacks := [pending_rollback]\<rparr>"

definition reports_the_restore :: "claim_event list \<Rightarrow> bool" where
  "reports_the_restore es \<longleftrightarrow>
     (case es of [ClaimRead k (Inr pvc), StatusSaved v (Inr _)] \<Rightarrow> claims_restored mem_lib (rr_Conditions v) | _ \<Rightarrow> False)"

theorem restore_reported_only_when_complete_witness:
  "\<exists>pvc v v'. claim_trace mem_rec broken_upgrade demo_app pending_rollback restoring_demo =
       [ClaimRead (NN ''data'' ''d'') (Inr pvc), StatusSaved v (Inr v')] \<and> pvc_Phase pvc = ''Bound'' \<and>
     ''data'' \<in> set (map rpi_PVCName (entries v))"
proof -
  have "reports_the_restore (claim_trace mem_rec broken_upgrade demo_app pending_rollback restoring_demo)" by code_simp
  then obtain k pvc v v' where trace: "claim_trace mem_rec broken_upgrade demo_app pending_rollback restoring_demo =
       [ClaimRead k (Inr pvc)] @ StatusSaved v (Inr v') # []" and reported: "claims_restored mem_lib (rr_Conditions v)"
    by (auto simp: reports_the_restore_def split: list.splits claim_event.splits sum.splits)
  have "\<not> claims_restored mem_lib (rr_Conditions pending_rollback)"
    by (simp add: pending_rollback_def set_volume_restore_def claims_restored_def memcond.find_empty)
  then have "''data'' \<in> rpi_PVCName ` set (entries v)"
    and bound: "\<forall>r \<in> set (entries v). rpi_RestorationState r = ''Restored'' \<and> (r \<in> set (entries pending_rollback) \<or>
       NN (rpi_PVCName r) (ma_Namespace demo_app) = k \<and> pvc_Phase pvc = ''Bound'')"
    using restore_reported_only_when_complete [OF _ mem_echoes _ trace] reported
    by (simp_all add: memcond.conditions_api_axioms)
  then obtain r where r: "r \<in> set (entries v)" "rpi_PVCName r = ''data''" by auto
  moreover from bound r(1) have "r \<notin> set (entries pending_rollback)"
    by (auto simp: pending_rollback_def set_volume_restore_def entries_def)
  moreover have "ma_Namespace demo_app = ''d''" by (simp add: demo_app_def plain_meta_def new_meta_def)
  ultimately have "k = NN ''data'' ''d''" and "pvc_Phase pvc = ''Bound''" using bound by auto
  with trace r show ?thesis by force
qed

section \<open>Reverting\<close>





section \<open>Failures\<close>

fun is_release :: "event \<Rightarrow> bool" where
  "is_release (UpdatedRollbackRequest _) = True"
| "is_release _ = False"

lemma trace_rollback_failed:
  "\<exists>es. trace_of (setFailed (traced_rec R) u reason msg) w =
     WroteRollbackStatus (set_condition (rc_Lib R) ConditionTypeComplete ConditionFalse reason msg u) # es \<and>
     list_all is_release es"
  by (simp add: trace_of_def setFailed_def remove_finalizer_def run_on_err split: prod.split sum.split)

text \<open>The first write of a trace is a status that makes the request failed for the reason given.\<close>

definition fails_with :: "('w, 'n) reconciler \<Rightarrow> string \<Rightarrow> event list \<Rightarrow> bool" where
  "fails_with R reason es \<longleftrightarrow>
     (case es of
        WroteRollbackStatus v # rest \<Rightarrow> terminal R v \<and> list_all is_release rest \<and>
          map_option c_Reason (FindStatusCondition (rc_Lib R) (rr_Conditions v) ConditionTypeComplete) = Some reason
      | _ \<Rightarrow> False)"

lemma setFailed_fails_with:
  assumes "conditions_api (rc_Lib R)"
  shows "fails_with R reason (trace_of (setFailed (traced_rec R) u reason msg) w)"
  using trace_rollback_failed [of R u reason msg w]
  by (auto simp: fails_with_def terminal_def set_condition_rr_conditions conditions_api.find_set [OF assms])

text \<open>
  C19. The failure handler of a rollback stores a status in which the request is finished, as failed for
  the reason given, and which is otherwise the one it was called with; if the API server refuses it, the
  handler returns the error and does nothing else. Otherwise it takes the finalizer off the object that
  the server answered with, in one write that changes nothing else of it, if that object carries it.
  There is no other call: the Kustomization that the rollback suspended is not resumed. (The failure of
  a dry run, \<open>setRollbackDryRunFailed\<close>, resumes it first and then goes through this handler.)
\<close>

theorem rollback_failure_is_final:
  assumes "conditions_api (rc_Lib R)"
  shows "\<exists>v. rr_meta v = rr_meta u \<and> rr_Spec v = rr_Spec u \<and>
     rr_Status v = (rr_Status u)\<lparr>rrst_Conditions := rr_Conditions v\<rparr> \<and> terminal R v \<and>
     FindStatusCondition (rc_Lib R) (rr_Conditions v) ConditionTypeComplete =
       Some \<lparr>c_Type = ConditionTypeComplete, c_Status = ConditionFalse, c_Reason = reason, c_Message = msg,
         c_ObservedGeneration = om_Generation (rr_meta u)\<rparr> \<and>
     (\<forall>t. t \<noteq> ConditionTypeComplete \<longrightarrow>
        FindStatusCondition (rc_Lib R) (rr_Conditions v) t = FindStatusCondition (rc_Lib R) (rr_Conditions u) t) \<and>
     (case fst (run_state (StatusUpdateRollbackRequest (rc_Client R) v) w) of
        Inl e \<Rightarrow> fst (run_state (setFailed (traced_rec R) u reason msg) (w, [])) = Inl e \<and>
          trace_of (setFailed (traced_rec R) u reason msg) w = [WroteRollbackStatus v]
      | Inr v' \<Rightarrow> trace_of (setFailed (traced_rec R) u reason msg) w =
          WroteRollbackStatus v #
          (if ContainsFinalizer (rc_Lib R) (om_Finalizers (rr_meta v')) OperationFinalizer
           then [UpdatedRollbackRequest (v'\<lparr>rr_meta := (rr_meta v')\<lparr>om_Finalizers :=
                  RemoveFinalizer (rc_Lib R) (om_Finalizers (rr_meta v')) OperationFinalizer\<rparr>\<rparr>)]
           else []))"
proof (intro exI conjI allI impI)
  let ?v = "set_condition (rc_Lib R) ConditionTypeComplete ConditionFalse reason msg u"
  show "rr_meta ?v = rr_meta u" "rr_Spec ?v = rr_Spec u"
    "rr_Status ?v = (rr_Status u)\<lparr>rrst_Conditions := rr_Conditions ?v\<rparr>"
    by (simp_all add: set_condition_def)
  show "terminal R ?v"
    "FindStatusCondition (rc_Lib R) (rr_Conditions ?v) ConditionTypeComplete =
       Some \<lparr>c_Type = ConditionTypeComplete, c_Status = ConditionFalse, c_Reason = reason, c_Message = msg,
         c_ObservedGeneration = om_Generation (rr_meta u)\<rparr>"
    by (simp_all add: terminal_def set_condition_rr_conditions conditions_api.find_set [OF assms])
  show "FindStatusCondition (rc_Lib R) (rr_Conditions ?v) t = FindStatusCondition (rc_Lib R) (rr_Conditions u) t"
    if "t \<noteq> ConditionTypeComplete" for t
    using that by (simp add: set_condition_rr_conditions conditions_api.find_set [OF assms])
  show "case fst (run_state (StatusUpdateRollbackRequest (rc_Client R) ?v) w) of
        Inl e \<Rightarrow> fst (run_state (setFailed (traced_rec R) u reason msg) (w, [])) = Inl e \<and>
          trace_of (setFailed (traced_rec R) u reason msg) w = [WroteRollbackStatus ?v]
      | Inr v' \<Rightarrow> trace_of (setFailed (traced_rec R) u reason msg) w =
          WroteRollbackStatus ?v #
          (if ContainsFinalizer (rc_Lib R) (om_Finalizers (rr_meta v')) OperationFinalizer
           then [UpdatedRollbackRequest (v'\<lparr>rr_meta := (rr_meta v')\<lparr>om_Finalizers :=
                  RemoveFinalizer (rc_Lib R) (om_Finalizers (rr_meta v')) OperationFinalizer\<rparr>\<rparr>)]
           else [])"
    by (auto simp: trace_of_def setFailed_def remove_finalizer_def run_on_err split: prod.split sum.split)
qed

theorem rollback_failure_is_final_witness:
  "\<exists>v x. trace_of (setFailed (traced_rec mem_rec) demo_rollback ''PVCDeleteTimeout'' [])
       (with_rollback demo_rollback broken_upgrade) = [WroteRollbackStatus v, UpdatedRollbackRequest x] \<and>
     terminal mem_rec v \<and> \<not> ContainsFinalizer mem_lib (om_Finalizers (rr_meta x)) OperationFinalizer"
proof -
  let ?w = "with_rollback demo_rollback broken_upgrade"
  obtain v where v: "rr_meta v = rr_meta demo_rollback" "terminal mem_rec v"
    and trace: "case fst (run_state (StatusUpdateRollbackRequest (rc_Client mem_rec) v) ?w) of
        Inl e \<Rightarrow> fst (run_state (setFailed (traced_rec mem_rec) demo_rollback ''PVCDeleteTimeout'' []) (?w, [])) = Inl e \<and>
          trace_of (setFailed (traced_rec mem_rec) demo_rollback ''PVCDeleteTimeout'' []) ?w = [WroteRollbackStatus v]
      | Inr v' \<Rightarrow> trace_of (setFailed (traced_rec mem_rec) demo_rollback ''PVCDeleteTimeout'' []) ?w =
          WroteRollbackStatus v #
          (if ContainsFinalizer (rc_Lib mem_rec) (om_Finalizers (rr_meta v')) OperationFinalizer
           then [UpdatedRollbackRequest (v'\<lparr>rr_meta := (rr_meta v')\<lparr>om_Finalizers :=
                  RemoveFinalizer (rc_Lib mem_rec) (om_Finalizers (rr_meta v')) OperationFinalizer\<rparr>\<rparr>)]
           else [])"
    using rollback_failure_is_final [of mem_rec demo_rollback "''PVCDeleteTimeout''" "[]" ?w]
    by (elim meta_impE exE conjE) (simp add: memcond.conditions_api_axioms, blast)
  have "run_state (StatusUpdateRollbackRequest (rc_Client mem_rec) v) ?w =
      (Inr (demo_rollback\<lparr>rr_Status := rr_Status v\<rparr>),
       ?w\<lparr>cl_Rollbacks := [demo_rollback\<lparr>rr_Status := rr_Status v\<rparr>]\<rparr>)"
    using v(1) by (simp add: mem_rec_def mem_client_def mem_modify_def with_rollback_def lookup_obj_def replace_obj_def)
  with trace v(2) show ?thesis by (simp add: memfin.contains_remove)
qed

text \<open>
  A rollback that is reconciled before its upgrade is marked finished fails for good as
  \<open>UpgradeInProgress\<close>, instead of waiting for the upgrade.
\<close>

theorem early_rollback_fails_for_good:
  assumes "conditions_api (rc_Lib R)" and "rrst_StartedAt (rr_Status u) = None"
    and "run_state (Now (rc_Client R)) w = (now, w1)"
    and "run_state (GetUpgradeRequest (rc_Client R) (upgrade_request_key u)) w1 = (Inr upgrade, w2)"
    and "FindStatusCondition (rc_Lib R) (ur_Conditions upgrade) ConditionTypeComplete = None"
  shows "fails_with R ''UpgradeInProgress'' (trace_of (handleSuspend (traced_rec R) u) w)"
proof -
  have key: "upgrade_request_key (u\<lparr>rr_Status := s\<rparr>) = upgrade_request_key u" for s
    by (simp add: upgrade_request_key_def)
  have "trace_of (handleSuspend (traced_rec R) u) w =
      trace_of (setFailed (traced_rec R) (u\<lparr>rr_Status := (rr_Status u)\<lparr>rrst_StartedAt := Some now\<rparr>\<rparr>)
        ''UpgradeInProgress'' ''Cannot rollback an in-progress upgrade'') w2"
    using assms by (simp add: trace_of_def handleSuspend_def set_started_if_needed_def getUpgradeRequest_def
        isUpgradeTerminal_def run_on_err key)
  then show ?thesis by (simp add: setFailed_fails_with [OF assms(1)])
qed

theorem early_rollback_fails_for_good_witness:
  "fails_with mem_rec ''UpgradeInProgress''
     (trace_of (handleSuspend (traced_rec mem_rec) demo_rollback) (with_rollback demo_rollback started_request))"
proof -
  have "FindStatusCondition (rc_Lib mem_rec) (ur_Conditions started_request) ConditionTypeComplete = None" by code_simp
  moreover have "run_state (Now (rc_Client mem_rec)) (with_rollback demo_rollback started_request) =
      (0, with_rollback demo_rollback started_request)"
    by (simp add: mem_client_def with_rollback_def with_request_def demo_cluster_def)
  ultimately show ?thesis
    using early_rollback_fails_for_good [of mem_rec demo_rollback] get_upgrade_with_rollback [of started_request]
    by (simp add: memcond.conditions_api_axioms)
qed

text \<open>
  A round that finds the first claim still present stores nothing: it ends in the world its
  calls left, so the next round starts without a start time again and a claim that never disappears
  never times out.
\<close>

theorem claim_deletion_never_times_out:
  assumes "rrst_PhaseStartedAt (rr_Status u) = None" and "rrst_VolumeRestore (rr_Status u) = None"
    and "run_state (Now (rc_Client R)) w = (t0, w1)"
    and "run_state (GetUpgradeRequest (rc_Client R) (upgrade_request_key u)) w1 = (Inr upgrade, w2)"
    and "run_state (GetManagedApp (rc_Client R) (managed_app_key upgrade)) w2 = (Inr app, w3)"
    and "run_state (VerifyStillSuspended (rc_Client R) (nn_Name (suspend_key app)) (nn_Namespace (suspend_key app))) w3 = (Inr (), w4)"
    and "recorded_snapshots upgrade = s # ss"
    and "run_state (Now (rc_Client R)) w4 = (t1, w5)"
    and "run_state (Manager_DeletePVC (rc_Client R) (psi_PVCName s) (ma_Namespace app)) w5 = (Inr (), w6)"
    and "run_state (IsPVCDeleted (rc_Client R) (rc_Lib R) (psi_PVCName s) (ma_Namespace app)) w6 = (Inr False, w7)"
    and "run_state (Now (rc_Client R)) w7 = (t2, w8)" and "t2 - t0 \<le> TimeoutVolumeRestore"
  shows "run_state (handleVolumeRestore R u) w = (Inr (ResultRequeueAfter (10 * Second)), w8)"
  using assms
  by (auto simp: handleVolumeRestore_def restore_volumes_def init_volume_restore_def set_volume_restore_def
      setPhaseStartIfNeeded_def set_phase_start_def getUpgradeRequest_def getManagedApp_def isPhaseTimedOut_def
      run_on_err suspend_key_def recorded_snapshots_def upgrade_request_key_def stop_with_def split: option.splits)

text \<open>A cluster in which a claim that is still in use stays when it is deleted.\<close>

definition lingering_rec :: "(cluster, ydoc) reconciler" where
  "lingering_rec = mem_rec\<lparr>rc_Client := mem_client\<lparr>DeletePVC := (\<lambda>_. ret (Inr ()))\<rparr>\<rparr>"

definition lingering_demo :: cluster where
  "lingering_demo = suspended_rollback\<lparr>cl_PVCs := [\<lparr>pvc_meta = plain_meta ''data'' ''d'', pvc_AccessModes = [],
     pvc_StorageClassName = None, pvc_StorageRequest = ''1Gi'', pvc_DataSource = None, pvc_Phase = ''Bound''\<rparr>]\<rparr>"

theorem claim_deletion_never_times_out_witness:
  "run_state (handleVolumeRestore lingering_rec demo_rollback) lingering_demo =
     (Inr (ResultRequeueAfter (10 * Second)), lingering_demo)"
proof -
  let ?R = lingering_rec and ?w = lingering_demo
    and ?s = "\<lparr>psi_PVCName = ''data'', psi_SnapshotName = ''data-snap''\<rparr>"
  have now: "run_state (Now (rc_Client ?R)) ?w = (0, ?w)"
    by (simp add: lingering_rec_def mem_client_def lingering_demo_def suspended_rollback_def with_rollback_def
        with_request_def demo_cluster_def)
  have up: "run_state (GetUpgradeRequest (rc_Client ?R) (upgrade_request_key demo_rollback)) ?w = (Inr broken_upgrade, ?w)"
    by (simp add: lingering_rec_def mem_client_def lingering_demo_def suspended_rollback_def with_rollback_def
        with_request_def mem_get_def lookup_obj_def)
  have app: "run_state (GetManagedApp (rc_Client ?R) (managed_app_key broken_upgrade)) ?w = (Inr demo_app, ?w)"
    by (simp add: lingering_rec_def mem_client_def lingering_demo_def suspended_rollback_def with_rollback_def
        with_request_def demo_cluster_def mem_get_def lookup_obj_def demo_app_def meta_key_def plain_meta_def new_meta_def)
  have susp: "run_state (VerifyStillSuspended (rc_Client ?R) (nn_Name (suspend_key demo_app))
      (nn_Namespace (suspend_key demo_app))) ?w = (Inr (), ?w)"
    by (simp add: VerifyStillSuspended_def IsSuspended_def run_on_err run_wrap_err lingering_rec_def mem_client_def
        lingering_demo_def suspended_rollback_def mem_get_def lookup_obj_def suspend_key_def getSuspendTarget_def
        demo_app_def demo_ks_def ks_key_def plain_meta_def new_meta_def ns_or_def)
  have del: "run_state (Manager_DeletePVC (rc_Client ?R) (psi_PVCName ?s) (ma_Namespace demo_app)) ?w = (Inr (), ?w)"
    by (simp add: Manager_DeletePVC_def run_wrap_err lingering_rec_def)
  have still: "run_state (IsPVCDeleted (rc_Client ?R) (rc_Lib ?R) (psi_PVCName ?s) (ma_Namespace demo_app)) ?w = (Inr False, ?w)"
    by (simp add: IsPVCDeleted_def run_on_err lingering_rec_def mem_client_def lingering_demo_def mem_get_def
        lookup_obj_def meta_key_def plain_meta_def new_meta_def demo_app_def)
  show ?thesis
    by (rule claim_deletion_never_times_out [OF _ _ now up app susp _ now del still now, of "[]"])
      (simp_all add: TimeoutVolumeRestore_def Minute_def Second_def)
qed

end
