(* ===== verification/System.thy ===== *)
theory System
  imports UpgradePhases RollbackPhases Scenario
begin

text \<open>
  The whole operator on the in-memory cluster: reconciles of upgrade requests and of rollback
  requests, interleaved in any order with each other and with changes by others. The phase orders
  of both controllers are carried along every run; the scenario at the end is the cluster on which
  runs of both controllers are evaluated.
\<close>

section \<open>The invariant of the store\<close>

definition store_ordered :: "cluster \<Rightarrow> bool" where
  "store_ordered c \<longleftrightarrow>
     (\<forall>u\<in>set (cl_Upgrades c). phases_ok mem_lib (ur_Conditions u)) \<and>
     (\<forall>r\<in>set (cl_Rollbacks c). rollback_ok mem_lib (rr_Conditions r))"

text \<open>The writes the two controllers make.\<close>

fun lawful :: "event \<Rightarrow> bool" where
  "lawful (WroteUpgradeStatus u) = phases_ok mem_lib (ur_Conditions u)"
| "lawful (WroteRollbackStatus r) = rollback_ok mem_lib (rr_Conditions r)"
| "lawful (CreatedRollbackRequest r) = (rr_Conditions r = [])"
| "lawful _ = True"

lemma keeps_mem_get: "keeps I (mem_get key sel k) (\<lambda>_. True)"
  by (rule keepsI) (auto simp: mem_get_def)

lemma keeps_mem_list: "keeps I (mem_list sel p) (\<lambda>_. True)"
  by (rule keepsI) (auto simp: mem_list_def)

lemma keeps_mem_modify: "(\<And>g c. I c \<Longrightarrow> I (upd g c)) \<Longrightarrow> keeps I (mem_modify key sel upd k f) (\<lambda>_. True)"
  by (rule keepsI) (auto simp: mem_modify_def split: option.splits)

lemma keeps_mem_create: "(\<And>g c. I c \<Longrightarrow> I (upd g c)) \<Longrightarrow> keeps I (mem_create key sel upd x) (\<lambda>_. True)"
  by (rule keepsI) (auto simp: mem_create_def split: option.splits)

lemma keeps_mem_delete: "(\<And>g c. I c \<Longrightarrow> I (upd g c)) \<Longrightarrow> keeps I (mem_delete key sel upd k) (\<lambda>_. True)"
  by (rule keepsI) (auto simp: mem_delete_def split: option.splits)

lemma lookup_obj_mem: "lookup_obj key xs k = Some x \<Longrightarrow> x \<in> set xs"
  by (auto simp: lookup_obj_def find_Some_iff)

lemma keeps_modify_requests:
  "(\<And>old. phases_ok mem_lib (ur_Conditions old) \<Longrightarrow> phases_ok mem_lib (ur_Conditions (f old))) \<Longrightarrow>
     keeps store_ordered (mem_modify ur_key cl_Upgrades cl_Upgrades_update k f) (\<lambda>_. True)"
  "(\<And>old. rollback_ok mem_lib (rr_Conditions old) \<Longrightarrow> rollback_ok mem_lib (rr_Conditions (g old))) \<Longrightarrow>
     keeps store_ordered (mem_modify rr_key cl_Rollbacks cl_Rollbacks_update k g) (\<lambda>_. True)"
  "rr_Conditions r = [] \<Longrightarrow> keeps store_ordered (mem_create rr_key cl_Rollbacks cl_Rollbacks_update r) (\<lambda>_. True)"
  by (rule keepsI;
      auto simp: mem_modify_def mem_create_def store_ordered_def replace_obj_def memcond.rollback_ok_empty
        split: option.splits dest!: lookup_obj_mem)+

lemma store_ordered_frame [simp]:
  "store_ordered (cl_Now_update g1 c) = store_ordered c"
  "store_ordered (cl_Apps_update g3 c) = store_ordered c"
  "store_ordered (cl_Kustomizations_update g4 c) = store_ordered c"
  "store_ordered (cl_Deployments_update g5 c) = store_ordered c"
  "store_ordered (cl_StatefulSets_update g6 c) = store_ordered c"
  "store_ordered (cl_PVCs_update g7 c) = store_ordered c"
  "store_ordered (cl_Snapshots_update g8 c) = store_ordered c"
  "store_ordered (cl_Git_update g9 c) = store_ordered c"
  by (simp_all add: store_ordered_def)

lemma keeps_mem_state: "(\<And>c. I c \<Longrightarrow> I (f c)) \<Longrightarrow> keeps I (State (\<lambda>c. (g c, f c))) (\<lambda>_. True)"
  by (rule keepsI) auto

lemma store_api_inv: "api_inv mem_client store_ordered lawful"
  by unfold_locales
    (simp_all add: mem_client_def keeps_mem_get keeps_mem_list keeps_mem_modify keeps_mem_create keeps_mem_delete
      keeps_modify_requests keeps_mem_state keeps_ret)

lemma keeps_on_git: "keeps store_ordered (on_git m) (\<lambda>_. True)"
  by (rule keepsI) (auto simp: on_git_def split: prod.splits)

text \<open>Any reconciler on the cluster keeps the order, with a Git manager that leaves the requests alone.\<close>

definition on_cluster :: "(cluster, 'n) reconciler \<Rightarrow> bool" where
  "on_cluster R \<longleftrightarrow> rc_Client R = mem_client \<and> rc_Lib R = mem_lib \<and>
     (\<forall>g. rc_Git R = Some g \<longrightarrow> git_inv g store_ordered lawful)"

lemma on_cluster_rec_inv: "on_cluster R \<Longrightarrow> rec_inv R store_ordered lawful"
  by (rule rec_inv.intro) (simp_all add: on_cluster_def store_api_inv)

lemma on_cluster_upgrade_store:
  assumes "on_cluster R"
  shows "upgrade_store R store_ordered lawful"
proof (intro upgrade_store.intro upgrade_phases.intro upgrade_phases_axioms.intro upgrade_store_axioms.intro
    on_cluster_rec_inv [OF assms])
  have R: "rc_Client R = mem_client" "rc_Lib R = mem_lib" using assms by (simp_all add: on_cluster_def)
  show "conditions_api (rc_Lib R)" by (simp add: R memcond.conditions_api_axioms)
  show "keeps store_ordered (GetUpgradeRequest (rc_Client R) k)
      (\<lambda>r. \<forall>u. r = Inr u \<longrightarrow> phases_ok (rc_Lib R) (ur_Conditions u))" for k
    by (rule keepsI)
      (auto simp: R mem_client_def mem_get_def store_ordered_def split: option.splits dest!: lookup_obj_mem)
  show "keeps store_ordered (StatusUpdateUpgradeRequest (rc_Client R) u)
      (\<lambda>r. \<forall>u'. r = Inr u' \<longrightarrow> ur_Conditions u' = ur_Conditions u)"
    if "phases_ok (rc_Lib R) (ur_Conditions u)" for u
  proof (rule keeps_yields)
    show "keeps store_ordered (StatusUpdateUpgradeRequest (rc_Client R) u) (\<lambda>_. True)"
      using that by (simp add: R mem_client_def keeps_modify_requests)
    show "yields (StatusUpdateUpgradeRequest (rc_Client R) u) (\<lambda>r. \<forall>u'. r = Inr u' \<longrightarrow> ur_Conditions u' = ur_Conditions u)"
      using mem_answers by (simp add: answers_status_def R)
  qed
qed (simp_all add: auto_rollback_def)

lemma on_cluster_rollback_store:
  assumes "on_cluster R"
  shows "rollback_store R store_ordered lawful"
proof (intro rollback_store.intro rollback_phases.intro rollback_phases_axioms.intro rollback_store_axioms.intro
    on_cluster_rec_inv [OF assms])
  have R: "rc_Client R = mem_client" "rc_Lib R = mem_lib" using assms by (simp_all add: on_cluster_def)
  show "conditions_api (rc_Lib R)" by (simp add: R memcond.conditions_api_axioms)
  show "keeps store_ordered (GetRollbackRequest (rc_Client R) k)
      (\<lambda>r. \<forall>u. r = Inr u \<longrightarrow> rollback_ok (rc_Lib R) (rr_Conditions u))" for k
    by (rule keepsI)
      (auto simp: R mem_client_def mem_get_def store_ordered_def split: option.splits dest!: lookup_obj_mem)
  show "keeps store_ordered (StatusUpdateRollbackRequest (rc_Client R) u)
      (\<lambda>r. \<forall>u'. r = Inr u' \<longrightarrow> rr_Conditions u' = rr_Conditions u)"
    if "rollback_ok (rc_Lib R) (rr_Conditions u)" for u
  proof (rule keeps_yields)
    show "keeps store_ordered (StatusUpdateRollbackRequest (rc_Client R) u) (\<lambda>_. True)"
      using that by (simp add: R mem_client_def keeps_modify_requests)
    show "yields (StatusUpdateRollbackRequest (rc_Client R) u) (\<lambda>r. \<forall>u'. r = Inr u' \<longrightarrow> rr_Conditions u' = rr_Conditions u)"
      using mem_answers_rollback by (simp add: answers_rollback_status_def R)
  qed
qed simp_all

lemma mem_git_inv: "git_inv mem_git store_ordered lawful"
  by unfold_locales (simp_all add: mem_git_def keeps_on_git)

lemma mem_rec_on_cluster: "on_cluster mem_rec"
  by (simp add: on_cluster_def mem_git_inv)

interpretation memph: upgrade_store mem_rec store_ordered lawful
  by (rule on_cluster_upgrade_store [OF mem_rec_on_cluster])

interpretation memro: rollback_store mem_rec store_ordered lawful
  by (rule on_cluster_rollback_store [OF mem_rec_on_cluster])

section \<open>The transition system\<close>

text \<open>
  One step of the system: a reconcile of some request by either controller, or any change by others
  (users, Flux, the clock) that leaves the conditions of the requests to the controllers.
\<close>

definition foreign_change :: "cluster \<Rightarrow> cluster \<Rightarrow> bool" where
  "foreign_change c c' \<longleftrightarrow>
     (\<forall>u\<in>set (cl_Upgrades c'). ur_Conditions u = [] \<or> (\<exists>v\<in>set (cl_Upgrades c). ur_Conditions u = ur_Conditions v)) \<and>
     (\<forall>u\<in>set (cl_Rollbacks c'). rr_Conditions u = [] \<or> (\<exists>v\<in>set (cl_Rollbacks c). rr_Conditions u = rr_Conditions v))"

inductive system_step :: "cluster \<Rightarrow> cluster \<Rightarrow> bool" where
  upgrade: "run_state (Upgrade.Reconcile mem_rec req) c = (r, c') \<Longrightarrow> system_step c c'"
| rollback: "run_state (Rollback.Reconcile mem_rec req) c = (r, c') \<Longrightarrow> system_step c c'"
| environment: "foreign_change c c' \<Longrightarrow> system_step c c'"

inductive reachable :: "cluster \<Rightarrow> bool" where
  initial: "list_all (\<lambda>u. ur_Conditions u = []) (cl_Upgrades c) \<Longrightarrow>
     list_all (\<lambda>u. rr_Conditions u = []) (cl_Rollbacks c) \<Longrightarrow> reachable c"
| step: "reachable c \<Longrightarrow> system_step c c' \<Longrightarrow> reachable c'"

inductive_cases system_stepE: "system_step c c'"

lemma foreign_ordered: "foreign_change c c' \<Longrightarrow> store_ordered c \<Longrightarrow> store_ordered c'"
  unfolding foreign_change_def store_ordered_def
  by (metis memcond.phases_ok_empty memcond.rollback_ok_empty)

lemma system_step_ordered: "system_step c c' \<Longrightarrow> store_ordered c \<Longrightarrow> store_ordered c'"
  using memph.ph_Reconcile memro.ro_Reconcile
  by (elim system_stepE) (blast dest: keepsD, blast dest: keepsD, rule foreign_ordered)

lemma reachable_ordered: "reachable c \<Longrightarrow> store_ordered c"
proof (induction rule: reachable.induct)
  case (initial c)
  then show ?case
    by (auto simp: store_ordered_def list_all_iff memcond.phases_ok_empty memcond.rollback_ok_empty)
next
  case (step c c')
  then show ?case by (blast intro: system_step_ordered)
qed

section \<open>Runs\<close>

text \<open>\<open>n\<close> reconciles of one request by each controller.\<close>

primrec upgrades :: "nat \<Rightarrow> NamespacedName \<Rightarrow> cluster \<Rightarrow> cluster" where
  "upgrades 0 k c = c"
| "upgrades (Suc n) k c = upgrades n k (snd (run_state (Upgrade.Reconcile mem_rec k) c))"

primrec rollbacks :: "nat \<Rightarrow> NamespacedName \<Rightarrow> cluster \<Rightarrow> cluster" where
  "rollbacks 0 k c = c"
| "rollbacks (Suc n) k c = rollbacks n k (snd (run_state (Rollback.Reconcile mem_rec k) c))"

lemma reachable_upgrade: "reachable c \<Longrightarrow> reachable (snd (run_state (Upgrade.Reconcile mem_rec k) c))"
  by (metis prod.collapse reachable.step system_step.upgrade)

lemma reachable_rollback: "reachable c \<Longrightarrow> reachable (snd (run_state (Rollback.Reconcile mem_rec k) c))"
  by (metis prod.collapse reachable.step system_step.rollback)

lemma reachable_runs: "reachable c \<Longrightarrow> reachable (upgrades n k c)" "reachable c \<Longrightarrow> reachable (rollbacks n k c)"
  by (induction n arbitrary: c) (simp_all add: reachable_upgrade reachable_rollback)

lemma reachable_demo: "reachable demo_cluster"
  by (rule reachable.initial) (simp_all add: demo_cluster_def demo_request_def)

end
