(* ===== verification/Concurrency.thy ===== *)
theory Concurrency
  imports System "HOL-Library.Sublist"
begin

text \<open>
  Reconciles that overlap. In \<open>System\<close> a reconcile is one step; here the calls of several reconciles, of
  either controller, and the changes of other parties alternate in any order, calls fail or are lost,
  and a reconcile may stop after any of its calls. A reconcile is run against a script: the states of the
  cluster that its calls find, one after the other, and what becomes of each call. What it did before
  shows only in these states, so every other party may have acted between two of its calls. The history
  of the cluster is the list of its states; the phase orders hold in each of them.
\<close>

section \<open>A reconcile under a script\<close>

text \<open>A call is served, refused without effect, or takes effect without the caller learning it.\<close>

datatype fate = Served | Refused goerror | Lost goerror

record 'c thread =
  th_Script :: "('c \<times> fate) list"
  th_Seen :: 'c
  th_After :: "'c list"

definition canceled :: goerror where
  "canceled = ErrorString ''context canceled''"

text \<open>When the script is over, the reconcile has been stopped: its calls have no effect any more.\<close>

definition at_call :: "('c, 'a) call \<Rightarrow> ('c thread, 'a) call" where
  "at_call m = State (\<lambda>t. case th_Script t of
     [] \<Rightarrow> (Inl canceled, t)
   | (c, f) # rest \<Rightarrow>
       (let (a, c') = run_state m c;
            after = (case f of Refused _ \<Rightarrow> c | _ \<Rightarrow> c')
        in (case f of Served \<Rightarrow> a | Refused e \<Rightarrow> Inl e | Lost e \<Rightarrow> Inl e,
            t\<lparr>th_Script := rest, th_Seen := after, th_After := th_After t @ [after]\<rparr>)))"

text \<open>The clock and waiting cannot fail; they go by the state found last when the script is over.\<close>

definition at_clock :: "('c, 'a) state \<Rightarrow> ('c thread, 'a) state" where
  "at_clock m = State (\<lambda>t. case th_Script t of
     [] \<Rightarrow> (fst (run_state m (th_Seen t)), t)
   | (c, f) # rest \<Rightarrow>
       (case run_state m c of (a, c') \<Rightarrow>
         (a, t\<lparr>th_Script := rest, th_Seen := c', th_After := th_After t @ [c']\<rparr>)))"

text \<open>The order of a map is no call.\<close>

definition offline :: "('c, 'a) state \<Rightarrow> ('c thread, 'a) state" where
  "offline m = State (\<lambda>t. (fst (run_state m (th_Seen t)), t))"

definition scripted :: "'c client \<Rightarrow> 'c thread client" where
  "scripted C = \<lparr>
     Now = at_clock (Now C),
     SleepOrDone = (\<lambda>d. at_clock (SleepOrDone C d)),
     RangeKeys = (\<lambda>ks. offline (RangeKeys C ks)),
     RangeNames = (\<lambda>ks. offline (RangeNames C ks)),
     GetUpgradeRequest = (\<lambda>k. at_call (GetUpgradeRequest C k)),
     GetRollbackRequest = (\<lambda>k. at_call (GetRollbackRequest C k)),
     GetManagedApp = (\<lambda>k. at_call (GetManagedApp C k)),
     GetKustomization = (\<lambda>k. at_call (GetKustomization C k)),
     GetDeployment = (\<lambda>k. at_call (GetDeployment C k)),
     GetStatefulSet = (\<lambda>k. at_call (GetStatefulSet C k)),
     GetPVC = (\<lambda>k. at_call (GetPVC C k)),
     GetVolumeSnapshot = (\<lambda>k. at_call (GetVolumeSnapshot C k)),
     GetVolumeSnapshotClass = (\<lambda>n. at_call (GetVolumeSnapshotClass C n)),
     GetConfigMap = (\<lambda>k. at_call (GetConfigMap C k)),
     ListPods = (\<lambda>ns sel. at_call (ListPods C ns sel)),
     ListSecrets = (\<lambda>ns. at_call (ListSecrets C ns)),
     ListVolumeSnapshots = (\<lambda>ns l. at_call (ListVolumeSnapshots C ns l)),
     ListManagedApps = at_call (ListManagedApps C),
     UpdateUpgradeRequest = (\<lambda>u. at_call (UpdateUpgradeRequest C u)),
     UpdateRollbackRequest = (\<lambda>u. at_call (UpdateRollbackRequest C u)),
     UpdateKustomization = (\<lambda>x. at_call (UpdateKustomization C x)),
     PatchDeployment = (\<lambda>x. at_call (PatchDeployment C x)),
     PatchStatefulSet = (\<lambda>x. at_call (PatchStatefulSet C x)),
     StatusUpdateUpgradeRequest = (\<lambda>u. at_call (StatusUpdateUpgradeRequest C u)),
     StatusUpdateRollbackRequest = (\<lambda>u. at_call (StatusUpdateRollbackRequest C u)),
     StatusUpdateManagedApp = (\<lambda>u. at_call (StatusUpdateManagedApp C u)),
     CreateRollbackRequest = (\<lambda>u. at_call (CreateRollbackRequest C u)),
     CreateVolumeSnapshot = (\<lambda>u. at_call (CreateVolumeSnapshot C u)),
     CreatePVC = (\<lambda>u. at_call (CreatePVC C u)),
     DeleteVolumeSnapshot = (\<lambda>k. at_call (DeleteVolumeSnapshot C k)),
     DeletePVC = (\<lambda>k. at_call (DeletePVC C k))\<rparr>"

definition scripted_git :: "'c git_manager \<Rightarrow> 'c thread git_manager" where
  "scripted_git g = \<lparr>gm_ReadFile = (\<lambda>p. at_call (gm_ReadFile g p)),
     gm_CommitFile = (\<lambda>ch msg. at_call (gm_CommitFile g ch msg)),
     gm_CommitFiles = (\<lambda>chs msg. at_call (gm_CommitFiles g chs msg)),
     gm_GetLatestCommit = at_call (gm_GetLatestCommit g)\<rparr>"

definition scripted_rec :: "('c, 'n) reconciler \<Rightarrow> ('c thread, 'n) reconciler" where
  "scripted_rec R = \<lparr>rc_Client = scripted (rc_Client R), rc_Lib = rc_Lib R,
     rc_Git = map_option scripted_git (rc_Git R), rc_Yaml = rc_Yaml R, rc_Helm = rc_Helm R\<rparr>"

section \<open>Invariants of the states that are found and left\<close>

definition thread_inv :: "('c \<Rightarrow> bool) \<Rightarrow> 'c thread \<Rightarrow> bool" where
  "thread_inv J t \<longleftrightarrow> (\<forall>x\<in>set (th_Script t). J (fst x)) \<and> J (th_Seen t) \<and> (\<forall>c\<in>set (th_After t). J c)"

lemma keeps_at_call:
  assumes "keeps J m R" and "\<And>e. R (Inl e)"
  shows "keeps (thread_inv J) (at_call m) R"
  using assms
  by (intro keepsI)
    (auto simp: thread_inv_def at_call_def Let_def split: list.splits fate.splits prod.splits dest: keepsD)

lemma keeps_at_clock: "keeps J m (\<lambda>_. True) \<Longrightarrow> keeps (thread_inv J) (at_clock m) (\<lambda>_. True)"
  by (intro keepsI) (auto simp: thread_inv_def at_clock_def split: list.splits prod.splits dest: keepsD)

lemma keeps_offline: "keeps (thread_inv J) (offline m) (\<lambda>_. True)"
  by (intro keepsI) (auto simp: offline_def)

lemma scripted_inv: "api_inv C J P \<Longrightarrow> api_inv (scripted C) (thread_inv J) P"
  unfolding api_inv_def by (simp add: scripted_def keeps_at_call keeps_at_clock keeps_offline)

lemma scripted_git_inv: "git_inv g J P \<Longrightarrow> git_inv (scripted_git g) (thread_inv J) P"
  unfolding git_inv_def by (simp add: scripted_git_def keeps_at_call)

lemma scripted_rec_inv:
  assumes "rec_inv R J P"
  shows "rec_inv (scripted_rec R) (thread_inv J) P"
  using assms unfolding rec_inv_def
  by (auto simp: scripted_rec_def scripted_inv scripted_git_inv)

text \<open>Both controllers keep the order of their phases under every script of ordered states.\<close>

lemma scripted_upgrade_store:
  assumes "upgrade_store R J P"
  shows "upgrade_store (scripted_rec R) (thread_inv J) P"
  using assms scripted_rec_inv [of R J P]
  unfolding upgrade_store_def upgrade_phases_def upgrade_phases_axioms_def upgrade_store_axioms_def
  by (simp add: scripted_rec_def scripted_def keeps_at_call)

lemma scripted_rollback_store:
  assumes "rollback_store R J P"
  shows "rollback_store (scripted_rec R) (thread_inv J) P"
  using assms scripted_rec_inv [of R J P]
  unfolding rollback_store_def rollback_phases_def rollback_phases_axioms_def rollback_store_axioms_def
  by (simp add: scripted_rec_def scripted_def keeps_at_call)

interpretation thrph: upgrade_store "scripted_rec mem_rec" "thread_inv store_ordered" lawful
  by (rule scripted_upgrade_store, rule memph.upgrade_store_axioms)

interpretation thrro: rollback_store "scripted_rec mem_rec" "thread_inv store_ordered" lawful
  by (rule scripted_rollback_store, rule memro.rollback_store_axioms)

section \<open>Histories\<close>

text \<open>
  The states that the calls of a reconcile leave behind when it finds the given states; a call
  that is not reached leaves none.
\<close>

definition outcomes :: "('c thread, 'a) state \<Rightarrow> ('c \<times> fate) list \<Rightarrow> 'c list" where
  "outcomes m script = th_After (snd (run_state m \<lparr>th_Script = script, th_Seen = fst (hd script), th_After = []\<rparr>))"

text \<open>
  A reconcile moves the cluster from \<open>c\<close> to \<open>c'\<close> by one of its calls: the states its calls found so far,
  the last one being \<open>c\<close>, occur in this order in the history.
\<close>

definition call_moves :: "(cluster thread, 'a) state \<Rightarrow> cluster list \<Rightarrow> cluster \<Rightarrow> bool" where
  "call_moves m h c' \<longleftrightarrow>
     (\<exists>script. script \<noteq> [] \<and> subseq (map fst script) h \<and> fst (last script) = last h \<and>
        length (outcomes m script) = length script \<and> last (outcomes m script) = c')"

inductive history :: "cluster list \<Rightarrow> bool" where
  started: "list_all (\<lambda>u. ur_Conditions u = []) (cl_Upgrades c) \<Longrightarrow>
     list_all (\<lambda>u. rr_Conditions u = []) (cl_Rollbacks c) \<Longrightarrow> history [c]"
| upgrade_call: "history h \<Longrightarrow> call_moves (Upgrade.Reconcile (scripted_rec mem_rec) req) h c' \<Longrightarrow> history (h @ [c'])"
| rollback_call: "history h \<Longrightarrow> call_moves (Rollback.Reconcile (scripted_rec mem_rec) req) h c' \<Longrightarrow> history (h @ [c'])"
| changed: "history h \<Longrightarrow> foreign_change (last h) c' \<Longrightarrow> history (h @ [c'])"

lemma call_moves_inv:
  assumes "call_moves m h c'" and "keeps (thread_inv J) m (\<lambda>_. True)" and "\<forall>c\<in>set h. J c"
  shows "J c'"
proof -
  obtain script where script: "script \<noteq> []" "subseq (map fst script) h" "length (outcomes m script) = length script"
    and c': "last (outcomes m script) = c'"
    using assms(1) unfolding call_moves_def by blast
  have "J (fst x)" if "x \<in> set script" for x
    using that assms(3) list_emb_set [OF script(2), of "fst x"] by auto
  then have "thread_inv J \<lparr>th_Script = script, th_Seen = fst (hd script), th_After = []\<rparr>"
    using script(1) by (simp add: thread_inv_def)
  then have "thread_inv J (snd (run_state m \<lparr>th_Script = script, th_Seen = fst (hd script), th_After = []\<rparr>))"
    by (rule keeps_run [OF assms(2)])
  then have "\<forall>c\<in>set (outcomes m script). J c" by (simp add: thread_inv_def outcomes_def)
  moreover have "outcomes m script \<noteq> []" using script(1,3) by auto
  ultimately show ?thesis using c' by (metis last_in_set)
qed

lemma history_nonempty: "history h \<Longrightarrow> h \<noteq> []"
  by (induction rule: history.induct) auto

lemma history_ordered: "history h \<Longrightarrow> c \<in> set h \<Longrightarrow> store_ordered c"
proof (induction arbitrary: c rule: history.induct)
  case (started c)
  then show ?case by (simp add: store_ordered_def list_all_iff memcond.phases_ok_empty memcond.rollback_ok_empty)
next
  case (upgrade_call h req c')
  then show ?case using call_moves_inv [OF _ thrph.ph_Reconcile, of req h c'] by auto
next
  case (rollback_call h req c')
  then show ?case using call_moves_inv [OF _ thrro.ro_Reconcile, of req h c'] by auto
next
  case (changed h c')
  have "store_ordered (last h)" by (rule changed.IH) (simp add: history_nonempty [OF changed.hyps(1)])
  with changed show ?case by (auto dest: foreign_ordered)
qed

section \<open>Schedules\<close>

text \<open>
  The same as an executable semantics. A schedule starts reconciles, lets one of them make its next call,
  or changes the cluster from outside. A reconcile in progress is kept with what its calls found.
\<close>

datatype job = UpgradeJob NamespacedName | RollbackJob NamespacedName

datatype move = Start job | Call nat fate | Change "cluster \<Rightarrow> cluster"

record schedule =
  sc_Jobs :: "(job \<times> (cluster \<times> fate) list) list"
  sc_History :: "cluster list"

definition job_outcomes :: "job \<Rightarrow> (cluster \<times> fate) list \<Rightarrow> cluster list" where
  "job_outcomes j script =
     (case j of
        UpgradeJob k \<Rightarrow> outcomes (Upgrade.Reconcile (scripted_rec mem_rec) k) script
      | RollbackJob k \<Rightarrow> outcomes (Rollback.Reconcile (scripted_rec mem_rec) k) script)"

fun make_move :: "move \<Rightarrow> schedule \<Rightarrow> schedule" where
  "make_move (Start j) s = s\<lparr>sc_Jobs := sc_Jobs s @ [(j, [])]\<rparr>"
| "make_move (Change g) s =
     (let c = last (sc_History s)
      in if foreign_change c (g c) then s\<lparr>sc_History := sc_History s @ [g c]\<rparr> else s)"
| "make_move (Call i f) s =
     (if i < length (sc_Jobs s)
      then let (j, script) = sc_Jobs s ! i;
               script' = script @ [(last (sc_History s), f)];
               left = job_outcomes j script'
           in if length left = length script'
              then s\<lparr>sc_Jobs := (sc_Jobs s)[i := (j, script')], sc_History := sc_History s @ [last left]\<rparr>
              else s
      else s)"

definition run_moves :: "move list \<Rightarrow> cluster \<Rightarrow> cluster list" where
  "run_moves ms c = sc_History (fold make_move ms \<lparr>sc_Jobs = [], sc_History = [c]\<rparr>)"

definition fresh_cluster :: "cluster \<Rightarrow> bool" where
  "fresh_cluster c \<longleftrightarrow> list_all (\<lambda>u. ur_Conditions u = []) (cl_Upgrades c) \<and>
     list_all (\<lambda>u. rr_Conditions u = []) (cl_Rollbacks c)"

definition schedule_ok :: "schedule \<Rightarrow> bool" where
  "schedule_ok s \<longleftrightarrow> history (sc_History s) \<and>
     (\<forall>(j, script)\<in>set (sc_Jobs s). subseq (map fst script) (butlast (sc_History s)))"

lemma subseq_snoc: "subseq xs (butlast h) \<Longrightarrow> h \<noteq> [] \<Longrightarrow> subseq (xs @ [last h]) h"
  by (cases h rule: rev_cases) (auto intro: list_emb_append_mono)

lemma subseq_history: "subseq xs (butlast h) \<Longrightarrow> subseq xs h"
  by (cases h rule: rev_cases) (auto intro: list_emb_append2)

lemma schedule_ok_append:
  "schedule_ok s \<Longrightarrow> history (sc_History s @ [c]) \<Longrightarrow> schedule_ok (s\<lparr>sc_History := sc_History s @ [c]\<rparr>)"
  by (auto simp: schedule_ok_def subseq_history)

lemma job_moves:
  assumes "history h" and "subseq (map fst script) (butlast h)"
    and "length (job_outcomes j (script @ [(last h, f)])) = Suc (length script)"
  shows "history (h @ [last (job_outcomes j (script @ [(last h, f)]))])"
proof -
  have "subseq (map fst (script @ [(last h, f)])) h"
    using subseq_snoc [OF assms(2) history_nonempty [OF assms(1)]] by simp
  then have "call_moves m h (last (outcomes m (script @ [(last h, f)])))"
    if "length (outcomes m (script @ [(last h, f)])) = Suc (length script)" for m :: "(cluster thread, 'a) state"
    using that unfolding call_moves_def by (intro exI [of _ "script @ [(last h, f)]"]) simp
  then show ?thesis
    using assms(1,3) by (cases j) (auto simp: job_outcomes_def intro: history.upgrade_call history.rollback_call)
qed

lemma make_move_ok: "schedule_ok s \<Longrightarrow> schedule_ok (make_move mv s)"
proof (cases mv)
  case (Start j)
  then show "schedule_ok s \<Longrightarrow> ?thesis" by (auto simp: schedule_ok_def)
next
  case (Change g)
  assume ok: "schedule_ok s"
  then have "schedule_ok (s\<lparr>sc_History := sc_History s @ [c]\<rparr>)" if "foreign_change (last (sc_History s)) c" for c
    using that by (intro schedule_ok_append history.changed) (simp_all add: schedule_ok_def)
  then show ?thesis using ok Change by (simp add: Let_def)
next
  case (Call i f)
  assume ok: "schedule_ok s"
  obtain j script where job: "sc_Jobs s ! i = (j, script)" by fastforce
  show ?thesis
  proof (cases "i < length (sc_Jobs s) \<and> length (job_outcomes j (script @ [(last (sc_History s), f)])) = Suc (length script)")
    case False
    then show ?thesis using ok job Call by (auto simp: Let_def)
  next
    case True
    let ?h = "sc_History s"
    have old: "history ?h" and scripts: "\<And>k sc. (k, sc) \<in> set (sc_Jobs s) \<Longrightarrow> subseq (map fst sc) (butlast ?h)"
      using ok by (auto simp: schedule_ok_def)
    have mine: "subseq (map fst script) (butlast ?h)" using scripts job True by (metis nth_mem)
    then have "subseq (map fst script @ [last ?h]) ?h" by (rule subseq_snoc [OF _ history_nonempty [OF old]])
    moreover have "history (?h @ [last (job_outcomes j (script @ [(last ?h, f)]))])"
      by (rule job_moves [OF old mine]) (use True in blast)
    moreover have "subseq (map fst sc) ?h" if "(k, sc) \<in> set (sc_Jobs s)" for k sc
      by (rule subseq_history [OF scripts [OF that]])
    ultimately show ?thesis
      using True job Call by (auto simp: Let_def schedule_ok_def dest!: subsetD [OF set_update_subset_insert])
  qed
qed

lemma run_moves_history:
  assumes "fresh_cluster c"
  shows "history (run_moves ms c)"
proof -
  have "schedule_ok (fold make_move ms s)" if "schedule_ok s" for s
    using that by (induction ms arbitrary: s) (simp_all add: make_move_ok)
  moreover have "schedule_ok \<lparr>sc_Jobs = [], sc_History = [c]\<rparr>"
    using assms by (auto simp: schedule_ok_def fresh_cluster_def intro: history.started)
  ultimately show ?thesis unfolding run_moves_def schedule_ok_def by blast
qed

end
