(* ===== verification/SystemTheorems.thy ===== *)
theory SystemTheorems
  imports System
begin

text \<open>
  Properties of the two controllers together on the cluster of \<open>System\<close>: the order of the phases in
  every reachable state of each request.
\<close>

section \<open>Runs of the demo cluster\<close>

text \<open>An upgrade without snapshots, up to its commit.\<close>

definition committed_demo :: cluster where
  "committed_demo = upgrades 3 demo_key
     (demo_cluster\<lparr>cl_Upgrades := [demo_request\<lparr>ur_Spec := (ur_Spec demo_request)\<lparr>urs_SkipSnapshot := True\<rparr>\<rparr>]\<rparr>)"

text \<open>Its Kustomization is deleted, the next reconcile fails; then the Kustomization is back.\<close>

definition failed_demo :: cluster where
  "failed_demo = (upgrades 1 demo_key (committed_demo\<lparr>cl_Kustomizations := []\<rparr>))\<lparr>cl_Kustomizations := [demo_ks]\<rparr>"

text \<open>The rollback request that the failure handler creates at time 0.\<close>

definition rollback_key :: NamespacedName where
  "rollback_key = NN ''app-auto-rollback-0'' ''d''"

lemma reachable_committed: "reachable committed_demo"
  unfolding committed_demo_def
  by (rule reachable_runs, rule reachable.initial) (simp_all add: demo_cluster_def demo_request_def)

lemma reachable_failed: "reachable failed_demo"
proof -
  have "foreign_change c (cl_Kustomizations_update g c)" for c g by (auto simp: foreign_change_def)
  then have "reachable (cl_Kustomizations_update g c)" if "reachable c" for c g
    using that by (blast intro: reachable.step system_step.environment)
  note env = this [where g = "\<lambda>_. xs" for xs]
  show ?thesis unfolding failed_demo_def by (intro env reachable_runs reachable_committed)
qed

text \<open>What a file of the repository says at the default version path.\<close>

definition file_version :: "cluster \<Rightarrow> string" where
  "file_version c =
     (case mk_Files (cl_Git c) ''f'' of
        None \<Rightarrow> []
      | Some content \<Rightarrow> (case GetVersion mem_yaml content DefaultHelmReleaseVersionPath of Inl _ \<Rightarrow> [] | Inr v \<Rightarrow> v))"

section \<open>The order of the phases\<close>

text \<open>
  In every reachable state of the cluster, however reconciles of upgrade and rollback requests
  and changes by other parties are interleaved, an upgrade whose conditions say committed has been
  suspended, stopped and snapshotted (or these were skipped), one that is reconciled is committed,
  one that is healthy is reconciled, and one that succeeded is healthy.
\<close>

theorem phases_in_order:
  assumes "reachable c" and "u \<in> set (cl_Upgrades c)"
  shows "phases_ok mem_lib (ur_Conditions u)"
  using reachable_ordered [OF assms(1)] assms(2) by (simp add: store_ordered_def)

theorem phases_in_order_witness:
  "\<exists>u\<in>set (cl_Upgrades committed_demo).
     IsStatusConditionTrue mem_lib (ur_Conditions u) ConditionTypeGitCommitted \<and> phases_ok mem_lib (ur_Conditions u)"
proof -
  have "length (cl_Upgrades committed_demo) = 1" by code_simp
  then have mem: "hd (cl_Upgrades committed_demo) \<in> set (cl_Upgrades committed_demo)" by (intro hd_in_set) auto
  have "IsStatusConditionTrue mem_lib (ur_Conditions (hd (cl_Upgrades committed_demo))) ConditionTypeGitCommitted"
    by code_simp
  with mem phases_in_order [OF reachable_committed mem] show ?thesis by blast
qed

text \<open>
  In every reachable state, a rollback that reverted Git has been suspended, stopped and had
  its volumes restored (or these were skipped), one that is reconciled is reverted, one that is
  healthy is reconciled, one that succeeded is healthy; and claims were only restored with the
  workloads stopped.
\<close>

theorem rollback_phases_in_order:
  assumes "reachable c" and "r \<in> set (cl_Rollbacks c)"
  shows "rollback_ok mem_lib (rr_Conditions r)"
  using reachable_ordered [OF assms(1)] assms(2) by (simp add: store_ordered_def)

theorem rollback_phases_in_order_witness:
  "\<exists>r\<in>set (cl_Rollbacks (rollbacks 3 rollback_key failed_demo)).
     IsStatusConditionTrue mem_lib (rr_Conditions r) ConditionTypeGitReverted \<and> rollback_ok mem_lib (rr_Conditions r)"
proof -
  let ?c = "rollbacks 3 rollback_key failed_demo"
  have "length (cl_Rollbacks ?c) = 1" by code_simp
  then have mem: "hd (cl_Rollbacks ?c) \<in> set (cl_Rollbacks ?c)" by (intro hd_in_set) auto
  have "IsStatusConditionTrue mem_lib (rr_Conditions (hd (cl_Rollbacks ?c))) ConditionTypeGitReverted"
    by code_simp
  with mem rollback_phases_in_order [OF reachable_runs(2) [OF reachable_failed] mem] show ?thesis by blast
qed

end
