(* ===== verification/ConcurrencyTheorems.thy ===== *)
theory ConcurrencyTheorems
  imports Concurrency SystemTheorems
begin

text \<open>
  What remains true when reconciles overlap, and what does not.
\<close>

section \<open>The order of the phases\<close>

text \<open>
  C2. Under every schedule in which the calls of any number of reconciles, of upgrade and rollback requests
  alike, alternate with each other and with changes by other parties, in which calls are refused or lost
  and reconciles are stopped half-way, the phases of every request stay in order in every state of the cluster.
\<close>

theorem phases_in_order_concurrently:
  assumes "fresh_cluster c0" and "c \<in> set (run_moves ms c0)"
  shows "(\<forall>u\<in>set (cl_Upgrades c). phases_ok mem_lib (ur_Conditions u)) \<and>
    (\<forall>r\<in>set (cl_Rollbacks c). rollback_ok mem_lib (rr_Conditions r))"
  using history_ordered [OF run_moves_history [OF assms(1)] assms(2)] by (simp add: store_ordered_def)

text \<open>
  A schedule for the demo request: its second reconcile writes the status, but the answer is lost and the
  reconcile stops; the Kustomization disappears, and the first call of the next reconcile is refused.
\<close>

definition bumpy_request :: UpgradeRequest where
  "bumpy_request = demo_request\<lparr>ur_Spec := (ur_Spec demo_request)\<lparr>urs_SkipSnapshot := True\<rparr>\<rparr>"

definition bumpy_schedule :: "move list" where
  "bumpy_schedule = [Start (UpgradeJob demo_key), Call 0 Served, Call 0 Served, Start (UpgradeJob demo_key)] @
     replicate 9 (Call 1 Served) @
     [Call 1 (Lost (ErrorString ''timeout'')), Change (\<lambda>c. c\<lparr>cl_Kustomizations := []\<rparr>),
      Start (UpgradeJob demo_key), Call 2 (Refused (ErrorString ''timeout''))]"

definition bumpy_cluster :: cluster where
  "bumpy_cluster = demo_cluster\<lparr>cl_Upgrades := [bumpy_request]\<rparr>"

lemma bumpy_run:
  "(let h = run_moves bumpy_schedule bumpy_cluster; us = cl_Upgrades (last h)
    in length h = 15 \<and> us \<noteq> [] \<and> IsStatusConditionTrue mem_lib (ur_Conditions (hd us)) ConditionTypeSnapshotReady)"
  by code_simp

theorem phases_in_order_concurrently_witness:
  "\<exists>c\<in>set (run_moves bumpy_schedule bumpy_cluster). \<exists>u\<in>set (cl_Upgrades c).
     IsStatusConditionTrue mem_lib (ur_Conditions u) ConditionTypeSnapshotReady \<and> phases_ok mem_lib (ur_Conditions u)"
proof -
  let ?h = "run_moves bumpy_schedule bumpy_cluster"
  have "fresh_cluster bumpy_cluster" by code_simp
  moreover have "?h \<noteq> []" using bumpy_run by (auto simp: Let_def)
  then have "last ?h \<in> set ?h" by simp
  moreover have "hd (cl_Upgrades (last ?h)) \<in> set (cl_Upgrades (last ?h))" using bumpy_run by (auto simp: Let_def)
  moreover have "IsStatusConditionTrue mem_lib (ur_Conditions (hd (cl_Upgrades (last ?h)))) ConditionTypeSnapshotReady"
    using bumpy_run by (simp add: Let_def)
  ultimately show ?thesis using phases_in_order_concurrently by blast
qed

section \<open>Two upgrades of one application\<close>

text \<open>
  Nothing keeps two upgrades of an application apart: when both are suspended and stopped, each sees the
  suspension it asked for, both commit and both succeed. The one that completes last decides what the status
  of the application says, not the one that committed last.
\<close>

definition second_key :: NamespacedName where
  "second_key = NN ''up2'' ''d''"

definition second_request :: UpgradeRequest where
  "second_request = bumpy_request\<lparr>ur_meta := plain_meta ''up2'' ''d'',
     ur_Spec := (ur_Spec bumpy_request)\<lparr>urs_TargetVersion := Some \<lparr>vi_Chart = ''3.0'', vi_Images = []\<rparr>\<rparr>\<rparr>"

definition overlapping_upgrades :: cluster where
  "overlapping_upgrades =
     upgrades 4 demo_key (upgrades 4 second_key
       (upgrades 1 second_key (upgrades 1 demo_key
         (upgrades 2 second_key (upgrades 2 demo_key (demo_cluster\<lparr>cl_Upgrades := [bumpy_request, second_request]\<rparr>))))))"

definition both_succeeded :: "cluster \<Rightarrow> bool" where
  "both_succeeded c \<longleftrightarrow>
     map (\<lambda>u. IsStatusConditionTrue mem_lib (ur_Conditions u) ConditionTypeComplete) (cl_Upgrades c) = [True, True] \<and>
     map (\<lambda>a. map_option vi_Chart (mast_CurrentVersion (ma_Status a))) (cl_Apps c) = [Some ''2.0''] \<and>
     file_version c = ''3.0''"

lemma overlapping_upgrades_diverge: "both_succeeded overlapping_upgrades"
  by code_simp

theorem overlapping_upgrades_report_wrong_version:
  "reachable overlapping_upgrades \<and> both_succeeded overlapping_upgrades"
proof
  show "reachable overlapping_upgrades"
    unfolding overlapping_upgrades_def
    by (intro reachable_runs reachable.initial) (simp_all add: demo_cluster_def bumpy_request_def second_request_def demo_request_def)
qed (rule overlapping_upgrades_diverge)

end
