(* ===== verification/Gitea.thy ===== *)
theory Gitea
  imports Git Base64
begin

text \<open>
  \<open>internal/git/gitea.go\<close> and the constructor \<open>NewManager\<close> of \<open>interface.go\<close>: the Git manager
  that works over the Gitea API. The SDK is the record \<open>gitea_sdk\<close>; \<open>net/url.Parse\<close> and the
  constructor of the SDK client are arguments. The locale \<open>gitea_api\<close> is what the API documents of
  its contents endpoints (a read returns the stored file in base64 and changes nothing, a
  successful create or update stores the decoded content, a failed one changes nothing); from it
  the manager is shown to keep the contract \<open>git_repo\<close> of the interface, and an in-memory server
  is an instance of it.
\<close>

section \<open>The SDK\<close>

text \<open>
  The fields of the SDK's responses that the code reads. An option is a pointer: \<open>rpc_SHA\<close> is the
  field of the embedded \<open>CommitMeta\<close>, \<open>rpc_Message\<close> that of the \<open>RepoCommit\<close> of a commit.
\<close>

record ContentsResponse =
  ct_SHA :: string
  ct_Content :: "string option"

record FileResponse =
  fr_CommitSHA :: string
  fr_CommitHTMLURL :: string

record RepoCommit =
  rpc_SHA :: "string option"
  rpc_Message :: "string option"
  rpc_AuthorUserName :: "string option"
  rpc_HTMLURL :: string

record FileOptions =
  fo_Message :: string
  fo_BranchName :: string
  fo_Content :: string
  fo_SHA :: string

record 'w gitea_sdk =
  sdk_GetContents :: "string \<Rightarrow> string \<Rightarrow> string \<Rightarrow> string \<Rightarrow>
    ('w, ContentsResponse option \<times> int option \<times> goerror option) state"
  sdk_CreateFile :: "string \<Rightarrow> string \<Rightarrow> string \<Rightarrow> FileOptions \<Rightarrow> ('w, FileResponse) call"
  sdk_UpdateFile :: "string \<Rightarrow> string \<Rightarrow> string \<Rightarrow> FileOptions \<Rightarrow> ('w, FileResponse) call"
  sdk_ListRepoCommits :: "string \<Rightarrow> string \<Rightarrow> string \<Rightarrow> int \<Rightarrow> ('w, RepoCommit option list) call"

section \<open>The manager\<close>

record 'w GiteaManager =
  gt_client :: "'w gitea_sdk"
  gt_owner :: string
  gt_repo :: string
  gt_branch :: string

record Config =
  cfg_Backend :: string
  cfg_RepoURL :: string
  cfg_Branch :: string
  cfg_Token :: string

text \<open>\<open>url.Parse\<close> as scheme, host and path.\<close>

record url =
  url_Scheme :: string
  url_Host :: string
  url_Path :: string

definition owner_and_repo :: "string \<Rightarrow> (string \<times> string) option" where
  "owner_and_repo path =
     (case Split ''/'' (TrimBoth (\<lambda>c. c = CHR ''/'') path) of
        owner # repo # _ \<Rightarrow> Some (owner, TrimSuffix repo ''.git'')
      | _ \<Rightarrow> None)"

definition NewGiteaManager ::
  "(string \<Rightarrow> goerror + url) \<Rightarrow> (string \<Rightarrow> string \<Rightarrow> ('w, 'w gitea_sdk) call) \<Rightarrow> Config \<Rightarrow> ('w, 'w GiteaManager) call" where
  "NewGiteaManager urlParse newClient cfg =
     checked (wrap_err ''parsing repo URL'' (ret (urlParse (cfg_RepoURL cfg)))) (\<lambda>parsed.
     case owner_and_repo (url_Path parsed) of
       None \<Rightarrow> ret (Inl (ErrorString (''invalid repo URL format: '' @ cfg_RepoURL cfg
         @ '' (expected https://host/owner/repo)'')))
     | Some (owner, repo) \<Rightarrow>
         checked (wrap_err ''creating gitea client''
             (newClient (url_Scheme parsed @ ''://'' @ url_Host parsed) (cfg_Token cfg))) (\<lambda>client.
         ret (Inr \<lparr>gt_client = client, gt_owner = owner, gt_repo = repo,
           gt_branch = (if cfg_Branch cfg = [] then ''main'' else cfg_Branch cfg)\<rparr>)))"

definition gitea_ReadFile :: "'w GiteaManager \<Rightarrow> string \<Rightarrow> ('w, string) call" where
  "gitea_ReadFile g path = do {
     (content, status, err) \<leftarrow> sdk_GetContents (gt_client g) (gt_owner g) (gt_repo g) (gt_branch g) path;
     ret (case err of
        Some e \<Rightarrow>
          if status = Some 404 then Inl (ErrorString (''file not found: '' @ path)) else Inl (Wrap ''reading file'' e)
      | None \<Rightarrow>
          (case Option.bind content ct_Content of
             None \<Rightarrow> Inl (ErrorString (''empty content for file: '' @ path))
           | Some encoded \<Rightarrow>
               (case base64_Decode encoded of
                  Inl e \<Rightarrow> Inl (Wrap ''decoding content'' e)
                | Inr decoded \<Rightarrow> Inr decoded)))
   }"

definition commit_info :: "string \<Rightarrow> FileResponse \<Rightarrow> CommitInfo" where
  "commit_info message resp =
     \<lparr>ci_SHA = fr_CommitSHA resp, ci_Message = message, ci_Author = [], ci_URL = fr_CommitHTMLURL resp\<rparr>"

definition gitea_CommitFile :: "'w GiteaManager \<Rightarrow> FileChange \<Rightarrow> string \<Rightarrow> ('w, CommitInfo) call" where
  "gitea_CommitFile g change message = do {
     (existing, _, _) \<leftarrow> sdk_GetContents (gt_client g) (gt_owner g) (gt_repo g) (gt_branch g) (fc_Path change);
     let sha = (case existing of None \<Rightarrow> [] | Some e \<Rightarrow> ct_SHA e);
         opts = \<lparr>fo_Message = message, fo_BranchName = gt_branch g,
           fo_Content = base64_Encode (fc_Content change), fo_SHA = sha\<rparr>
     in if sha = []
        then checked (wrap_err ''creating file''
               (sdk_CreateFile (gt_client g) (gt_owner g) (gt_repo g) (fc_Path change) opts))
               (\<lambda>resp. ret (Inr (commit_info message resp)))
        else checked (wrap_err ''updating file''
               (sdk_UpdateFile (gt_client g) (gt_owner g) (gt_repo g) (fc_Path change) opts))
               (\<lambda>resp. ret (Inr (commit_info message resp)))
   }"

primrec gitea_commit_loop ::
  "'w GiteaManager \<Rightarrow> FileChange list \<Rightarrow> string \<Rightarrow> CommitInfo option \<Rightarrow> ('w, CommitInfo option) call" where
  "gitea_commit_loop g [] message lastCommit = ret (Inr lastCommit)"
| "gitea_commit_loop g (change # changes) message lastCommit =
     checked (wrap_err (''committing file '' @ fc_Path change) (gitea_CommitFile g change message))
       (\<lambda>commit. gitea_commit_loop g changes message (Some commit))"

text \<open>The log line after the loop reads the last commit's hash, which panics on an empty list.\<close>

definition gitea_CommitFiles ::
  "'w GiteaManager \<Rightarrow> FileChange list \<Rightarrow> string \<Rightarrow> ('w, CommitInfo option) call" where
  "gitea_CommitFiles g changes message =
     checked (gitea_commit_loop g changes message None) (\<lambda>lastCommit.
     ret (case lastCommit of None \<Rightarrow> Inl nil_deref | Some _ \<Rightarrow> Inr lastCommit))"

text \<open>
  \<open>GetLatestCommit\<close> checks the author's pointer only: a nil commit, or one without its metadata (read
  for the log line) or its message, panics.
\<close>

definition latest_commit_info :: "RepoCommit option \<Rightarrow> goerror + CommitInfo" where
  "latest_commit_info commit =
     (case commit of
        None \<Rightarrow> Inl nil_deref
      | Some c \<Rightarrow>
          (case (rpc_SHA c, rpc_Message c) of
             (Some sha, Some message) \<Rightarrow> Inr \<lparr>ci_SHA = sha, ci_Message = message,
               ci_Author = (case rpc_AuthorUserName c of None \<Rightarrow> [] | Some name \<Rightarrow> name), ci_URL = rpc_HTMLURL c\<rparr>
           | _ \<Rightarrow> Inl nil_deref))"

definition gitea_GetLatestCommit :: "'w GiteaManager \<Rightarrow> ('w, CommitInfo) call" where
  "gitea_GetLatestCommit g =
     checked (wrap_err ''getting latest commit''
         (sdk_ListRepoCommits (gt_client g) (gt_owner g) (gt_repo g) (gt_branch g) 1)) (\<lambda>commits.
     ret (case commits of
        [] \<Rightarrow> Inl (ErrorString (''no commits found on branch '' @ gt_branch g))
      | c # _ \<Rightarrow> latest_commit_info c))"

definition gitea_manager :: "'w GiteaManager \<Rightarrow> 'w git_manager" where
  "gitea_manager g = \<lparr>gm_ReadFile = gitea_ReadFile g, gm_CommitFile = gitea_CommitFile g,
     gm_CommitFiles = gitea_CommitFiles g, gm_GetLatestCommit = gitea_GetLatestCommit g\<rparr>"

text \<open>\<open>NewManager\<close> of \<open>interface.go\<close>; Gitea is the only backend.\<close>

definition NewManager ::
  "(string \<Rightarrow> goerror + url) \<Rightarrow> (string \<Rightarrow> string \<Rightarrow> ('w, 'w gitea_sdk) call) \<Rightarrow> Config \<Rightarrow> ('w, 'w git_manager) call" where
  "NewManager urlParse newClient cfg =
     (if cfg_Backend cfg = ''gitea''
      then checked (NewGiteaManager urlParse newClient cfg) (\<lambda>g. ret (Inr (gitea_manager g)))
      else ret (Inl (ErrorString (''unsupported git backend: '' @ cfg_Backend cfg))))"

section \<open>The contract\<close>

type_synonym branch_id = "string \<times> string \<times> string"

locale gitea_api =
  fixes S :: "'w gitea_sdk" and files :: "'w \<Rightarrow> branch_id \<Rightarrow> string \<rightharpoonup> string"
  assumes contents_pure: "run_state (sdk_GetContents S ow r b p) w = (x, w') \<Longrightarrow> files w' = files w"
    and contents_stored: "run_state (sdk_GetContents S ow r b p) w = ((Some ct, st, None), w') \<Longrightarrow>
      ct_Content ct = Some c \<Longrightarrow> base64_Decode c = Inr d \<Longrightarrow> files w (ow, r, b) p = Some d"
    and create_stores: "run_state (sdk_CreateFile S ow r p opts) w = (Inr resp, w') \<Longrightarrow>
      base64_Decode (fo_Content opts) = Inr d \<Longrightarrow>
      files w' = (files w)((ow, r, fo_BranchName opts) := (files w (ow, r, fo_BranchName opts))(p \<mapsto> d))"
    and create_failed: "run_state (sdk_CreateFile S ow r p opts) w = (Inl e, w') \<Longrightarrow> files w' = files w"
    and update_stores: "run_state (sdk_UpdateFile S ow r p opts) w = (Inr resp, w') \<Longrightarrow>
      base64_Decode (fo_Content opts) = Inr d \<Longrightarrow>
      files w' = (files w)((ow, r, fo_BranchName opts) := (files w (ow, r, fo_BranchName opts))(p \<mapsto> d))"
    and update_failed: "run_state (sdk_UpdateFile S ow r p opts) w = (Inl e, w') \<Longrightarrow> files w' = files w"
begin

abbreviation manager :: "string \<Rightarrow> string \<Rightarrow> string \<Rightarrow> 'w GiteaManager" where
  "manager ow re br \<equiv> \<lparr>gt_client = S, gt_owner = ow, gt_repo = re, gt_branch = br\<rparr>"

lemma read_pure: "run_state (gitea_ReadFile (manager ow re br) p) w = (x, w') \<Longrightarrow> files w' = files w"
  by (auto simp: gitea_ReadFile_def split: prod.splits dest: contents_pure)

lemma read_stored:
  "run_state (gitea_ReadFile (manager ow re br) p) w = (Inr c, w') \<Longrightarrow> files w (ow, re, br) p = Some c"
  by (auto simp: gitea_ReadFile_def bind_eq_Some_conv split: prod.splits option.splits sum.splits if_splits
      intro: contents_stored)

text \<open>Create and update are told apart by the read before; both store the content that was sent.\<close>

lemma commit_stores:
  "run_state (gitea_CommitFile (manager ow re br) ch msg) w = (Inr ci, w') \<Longrightarrow>
     files w' = (files w)((ow, re, br) := (files w (ow, re, br))(fc_Path ch \<mapsto> fc_Content ch))"
  by (auto simp: gitea_CommitFile_def run_on_err run_wrap_err Let_def base64_roundtrip
      split: prod.splits sum.splits if_splits dest!: contents_pure create_stores update_stores)

lemma commit_failed:
  "run_state (gitea_CommitFile (manager ow re br) ch msg) w = (Inl e, w') \<Longrightarrow> files w' = files w"
  by (auto simp: gitea_CommitFile_def run_on_err run_wrap_err Let_def split: prod.splits sum.splits if_splits
      dest!: contents_pure create_failed update_failed)

lemma manager_is_repo: "git_repo (gitea_manager (manager ow re br)) (\<lambda>w. files w (ow, re, br))"
  by unfold_locales
    (auto simp: gitea_manager_def read_stored commit_stores dest: read_pure commit_failed)

end

sublocale gitea_api \<subseteq> repo: git_repo "gitea_manager (manager ow re br)" "\<lambda>w. files w (ow, re, br)" for ow re br
  by (rule manager_is_repo)

section \<open>An in-memory server\<close>

type_synonym server = "branch_id \<Rightarrow> string \<rightharpoonup> string"

definition server_put :: "bool \<Rightarrow> string \<Rightarrow> string \<Rightarrow> string \<Rightarrow> FileOptions \<Rightarrow> (server, FileResponse) call" where
  "server_put exists ow r p opts = State (\<lambda>fs.
     let k = (ow, r, fo_BranchName opts) in
     if (fs k p \<noteq> None) \<noteq> exists then (Inl (APIError ''UnprocessableEntity'' ''file exists or is missing''), fs)
     else (case base64_Decode (fo_Content opts) of
             Inl e \<Rightarrow> (Inl e, fs)
           | Inr d \<Rightarrow> (Inr \<lparr>fr_CommitSHA = ''c1'', fr_CommitHTMLURL = ''https://git.example/c1''\<rparr>,
                fs(k := (fs k)(p \<mapsto> d)))))"

definition server_sdk :: "server gitea_sdk" where
  "server_sdk = \<lparr>
     sdk_GetContents = (\<lambda>ow r b p. State (\<lambda>fs. (case fs (ow, r, b) p of
        None \<Rightarrow> (None, Some 404, Some (APIError ''NotFound'' ''not found''))
      | Some c \<Rightarrow> (Some \<lparr>ct_SHA = ''blob'', ct_Content = Some (base64_Encode c)\<rparr>, Some 200, None), fs))),
     sdk_CreateFile = server_put False,
     sdk_UpdateFile = server_put True,
     sdk_ListRepoCommits = (\<lambda>_ _ _ _. ret (Inr []))\<rparr>"

interpretation server: gitea_api server_sdk "\<lambda>fs. fs"
  by unfold_locales
    (auto simp: server_sdk_def server_put_def Let_def base64_roundtrip split: option.splits sum.splits if_splits)

section \<open>The repository URL\<close>

lemma owner_and_repo_url:
  assumes "CHR ''/'' \<notin> set owner" and "CHR ''/'' \<notin> set repo" and "owner \<noteq> []" and "repo \<noteq> []"
  shows "owner_and_repo (''/'' @ owner @ ''/'' @ repo) = Some (owner, TrimSuffix repo ''.git'')"
proof -
  have keep: "dropWhile (\<lambda>c. c = CHR ''/'') (s @ t) = s @ t" if "CHR ''/'' \<notin> set s" and "s \<noteq> []" for s t
    using that by (cases s) auto
  have "rev (dropWhile (\<lambda>c. c = CHR ''/'') (rev (owner @ ''/'' @ repo))) = owner @ ''/'' @ repo"
    using keep [of "rev repo" "''/'' @ rev owner"] assms(2,4) by simp
  then have "TrimBoth (\<lambda>c. c = CHR ''/'') (''/'' @ owner @ ''/'' @ repo) = owner @ CHR ''/'' # repo"
    using keep [OF assms(1,3), of "''/'' @ repo"] by (simp add: TrimBoth_def)
  then show ?thesis
    using Split_step [OF assms(1)] Split_last [OF assms(2)] by (simp add: owner_and_repo_def)
qed

end
