(* ===== verification/Renovate.thy ===== *)
theory Renovate
  imports Kube "HOL-Library.AList"
begin

text \<open>
  \<open>internal/renovate\<close>: reading the updates that Renovate found from a ConfigMap, mapping them to the
  applications whose file they concern, and announcing them in the status of those applications.
  \<open>json.Unmarshal\<close> of the log entry is an argument; a Go map that the code fills and then ranges
  over is an association list, and the order of the range comes from the client record.
\<close>

section \<open>types.go\<close>

definition DatasourceHelm :: string where "DatasourceHelm = ''helm''"
definition DatasourceDocker :: string where "DatasourceDocker = ''docker''"

record Update =
  upt_NewValue :: string
  upt_UpdateType :: string

record Dependency =
  dpd_DepName :: string
  dpd_CurrentValue :: string
  dpd_Datasource :: string
  dpd_RegistryURL :: string
  dpd_Updates :: "Update list"

record PackageFile =
  pkf_PackageFile :: string
  pkf_Deps :: "Dependency list"

record RenovateConfig =
  rvc_Flux :: "PackageFile list"
  rvc_HelmValues :: "PackageFile list"
  rvc_Regex :: "PackageFile list"

record RenovateLogEntry =
  rle_Name :: string
  rle_Level :: int
  rle_Msg :: string
  rle_Config :: "RenovateConfig option"

record UpdateInfo =
  uin_PackageFile :: string
  uin_DependencyName :: string
  uin_CurrentVersion :: string
  uin_NewVersion :: string
  uin_UpdateType :: string
  uin_Datasource :: string

section \<open>parser.go\<close>

definition update_info :: "PackageFile \<Rightarrow> Dependency \<Rightarrow> Update \<Rightarrow> UpdateInfo" where
  "update_info pf dep u = \<lparr>uin_PackageFile = pkf_PackageFile pf, uin_DependencyName = dpd_DepName dep,
     uin_CurrentVersion = dpd_CurrentValue dep, uin_NewVersion = upt_NewValue u, uin_UpdateType = upt_UpdateType u,
     uin_Datasource = dpd_Datasource dep\<rparr>"

primrec deps_loop :: "PackageFile \<Rightarrow> Dependency list \<Rightarrow> UpdateInfo list \<Rightarrow> UpdateInfo list" where
  "deps_loop pf [] updates = updates"
| "deps_loop pf (dep # deps) updates =
     deps_loop pf deps (case dpd_Updates dep of u # _ \<Rightarrow> updates @ [update_info pf dep u] | [] \<Rightarrow> updates)"

text \<open>One of the three loops of \<open>extractUpdates\<close>, which differ only in the list they range over.\<close>

primrec files_loop :: "PackageFile list \<Rightarrow> UpdateInfo list \<Rightarrow> UpdateInfo list" where
  "files_loop [] updates = updates"
| "files_loop (pf # pfs) updates = files_loop pfs (deps_loop pf (pkf_Deps pf) updates)"

definition extractUpdates :: "RenovateConfig \<Rightarrow> UpdateInfo list" where
  "extractUpdates config =
     files_loop (rvc_Regex config) (files_loop (rvc_HelmValues config) (files_loop (rvc_Flux config) []))"

definition Parse ::
  "'w client \<Rightarrow> (string \<Rightarrow> goerror + RenovateLogEntry) \<Rightarrow> string \<Rightarrow> string \<Rightarrow> ('w, UpdateInfo list) call" where
  "Parse C unmarshal namespace configMap =
     checked (wrap_err ''getting updates configmap'' (GetConfigMap C (NN configMap namespace))) (\<lambda>cm.
     ret (case map_of (cm_Data cm) ''updates.json'' of
        None \<Rightarrow> Inr []
      | Some data \<Rightarrow>
          if data = [] then Inr []
          else (case unmarshal data of
             Inl e \<Rightarrow> Inl (Wrap ''parsing updates json'' e)
           | Inr entry \<Rightarrow> Inr (case rle_Config entry of None \<Rightarrow> [] | Some config \<Rightarrow> extractUpdates config))))"

section \<open>mapper.go\<close>

primrec path_index :: "ManagedApp list \<Rightarrow> (string \<rightharpoonup> NamespacedName) \<Rightarrow> (string \<rightharpoonup> NamespacedName)" where
  "path_index [] pathToApp = pathToApp"
| "path_index (app # apps) pathToApp =
     path_index apps
       (if mas_GitPath (ma_Spec app) \<noteq> []
        then pathToApp(mas_GitPath (ma_Spec app) \<mapsto> NN (ma_Name app) (ma_Namespace app)) else pathToApp)"

definition add_update :: "UpdateInfo \<Rightarrow> VersionInfo \<Rightarrow> VersionInfo" where
  "add_update update v =
     (if uin_Datasource update = DatasourceHelm then v\<lparr>vi_Chart := uin_NewVersion update\<rparr>
      else if uin_Datasource update = DatasourceDocker
      then v\<lparr>vi_Images := vi_Images v @ [\<lparr>img_Name = uin_DependencyName update, img_Tag = uin_NewVersion update\<rparr>]\<rparr>
      else v)"

definition empty_version :: VersionInfo where
  "empty_version = \<lparr>vi_Chart = [], vi_Images = []\<rparr>"

primrec updates_loop ::
  "(string \<rightharpoonup> NamespacedName) \<Rightarrow> UpdateInfo list \<Rightarrow> (NamespacedName \<times> VersionInfo) list \<Rightarrow>
     (NamespacedName \<times> VersionInfo) list" where
  "updates_loop pathToApp [] result = result"
| "updates_loop pathToApp (update # updates) result =
     updates_loop pathToApp updates
       (case pathToApp (uin_PackageFile update) of
          None \<Rightarrow> result
        | Some appKey \<Rightarrow>
            AList.update appKey
              (add_update update (case map_of result appKey of None \<Rightarrow> empty_version | Some v \<Rightarrow> v)) result)"

definition MapUpdatesToManagedApps ::
  "'w client \<Rightarrow> UpdateInfo list \<Rightarrow> ('w, (NamespacedName \<times> VersionInfo) list) call" where
  "MapUpdatesToManagedApps C updates =
     checked (ListManagedApps C) (\<lambda>apps. ret (Inr (updates_loop (path_index apps Map.empty) updates [])))"

section \<open>status.go\<close>

definition announced :: "klib \<Rightarrow> VersionInfo option \<Rightarrow> string \<Rightarrow> string \<Rightarrow> string \<Rightarrow> ManagedApp \<Rightarrow> ManagedApp" where
  "announced L update status reason message app =
     app\<lparr>ma_Status := (ma_Status app)
       \<lparr>mast_AvailableUpdate := update,
        mast_Conditions := SetStatusCondition L (mast_Conditions (ma_Status app))
          \<lparr>c_Type = ConditionTypeUpdateAvailable, c_Status = status, c_Reason = reason, c_Message = message,
           c_ObservedGeneration = om_Generation (ma_meta app)\<rparr>\<rparr>\<rparr>"

definition updateManagedAppStatus ::
  "'w client \<Rightarrow> klib \<Rightarrow> NamespacedName \<Rightarrow> VersionInfo \<Rightarrow> ('w, unit) call" where
  "updateManagedAppStatus C L key version =
     checked (GetManagedApp C key) (\<lambda>app.
     checked (StatusUpdateManagedApp C
         (announced L (Some version) ConditionTrue ''UpdateDetected'' ''A newer version is available'' app))
       (\<lambda>_. ret (Inr ())))"

text \<open>The errors of single applications are logged, the loop goes on.\<close>

primrec status_loop ::
  "'w client \<Rightarrow> klib \<Rightarrow> (NamespacedName \<times> VersionInfo) list \<Rightarrow> NamespacedName list \<Rightarrow> ('w, unit) call" where
  "status_loop C L mapped [] = ret (Inr ())"
| "status_loop C L mapped (appKey # keys) =
     (case map_of mapped appKey of
        None \<Rightarrow> status_loop C L mapped keys
      | Some versionInfo \<Rightarrow> do {
          _ \<leftarrow> updateManagedAppStatus C L appKey versionInfo;
          status_loop C L mapped keys
        })"

definition ProcessRenovateOutput ::
  "'w client \<Rightarrow> klib \<Rightarrow> (string \<Rightarrow> goerror + RenovateLogEntry) \<Rightarrow> string \<Rightarrow> string \<Rightarrow> ('w, unit) call" where
  "ProcessRenovateOutput C L unmarshal namespace configMap =
     checked (Parse C unmarshal namespace configMap) (\<lambda>updates.
     if length updates = 0 then ret (Inr ())
     else
       checked (MapUpdatesToManagedApps C updates) (\<lambda>mapped. do {
         keys \<leftarrow> RangeNames C (map fst mapped);
         status_loop C L mapped keys
       }))"

definition ClearUpdateStatus :: "'w client \<Rightarrow> klib \<Rightarrow> NamespacedName \<Rightarrow> ('w, unit) call" where
  "ClearUpdateStatus C L key =
     checked (GetManagedApp C key) (\<lambda>app.
     checked (StatusUpdateManagedApp C
         (announced L None ConditionFalse ''NoUpdateAvailable'' ''Application is up to date'' app))
       (\<lambda>_. ret (Inr ())))"

section \<open>What the parser extracts\<close>

text \<open>The first update of each dependency that has one, file by file.\<close>

definition file_updates :: "PackageFile \<Rightarrow> UpdateInfo list" where
  "file_updates pf = map (\<lambda>dep. update_info pf dep (hd (dpd_Updates dep))) (filter (\<lambda>dep. dpd_Updates dep \<noteq> []) (pkf_Deps pf))"

lemma deps_loop_eq:
  "deps_loop pf deps updates =
     updates @ map (\<lambda>dep. update_info pf dep (hd (dpd_Updates dep))) (filter (\<lambda>dep. dpd_Updates dep \<noteq> []) deps)"
  by (induction deps arbitrary: updates) (auto split: list.split)

lemma files_loop_eq: "files_loop pfs updates = updates @ concat (map file_updates pfs)"
  by (induction pfs arbitrary: updates) (simp_all add: deps_loop_eq file_updates_def)

section \<open>What the mapper announces\<close>

text \<open>The version an application is offered: the last Helm update and all image updates of its file.\<close>

definition helm_versions :: "UpdateInfo list \<Rightarrow> string list" where
  "helm_versions us = map uin_NewVersion (filter (\<lambda>u. uin_Datasource u = DatasourceHelm) us)"

definition docker_images :: "UpdateInfo list \<Rightarrow> ImageInfo list" where
  "docker_images us = map (\<lambda>u. \<lparr>img_Name = uin_DependencyName u, img_Tag = uin_NewVersion u\<rparr>)
     (filter (\<lambda>u. uin_Datasource u = DatasourceDocker) us)"

definition offered :: "VersionInfo \<Rightarrow> UpdateInfo list \<Rightarrow> VersionInfo" where
  "offered v us = \<lparr>vi_Chart = last (vi_Chart v # helm_versions us), vi_Images = vi_Images v @ docker_images us\<rparr>"

lemma datasources_neq [simp]: "DatasourceHelm \<noteq> DatasourceDocker" "DatasourceDocker \<noteq> DatasourceHelm"
  by (simp_all add: DatasourceHelm_def DatasourceDocker_def)

lemma offered_step: "offered (add_update u v) us = offered v (u # us)"
  by (simp add: offered_def add_update_def helm_versions_def docker_images_def)

abbreviation concerning :: "(string \<rightharpoonup> NamespacedName) \<Rightarrow> NamespacedName \<Rightarrow> UpdateInfo list \<Rightarrow> UpdateInfo list" where
  "concerning pathToApp key us \<equiv> filter (\<lambda>u. pathToApp (uin_PackageFile u) = Some key) us"

lemma updates_loop_lookup:
  "map_of (updates_loop pathToApp us result) key =
     (if concerning pathToApp key us = [] then map_of result key
      else Some (offered (case map_of result key of None \<Rightarrow> empty_version | Some v \<Rightarrow> v) (concerning pathToApp key us)))"
proof (induction us arbitrary: result)
  case Nil
  then show ?case by simp
next
  case (Cons u us)
  show ?case
    by (cases "pathToApp (uin_PackageFile u)")
      (auto simp: Cons.IH update_conv offered_step offered_def add_update_def helm_versions_def docker_images_def
        split: option.split)
qed

lemma updates_loop_distinct: "distinct (map fst result) \<Longrightarrow> distinct (map fst (updates_loop pathToApp us result))"
  by (induction us arbitrary: result) (simp_all add: distinct_update split: option.split)

text \<open>A file that several applications name is the last one's.\<close>

lemma path_index_lookup:
  "path_index apps m path =
     (if \<exists>a\<in>set apps. path \<noteq> [] \<and> mas_GitPath (ma_Spec a) = path
      then Some (let a = last (filter (\<lambda>a. mas_GitPath (ma_Spec a) = path) apps) in NN (ma_Name a) (ma_Namespace a))
      else m path)"
  by (induction apps arbitrary: m) (auto simp: Let_def filter_empty_conv)

section \<open>Which calls are made\<close>

context api_inv
begin

lemma keeps_ProcessRenovateOutput:
  assumes "\<And>a. P (WroteManagedAppStatus a)"
  shows "keeps I (ProcessRenovateOutput C L unmarshal ns cm) (\<lambda>_. True)"
proof -
  have "keeps I (status_loop C L mapped keys) (\<lambda>_. True)" for mapped keys
    by (induction keys)
      (auto simp: updateManagedAppStatus_def intro!: keeps_rule read_keeps keeps_StatusUpdateManagedApp assms)
  then show ?thesis
    unfolding ProcessRenovateOutput_def Parse_def MapUpdatesToManagedApps_def
    by (intro keeps_rule TrueI read_keeps)
qed

end

end
