(* ===== verification/AppControllers.thy ===== *)
theory AppControllers
  imports Controller Renovate
begin

text \<open>
  The two controllers without phases: \<open>internal/controller/managedapp_controller.go\<close>, which reports
  the health of an application in its \<open>Ready\<close> condition, and \<open>updates_controller.go\<close>, which
  processes the ConfigMap that Renovate writes. Their \<open>Reconcile\<close> methods carry the name of the
  reconciler here.
\<close>

section \<open>managedapp\_controller.go\<close>

definition HealthCheckInterval :: int where
  "HealthCheckInterval = 30 * Second"

definition set_ready :: "klib \<Rightarrow> string \<Rightarrow> string \<Rightarrow> string \<Rightarrow> ManagedApp \<Rightarrow> ManagedApp" where
  "set_ready L status reason message app =
     app\<lparr>ma_Status := (ma_Status app)\<lparr>mast_Conditions := SetStatusCondition L (mast_Conditions (ma_Status app))
        \<lparr>c_Type = ConditionTypeReady, c_Status = status, c_Reason = reason, c_Message = message,
         c_ObservedGeneration = om_Generation (ma_meta app)\<rparr>\<rparr>\<rparr>"

definition error_reason :: "klib \<Rightarrow> goerror \<Rightarrow> string" where
  "error_reason L err =
     (if IsNotFound L err \<and> Contains (Error err) ''Flux resource'' then ''KustomizationNotFound'' else ''HealthCheckError'')"

definition health_reason :: "HealthResult \<Rightarrow> string" where
  "health_reason result =
     (if hr_Healthy result then ''KustomizationReady''
      else if \<not> hr_FluxReady result then ''KustomizationNotReady''
      else if \<not> hr_WorkloadsReady result then ''WorkloadsNotReady''
      else reasonNotReady)"

definition ManagedApp_Reconcile ::
  "'w client \<Rightarrow> klib \<Rightarrow> helmlib \<Rightarrow> NamespacedName \<Rightarrow> ('w, Result) call" where
  "ManagedApp_Reconcile C L H req =
     on_err (GetManagedApp C req)
       (\<lambda>e. ret (case IgnoreNotFound L e of None \<Rightarrow> Inr ResultDone | Some e' \<Rightarrow> Inl e'))
       (\<lambda>app.
          on_err (CheckHealth C H app)
            (\<lambda>err. do {
               _ \<leftarrow> StatusUpdateManagedApp C (set_ready L ConditionFalse (error_reason L err) (Error err) app);
               ret (Inr (ResultRequeueAfter Minute))
             })
            (\<lambda>result.
               checked (StatusUpdateManagedApp C
                   (set_ready L (if hr_Healthy result then ConditionTrue else ConditionFalse) (health_reason result)
                      (hr_Message result) app))
                 (\<lambda>_. ret (Inr (ResultRequeueAfter HealthCheckInterval)))))"

section \<open>updates\_controller.go\<close>

definition UpdatesConfigMapName :: string where "UpdatesConfigMapName = ''fluxup-updates''"
definition UpdatesConfigMapNamespace :: string where "UpdatesConfigMapNamespace = ''fluxup-system''"

text \<open>\<open>namespace\<close> and \<open>configMap\<close> are what the \<open>StatusUpdater\<close> was built with.\<close>

definition UpdatesConfigMap_Reconcile ::
  "'w client \<Rightarrow> klib \<Rightarrow> (string \<Rightarrow> goerror + RenovateLogEntry) \<Rightarrow> string \<Rightarrow> string \<Rightarrow> NamespacedName \<Rightarrow>
     ('w, Result) call" where
  "UpdatesConfigMap_Reconcile C L unmarshal namespace configMap req =
     (if nn_Name req \<noteq> UpdatesConfigMapName \<or> nn_Namespace req \<noteq> UpdatesConfigMapNamespace
      then ret (Inr ResultDone)
      else checked (ProcessRenovateOutput C L unmarshal namespace configMap) (\<lambda>_. ret (Inr ResultDone)))"

end
