(* ===== verification/Registration.thy ===== *)
theory Registration
  imports AppControllers Upgrade Rollback
begin

text \<open>
  How the program is put together before it runs: the API group of \<open>api/v1alpha1\<close> and the scheme of
  \<open>cmd/main.go\<close>, and the four \<open>SetupWithManager\<close> methods. What a controller builder of controller-runtime is
  told is the record \<open>registration\<close>. The locales say what the code relies on: \<open>scheme_registry\<close> that types added
  to a scheme are known to it, \<open>event_delivery\<close> which requests an event leads to.
\<close>

section \<open>The API group\<close>

record GroupVersion =
  gv_Group :: string
  gv_Version :: string

definition GroupVersion_fluxup :: GroupVersion where
  "GroupVersion_fluxup = \<lparr>gv_Group = ''fluxup.dev'', gv_Version = ''v1alpha1''\<rparr>"

text \<open>Each of the three files of types registers its kinds from an \<open>init\<close> function; Go runs them in the order of the files.\<close>

definition managedapp_init :: "string list \<Rightarrow> string list" where
  "managedapp_init builder = builder @ [''ManagedApp'', ''ManagedAppList'']"

definition rollbackrequest_init :: "string list \<Rightarrow> string list" where
  "rollbackrequest_init builder = builder @ [''RollbackRequest'', ''RollbackRequestList'']"

definition upgraderequest_init :: "string list \<Rightarrow> string list" where
  "upgraderequest_init builder = builder @ [''UpgradeRequest'', ''UpgradeRequestList'']"

definition SchemeBuilder :: "string list" where
  "SchemeBuilder = upgraderequest_init (rollbackrequest_init (managedapp_init []))"

record 's scheme_lib =
  sl_NewScheme :: 's
  sl_AddKnownTypes :: "GroupVersion \<Rightarrow> string list \<Rightarrow> 's \<Rightarrow> goerror + 's"
  sl_clientgo :: "'s \<Rightarrow> goerror + 's"
  sl_helmv2 :: "'s \<Rightarrow> goerror + 's"
  sl_kustomizev1 :: "'s \<Rightarrow> goerror + 's"
  sl_snapshotv1 :: "'s \<Rightarrow> goerror + 's"

definition AddToScheme :: "'s scheme_lib \<Rightarrow> 's \<Rightarrow> goerror + 's" where
  "AddToScheme L = sl_AddKnownTypes L GroupVersion_fluxup SchemeBuilder"

text \<open>\<open>init\<close> of \<open>main\<close>; \<open>utilruntime.Must\<close> panics with the first error.\<close>

fun register_all :: "('s \<Rightarrow> goerror + 's) list \<Rightarrow> 's \<Rightarrow> goerror + 's" where
  "register_all [] s = Inr s"
| "register_all (add # adds) s = (case add s of Inl e \<Rightarrow> Inl (Panic (Error e)) | Inr s' \<Rightarrow> register_all adds s')"

definition init_scheme :: "'s scheme_lib \<Rightarrow> goerror + 's" where
  "init_scheme L = register_all [sl_clientgo L, AddToScheme L, sl_helmv2 L, sl_kustomizev1 L, sl_snapshotv1 L] (sl_NewScheme L)"

locale scheme_registry =
  fixes L :: "'s scheme_lib" and known :: "'s \<Rightarrow> (GroupVersion \<times> string) set"
  assumes adds: "sl_AddKnownTypes L gv ts s = Inr s' \<Longrightarrow> known s' = known s \<union> {gv} \<times> set ts"
    and others: "sl_clientgo L s = Inr s' \<Longrightarrow> known s \<subseteq> known s'" "sl_helmv2 L s = Inr s' \<Longrightarrow> known s \<subseteq> known s'"
      "sl_kustomizev1 L s = Inr s' \<Longrightarrow> known s \<subseteq> known s'" "sl_snapshotv1 L s = Inr s' \<Longrightarrow> known s \<subseteq> known s'"
begin

lemma init_knows_resources: "init_scheme L = Inr s \<Longrightarrow> {GroupVersion_fluxup} \<times> set SchemeBuilder \<subseteq> known s"
  by (auto simp: init_scheme_def AddToScheme_def split: sum.splits dest!: adds others) blast+

end

definition list_scheme :: "(GroupVersion \<times> string) list scheme_lib" where
  "list_scheme = \<lparr>sl_NewScheme = [], sl_AddKnownTypes = (\<lambda>gv ts s. Inr (s @ map (Pair gv) ts)),
     sl_clientgo = Inr, sl_helmv2 = Inr, sl_kustomizev1 = Inr, sl_snapshotv1 = Inr\<rparr>"

interpretation listscheme: scheme_registry list_scheme set
  by unfold_locales (auto simp: list_scheme_def)

section \<open>Registrations\<close>

record 'w registration =
  reg_Name :: string
  reg_For :: string
  reg_Watches :: "(string \<times> (ObjectMeta \<Rightarrow> NamespacedName list)) list"
  reg_Filter :: "ObjectMeta \<Rightarrow> bool"
  reg_Reconcile :: "NamespacedName \<Rightarrow> ('w, Result) call"

definition findManagedAppsForWorkload :: "ObjectMeta \<Rightarrow> NamespacedName list" where
  "findManagedAppsForWorkload obj = []"

definition ManagedApp_SetupWithManager :: "'w client \<Rightarrow> klib \<Rightarrow> helmlib \<Rightarrow> 'w registration" where
  "ManagedApp_SetupWithManager C L H = \<lparr>reg_Name = ''managedapp'', reg_For = ''ManagedApp'',
     reg_Watches = [(''HelmRelease'', findManagedAppsForWorkload), (''Deployment'', findManagedAppsForWorkload),
       (''StatefulSet'', findManagedAppsForWorkload)],
     reg_Filter = (\<lambda>_. True), reg_Reconcile = ManagedApp_Reconcile C L H\<rparr>"

definition UpdatesConfigMap_SetupWithManager ::
  "'w client \<Rightarrow> klib \<Rightarrow> (string \<Rightarrow> goerror + RenovateLogEntry) \<Rightarrow> string \<Rightarrow> string \<Rightarrow> 'w registration" where
  "UpdatesConfigMap_SetupWithManager C L unmarshal namespace configMap =
     \<lparr>reg_Name = ''updates-configmap'', reg_For = ''ConfigMap'', reg_Watches = [],
      reg_Filter = (\<lambda>obj. om_Name obj = UpdatesConfigMapName \<and> om_Namespace obj = UpdatesConfigMapNamespace),
      reg_Reconcile = UpdatesConfigMap_Reconcile C L unmarshal namespace configMap\<rparr>"

definition UpgradeRequest_SetupWithManager :: "('w, 'n) reconciler \<Rightarrow> 'w registration" where
  "UpgradeRequest_SetupWithManager R = \<lparr>reg_Name = ''upgraderequest'', reg_For = ''UpgradeRequest'',
     reg_Watches = [], reg_Filter = (\<lambda>_. True), reg_Reconcile = Upgrade.Reconcile R\<rparr>"

definition RollbackRequest_SetupWithManager :: "('w, 'n) reconciler \<Rightarrow> 'w registration" where
  "RollbackRequest_SetupWithManager R = \<lparr>reg_Name = ''rollbackrequest'', reg_For = ''RollbackRequest'',
     reg_Watches = [], reg_Filter = (\<lambda>_. True), reg_Reconcile = Rollback.Reconcile R\<rparr>"

lemmas setup_defs = ManagedApp_SetupWithManager_def UpdatesConfigMap_SetupWithManager_def
  UpgradeRequest_SetupWithManager_def RollbackRequest_SetupWithManager_def

section \<open>Events\<close>

text \<open>
  An event of an object of some kind leads to a request for the object if the controller is for its kind,
  and to those the watches map it to, unless the filter holds it back.
\<close>

locale event_delivery =
  fixes enqueued :: "'w registration \<Rightarrow> string \<Rightarrow> ObjectMeta \<Rightarrow> NamespacedName list"
  assumes delivers: "set (enqueued reg kind obj) =
    (if reg_Filter reg obj
     then (if kind = reg_For reg then {meta_key obj} else {}) \<union>
       (\<Union>(k, f)\<in>set (reg_Watches reg). if k = kind then set (f obj) else {})
     else {})"
begin

text \<open>The workload watches of the application controller trigger nothing.\<close>

lemma workload_events_ignored:
  "kind \<noteq> ''ManagedApp'' \<Longrightarrow> enqueued (ManagedApp_SetupWithManager C L H) kind obj = []"
  using delivers [of "ManagedApp_SetupWithManager C L H" kind obj]
  by (simp add: ManagedApp_SetupWithManager_def findManagedAppsForWorkload_def cong: if_cong)

text \<open>Only the ConfigMap of the updates reaches its controller, which then does not turn it away.\<close>

lemma updates_events:
  "k \<in> set (enqueued (UpdatesConfigMap_SetupWithManager C L unmarshal ns cm) kind obj) \<longleftrightarrow>
     kind = ''ConfigMap'' \<and> meta_key obj = k \<and> k = NN UpdatesConfigMapName UpdatesConfigMapNamespace"
  by (auto simp: delivers UpdatesConfigMap_SetupWithManager_def meta_key_def)

lemma request_events:
  "set (enqueued (UpgradeRequest_SetupWithManager R) kind obj) = (if kind = ''UpgradeRequest'' then {meta_key obj} else {})"
  "set (enqueued (RollbackRequest_SetupWithManager R) kind obj) = (if kind = ''RollbackRequest'' then {meta_key obj} else {})"
  by (simp_all add: delivers UpgradeRequest_SetupWithManager_def RollbackRequest_SetupWithManager_def)

end

definition enqueue_all :: "'w registration \<Rightarrow> string \<Rightarrow> ObjectMeta \<Rightarrow> NamespacedName list" where
  "enqueue_all reg kind obj =
     (if reg_Filter reg obj
      then (if kind = reg_For reg then [meta_key obj] else []) @
        concat (map (\<lambda>(k, f). if k = kind then f obj else []) (reg_Watches reg))
      else [])"

interpretation enqueueall: event_delivery enqueue_all
  by unfold_locales (auto simp: enqueue_all_def split_def)

section \<open>Permissions\<close>

text \<open>
  The markers from which the role of the operator is generated: API group, resource and verbs.
\<close>

type_synonym rbac_rule = "string \<times> string \<times> string list"

definition managedapp_rules :: "rbac_rule list" where
  "managedapp_rules = [(''fluxup.dev'', ''managedapps'', [''get'', ''list'', ''watch'', ''create'', ''update'', ''patch'', ''delete'']),
     (''fluxup.dev'', ''managedapps/status'', [''get'', ''update'', ''patch'']),
     (''fluxup.dev'', ''managedapps/finalizers'', [''update'']),
     (''helm.toolkit.fluxcd.io'', ''helmreleases'', [''get'', ''list'', ''watch'']),
     (''kustomize.toolkit.fluxcd.io'', ''kustomizations'', [''get'', ''list'', ''watch'']),
     (''apps'', ''deployments'', [''get'', ''list'', ''watch'']),
     (''apps'', ''statefulsets'', [''get'', ''list'', ''watch'']),
     ([], ''pods'', [''get'', ''list'', ''watch''])]"

definition updates_rules :: "rbac_rule list" where
  "updates_rules = [([], ''configmaps'', [''get'', ''list'', ''watch''])]"

definition upgrade_rules :: "rbac_rule list" where
  "upgrade_rules = [(''fluxup.dev'', ''upgraderequests'', [''get'', ''list'', ''watch'', ''create'', ''update'', ''patch'', ''delete'']),
     (''fluxup.dev'', ''upgraderequests/status'', [''get'', ''update'', ''patch'']),
     (''fluxup.dev'', ''upgraderequests/finalizers'', [''update'']),
     (''fluxup.dev'', ''managedapps'', [''get'', ''list'', ''watch'', ''update'', ''patch'']),
     (''fluxup.dev'', ''managedapps/status'', [''get'', ''update'', ''patch'']),
     (''kustomize.toolkit.fluxcd.io'', ''kustomizations'', [''get'', ''list'', ''watch'', ''patch'', ''update'']),
     (''helm.toolkit.fluxcd.io'', ''helmreleases'', [''get'', ''list'', ''watch'']),
     (''snapshot.storage.k8s.io'', ''volumesnapshots'', [''get'', ''list'', ''watch'', ''create'', ''delete'']),
     (''snapshot.storage.k8s.io'', ''volumesnapshotclasses'', [''get'', ''list'']),
     ([], ''persistentvolumeclaims'', [''get'', ''list'', ''watch'']),
     ([], ''pods'', [''get'', ''list'', ''watch''])]"

definition rollback_rules :: "rbac_rule list" where
  "rollback_rules = [(''fluxup.dev'', ''rollbackrequests'', [''get'', ''list'', ''watch'', ''create'', ''update'', ''patch'', ''delete'']),
     (''fluxup.dev'', ''rollbackrequests/status'', [''get'', ''update'', ''patch'']),
     (''fluxup.dev'', ''rollbackrequests/finalizers'', [''update'']),
     (''apps'', ''deployments'', [''get'', ''list'', ''watch'', ''patch'', ''update'']),
     (''apps'', ''statefulsets'', [''get'', ''list'', ''watch'', ''patch'', ''update'']),
     ([], ''persistentvolumeclaims'', [''get'', ''list'', ''watch'', ''create'', ''delete''])]"

definition granted :: "rbac_rule list \<Rightarrow> string \<times> string \<times> string \<Rightarrow> bool" where
  "granted rules need \<longleftrightarrow>
     (case need of (g, res, verb) \<Rightarrow> list_ex (\<lambda>(g', res', verbs). g' = g \<and> res' = res \<and> List.member verbs verb) rules)"

text \<open>What the operations of the record \<open>client\<close> ask of the API server.\<close>

definition client_needs :: "(string \<times> string \<times> string) list" where
  "client_needs = [(''fluxup.dev'', ''upgraderequests'', ''get''),
     (''fluxup.dev'', ''rollbackrequests'', ''get''),
     (''fluxup.dev'', ''managedapps'', ''get''),
     (''fluxup.dev'', ''managedapps'', ''list''),
     (''kustomize.toolkit.fluxcd.io'', ''kustomizations'', ''get''),
     (''apps'', ''deployments'', ''get''),
     (''apps'', ''statefulsets'', ''get''),
     ([], ''persistentvolumeclaims'', ''get''),
     (''snapshot.storage.k8s.io'', ''volumesnapshots'', ''get''),
     (''snapshot.storage.k8s.io'', ''volumesnapshots'', ''list''),
     (''snapshot.storage.k8s.io'', ''volumesnapshotclasses'', ''get''),
     ([], ''configmaps'', ''get''),
     ([], ''pods'', ''list''),
     ([], ''secrets'', ''list''),
     (''fluxup.dev'', ''upgraderequests'', ''update''),
     (''fluxup.dev'', ''rollbackrequests'', ''update''),
     (''kustomize.toolkit.fluxcd.io'', ''kustomizations'', ''update''),
     (''apps'', ''deployments'', ''patch''),
     (''apps'', ''statefulsets'', ''patch''),
     (''fluxup.dev'', ''upgraderequests/status'', ''update''),
     (''fluxup.dev'', ''rollbackrequests/status'', ''update''),
     (''fluxup.dev'', ''managedapps/status'', ''update''),
     (''fluxup.dev'', ''rollbackrequests'', ''create''),
     (''snapshot.storage.k8s.io'', ''volumesnapshots'', ''create''),
     (''snapshot.storage.k8s.io'', ''volumesnapshots'', ''delete''),
     ([], ''persistentvolumeclaims'', ''create''),
     ([], ''persistentvolumeclaims'', ''delete'')]"

text \<open>Everything is granted but the listing of Secrets, from which Helm releases are read.\<close>

lemma only_secrets_denied:
  "filter (\<lambda>need. \<not> granted (managedapp_rules @ updates_rules @ upgrade_rules @ rollback_rules) need) client_needs =
     [([], ''secrets'', ''list'')]"
  by code_simp

end
