(* ===== verification/Logging.thy ===== *)
theory Logging
  imports GoLib
begin

text \<open>
  \<open>internal/logging/logging.go\<close>: loggers of \<open>log/slog\<close> as far as the package uses them. A logger is its
  handler; attributes added by \<open>With\<close> stay with it. The bridge to logr is a parameter, and the context a
  function of the logger that controller-runtime may have put into it.
\<close>

definition LevelDebug :: int where "LevelDebug = -4"
definition LevelInfo :: int where "LevelInfo = 0"
definition LevelWarn :: int where "LevelWarn = 4"
definition LevelError :: int where "LevelError = 8"

section \<open>slog\<close>

datatype log_format = TextFormat | JSONFormat

datatype writer = Stderr | Writer string

record Logger =
  lo_Format :: log_format
  lo_Output :: writer
  lo_Level :: int
  lo_Attrs :: "(string \<times> string) list"

text \<open>Arguments of \<open>With\<close>: strings, which may be keys, and other values, printed.\<close>

datatype log_arg = StrArg string | OtherArg string

fun arg_text :: "log_arg \<Rightarrow> string" where
  "arg_text (StrArg s) = s"
| "arg_text (OtherArg s) = s"

definition badKey :: string where
  "badKey = ''!BADKEY''"

fun args_to_attrs :: "log_arg list \<Rightarrow> (string \<times> string) list" where
  "args_to_attrs [] = []"
| "args_to_attrs (OtherArg v # rest) = (badKey, v) # args_to_attrs rest"
| "args_to_attrs [StrArg s] = [(badKey, s)]"
| "args_to_attrs (StrArg k # v # rest) = (k, arg_text v) # args_to_attrs rest"

definition slog_With :: "Logger \<Rightarrow> log_arg list \<Rightarrow> Logger" where
  "slog_With l args = l\<lparr>lo_Attrs := lo_Attrs l @ args_to_attrs args\<rparr>"

text \<open>Whether a record of the given level is written.\<close>

definition slog_Enabled :: "Logger \<Rightarrow> int \<Rightarrow> bool" where
  "slog_Enabled l level \<longleftrightarrow> lo_Level l \<le> level"

section \<open>The package\<close>

record Options =
  op_Level :: int
  op_Development :: bool
  op_Output :: "writer option"

definition NewLogger :: "Options \<Rightarrow> Logger" where
  "NewLogger opts =
     (let output = (case op_Output opts of None \<Rightarrow> Stderr | Some w \<Rightarrow> w);
          level = (if op_Development opts \<and> LevelDebug < op_Level opts then LevelDebug else op_Level opts)
      in \<lparr>lo_Format = (if op_Development opts then TextFormat else JSONFormat), lo_Output = output,
          lo_Level = level, lo_Attrs = []\<rparr>)"

definition NewLogrLogger :: "(Logger \<Rightarrow> 'r) \<Rightarrow> Logger \<Rightarrow> 'r" where
  "NewLogrLogger fromSlogHandler logger = fromSlogHandler logger"

definition FromContext :: "('ctx \<Rightarrow> Logger option) \<Rightarrow> Logger \<Rightarrow> 'ctx \<Rightarrow> Logger" where
  "FromContext fromContextAsSlogLogger slogDefault ctx =
     (case fromContextAsSlogLogger ctx of None \<Rightarrow> slogDefault | Some logger \<Rightarrow> logger)"

definition WithName :: "Logger \<Rightarrow> string \<Rightarrow> Logger" where
  "WithName logger name = slog_With logger [StrArg ''logger'', StrArg name]"

definition WithValues :: "Logger \<Rightarrow> log_arg list \<Rightarrow> Logger" where
  "WithValues logger keysAndValues = slog_With logger keysAndValues"

section \<open>What is logged\<close>

text \<open>The level of development mode lets everything from debug on through, whatever was asked for.\<close>

lemma development_logs_debug: "op_Development opts \<Longrightarrow> slog_Enabled (NewLogger opts) LevelDebug"
  by (simp add: NewLogger_def slog_Enabled_def Let_def)

lemma production_keeps_level: "\<not> op_Development opts \<Longrightarrow> slog_Enabled (NewLogger opts) l = (op_Level opts \<le> l)"
  by (simp add: NewLogger_def slog_Enabled_def Let_def)

text \<open>Named loggers say where they write and from which level on as before.\<close>

lemma with_keeps_level: "slog_Enabled (slog_With l args) = slog_Enabled l" "lo_Output (slog_With l args) = lo_Output l"
  by (simp_all add: slog_With_def slog_Enabled_def fun_eq_iff)

text \<open>
  A second name does not join the first one with a slash: the record carries the attribute twice.
\<close>

lemma names_are_repeated:
  "lo_Attrs (WithName (WithName l a) b) = lo_Attrs l @ [(''logger'', a), (''logger'', b)]"
  by (simp add: WithName_def slog_With_def)

text \<open>A value without a key is kept under the key that marks it.\<close>

lemma values_in_pairs:
  "lo_Attrs (WithValues l (concat (map (\<lambda>(k, v). [StrArg k, v]) kvs))) = lo_Attrs l @ map (\<lambda>(k, v). (k, arg_text v)) kvs"
  by (induction kvs arbitrary: l) (auto simp: WithValues_def slog_With_def)

end
