(* ===== verification/Startup.thy ===== *)
theory Startup
  imports Gitea Registration Logging
begin

text \<open>
  \<open>cmd/main.go\<close>: from parsed flags and the environment to the logger, the server options, the Git
  configuration and the controllers that are registered. controller-runtime is the record \<open>ctrl_runtime\<close>; its
  manager is a value that is handed on, as the code's pointer is. The environment is a partial function.
  \<open>controller_registry\<close> is what a manager does with the controllers it is given.
\<close>

section \<open>Flags\<close>

record StartupFlags =
  fl_metricsAddr :: string
  fl_metricsCertPath :: string
  fl_metricsCertName :: string
  fl_metricsCertKey :: string
  fl_webhookCertPath :: string
  fl_webhookCertName :: string
  fl_webhookCertKey :: string
  fl_enableLeaderElection :: bool
  fl_probeAddr :: string
  fl_secureMetrics :: bool
  fl_enableHTTP2 :: bool
  fl_gitBackend :: string
  fl_gitRepoURL :: string
  fl_gitBranch :: string
  fl_logLevel :: string
  fl_developmentMode :: bool

definition default_flags :: StartupFlags where
  "default_flags = \<lparr>
     fl_metricsAddr = ''0'', fl_metricsCertPath = [], fl_metricsCertName = ''tls.crt'', fl_metricsCertKey = ''tls.key'',
     fl_webhookCertPath = [], fl_webhookCertName = ''tls.crt'', fl_webhookCertKey = ''tls.key'',
     fl_enableLeaderElection = False, fl_probeAddr = '':8081'', fl_secureMetrics = True, fl_enableHTTP2 = False,
     fl_gitBackend = [], fl_gitRepoURL = [], fl_gitBranch = ''main'',
     fl_logLevel = ''info'', fl_developmentMode = True\<rparr>"

section \<open>Logging\<close>

definition parse_level :: "string \<Rightarrow> int" where
  "parse_level logLevel =
     (if logLevel = ''debug'' then LevelDebug
      else if logLevel = ''info'' then LevelInfo
      else if logLevel = ''warn'' then LevelWarn
      else if logLevel = ''error'' then LevelError
      else LevelInfo)"

definition main_logger :: "StartupFlags \<Rightarrow> Logger" where
  "main_logger f = NewLogger \<lparr>op_Level = parse_level (fl_logLevel f), op_Development = fl_developmentMode f, op_Output = None\<rparr>"

definition setup_logger :: "StartupFlags \<Rightarrow> Logger" where
  "setup_logger f = WithName (main_logger f) ''setup''"

section \<open>Coverage\<close>

record 'w coverage_os =
  co_WriteString :: "string \<Rightarrow> ('w, unit) state"
  co_WriteCountersDir :: "string \<Rightarrow> ('w, unit) call"

text \<open>What the process does at each \<open>SIGUSR1\<close>.\<close>

definition on_coverage_signal :: "'w coverage_os \<Rightarrow> string \<Rightarrow> ('w, unit) state" where
  "on_coverage_signal S coverDir = do {
     _ \<leftarrow> co_WriteString S (''coverage: received SIGUSR1, writing coverage data to '' @ coverDir @ newline);
     on_err (co_WriteCountersDir S coverDir)
       (\<lambda>err. co_WriteString S (''coverage: failed to write counters: '' @ Error err @ newline))
       (\<lambda>_. co_WriteString S (''coverage: successfully wrote coverage data'' @ newline)) }"

text \<open>The handler that is installed, if any.\<close>

definition setupCoverageSignalHandler :: "'w coverage_os \<Rightarrow> (string \<rightharpoonup> string) \<Rightarrow> ('w, unit) state option" where
  "setupCoverageSignalHandler S env = map_option (on_coverage_signal S) (env ''GOCOVERDIR'')"

section \<open>Server options\<close>

text \<open>A TLS option is the list of protocols it sets.\<close>

record ServerOptions =
  so_TLSOpts :: "string list list"
  so_CertDir :: string
  so_CertName :: string
  so_KeyName :: string

record MetricsOptions =
  mo_BindAddress :: string
  mo_SecureServing :: bool
  mo_AuthFilter :: bool
  mo_Server :: ServerOptions

record ManagerOptions =
  mgo_Metrics :: MetricsOptions
  mgo_Webhook :: ServerOptions
  mgo_ProbeAddress :: string
  mgo_LeaderElection :: bool
  mgo_LeaderElectionID :: string

definition tls_opts :: "StartupFlags \<Rightarrow> string list list" where
  "tls_opts f = (if \<not> fl_enableHTTP2 f then [[''http/1.1'']] else [])"

definition server_options :: "string list list \<Rightarrow> string \<Rightarrow> string \<Rightarrow> string \<Rightarrow> ServerOptions" where
  "server_options tls dir name key =
     (if 0 < length dir then \<lparr>so_TLSOpts = tls, so_CertDir = dir, so_CertName = name, so_KeyName = key\<rparr>
      else \<lparr>so_TLSOpts = tls, so_CertDir = [], so_CertName = [], so_KeyName = []\<rparr>)"

definition manager_options :: "StartupFlags \<Rightarrow> ManagerOptions" where
  "manager_options f = \<lparr>
     mgo_Metrics = \<lparr>mo_BindAddress = fl_metricsAddr f, mo_SecureServing = fl_secureMetrics f,
       mo_AuthFilter = fl_secureMetrics f,
       mo_Server = server_options (tls_opts f) (fl_metricsCertPath f) (fl_metricsCertName f) (fl_metricsCertKey f)\<rparr>,
     mgo_Webhook = server_options (tls_opts f) (fl_webhookCertPath f) (fl_webhookCertName f) (fl_webhookCertKey f),
     mgo_ProbeAddress = fl_probeAddr f, mgo_LeaderElection = fl_enableLeaderElection f,
     mgo_LeaderElectionID = ''fae8bd14.fluxup.dev''\<rparr>"

section \<open>Git configuration\<close>

text \<open>\<open>os.Getenv\<close> gives the empty string for a variable that is not set.\<close>

definition Getenv :: "(string \<rightharpoonup> string) \<Rightarrow> string \<Rightarrow> string" where
  "Getenv env v = (case env v of None \<Rightarrow> [] | Some s \<Rightarrow> s)"

definition flag_or_env :: "string \<Rightarrow> string \<Rightarrow> string" where
  "flag_or_env flag env = (if flag = [] then env else flag)"

definition git_branch :: "StartupFlags \<Rightarrow> (string \<Rightarrow> string) \<Rightarrow> string" where
  "git_branch f getenv =
     (if fl_gitBranch f = [] \<or> fl_gitBranch f = ''main''
      then (if getenv ''GIT_BRANCH'' \<noteq> [] then getenv ''GIT_BRANCH'' else fl_gitBranch f)
      else fl_gitBranch f)"

definition git_config :: "StartupFlags \<Rightarrow> (string \<Rightarrow> string) \<Rightarrow> Config option" where
  "git_config f getenv =
     (let backend = flag_or_env (fl_gitBackend f) (getenv ''GIT_BACKEND'');
          url = flag_or_env (fl_gitRepoURL f) (getenv ''GIT_REPO_URL'');
          token = getenv ''GIT_TOKEN''
      in if backend \<noteq> [] \<and> url \<noteq> [] \<and> token \<noteq> []
         then Some \<lparr>cfg_Backend = backend, cfg_RepoURL = url, cfg_Branch = git_branch f getenv, cfg_Token = token\<rparr>
         else None)"

section \<open>Start\<close>

text \<open>
  The third-party functions the reconcilers need, and controller-runtime. \<open>crt_Complete\<close> is \<open>Complete\<close> of a
  builder that was told the registration.
\<close>

record 'n libraries =
  lib_Kube :: klib
  lib_Yaml :: "'n kyaml"
  lib_Helm :: helmlib
  lib_Unmarshal :: "string \<Rightarrow> goerror + RenovateLogEntry"

record ('w, 'm) ctrl_runtime =
  crt_NewManager :: "ManagerOptions \<Rightarrow> ('w, 'm) call"
  crt_GetClient :: "'m \<Rightarrow> 'w client"
  crt_Complete :: "'m \<Rightarrow> 'w registration \<Rightarrow> ('w, 'm) call"
  crt_AddHealthzCheck :: "'m \<Rightarrow> string \<Rightarrow> ('w, 'm) call"
  crt_AddReadyzCheck :: "'m \<Rightarrow> string \<Rightarrow> ('w, 'm) call"
  crt_Start :: "'m \<Rightarrow> ('w, unit) call"

definition request_reconciler :: "('w, 'm) ctrl_runtime \<Rightarrow> 'n libraries \<Rightarrow> 'm \<Rightarrow> 'w git_manager \<Rightarrow> ('w, 'n) reconciler" where
  "request_reconciler R L mgr gitManager = \<lparr>rc_Client = crt_GetClient R mgr, rc_Lib = lib_Kube L,
     rc_Git = Some gitManager, rc_Yaml = lib_Yaml L, rc_Helm = lib_Helm L\<rparr>"

text \<open>The manager with all its controllers, before it starts.\<close>

definition register_request_controllers ::
  "('w, 'm) ctrl_runtime \<Rightarrow> 'n libraries \<Rightarrow> (Config \<Rightarrow> ('w, 'w git_manager) call) \<Rightarrow> 'm \<Rightarrow> Config option \<Rightarrow> ('w, 'm) call" where
  "register_request_controllers R L newGitManager mgr config =
     (case config of
        None \<Rightarrow> ret (Inr mgr)
      | Some gitConfig \<Rightarrow>
          checked (newGitManager gitConfig) (\<lambda>gitManager.
          checked (crt_Complete R mgr (UpgradeRequest_SetupWithManager (request_reconciler R L mgr gitManager))) (\<lambda>mgr'.
          crt_Complete R mgr' (RollbackRequest_SetupWithManager (request_reconciler R L mgr gitManager)))))"

definition configure ::
  "('w, 'm) ctrl_runtime \<Rightarrow> 'n libraries \<Rightarrow> (Config \<Rightarrow> ('w, 'w git_manager) call) \<Rightarrow> StartupFlags \<Rightarrow>
     (string \<rightharpoonup> string) \<Rightarrow> ('w, 'm) call" where
  "configure R L newGitManager f env =
     checked (crt_NewManager R (manager_options f)) (\<lambda>mgr.
     checked (crt_Complete R mgr (ManagedApp_SetupWithManager (crt_GetClient R mgr) (lib_Kube L) (lib_Helm L))) (\<lambda>mgr1.
     checked (crt_Complete R mgr1 (UpdatesConfigMap_SetupWithManager (crt_GetClient R mgr) (lib_Kube L) (lib_Unmarshal L)
         UpdatesConfigMapNamespace UpdatesConfigMapName)) (\<lambda>mgr2.
     checked (register_request_controllers R L newGitManager mgr2 (git_config f (Getenv env))) (\<lambda>mgr3.
     checked (crt_AddHealthzCheck R mgr3 ''healthz'') (\<lambda>mgr4.
     crt_AddReadyzCheck R mgr4 ''readyz'')))))"

text \<open>\<open>main\<close> with its exit code: every failed step ends the process with 1.\<close>

definition main ::
  "('w, 'm) ctrl_runtime \<Rightarrow> 'n libraries \<Rightarrow> (Config \<Rightarrow> ('w, 'w git_manager) call) \<Rightarrow> StartupFlags \<Rightarrow>
     (string \<rightharpoonup> string) \<Rightarrow> ('w, nat) state" where
  "main R L newGitManager f env =
     on_err (configure R L newGitManager f env) (\<lambda>_. ret 1) (\<lambda>mgr.
     on_err (crt_Start R mgr) (\<lambda>_. ret 1) (\<lambda>_. ret 0))"

section \<open>Registration\<close>

locale controller_registry =
  fixes R :: "('w, 'm) ctrl_runtime" and controllers :: "'m \<Rightarrow> 'w registration list"
  assumes new_manager: "run_state (crt_NewManager R opts) w = (Inr m, w') \<Longrightarrow> controllers m = []"
    and registers: "run_state (crt_Complete R m reg) w = (Inr m', w') \<Longrightarrow>
      controllers m' = controllers m @ [reg] \<and> crt_GetClient R m' = crt_GetClient R m"
    and healthz: "run_state (crt_AddHealthzCheck R m n) w = (Inr m', w') \<Longrightarrow>
      controllers m' = controllers m \<and> crt_GetClient R m' = crt_GetClient R m"
    and readyz: "run_state (crt_AddReadyzCheck R m n) w = (Inr m', w') \<Longrightarrow>
      controllers m' = controllers m \<and> crt_GetClient R m' = crt_GetClient R m"
begin

lemma request_controllers_registered:
  assumes "run_state (register_request_controllers R L newGit m config) w = (Inr m', w')"
  shows "crt_GetClient R m' = crt_GetClient R m \<and>
    (case config of
       None \<Rightarrow> controllers m' = controllers m
     | Some cfg \<Rightarrow> \<exists>g w1. run_state (newGit cfg) w = (Inr g, w1) \<and>
         controllers m' = controllers m @ [UpgradeRequest_SetupWithManager (request_reconciler R L m g),
           RollbackRequest_SetupWithManager (request_reconciler R L m g)])"
  using assms
  by (auto simp: register_request_controllers_def run_on_err split: prod.splits sum.splits option.splits dest!: registers)

text \<open>A manager that was configured has exactly the controllers that \<open>main\<close> names, all on its client.\<close>

lemma configured_controllers:
  assumes "run_state (configure R L newGit f env) w = (Inr m, w')"
  shows "\<exists>rest. controllers m = [ManagedApp_SetupWithManager (crt_GetClient R m) (lib_Kube L) (lib_Helm L),
      UpdatesConfigMap_SetupWithManager (crt_GetClient R m) (lib_Kube L) (lib_Unmarshal L)
        UpdatesConfigMapNamespace UpdatesConfigMapName] @ rest \<and>
    (case git_config f (Getenv env) of
       None \<Rightarrow> rest = []
     | Some cfg \<Rightarrow> \<exists>g w1 w2. run_state (newGit cfg) w1 = (Inr g, w2) \<and>
         rest = [UpgradeRequest_SetupWithManager (request_reconciler R L m g),
           RollbackRequest_SetupWithManager (request_reconciler R L m g)])"
  using assms
  by (fastforce simp: configure_def run_on_err request_reconciler_def split: prod.splits sum.splits option.splits
      dest!: new_manager registers request_controllers_registered healthz readyz)

end

text \<open>A runtime whose manager is the list of its controllers, on a given client.\<close>

definition listing_runtime :: "'w client \<Rightarrow> ('w, 'w registration list) ctrl_runtime" where
  "listing_runtime C = \<lparr>crt_NewManager = (\<lambda>_. ret (Inr [])), crt_GetClient = (\<lambda>_. C),
     crt_Complete = (\<lambda>m reg. ret (Inr (m @ [reg]))), crt_AddHealthzCheck = (\<lambda>m _. ret (Inr m)),
     crt_AddReadyzCheck = (\<lambda>m _. ret (Inr m)), crt_Start = (\<lambda>_. ret (Inr ()))\<rparr>"

interpretation listing: controller_registry "listing_runtime C" "\<lambda>m. m" for C
  by unfold_locales (auto simp: listing_runtime_def)

end
