(* ===== verification/Process.thy ===== *)
theory Process
  imports Startup System
begin

text \<open>
  The running process on the in-memory cluster: a step is a reconcile, for any request, of one of the
  controllers that \<open>main\<close> has registered, or a change by others.
\<close>

section \<open>What the application and updates controllers call\<close>

context api_inv
begin

lemma keeps_ManagedApp_Reconcile:
  assumes "\<And>k r. P (GotKustomization k r)" and "\<And>a. P (WroteManagedAppStatus a)"
  shows "keeps I (ManagedApp_Reconcile C L H req) (\<lambda>_. True)"
  unfolding ManagedApp_Reconcile_def
  by (intro keeps_rule TrueI keeps_GetManagedApp keeps_CheckHealth keeps_StatusUpdateManagedApp assms)

lemma keeps_status_loop:
  assumes "\<And>a. P (WroteManagedAppStatus a)"
  shows "keeps I (status_loop C L mapped keys) (\<lambda>_. True)"
proof (induction keys)
  case Nil
  then show ?case by (simp add: keeps_ret)
next
  case (Cons k keys)
  show ?case
    unfolding status_loop.simps updateManagedAppStatus_def
    by (intro keeps_rule TrueI keeps_GetManagedApp keeps_StatusUpdateManagedApp assms Cons.IH)
qed

lemma keeps_UpdatesConfigMap_Reconcile:
  assumes "\<And>a. P (WroteManagedAppStatus a)"
  shows "keeps I (UpdatesConfigMap_Reconcile C L unmarshal ns cm req) (\<lambda>_. True)"
  unfolding UpdatesConfigMap_Reconcile_def ProcessRenovateOutput_def Parse_def MapUpdatesToManagedApps_def
  by (intro keeps_rule TrueI keeps_GetConfigMap keeps_ListManagedApps keeps_RangeNames keeps_status_loop assms)

end

section \<open>Steps of the process\<close>

inductive process_run :: "cluster registration list \<Rightarrow> cluster \<Rightarrow> cluster \<Rightarrow> bool" for regs where
  idle: "process_run regs c c"
| dispatch: "process_run regs c c1 \<Longrightarrow> reg \<in> set regs \<Longrightarrow> run_state (reg_Reconcile reg req) c1 = (r, c2) \<Longrightarrow>
     process_run regs c c2"
| environment: "process_run regs c c1 \<Longrightarrow> foreign_change c1 c2 \<Longrightarrow> process_run regs c c2"

definition orderly :: "cluster registration \<Rightarrow> bool" where
  "orderly reg \<longleftrightarrow> (\<forall>req. keeps store_ordered (reg_Reconcile reg req) (\<lambda>_. True))"

lemma process_run_ordered:
  assumes "process_run regs c c'" and "\<forall>reg\<in>set regs. orderly reg" and "store_ordered c"
  shows "store_ordered c'"
  using assms(1,3)
proof (induction rule: process_run.induct)
  case (dispatch c c1 reg req r c2)
  then show ?case using assms(2) by (auto simp: orderly_def dest: keepsD)
qed (auto intro: foreign_ordered)

lemma orderly_registrations:
  "orderly (ManagedApp_SetupWithManager mem_client L H)"
  "orderly (UpdatesConfigMap_SetupWithManager mem_client L unmarshal ns cm)"
  "on_cluster R \<Longrightarrow> orderly (UpgradeRequest_SetupWithManager R)"
  "on_cluster R \<Longrightarrow> orderly (RollbackRequest_SetupWithManager R)"
  by (simp_all add: orderly_def setup_defs api_inv.keeps_ManagedApp_Reconcile [OF store_api_inv]
      api_inv.keeps_UpdatesConfigMap_Reconcile [OF store_api_inv] upgrade_store.ph_Reconcile [OF on_cluster_upgrade_store]
      rollback_store.ro_Reconcile [OF on_cluster_rollback_store])

lemma fresh_ordered:
  "list_all (\<lambda>u. ur_Conditions u = []) (cl_Upgrades c) \<Longrightarrow> list_all (\<lambda>u. rr_Conditions u = []) (cl_Rollbacks c) \<Longrightarrow> store_ordered c"
  by (auto simp: store_ordered_def list_all_iff memcond.phases_ok_empty memcond.rollback_ok_empty)

lemma configured_orderly:
  assumes "controller_registry R controllers" and "run_state (configure R L newGit f env) w = (Inr m, w')"
    and "crt_GetClient R m = mem_client" and "lib_Kube L = mem_lib"
    and "\<And>cfg w g w'. run_state (newGit cfg) w = (Inr g, w') \<Longrightarrow> git_inv g store_ordered lawful"
  shows "\<forall>reg\<in>set (controllers m). orderly reg"
proof -
  have "orderly (UpgradeRequest_SetupWithManager (request_reconciler R L m g))"
    and "orderly (RollbackRequest_SetupWithManager (request_reconciler R L m g))"
    if "run_state (newGit cfg) w1 = (Inr g, w2)" for cfg w1 g w2
    using assms(5) [OF that] assms(3,4)
    by (auto simp: on_cluster_def request_reconciler_def intro!: orderly_registrations(3,4))
  then show ?thesis
    using controller_registry.configured_controllers [OF assms(1,2)] assms(3)
    by (auto simp: orderly_registrations(1,2) split: option.splits)
qed

end
