(* ===== verification/Persistence.thy ===== *)
theory Persistence
  imports Traces MemCluster
begin

text \<open>
  When a reconcile ends for good. controller-runtime calls a reconciler again when it returns an error or a
  result that asks for it; any other result is the last word on the request. \<open>ends\<close> is what holds whenever a
  program ends, whatever held before; \<open>settled G\<close> says that the world is in \<open>G\<close> when a result is the last word,
  and the rules below prove it along the code.
\<close>

section \<open>The end of a reconcile\<close>

definition asks_again :: "Result \<Rightarrow> bool" where
  "asks_again r \<longleftrightarrow> res_Requeue r \<or> 0 < res_RequeueAfter r"

definition called_again :: "goerror + Result \<Rightarrow> bool" where
  "called_again r \<longleftrightarrow> (case r of Inl _ \<Rightarrow> True | Inr res \<Rightarrow> asks_again res)"

definition settled :: "('w \<Rightarrow> bool) \<Rightarrow> goerror + Result \<Rightarrow> 'w \<Rightarrow> bool" where
  "settled G r w \<longleftrightarrow> called_again r \<or> G w"

text \<open>The same for a part of a handler that may return from it, or else gives a value in \<open>A\<close>.\<close>

definition stopped :: "('w \<Rightarrow> bool) \<Rightarrow> ('a \<Rightarrow> bool) \<Rightarrow> (goerror + Result) + 'a \<Rightarrow> 'w \<Rightarrow> bool" where
  "stopped G A r w \<longleftrightarrow> (case r of Inl x \<Rightarrow> settled G x w | Inr v \<Rightarrow> A v)"

abbreviation ends :: "('a \<Rightarrow> 'w \<Rightarrow> bool) \<Rightarrow> ('w, 'a) state \<Rightarrow> bool" where
  "ends Q m \<equiv> triple (\<lambda>_. True) m Q"

lemma asks_again_simps [simp]:
  "asks_again ResultRequeue" "0 < n \<Longrightarrow> asks_again (ResultRequeueAfter n)"
  by (simp_all add: asks_again_def ResultRequeue_def ResultRequeueAfter_def)

lemma settled_simps [simp]: "settled G (Inl e) w" "asks_again res \<Longrightarrow> settled G (Inr res) w"
  by (simp_all add: settled_def called_again_def)

lemma stopped_simps [simp]: "stopped G A (Inl x) w = settled G x w" "stopped G A (Inr v) w = A v"
  by (simp_all add: stopped_def)

section \<open>Rules\<close>

named_theorems ends_rule \<open>rules for the end of a program\<close>

lemma triple_any: "triple P m (\<lambda>_ _. True)"
  by (auto intro: tripleI)

lemma keeps_nothing: "keeps (\<lambda>_. True) m (\<lambda>_. True)"
  by (simp add: keeps_def triple_any)

lemma ends_bind [ends_rule]: "(\<And>a. ends Q (f a)) \<Longrightarrow> ends Q (State_Monad.bind m f)"
  by (rule triple_bind [OF triple_any])

lemma ends_bind_res:
  "keeps (\<lambda>_. True) m A \<Longrightarrow> (\<And>a. A a \<Longrightarrow> ends Q (f a)) \<Longrightarrow> ends Q (State_Monad.bind m f)"
  by (rule triple_bind [where A = "\<lambda>a _. A a"]) (auto simp: keeps_def triple_def)

lemma ends_on_err [ends_rule]: "(\<And>e. ends Q (h e)) \<Longrightarrow> (\<And>v. ends Q (k v)) \<Longrightarrow> ends Q (on_err m h k)"
  by (rule triple_on_err [OF triple_any])

lemma ends_ret [ends_rule]: "(\<And>w. Q a w) \<Longrightarrow> ends Q (ret a)"
  by (rule triple_ret)

lemma ends_if [ends_rule]: "(b \<Longrightarrow> ends Q m) \<Longrightarrow> (\<not> b \<Longrightarrow> ends Q n) \<Longrightarrow> ends Q (if b then m else n)"
  by simp

lemma ends_let [ends_rule]: "(\<And>x. x = e \<Longrightarrow> ends Q (f x)) \<Longrightarrow> ends Q (let x = e in f x)"
  by simp

lemma ends_cases [ends_rule]:
  "(x = None \<Longrightarrow> ends Q m) \<Longrightarrow> (\<And>v. x = Some v \<Longrightarrow> ends Q (f v)) \<Longrightarrow> ends Q (case x of None \<Rightarrow> m | Some v \<Rightarrow> f v)"
  "(\<And>e. y = Inl e \<Longrightarrow> ends Q (g e)) \<Longrightarrow> (\<And>v. y = Inr v \<Longrightarrow> ends Q (h v)) \<Longrightarrow>
     ends Q (case y of Inl e \<Rightarrow> g e | Inr v \<Rightarrow> h v)"
  "(\<And>a b. z = (a, b) \<Longrightarrow> ends Q (p a b)) \<Longrightarrow> ends Q (case z of (a, b) \<Rightarrow> p a b)"
  by (auto split: option.split sum.split prod.split)

lemma ends_stop_with [ends_rule]: "ends (settled G) m \<Longrightarrow> ends (stopped G A) (stop_with m)"
  unfolding stop_with_def by (erule triple_bind) (simp add: triple_ret)

text \<open>The rest of a handler after a part that may return from it.\<close>

lemma ends_continue:
  "ends (stopped G A) m \<Longrightarrow> (\<And>v. A v \<Longrightarrow> ends (settled G) (k v)) \<Longrightarrow> ends (settled G) (on_err m (\<lambda>r. ret r) k)"
  by (erule triple_on_err) (auto simp: triple_def)

text \<open>A call whose results are known to be in \<open>A\<close>, and the write after which nothing but a last step follows.\<close>

lemma ends_known:
  "ends (\<lambda>r _. A r) m \<Longrightarrow> (\<And>e. ends Q (h e)) \<Longrightarrow> (\<And>v. A (Inr v) \<Longrightarrow> ends Q (k v)) \<Longrightarrow> ends Q (on_err m h k)"
  by (erule triple_on_err) (auto simp: triple_def)

lemma ends_write:
  assumes "ends (\<lambda>r w. \<forall>v. r = Inr v \<longrightarrow> A v \<and> G w) m" and "\<And>v. A v \<Longrightarrow> keeps G (k v) (\<lambda>_. True)"
  shows "ends (settled G) (checked m k)"
  using assms(1)
proof (rule triple_on_err)
  show "triple (\<lambda>w. \<forall>v'. Inr v = Inr v' \<longrightarrow> A v' \<and> G w) (k v) (settled G)" for v
    using assms(2) [of v] by (auto simp: keeps_def triple_def settled_def split: prod.splits)
qed (simp add: triple_ret)

section \<open>Updates of the in-memory cluster\<close>

lemma run_mem_modify:
  assumes "run_state (mem_modify key sel upd k f) c = (r, c')" and "\<And>x. key x = k \<Longrightarrow> key (f x) = k"
    and "\<And>g c. sel (upd g c) = g (sel c)"
  shows "(lookup_obj key (sel c) k = None \<and> r = Inl not_found \<and> c' = c) \<or>
    (\<exists>old. lookup_obj key (sel c) k = Some old \<and> r = Inr (f old) \<and> key old = k \<and>
      lookup_obj key (sel c') = (lookup_obj key (sel c))(k \<mapsto> f old))"
proof (cases "lookup_obj key (sel c) k")
  case (Some old)
  then have "key old = k" by (rule lookup_key)
  with assms(2) have k: "key (f old) = k" by blast
  show ?thesis
    using assms(1) Some lookup_replace [of key "sel c" "f old" old] k \<open>key old = k\<close>
    by (auto simp: mem_modify_def assms(3))
qed (use assms(1) in \<open>auto simp: mem_modify_def\<close>)

end
