(* ===== verification/UpgradePersistence.thy ===== *)
theory UpgradePersistence
  imports Persistence UpgradeCalls MemCluster
begin

text \<open>
  Every way a reconcile of an upgrade request can end for good writes a finished status of this request first;
  every other way asks to be called again. The locale \<open>upgrade_watch\<close> is what this rests on: the conditions
  work, and the API server answers a status update with the request that was sent.
\<close>

lemma same_key [simp]:
  "ur_meta (set_condition L t s r m u) = ur_meta u" "ur_meta (resetPhaseStart u) = ur_meta u"
  "ur_meta (set_scaling ws u) = ur_meta u" "ur_meta (set_scaled_down_at now u) = ur_meta u"
  "ur_meta (set_snapshot sn u) = ur_meta u"
  by (simp_all add: set_condition_def resetPhaseStart_def set_scaling_def set_scaled_down_at_def set_snapshot_def)

locale upgrade_watch = conditions_api "rc_Lib R"
  for R :: "('w, 'n) reconciler" and key :: NamespacedName and G :: "'w \<Rightarrow> bool" +
  assumes status_write: "meta_key (ur_meta u) = key \<Longrightarrow> ends (\<lambda>r w. \<forall>u'. r = Inr u' \<longrightarrow>
      meta_key (ur_meta u') = key \<and> (terminal R u \<longrightarrow> G w)) (StatusUpdateUpgradeRequest (rc_Client R) u)"
    and update_keeps: "meta_key (ur_meta u) = key \<Longrightarrow> keeps G (UpdateUpgradeRequest (rc_Client R) u) (\<lambda>_. True)"
begin

abbreviation persists :: "('w, Result) call \<Rightarrow> bool" where
  "persists m \<equiv> ends (settled G) m"

abbreviation keyed :: "UpgradeRequest \<Rightarrow> bool" where
  "keyed u \<equiv> meta_key (ur_meta u) = key"

section \<open>Steps\<close>

lemma terminal_complete:
  "st \<in> {ConditionTrue, ConditionFalse} \<Longrightarrow> terminal R (set_condition (rc_Lib R) ConditionTypeComplete st r m u)"
  by (auto simp: terminal_def set_condition_conditions find_set is_true_set)

lemma terminal_other:
  "t \<noteq> ConditionTypeComplete \<Longrightarrow> terminal R (set_condition (rc_Lib R) t st r m u) = terminal R u"
  by (simp add: terminal_def set_condition_conditions find_set is_true_set)

lemma ends_phase_start:
  assumes "keyed u" and "\<And>u'. keyed u' \<Longrightarrow> ends Q (f u')"
  shows "ends Q (State_Monad.bind (setPhaseStartIfNeeded R u) f)"
proof (rule ends_bind_res [where A = keyed])
  show "keeps (\<lambda>_. True) (setPhaseStartIfNeeded R u) keyed"
    unfolding setPhaseStartIfNeeded_def
    by (intro keeps_if keeps_bind [OF keeps_nothing] keeps_ret) (simp_all add: assms(1))
qed (rule assms(2))

lemma ends_status:
  assumes "keyed u" and "\<And>e. ends Q (h e)" and "\<And>u'. keyed u' \<Longrightarrow> ends Q (k u')"
  shows "ends Q (on_err (StatusUpdateUpgradeRequest (rc_Client R) u) h k)"
  by (rule ends_known [where A = "\<lambda>r. \<forall>u'. r = Inr u' \<longrightarrow> keyed u'"])
    (rule triple_conseq [OF status_write [OF assms(1)]], auto intro: assms)

section \<open>Endings\<close>

lemma persists_save: "asks_again res \<Longrightarrow> persists (save_status R u res)"
  unfolding save_status_def by (intro ends_rule) auto

lemma remove_finalizer_keeps: "keyed u \<Longrightarrow> keeps G (remove_finalizer R u) (\<lambda>_. True)"
  unfolding remove_finalizer_def by (intro keeps_rule TrueI update_keeps) (simp add: meta_key_def)

lemma persists_finish:
  assumes "terminal R u" and "keyed u"
  shows "persists (checked (StatusUpdateUpgradeRequest (rc_Client R) u) (\<lambda>u'. remove_finalizer R u'))"
  by (rule ends_write [where A = keyed, OF _ remove_finalizer_keeps])
    (rule triple_conseq [OF status_write [OF assms(2)]], auto simp: assms(1))

lemma resume_keeps_terminal:
  assumes "terminal R u" and "keyed u"
  shows "keeps (\<lambda>_. True) (resume_after_failure R u) (\<lambda>u'. terminal R u' \<and> keyed u')"
  unfolding resume_after_failure_def using assms
  by (intro keeps_if keeps_bind [OF keeps_nothing] keeps_case_sum keeps_ret) (auto simp: terminal_other split: sum.split)

lemma persists_setFailed:
  assumes "keyed u"
  shows "persists (setFailed R u reason msg)"
  unfolding setFailed_def
  by (rule ends_bind_res [where A = "\<lambda>u'. terminal R u' \<and> keyed u'", OF _ persists_finish])
    (intro keeps_if keeps_bind [OF keeps_nothing] keeps_ret resume_keeps_terminal, simp_all add: assms terminal_complete)

lemma persists_setDryRunFailed: "keyed u \<Longrightarrow> persists (setDryRunFailed R u app msg)"
  unfolding setDryRunFailed_def by (intro ends_rule persists_setFailed)

lemma persists_retry_or_fail: "keyed u \<Longrightarrow> 0 < n \<Longrightarrow> persists (retry_or_fail R u app t msg n)"
  unfolding retry_or_fail_def
  by (intro ends_rule persists_setDryRunFailed persists_save) (auto simp: Second_def)

lemmas persists_rule = persists_save persists_setFailed persists_setDryRunFailed persists_retry_or_fail persists_finish
  ends_phase_start ends_status ends_rule

section \<open>Handlers\<close>

lemma persists_preflight_checks:
  "keyed u \<Longrightarrow> (\<And>app vs pf. persists (k app vs pf)) \<Longrightarrow> persists (preflight_checks R u k)"
  unfolding preflight_checks_def by (intro persists_rule)

lemma persists_handleDryRun:
  assumes "keyed u"
  shows "persists (handleDryRun R u)"
proof -
  have 1: "persists (dryRunSuspend R u app n ns)" for app n ns
    unfolding dryRunSuspend_def by (intro persists_rule) (simp_all add: assms)
  have 2: "persists (dryRunScaleDown R u app ws)" for app ws
    unfolding dryRunScaleDown_def by (intro persists_rule) (simp_all add: assms)
  have 3: "persists (dryRunScaleUp R u app ws n ns)" for app ws n ns
    unfolding dryRunScaleUp_def by (intro persists_rule) (simp_all add: assms)
  have 4: "persists (dryRunResumeAndComplete R u app pf n ns vs)" for app pf n ns vs
    unfolding dryRunResumeAndComplete_def by (intro persists_rule) (simp_all add: assms terminal_complete)
  show ?thesis
    unfolding handleDryRun_def runDryRunQuiescence_def by (intro persists_preflight_checks assms ends_let ends_if 1 2 3 4)
qed

lemma persists_handleSuspend: "keyed u \<Longrightarrow> persists (handleSuspend R u)"
  unfolding handleSuspend_def by (intro persists_preflight_checks persists_rule) simp_all

lemma stopped_handleScaleDown: "keyed u \<Longrightarrow> ends (stopped G keyed) (handleScaleDown R u)"
  unfolding handleScaleDown_def skip_scale_down_def by (intro persists_rule) (simp_all add: Second_def)

lemma persists_check_snapshots: "keyed u \<Longrightarrow> persists (check_snapshots R u app)"
  unfolding check_snapshots_def by (intro persists_rule) (simp_all add: Second_def)

lemma persists_handleSnapshotting: "keyed u \<Longrightarrow> persists (handleSnapshotting R u)"
  unfolding handleSnapshotting_def by (intro persists_rule persists_check_snapshots) simp_all

lemma persists_handleCommitting: "keyed u \<Longrightarrow> persists (handleCommitting R u)"
  unfolding handleCommitting_def by (intro persists_rule) simp_all

lemma persists_handleReconciling: "keyed u \<Longrightarrow> persists (handleReconciling R u)"
  unfolding handleReconciling_def by (intro persists_rule) (simp_all add: Second_def)

lemma persists_handleHealthChecking: "keyed u \<Longrightarrow> persists (handleHealthChecking R u)"
  unfolding handleHealthChecking_def by (intro persists_rule) (simp_all add: Second_def)

lemma persists_handleCompleted: "keyed u \<Longrightarrow> persists (handleCompleted R u)"
  unfolding handleCompleted_def by (intro persists_rule) (simp_all add: completed_def terminal_complete)

lemma persists_later_phases: "keyed u \<Longrightarrow> persists (later_phases R u)"
  unfolding later_phases_def
  by (intro ends_if persists_handleSnapshotting persists_handleCommitting persists_handleReconciling
      persists_handleHealthChecking persists_handleCompleted)

lemma persists_phase_step: "keyed u \<Longrightarrow> persists (phase_step R u)"
  unfolding phase_step_def
  by (intro ends_if persists_handleDryRun persists_handleSuspend ends_continue [OF stopped_handleScaleDown] persists_later_phases)

text \<open>A whole reconcile of a request that is neither finished nor being deleted.\<close>

lemma persists_Reconcile:
  assumes "run_state (GetUpgradeRequest (rc_Client R) k) w = (Inr u, w0)" and "keyed u"
    and "om_DeletionTimestamp (ur_meta u) = None" and "\<not> terminal R u"
    and "run_state (Reconcile R k) w = (r, w')"
  shows "called_again r \<or> G w'"
proof -
  have "persists (if \<not> ContainsFinalizer (rc_Lib R) (om_Finalizers (ur_meta u)) OperationFinalizer
      then checked (UpdateUpgradeRequest (rc_Client R)
             (u\<lparr>ur_meta := (ur_meta u)\<lparr>om_Finalizers :=
                 AddFinalizer (rc_Lib R) (om_Finalizers (ur_meta u)) OperationFinalizer\<rparr>\<rparr>))
           (\<lambda>_. ret (Inr ResultRequeue))
      else phase_step R u)" (is "persists ?m")
    by (intro persists_phase_step assms(2) ends_rule) simp_all
  moreover have "run_state ?m w0 = (r, w')"
    using assms(1,3-5) by (simp add: Reconcile_def run_on_err cong: if_cong)
  ultimately show ?thesis by (auto dest: tripleD simp: settled_def)
qed

end

text \<open>The in-memory cluster: a finished status stays in the store.\<close>

definition upgrade_finished :: "NamespacedName \<Rightarrow> cluster \<Rightarrow> bool" where
  "upgrade_finished key c \<longleftrightarrow> (case lookup_obj ur_key (cl_Upgrades c) key of None \<Rightarrow> True | Some u \<Rightarrow> terminal mem_rec u)"

lemma cluster_upgrade_watch:
  assumes "rc_Client R = mem_client" and "rc_Lib R = mem_lib"
  shows "upgrade_watch R key (upgrade_finished key)"
proof (intro upgrade_watch.intro upgrade_watch_axioms.intro)
  show "conditions_api (rc_Lib R)" by (simp add: assms memcond.conditions_api_axioms)
  have same: "terminal R u = terminal mem_rec u" for u by (simp add: terminal_def assms(2) mem_rec_def)
  show "ends (\<lambda>r w. \<forall>u'. r = Inr u' \<longrightarrow> meta_key (ur_meta u') = key \<and> (terminal R u \<longrightarrow> upgrade_finished key w))
      (StatusUpdateUpgradeRequest (rc_Client R) u)" if "meta_key (ur_meta u) = key" for u
  proof (rule tripleI)
    fix w r w' assume "run_state (StatusUpdateUpgradeRequest (rc_Client R) u) w = (r, w')"
    then show "\<forall>u'. r = Inr u' \<longrightarrow> meta_key (ur_meta u') = key \<and> (terminal R u \<longrightarrow> upgrade_finished key w')"
      using that unfolding same
      by (auto simp: assms(1) mem_client_def upgrade_finished_def terminal_def dest!: run_mem_modify split: option.splits)
  qed
  show "keeps (upgrade_finished key) (UpdateUpgradeRequest (rc_Client R) u) (\<lambda>_. True)" if "meta_key (ur_meta u) = key" for u
  proof (rule keepsI)
    fix w r w' assume "upgrade_finished key w" and "run_state (UpdateUpgradeRequest (rc_Client R) u) w = (r, w')"
    then show "upgrade_finished key w' \<and> True"
      using that
      by (auto simp: assms(1) mem_client_def upgrade_finished_def terminal_def dest!: run_mem_modify split: option.splits)
  qed
qed

interpretation memupwatch: upgrade_watch mem_rec key "upgrade_finished key" for key
  by (rule cluster_upgrade_watch) (simp_all add: mem_rec_def)

end
