(* ===== verification/RollbackPersistence.thy ===== *)
theory RollbackPersistence
  imports Persistence RollbackCalls MemCluster
begin

text \<open>
  The endings of a reconcile of a rollback request, as in \<open>UpgradePersistence\<close>, over the locale \<open>rollback_watch\<close>.
\<close>

lemma same_rollback_key [simp]:
  "rr_meta (set_condition L t s r m u) = rr_meta u" "rr_meta (resetPhaseStart u) = rr_meta u"
  "rr_meta (set_scaling ws u) = rr_meta u" "rr_meta (set_scaled_down_at now u) = rr_meta u"
  "rr_meta (set_volume_restore vr u) = rr_meta u" "rr_meta (set_restored_from up us u) = rr_meta u"
  by (simp_all add: set_condition_def resetPhaseStart_def set_phase_start_def set_scaling_def set_scaled_down_at_def
      set_volume_restore_def set_restored_from_def)

locale rollback_watch = conditions_api "rc_Lib R"
  for R :: "('w, 'n) reconciler" and key :: NamespacedName and G :: "'w \<Rightarrow> bool" +
  assumes status_write: "meta_key (rr_meta u) = key \<Longrightarrow> ends (\<lambda>r w. \<forall>u'. r = Inr u' \<longrightarrow>
      meta_key (rr_meta u') = key \<and> (terminal R u \<longrightarrow> G w)) (StatusUpdateRollbackRequest (rc_Client R) u)"
    and update_keeps: "meta_key (rr_meta u) = key \<Longrightarrow> keeps G (UpdateRollbackRequest (rc_Client R) u) (\<lambda>_. True)"
begin

abbreviation persists :: "('w, Result) call \<Rightarrow> bool" where
  "persists m \<equiv> ends (settled G) m"

abbreviation keyed :: "RollbackRequest \<Rightarrow> bool" where
  "keyed u \<equiv> meta_key (rr_meta u) = key"

section \<open>Steps and endings\<close>

lemma terminal_complete:
  "st \<in> {ConditionTrue, ConditionFalse} \<Longrightarrow> terminal R (set_condition (rc_Lib R) ConditionTypeComplete st r m u)"
  by (auto simp: terminal_def set_condition_rr_conditions find_set is_true_set)

lemma keyed_after:
  assumes "keyed u"
  shows "keeps (\<lambda>_. True) (setPhaseStartIfNeeded R u) keyed" "keeps (\<lambda>_. True) (set_started_if_needed R u) keyed"
    "keeps (\<lambda>_. True) (init_volume_restore R u) keyed"
  unfolding setPhaseStartIfNeeded_def set_started_if_needed_def init_volume_restore_def
  by (intro keeps_if keeps_case_option keeps_bind [OF keeps_nothing] keeps_ret; simp add: assms)+

lemmas ends_keyed = ends_bind_res [OF keyed_after(1)] ends_bind_res [OF keyed_after(2)] ends_bind_res [OF keyed_after(3)]

lemma ends_status:
  assumes "keyed u" and "\<And>e. ends Q (h e)" and "\<And>u'. keyed u' \<Longrightarrow> ends Q (k u')"
  shows "ends Q (on_err (StatusUpdateRollbackRequest (rc_Client R) u) h k)"
  by (rule ends_known [where A = "\<lambda>r. \<forall>u'. r = Inr u' \<longrightarrow> keyed u'"])
    (rule triple_conseq [OF status_write [OF assms(1)]], auto intro: assms)

lemma persists_save: "asks_again res \<Longrightarrow> persists (save_status R u res)"
  unfolding save_status_def by (intro ends_rule) auto

lemma remove_finalizer_keeps: "keyed u \<Longrightarrow> keeps G (remove_finalizer R u) (\<lambda>_. True)"
  unfolding remove_finalizer_def by (intro keeps_rule TrueI update_keeps) (simp add: meta_key_def)

lemma persists_finish:
  assumes "terminal R u" and "keyed u"
  shows "persists (checked (StatusUpdateRollbackRequest (rc_Client R) u) (\<lambda>u'. remove_finalizer R u'))"
  by (rule ends_write [where A = keyed, OF _ remove_finalizer_keeps])
    (rule triple_conseq [OF status_write [OF assms(2)]], auto simp: assms(1))

lemma persists_setFailed: "keyed u \<Longrightarrow> persists (setFailed R u reason msg)"
  unfolding setFailed_def by (rule persists_finish) (simp_all add: terminal_complete)

lemma persists_setDryRunFailed: "keyed u \<Longrightarrow> persists (setRollbackDryRunFailed R u app msg)"
  unfolding setRollbackDryRunFailed_def by (intro ends_rule persists_setFailed)

lemma persists_retry_or_fail: "keyed u \<Longrightarrow> 0 < n \<Longrightarrow> persists (retry_or_fail R u app t msg n)"
  unfolding retry_or_fail_def
  by (intro ends_rule persists_setDryRunFailed persists_save) (auto simp: Second_def)

lemmas persists_rule = persists_save persists_setFailed persists_setDryRunFailed persists_retry_or_fail persists_finish
  ends_keyed ends_status ends_rule

section \<open>Handlers\<close>

lemma persists_handleDryRun:
  assumes "keyed u"
  shows "persists (handleDryRun R u)"
proof -
  have 1: "persists (rollbackDryRunSuspend R u app n ns)" for app n ns
    unfolding rollbackDryRunSuspend_def by (intro persists_rule) (simp_all add: assms)
  have 2: "persists (rollbackDryRunScaleDown R u app ws)" for app ws
    unfolding rollbackDryRunScaleDown_def by (intro persists_rule) (simp_all add: assms)
  have 3: "persists (rollbackDryRunScaleUp R u app ws n ns)" for app ws n ns
    unfolding rollbackDryRunScaleUp_def by (intro persists_rule) (simp_all add: assms)
  have 4: "persists (rollbackDryRunResumeAndComplete R u app pf n ns vs)" for app pf n ns vs
    unfolding rollbackDryRunResumeAndComplete_def
    by (intro persists_rule) (simp_all add: assms terminal_complete)
  show ?thesis
    unfolding handleDryRun_def runRollbackDryRunQuiescence_def by (intro persists_rule assms 1 2 3 4)
qed

lemma persists_handleSuspend: "keyed u \<Longrightarrow> persists (handleSuspend R u)"
  unfolding handleSuspend_def by (intro persists_rule) simp_all

lemma stopped_handleStopWorkload:
  "keyed u \<Longrightarrow> ends (stopped G keyed) (handleStopWorkload R u)"
  unfolding handleStopWorkload_def skip_stop_def by (intro persists_rule) (simp_all add: Second_def)

lemma stopped_restore_claims:
  "keyed u \<Longrightarrow> ends (stopped G keyed) (restore_claims R app snaps u)"
proof (induction snaps arbitrary: u)
  case (Cons snap snaps)
  show ?case
    unfolding restore_claims.simps by (intro persists_rule Cons.IH) (simp_all add: Second_def Cons.prems)
qed (simp add: ends_rule)

lemma stopped_await_bound:
  "keyed u \<Longrightarrow> ends (stopped G (\<lambda>_. True)) (await_bound R app vr u bound rs)"
proof (induction rs arbitrary: bound)
  case (Cons r rs)
  show ?case
    unfolding await_bound.simps by (intro persists_rule Cons.IH) (simp_all add: Second_def Cons.prems)
qed (simp add: ends_rule)

lemma persists_handleVolumeRestore: "keyed u \<Longrightarrow> persists (handleVolumeRestore R u)"
  unfolding handleVolumeRestore_def restore_volumes_def
  by (intro ends_continue [OF stopped_restore_claims] ends_continue [OF stopped_await_bound]
      persists_rule) simp_all

lemma persists_handleGitRevert: "keyed u \<Longrightarrow> persists (handleGitRevert R u)"
  unfolding handleGitRevert_def commit_revert_def by (intro persists_rule) simp_all

lemma persists_handleReconciling: "keyed u \<Longrightarrow> persists (handleReconciling R u)"
  unfolding handleReconciling_def by (intro persists_rule) (simp_all add: Second_def)

lemma persists_handleHealthChecking: "keyed u \<Longrightarrow> persists (handleHealthChecking R u)"
  unfolding handleHealthChecking_def by (intro persists_rule) (simp_all add: Second_def)

lemma persists_handleCompleted: "keyed u \<Longrightarrow> persists (handleCompleted R u)"
  unfolding handleCompleted_def by (intro ends_bind persists_finish) (simp_all add: completed_def terminal_complete)

lemma persists_phase_step: "keyed u \<Longrightarrow> persists (phase_step R u)"
  unfolding phase_step_def later_phases_def
  by (intro ends_if persists_handleDryRun persists_handleSuspend ends_continue [OF stopped_handleStopWorkload]
      persists_handleVolumeRestore persists_handleGitRevert persists_handleReconciling
      persists_handleHealthChecking persists_handleCompleted)

lemma persists_Reconcile:
  assumes "run_state (GetRollbackRequest (rc_Client R) k) w = (Inr u, w0)" and "keyed u"
    and "om_DeletionTimestamp (rr_meta u) = None" and "\<not> terminal R u"
    and "run_state (Reconcile R k) w = (r, w')"
  shows "called_again r \<or> G w'"
proof -
  have "persists (if \<not> ContainsFinalizer (rc_Lib R) (om_Finalizers (rr_meta u)) OperationFinalizer
      then checked (UpdateRollbackRequest (rc_Client R)
             (u\<lparr>rr_meta := (rr_meta u)\<lparr>om_Finalizers :=
                 AddFinalizer (rc_Lib R) (om_Finalizers (rr_meta u)) OperationFinalizer\<rparr>\<rparr>))
           (\<lambda>_. ret (Inr ResultRequeue))
      else phase_step R u)" (is "persists ?m")
    by (intro persists_phase_step assms(2) ends_rule) simp_all
  moreover have "run_state ?m w0 = (r, w')"
    using assms(1,3-5) by (simp add: Reconcile_def run_on_err cong: if_cong)
  ultimately show ?thesis by (auto dest: tripleD simp: settled_def)
qed

end

text \<open>The in-memory cluster: a finished status stays in the store.\<close>

definition rollback_finished :: "NamespacedName \<Rightarrow> cluster \<Rightarrow> bool" where
  "rollback_finished key c \<longleftrightarrow> (case lookup_obj rr_key (cl_Rollbacks c) key of None \<Rightarrow> True | Some u \<Rightarrow> terminal mem_rec u)"

lemma cluster_rollback_watch:
  assumes "rc_Client R = mem_client" and "rc_Lib R = mem_lib"
  shows "rollback_watch R key (rollback_finished key)"
proof (intro rollback_watch.intro rollback_watch_axioms.intro)
  show "conditions_api (rc_Lib R)" by (simp add: assms memcond.conditions_api_axioms)
  have same: "terminal R u = terminal mem_rec u" for u by (simp add: terminal_def assms(2) mem_rec_def)
  show "ends (\<lambda>r w. \<forall>u'. r = Inr u' \<longrightarrow> meta_key (rr_meta u') = key \<and> (terminal R u \<longrightarrow> rollback_finished key w))
      (StatusUpdateRollbackRequest (rc_Client R) u)" if "meta_key (rr_meta u) = key" for u
  proof (rule tripleI)
    fix w r w' assume "run_state (StatusUpdateRollbackRequest (rc_Client R) u) w = (r, w')"
    then show "\<forall>u'. r = Inr u' \<longrightarrow> meta_key (rr_meta u') = key \<and> (terminal R u \<longrightarrow> rollback_finished key w')"
      using that unfolding same
      by (auto simp: assms(1) mem_client_def rollback_finished_def terminal_def dest!: run_mem_modify split: option.splits)
  qed
  show "keeps (rollback_finished key) (UpdateRollbackRequest (rc_Client R) u) (\<lambda>_. True)" if "meta_key (rr_meta u) = key" for u
  proof (rule keepsI)
    fix w r w' assume "rollback_finished key w" and "run_state (UpdateRollbackRequest (rc_Client R) u) w = (r, w')"
    then show "rollback_finished key w' \<and> True"
      using that
      by (auto simp: assms(1) mem_client_def rollback_finished_def terminal_def dest!: run_mem_modify split: option.splits)
  qed
qed

interpretation memrowatch: rollback_watch mem_rec key "rollback_finished key" for key
  by (rule cluster_rollback_watch) (simp_all add: mem_rec_def)

end
