(* ===== verification/Queue.thy ===== *)
theory Queue
  imports Process UpgradePersistence RollbackPersistence
begin

text \<open>
  The work queue between the cluster and the controllers. An entry is the name of a controller and the key
  of a request; entries that wait for a delay or a back-off to pass count as queued. A controller takes an entry and runs
  its reconcile; the entry stays if the reconcile is to be called again, and every object that is new
  or was changed, by whomever, is announced to the controllers as \<open>event_delivery\<close> says.
\<close>

section \<open>Events\<close>

definition changed :: "('a \<Rightarrow> ObjectMeta) \<Rightarrow> 'a list \<Rightarrow> 'a list \<Rightarrow> ObjectMeta list" where
  "changed meta xs ys =
     map meta (filter (\<lambda>y. lookup_obj (\<lambda>x. meta_key (meta x)) xs (meta_key (meta y)) \<noteq> Some y) ys)"

definition changed_objects :: "cluster \<Rightarrow> cluster \<Rightarrow> (string \<times> ObjectMeta) list" where
  "changed_objects c c' =
     map (Pair ''UpgradeRequest'') (changed ur_meta (cl_Upgrades c) (cl_Upgrades c')) @
     map (Pair ''RollbackRequest'') (changed rr_meta (cl_Rollbacks c) (cl_Rollbacks c')) @
     map (Pair ''ManagedApp'') (changed ma_meta (cl_Apps c) (cl_Apps c')) @
     map (Pair ''ConfigMap'') (changed cm_meta (cl_ConfigMaps c) (cl_ConfigMaps c')) @
     map (Pair ''Deployment'') (changed dep_meta (cl_Deployments c) (cl_Deployments c')) @
     map (Pair ''StatefulSet'') (changed sts_meta (cl_StatefulSets c) (cl_StatefulSets c'))"

definition notified ::
  "(cluster registration \<Rightarrow> string \<Rightarrow> ObjectMeta \<Rightarrow> NamespacedName list) \<Rightarrow> cluster registration list \<Rightarrow>
     cluster \<Rightarrow> cluster \<Rightarrow> (string \<times> NamespacedName) set" where
  "notified enqueued regs c c' =
     (\<Union>reg\<in>set regs. \<Union>(kind, obj)\<in>set (changed_objects c c'). Pair (reg_Name reg) ` set (enqueued reg kind obj))"

definition no_objects :: "cluster \<Rightarrow> cluster" where
  "no_objects c = c\<lparr>cl_Upgrades := [], cl_Rollbacks := [], cl_Apps := [], cl_ConfigMaps := [],
     cl_Deployments := [], cl_StatefulSets := []\<rparr>"

section \<open>The queue\<close>

inductive work_run ::
  "(cluster registration \<Rightarrow> string \<Rightarrow> ObjectMeta \<Rightarrow> NamespacedName list) \<Rightarrow> cluster registration list \<Rightarrow>
     cluster \<Rightarrow> (string \<times> NamespacedName) set \<Rightarrow> bool" for enqueued regs where
  listing: "work_run enqueued regs c (notified enqueued regs (no_objects c) c)"
| dispatch: "work_run enqueued regs c q \<Longrightarrow> reg \<in> set regs \<Longrightarrow> (reg_Name reg, k) \<in> q \<Longrightarrow>
     run_state (reg_Reconcile reg k) c = (r, c') \<Longrightarrow>
     work_run enqueued regs c'
       ((if called_again r then q else q - {(reg_Name reg, k)}) \<union> notified enqueued regs c c')"
| environment: "work_run enqueued regs c q \<Longrightarrow> work_run enqueued regs c' (q \<union> notified enqueued regs c c')"

text \<open>A stored request that is neither finished nor being deleted.\<close>

definition unfinished :: "string \<Rightarrow> NamespacedName \<Rightarrow> cluster \<Rightarrow> bool" where
  "unfinished kind k c \<longleftrightarrow>
     (if kind = ''UpgradeRequest'' then
        (case lookup_obj ur_key (cl_Upgrades c) k of
           None \<Rightarrow> False | Some u \<Rightarrow> om_DeletionTimestamp (ur_meta u) = None \<and> \<not> Upgrade.terminal mem_rec u)
      else if kind = ''RollbackRequest'' then
        (case lookup_obj rr_key (cl_Rollbacks c) k of
           None \<Rightarrow> False | Some u \<Rightarrow> om_DeletionTimestamp (rr_meta u) = None \<and> \<not> Rollback.terminal mem_rec u)
      else False)"

text \<open>A controller that sees the requests of its kind and gives none up before it is finished.\<close>

definition dutiful :: "cluster registration \<Rightarrow> bool" where
  "dutiful reg \<longleftrightarrow>
     (\<forall>k c r c'. unfinished (reg_For reg) k c \<and> run_state (reg_Reconcile reg k) c = (r, c') \<longrightarrow>
        called_again r \<or> \<not> unfinished (reg_For reg) k c') \<and>
     (\<forall>k c obj. unfinished (reg_For reg) k c \<longrightarrow> reg_Filter reg obj)"

lemma unfinished_changed:
  assumes "unfinished kind k c'" and "\<not> unfinished kind k c"
  shows "\<exists>obj. (kind, obj) \<in> set (changed_objects c c') \<and> meta_key obj = k"
proof -
  consider "kind = ''UpgradeRequest''" | "kind = ''RollbackRequest''"
    using assms(1) by (auto simp: unfinished_def split: if_splits)
  then show ?thesis
  proof cases
    case 1
    with assms(1) obtain u where u: "lookup_obj ur_key (cl_Upgrades c') k = Some u"
      by (auto simp: unfinished_def split: option.splits)
    with assms 1 have "lookup_obj ur_key (cl_Upgrades c) k \<noteq> Some u" by (auto simp: unfinished_def)
    moreover from u have "u \<in> set (cl_Upgrades c') \<and> ur_key u = k" by (auto simp: lookup_obj_def find_Some_iff)
    ultimately show ?thesis using 1 by (auto simp: changed_objects_def changed_def)
  next
    case 2
    with assms(1) obtain u where u: "lookup_obj rr_key (cl_Rollbacks c') k = Some u"
      by (auto simp: unfinished_def split: option.splits)
    with assms 2 have "lookup_obj rr_key (cl_Rollbacks c) k \<noteq> Some u" by (auto simp: unfinished_def)
    moreover from u have "u \<in> set (cl_Rollbacks c') \<and> rr_key u = k" by (auto simp: lookup_obj_def find_Some_iff)
    ultimately show ?thesis using 2 by (auto simp: changed_objects_def changed_def)
  qed
qed

lemma unfinished_notified:
  assumes "event_delivery enqueued" and "reg \<in> set regs" and "dutiful reg"
    and "unfinished (reg_For reg) k c'" and "\<not> unfinished (reg_For reg) k c"
  shows "(reg_Name reg, k) \<in> notified enqueued regs c c'"
proof -
  obtain obj where obj: "(reg_For reg, obj) \<in> set (changed_objects c c')" "meta_key obj = k"
    using unfinished_changed [OF assms(4,5)] by blast
  have "reg_Filter reg obj" using assms(3,4) by (auto simp: dutiful_def)
  then have "k \<in> set (enqueued reg (reg_For reg) obj)"
    using event_delivery.delivers [OF assms(1), of reg "reg_For reg" obj] obj(2) by simp
  with obj(1) assms(2) show ?thesis unfolding notified_def by blast
qed

lemma same_registration:
  "distinct (map reg_Name regs) \<Longrightarrow> reg \<in> set regs \<Longrightarrow> reg' \<in> set regs \<Longrightarrow> reg_Name reg = reg_Name reg' \<Longrightarrow> reg = reg'"
  by (auto simp: distinct_map dest: inj_onD)

lemma work_run_covers:
  assumes "work_run enqueued regs c q" and "event_delivery enqueued"
    and "\<forall>reg\<in>set regs. dutiful reg" and "distinct (map reg_Name regs)"
    and "reg \<in> set regs" and "unfinished (reg_For reg) k c"
  shows "(reg_Name reg, k) \<in> q"
  using assms(1,5,6)
proof (induction arbitrary: reg k)
  case (listing c)
  have "\<not> unfinished (reg_For reg) k (no_objects c)" by (simp add: unfinished_def no_objects_def lookup_obj_def)
  with listing show ?case using unfinished_notified [OF assms(2)] assms(3) by blast
next
  case (dispatch c q reg0 k0 r c')
  show ?case
  proof (cases "unfinished (reg_For reg) k c")
    case False
    with dispatch.prems show ?thesis using unfinished_notified [OF assms(2)] assms(3) by blast
  next
    case True
    then have q: "(reg_Name reg, k) \<in> q" using dispatch.IH dispatch.prems by blast
    show ?thesis
    proof (cases "(reg_Name reg, k) = (reg_Name reg0, k0)")
      case True
      then have "reg = reg0" and "k = k0"
        using same_registration [OF assms(4) dispatch.prems(1) dispatch.hyps(2)] by auto
      then have "called_again r"
        using \<open>unfinished (reg_For reg) k c\<close> dispatch.hyps(4) dispatch.prems assms(3) unfolding dutiful_def by blast
      with q show ?thesis by simp
    qed (use q in auto)
  qed
next
  case (environment c q c')
  then show ?case using unfinished_notified [OF assms(2)] assms(3) by blast
qed

section \<open>The controllers of the program\<close>

lemma upgrade_dutiful:
  assumes "rc_Client R = mem_client" and "rc_Lib R = mem_lib"
  shows "dutiful (UpgradeRequest_SetupWithManager R)"
proof -
  have "called_again r \<or> \<not> unfinished ''UpgradeRequest'' k c'"
    if "unfinished ''UpgradeRequest'' k c" and "run_state (Upgrade.Reconcile R k) c = (r, c')" for k c r c'
  proof -
    from that(1) obtain u where u: "lookup_obj ur_key (cl_Upgrades c) k = Some u"
      and live: "om_DeletionTimestamp (ur_meta u) = None" "\<not> Upgrade.terminal mem_rec u"
      by (auto simp: unfinished_def split: option.splits)
    have "run_state (GetUpgradeRequest (rc_Client R) k) c = (Inr u, c)"
      using u by (simp add: assms(1) mem_client_def mem_get_def)
    moreover have "\<not> Upgrade.terminal R u" using live(2) by (simp add: Upgrade.terminal_def assms(2) mem_rec_def)
    ultimately have "called_again r \<or> upgrade_finished k c'"
      using upgrade_watch.persists_Reconcile [OF cluster_upgrade_watch [OF assms]] lookup_key [OF u] live(1) that(2) by blast
    then show ?thesis by (auto simp: upgrade_finished_def unfinished_def split: option.splits)
  qed
  then show ?thesis by (auto simp: dutiful_def UpgradeRequest_SetupWithManager_def)
qed

lemma rollback_dutiful:
  assumes "rc_Client R = mem_client" and "rc_Lib R = mem_lib"
  shows "dutiful (RollbackRequest_SetupWithManager R)"
proof -
  have "called_again r \<or> \<not> unfinished ''RollbackRequest'' k c'"
    if "unfinished ''RollbackRequest'' k c" and "run_state (Rollback.Reconcile R k) c = (r, c')" for k c r c'
  proof -
    from that(1) obtain u where u: "lookup_obj rr_key (cl_Rollbacks c) k = Some u"
      and live: "om_DeletionTimestamp (rr_meta u) = None" "\<not> Rollback.terminal mem_rec u"
      by (auto simp: unfinished_def split: option.splits)
    have "run_state (GetRollbackRequest (rc_Client R) k) c = (Inr u, c)"
      using u by (simp add: assms(1) mem_client_def mem_get_def)
    moreover have "\<not> Rollback.terminal R u" using live(2) by (simp add: Rollback.terminal_def assms(2) mem_rec_def)
    ultimately have "called_again r \<or> rollback_finished k c'"
      using rollback_watch.persists_Reconcile [OF cluster_rollback_watch [OF assms]] lookup_key [OF u] live(1) that(2) by blast
    then show ?thesis by (auto simp: rollback_finished_def unfinished_def split: option.splits)
  qed
  then show ?thesis by (auto simp: dutiful_def RollbackRequest_SetupWithManager_def)
qed

lemma others_dutiful:
  "dutiful (ManagedApp_SetupWithManager C L H)" "dutiful (UpdatesConfigMap_SetupWithManager C L unmarshal ns cm)"
  by (simp_all add: dutiful_def unfinished_def ManagedApp_SetupWithManager_def UpdatesConfigMap_SetupWithManager_def)

lemma configured_dutiful:
  assumes "controller_registry R controllers" and "run_state (configure R L newGit f env) w = (Inr m, w')"
    and "crt_GetClient R m = mem_client" and "lib_Kube L = mem_lib"
  shows "(\<forall>reg\<in>set (controllers m). dutiful reg) \<and> distinct (map reg_Name (controllers m))"
proof -
  have "rc_Client (request_reconciler R L m g) = mem_client" "rc_Lib (request_reconciler R L m g) = mem_lib" for g
    by (simp_all add: request_reconciler_def assms(3,4))
  then have "dutiful (UpgradeRequest_SetupWithManager (request_reconciler R L m g))"
    "dutiful (RollbackRequest_SetupWithManager (request_reconciler R L m g))" for g
    by (simp_all add: upgrade_dutiful rollback_dutiful)
  moreover have names: "reg_Name (ManagedApp_SetupWithManager C K H) = ''managedapp''"
    "reg_Name (UpdatesConfigMap_SetupWithManager C K unm ns cm) = ''updates-configmap''"
    "reg_Name (UpgradeRequest_SetupWithManager Q) = ''upgraderequest''"
    "reg_Name (RollbackRequest_SetupWithManager Q) = ''rollbackrequest''" for C K H unm ns cm and Q :: "(cluster, 'b) reconciler"
    by (simp_all add: setup_defs)
  ultimately show ?thesis
    using controller_registry.configured_controllers [OF assms(1,2)]
    by (auto simp: others_dutiful names split: option.splits)
qed

end
