(* ===== verification/ProcessTheorems.thy ===== *)
theory ProcessTheorems
  imports Process SystemTheorems
begin

text \<open>
  The process from its start: which controllers \<open>main\<close> registers, and what is true while they run.
\<close>

section \<open>Start-up\<close>


text \<open>A process on the in-memory cluster, with the mock repository as its Git manager.\<close>

definition demo_libraries :: "ydoc libraries" where
  "demo_libraries = \<lparr>lib_Kube = mem_lib, lib_Yaml = mem_yaml, lib_Helm = mem_helm,
     lib_Unmarshal = (\<lambda>_. Inl (ErrorString ''invalid JSON''))\<rparr>"

definition demo_env :: "string \<rightharpoonup> string" where
  "demo_env = [''GIT_BACKEND'' \<mapsto> ''gitea'', ''GIT_REPO_URL'' \<mapsto> ''https://h/o/r'', ''GIT_TOKEN'' \<mapsto> ''t'']"

definition demo_manager :: "cluster registration list" where
  "demo_manager = [ManagedApp_SetupWithManager mem_client mem_lib mem_helm,
     UpdatesConfigMap_SetupWithManager mem_client mem_lib (lib_Unmarshal demo_libraries)
       UpdatesConfigMapNamespace UpdatesConfigMapName,
     UpgradeRequest_SetupWithManager mem_rec, RollbackRequest_SetupWithManager mem_rec]"

lemma demo_reconciler: "request_reconciler (listing_runtime mem_client) demo_libraries m mem_git = mem_rec"
  by (simp add: mem_rec_def request_reconciler_def listing_runtime_def demo_libraries_def)

lemma listing_ops [simp]:
  "crt_NewManager (listing_runtime C) opts = ret (Inr [])" "crt_GetClient (listing_runtime C) m = C"
  "crt_Complete (listing_runtime C) m reg = ret (Inr (m @ [reg]))"
  "crt_AddHealthzCheck (listing_runtime C) m n = ret (Inr m)" "crt_AddReadyzCheck (listing_runtime C) m n = ret (Inr m)"
  by (simp_all add: listing_runtime_def)

lemma demo_git_config: "git_config default_flags (Getenv demo_env) \<noteq> None"
  by (simp add: git_config_def flag_or_env_def Getenv_def demo_env_def default_flags_def Let_def)

lemma demo_configured:
  "run_state (configure (listing_runtime mem_client) demo_libraries (\<lambda>_. ret (Inr mem_git)) default_flags demo_env)
     demo_cluster = (Inr demo_manager, demo_cluster)"
  using demo_git_config
  by (auto simp: configure_def register_request_controllers_def run_on_err demo_reconciler demo_manager_def)
    (simp_all add: demo_libraries_def)


text \<open>
  The default of \<open>--development\<close> overrides \<open>--log-level\<close>, and the branch flag cannot choose
  \<open>main\<close> against the environment.
\<close>

theorem flags_without_effect:
  "fl_developmentMode f \<Longrightarrow> lo_Level (main_logger f) = LevelDebug"
  "fl_gitBranch f = ''main'' \<Longrightarrow> getenv ''GIT_BRANCH'' = b \<Longrightarrow> b \<noteq> [] \<Longrightarrow> git_branch f getenv = b"
  by (auto simp: main_logger_def NewLogger_def parse_level_def git_branch_def Let_def LevelDebug_def LevelInfo_def LevelWarn_def
      LevelError_def)

section \<open>The running process\<close>

text \<open>
  C4. Whatever the order in which the controllers that \<open>main\<close> registered are run on whatever requests, and
  others change the cluster in between, the phases of every upgrade and every rollback stay in order.
\<close>

theorem running_process_keeps_order:
  assumes "controller_registry R controllers" and "run_state (configure R L newGit f env) w = (Inr m, w')"
    and "crt_GetClient R m = mem_client" and "lib_Kube L = mem_lib"
    and "\<forall>cfg w g w'. run_state (newGit cfg) w = (Inr g, w') \<longrightarrow> git_inv g store_ordered lawful"
    and "list_all (\<lambda>u. ur_Conditions u = []) (cl_Upgrades c0)" and "list_all (\<lambda>r. rr_Conditions r = []) (cl_Rollbacks c0)"
    and "process_run (controllers m) c0 c"
  shows "(\<forall>u\<in>set (cl_Upgrades c). phases_ok mem_lib (ur_Conditions u)) \<and>
    (\<forall>r\<in>set (cl_Rollbacks c). rollback_ok mem_lib (rr_Conditions r))"
proof -
  have "\<forall>reg\<in>set (controllers m). orderly reg"
    by (rule configured_orderly [OF assms(1-4)]) (use assms(5) in blast)
  then have "store_ordered c" by (rule process_run_ordered [OF assms(8) _ fresh_ordered [OF assms(6,7)]])
  then show ?thesis by (simp add: store_ordered_def)
qed

text \<open>Two reconciles of the demo request by the third controller of the demo process.\<close>

lemma demo_manager_upgrades: "UpgradeRequest_SetupWithManager mem_rec \<in> set demo_manager"
  by (simp add: demo_manager_def)

lemma demo_process: "process_run demo_manager c (upgrades n demo_key c)"
proof -
  have "process_run demo_manager c0 (upgrades n demo_key c)" if "process_run demo_manager c0 c" for c0
    using that
  proof (induction n arbitrary: c)
    case (Suc n)
    have "run_state (reg_Reconcile (UpgradeRequest_SetupWithManager mem_rec) demo_key) c =
        (fst (run_state (Upgrade.Reconcile mem_rec demo_key) c), snd (run_state (Upgrade.Reconcile mem_rec demo_key) c))"
      by (simp add: UpgradeRequest_SetupWithManager_def)
    from process_run.dispatch [OF Suc.prems demo_manager_upgrades this] show ?case using Suc.IH by simp
  qed simp
  then show ?thesis by (simp add: process_run.idle)
qed

theorem running_process_keeps_order_witness:
  "\<exists>u\<in>set (cl_Upgrades committed_demo).
     IsStatusConditionTrue mem_lib (ur_Conditions u) ConditionTypeGitCommitted \<and> phases_ok mem_lib (ur_Conditions u)"
proof -
  let ?c = "demo_cluster\<lparr>cl_Upgrades := [demo_request\<lparr>ur_Spec := (ur_Spec demo_request)\<lparr>urs_SkipSnapshot := True\<rparr>\<rparr>]\<rparr>"
  have run: "process_run demo_manager ?c committed_demo" unfolding committed_demo_def by (rule demo_process)
  have "list_all (\<lambda>u. ur_Conditions u = []) (cl_Upgrades ?c)" and "list_all (\<lambda>r. rr_Conditions r = []) (cl_Rollbacks ?c)"
    by (simp_all add: demo_cluster_def demo_request_def)
  moreover have "crt_GetClient (listing_runtime mem_client) demo_manager = mem_client" by (simp add: listing_runtime_def)
  moreover have "lib_Kube demo_libraries = mem_lib" by (simp add: demo_libraries_def)
  moreover have "\<forall>cfg w g w'. run_state (ret (Inr mem_git)) w = (Inr g, w') \<longrightarrow> git_inv g store_ordered lawful"
    by (simp add: mem_git_inv)
  ultimately have "\<forall>u\<in>set (cl_Upgrades committed_demo). phases_ok mem_lib (ur_Conditions u)"
    using running_process_keeps_order [OF listing.controller_registry_axioms demo_configured _ _ _ _ _ run] by blast
  moreover have "list_ex (\<lambda>u. IsStatusConditionTrue mem_lib (ur_Conditions u) ConditionTypeGitCommitted) (cl_Upgrades committed_demo)"
    by code_simp
  ultimately show ?thesis by (auto simp: list_ex_iff)
qed

end
