(* ===== verification/QueueTheorems.thy ===== *)
theory QueueTheorems
  imports Queue ProcessTheorems
begin

text \<open>
  C5. No request is forgotten. In the running process, with Git configured, whatever the order in which queued requests
  are taken and whatever others change in the cluster, every stored upgrade or rollback request that is neither
  finished nor being deleted is in the work queue of its controller: a reconcile that neither fails nor asks to
  be called again has written a finished status of the request.
\<close>

theorem unfinished_requests_stay_queued:
  assumes "controller_registry R controllers" and "run_state (configure R L newGit f env) w = (Inr m, w')"
    and "crt_GetClient R m = mem_client" and "lib_Kube L = mem_lib" and "git_config f (Getenv env) \<noteq> None"
    and "event_delivery enqueued" and "work_run enqueued (controllers m) c q"
  shows "(\<forall>k u. lookup_obj ur_key (cl_Upgrades c) k = Some u \<and> om_DeletionTimestamp (ur_meta u) = None \<and>
        \<not> Upgrade.terminal mem_rec u \<longrightarrow> (''upgraderequest'', k) \<in> q) \<and>
    (\<forall>k u. lookup_obj rr_key (cl_Rollbacks c) k = Some u \<and> om_DeletionTimestamp (rr_meta u) = None \<and>
        \<not> Rollback.terminal mem_rec u \<longrightarrow> (''rollbackrequest'', k) \<in> q)"
proof -
  obtain cfg where "git_config f (Getenv env) = Some cfg" using assms(5) by auto
  then obtain g rest where "controllers m = rest @ [UpgradeRequest_SetupWithManager (request_reconciler R L m g),
      RollbackRequest_SetupWithManager (request_reconciler R L m g)]"
    using controller_registry.configured_controllers [OF assms(1,2)] by fastforce
  then have regs: "UpgradeRequest_SetupWithManager (request_reconciler R L m g) \<in> set (controllers m)"
    "RollbackRequest_SetupWithManager (request_reconciler R L m g) \<in> set (controllers m)"
    by simp_all
  note covered = work_run_covers [OF assms(7,6) conjunct1 [OF configured_dutiful [OF assms(1-4)]]
    conjunct2 [OF configured_dutiful [OF assms(1-4)]]]
  show ?thesis
    using covered [OF regs(1)] covered [OF regs(2)] by (auto simp: setup_defs unfinished_def)
qed

text \<open>The demo process, started with an upgrade that has just committed, before and after its next reconcile.\<close>

theorem unfinished_requests_stay_queued_witness:
  "\<exists>q. work_run enqueue_all demo_manager (upgrades 1 demo_key committed_demo) q \<and> (''upgraderequest'', demo_key) \<in> q"
proof -
  note stays = unfinished_requests_stay_queued [OF listing.controller_registry_axioms demo_configured _ _ demo_git_config
    enqueueall.event_delivery_axioms, THEN conjunct1, rule_format]
  have env: "crt_GetClient (listing_runtime mem_client) demo_manager = mem_client" "lib_Kube demo_libraries = mem_lib"
    by (simp_all add: listing_runtime_def demo_libraries_def)
  have "list_all (\<lambda>c. case lookup_obj ur_key (cl_Upgrades c) demo_key of None \<Rightarrow> False
      | Some u \<Rightarrow> om_DeletionTimestamp (ur_meta u) = None \<and> \<not> Upgrade.terminal mem_rec u)
    [committed_demo, upgrades 1 demo_key committed_demo]"
    by code_simp
  then have run: "\<exists>u. lookup_obj ur_key (cl_Upgrades c) demo_key = Some u \<and> om_DeletionTimestamp (ur_meta u) = None \<and>
      \<not> Upgrade.terminal mem_rec u" if "c \<in> {committed_demo, upgrades 1 demo_key committed_demo}" for c
    using that by (auto simp del: upgrades.simps split: option.splits)
  have step: "(''upgraderequest'', demo_key) \<in> q" if "work_run enqueue_all demo_manager c q"
      "c \<in> {committed_demo, upgrades 1 demo_key committed_demo}" for c q
    using run [OF that(2)] stays [OF env that(1)] by blast
  let ?q0 = "notified enqueue_all demo_manager (no_objects committed_demo) committed_demo"
  have start: "work_run enqueue_all demo_manager committed_demo ?q0" by (rule work_run.listing)
  have "(reg_Name (UpgradeRequest_SetupWithManager mem_rec), demo_key) \<in> ?q0"
    using step [OF start] by (simp add: UpgradeRequest_SetupWithManager_def)
  moreover have "run_state (reg_Reconcile (UpgradeRequest_SetupWithManager mem_rec) demo_key) committed_demo =
      (fst (run_state (Upgrade.Reconcile mem_rec demo_key) committed_demo), upgrades 1 demo_key committed_demo)"
    by (simp add: UpgradeRequest_SetupWithManager_def)
  ultimately obtain q where "work_run enqueue_all demo_manager (upgrades 1 demo_key committed_demo) q"
    using work_run.dispatch [OF start demo_manager_upgrades] by blast
  then show ?thesis using step by blast
qed

end
