(* ===== verification/Store.thy ===== *)
theory Store
  imports Controller
begin

text \<open>
  An environment in which everything works: the locale \<open>faithful_store\<close> views the world as maps of
  requests, applications, Kustomizations and files; reads return what is stored, writes of stored
  objects succeed, a status update changes the status only, an update of the metadata leaves the
  status, a commit replaces the file, and nobody else interferes. In it the programs are symbolically
  executed; the locale gives the results of the helpers that the controllers call.
\<close>

record store =
  st_Upgrades :: "NamespacedName \<rightharpoonup> UpgradeRequest"
  st_Rollbacks :: "NamespacedName \<rightharpoonup> RollbackRequest"
  st_Apps :: "NamespacedName \<rightharpoonup> ManagedApp"
  st_Kustomizations :: "NamespacedName \<rightharpoonup> Kustomization"
  st_Files :: "string \<rightharpoonup> string"

lemma run_case_fst:
  "(case p of (a, w') \<Rightarrow> f a w') = f (fst p) (snd p)"
  by (simp add: prod.case_eq_if)

text \<open>The world after running a program \<open>n\<close> times.\<close>

primrec repeated :: "nat \<Rightarrow> ('w, 'a) state \<Rightarrow> 'w \<Rightarrow> 'w" where
  "repeated 0 m w = w"
| "repeated (Suc n) m w = repeated n m (snd (run_state m w))"

lemma repeated_add: "repeated (m + n) p w = repeated n p (repeated m p w)"
  by (induction m arbitrary: w) simp_all

section \<open>Simple applications\<close>

text \<open>An application without claims to snapshot, whose Kustomization is its own suspend target.\<close>

definition simple_app :: "ManagedApp \<Rightarrow> bool" where
  "simple_app a \<longleftrightarrow> \<not> snapshots_enabled a \<and> explicit_pvcs a = [] \<and> mas_HelmReleaseRef (ma_Spec a) = None \<and>
     mas_SuspendRef (ma_Spec a) = None"

lemma simple_target:
  "simple_app a \<Longrightarrow> getSuspendTarget a = (nn_Name (kustomization_key a), nn_Namespace (kustomization_key a))"
  by (simp add: simple_app_def getSuspendTarget_def kustomization_key_def)

definition ks_ready :: "Kustomization \<Rightarrow> bool" where
  "ks_ready x \<longleftrightarrow> (case find (\<lambda>cond. c_Type cond = ''Ready'') (ks_Conditions x) of
     Some cond \<Rightarrow> c_Status cond = ''True'' | None \<Rightarrow> False)"

text \<open>A Kustomization that nothing manages, reported ready, and that applies no workloads.\<close>

definition ready_root :: "ManagedApp \<Rightarrow> Kustomization \<Rightarrow> bool" where
  "ready_root a x \<longleftrightarrow> ks_ready x \<and> \<not> mbi_IsManaged (managed_by x (nn_Namespace (kustomization_key a))) \<and>
     (ks_Inventory x = None \<or> ks_Inventory x = Some [])"

lemma ready_root_suspend [simp]: "ready_root a (x\<lparr>ks_Suspend := b\<rparr>) = ready_root a x"
  by (simp add: ready_root_def ks_ready_def managed_by_def cong: option.case_cong)

section \<open>The environment\<close>

locale faithful_store = conditions_api "rc_Lib R" + finalizer_api "rc_Lib R"
  for R :: "('w, 'n) reconciler" +
  fixes G :: "'w git_manager" and V :: "'w \<Rightarrow> store"
  assumes git_there: "rc_Git R = Some G"
    and now_pure: "V (snd (run_state (Now (rc_Client R)) w)) = V w"
    and get_upgrade: "st_Upgrades (V w) k = Some u \<Longrightarrow>
      fst (run_state (GetUpgradeRequest (rc_Client R) k) w) = Inr u \<and>
      V (snd (run_state (GetUpgradeRequest (rc_Client R) k) w)) = V w \<and> meta_key (ur_meta u) = k"
    and get_rollback: "st_Rollbacks (V w) k = Some rb \<Longrightarrow>
      fst (run_state (GetRollbackRequest (rc_Client R) k) w) = Inr rb \<and>
      V (snd (run_state (GetRollbackRequest (rc_Client R) k) w)) = V w \<and> meta_key (rr_meta rb) = k"
    and get_app: "st_Apps (V w) k = Some a \<Longrightarrow>
      fst (run_state (GetManagedApp (rc_Client R) k) w) = Inr a \<and>
      V (snd (run_state (GetManagedApp (rc_Client R) k) w)) = V w \<and> meta_key (ma_meta a) = k"
    and get_ks: "st_Kustomizations (V w) k = Some x \<Longrightarrow>
      fst (run_state (GetKustomization (rc_Client R) k) w) = Inr x \<and>
      V (snd (run_state (GetKustomization (rc_Client R) k) w)) = V w \<and> ks_key x = k"
    and update_upgrade: "st_Upgrades (V w) (meta_key (ur_meta u)) = Some old \<Longrightarrow> ur_Status u = ur_Status old \<Longrightarrow>
      fst (run_state (UpdateUpgradeRequest (rc_Client R) u) w) = Inr u \<and>
      V (snd (run_state (UpdateUpgradeRequest (rc_Client R) u) w)) =
        (V w)\<lparr>st_Upgrades := (st_Upgrades (V w))(meta_key (ur_meta u) \<mapsto> u)\<rparr>"
    and update_rollback: "st_Rollbacks (V w) (meta_key (rr_meta rb)) = Some rold \<Longrightarrow> rr_Status rb = rr_Status rold \<Longrightarrow>
      fst (run_state (UpdateRollbackRequest (rc_Client R) rb) w) = Inr rb \<and>
      V (snd (run_state (UpdateRollbackRequest (rc_Client R) rb) w)) =
        (V w)\<lparr>st_Rollbacks := (st_Rollbacks (V w))(meta_key (rr_meta rb) \<mapsto> rb)\<rparr>"
    and update_ks: "st_Kustomizations (V w) (ks_key x) = Some y \<Longrightarrow>
      fst (run_state (UpdateKustomization (rc_Client R) x) w) = Inr x \<and>
      V (snd (run_state (UpdateKustomization (rc_Client R) x) w)) =
        (V w)\<lparr>st_Kustomizations := (st_Kustomizations (V w))(ks_key x \<mapsto> x)\<rparr>"
    and status_upgrade: "st_Upgrades (V w) (meta_key (ur_meta u)) = Some old \<Longrightarrow>
      ur_meta u = ur_meta old \<Longrightarrow> ur_Spec u = ur_Spec old \<Longrightarrow>
      fst (run_state (StatusUpdateUpgradeRequest (rc_Client R) u) w) = Inr u \<and>
      V (snd (run_state (StatusUpdateUpgradeRequest (rc_Client R) u) w)) =
        (V w)\<lparr>st_Upgrades := (st_Upgrades (V w))(meta_key (ur_meta u) \<mapsto> u)\<rparr>"
    and status_rollback: "st_Rollbacks (V w) (meta_key (rr_meta rb)) = Some rold \<Longrightarrow>
      rr_meta rb = rr_meta rold \<Longrightarrow> rr_Spec rb = rr_Spec rold \<Longrightarrow>
      fst (run_state (StatusUpdateRollbackRequest (rc_Client R) rb) w) = Inr rb \<and>
      V (snd (run_state (StatusUpdateRollbackRequest (rc_Client R) rb) w)) =
        (V w)\<lparr>st_Rollbacks := (st_Rollbacks (V w))(meta_key (rr_meta rb) \<mapsto> rb)\<rparr>"
    and status_app: "st_Apps (V w) (meta_key (ma_meta a)) = Some aold \<Longrightarrow>
      ma_meta a = ma_meta aold \<Longrightarrow> ma_Spec a = ma_Spec aold \<Longrightarrow>
      fst (run_state (StatusUpdateManagedApp (rc_Client R) a) w) = Inr a \<and>
      V (snd (run_state (StatusUpdateManagedApp (rc_Client R) a) w)) =
        (V w)\<lparr>st_Apps := (st_Apps (V w))(meta_key (ma_meta a) \<mapsto> a)\<rparr>"
    and read_file: "st_Files (V w) p = Some content \<Longrightarrow>
      fst (run_state (gm_ReadFile G p) w) = Inr content \<and> V (snd (run_state (gm_ReadFile G p) w)) = V w"
    and commit_file: "st_Files (V w) (fc_Path ch) = Some content \<Longrightarrow>
      (\<exists>ci. fst (run_state (gm_CommitFile G ch msg) w) = Inr ci) \<and>
      V (snd (run_state (gm_CommitFile G ch msg) w)) =
        (V w)\<lparr>st_Files := (st_Files (V w))(fc_Path ch \<mapsto> fc_Content ch)\<rparr>"
begin

lemmas exec = run_on_err run_wrap_err run_case_fst now_pure git_there
  get_upgrade get_rollback get_app get_ks read_file

lemma step_obtain:
  assumes "fst (run_state m w) = r" and "V (snd (run_state m w)) = s"
  obtains w' where "run_state m w = (r, w')" and "V w' = s"
  using assms by (metis prod.collapse)

text \<open>The results of the helpers.\<close>

lemma exec_suspend:
  assumes "st_Kustomizations (V w) (NN n ns) = Some x"
  shows "fst (run_state (SuspendKustomization (rc_Client R) n ns) w) = Inr ()"
    and "V (snd (run_state (SuspendKustomization (rc_Client R) n ns) w)) =
      (V w)\<lparr>st_Kustomizations := (st_Kustomizations (V w))(NN n ns \<mapsto> x\<lparr>ks_Suspend := True\<rparr>)\<rparr>"
  using assms get_ks [OF assms] by (cases "ks_Suspend x"; simp add: SuspendKustomization_def exec update_ks fun_upd_idem)+

lemma exec_resume:
  assumes "st_Kustomizations (V w) (NN n ns) = Some x"
  shows "fst (run_state (ResumeKustomization (rc_Client R) n ns) w) = Inr ()"
    and "V (snd (run_state (ResumeKustomization (rc_Client R) n ns) w)) =
      (V w)\<lparr>st_Kustomizations := (st_Kustomizations (V w))(NN n ns \<mapsto> x\<lparr>ks_Suspend := False\<rparr>)\<rparr>"
  using assms get_ks [OF assms]
  by (cases "ks_Suspend x"; simp add: ResumeKustomization_def exec update_ks fun_upd_idem)+

lemma exec_suspended:
  assumes "st_Kustomizations (V w) (NN n ns) = Some x"
  shows "fst (run_state (IsSuspended (rc_Client R) n ns) w) = Inr (ks_Suspend x)"
    and "V (snd (run_state (IsSuspended (rc_Client R) n ns) w)) = V w"
  using get_ks [OF assms] by (simp_all add: IsSuspended_def exec)

lemma exec_verify:
  assumes "st_Kustomizations (V w) (NN n ns) = Some x" and "ks_Suspend x"
  shows "fst (run_state (VerifyStillSuspended (rc_Client R) n ns) w) = Inr ()"
    and "V (snd (run_state (VerifyStillSuspended (rc_Client R) n ns) w)) = V w"
  using exec_suspended [OF assms(1)] assms(2) by (simp_all add: VerifyStillSuspended_def run_on_err run_wrap_err run_case_fst)

lemma exec_reconciled:
  assumes "st_Kustomizations (V w) (NN n ns) = Some x"
  shows "fst (run_state (IsReconciled (rc_Client R) n ns) w) = Inr (ks_ready x)"
    and "V (snd (run_state (IsReconciled (rc_Client R) n ns) w)) = V w"
  using get_ks [OF assms] by (simp_all add: IsReconciled_def ks_ready_def exec)

text \<open>A root Kustomization passes the validation, and an application without workloads is healthy when Flux is ready.\<close>

lemma exec_validate:
  assumes "st_Kustomizations (V w) k = Some x" and "\<not> mbi_IsManaged (managed_by x (nn_Namespace k))"
  shows "fst (run_state (ValidateSuspendTarget (rc_Client R) k None) w) = Inr ()"
    and "V (snd (run_state (ValidateSuspendTarget (rc_Client R) k None) w)) = V w"
  using get_ks [OF assms(1)] assms
  by (simp_all add: ValidateSuspendTarget_def IsManagedByKustomization_def exec)

lemma exec_flux_ready:
  assumes "st_Kustomizations (V w) (kustomization_key a) = Some x" and "ks_ready x"
  shows "fst (run_state (checkFluxResourceReady (rc_Client R) a) w) = Inr (True, ''Kustomization is ready'')"
    and "V (snd (run_state (checkFluxResourceReady (rc_Client R) a) w)) = V w"
proof -
  obtain cond where "find (\<lambda>cond. c_Type cond = ''Ready'') (ks_Conditions x) = Some cond" and "c_Status cond = ''True''"
    using assms(2) by (auto simp: ks_ready_def split: option.splits)
  then show "fst (run_state (checkFluxResourceReady (rc_Client R) a) w) = Inr (True, ''Kustomization is ready'')"
    and "V (snd (run_state (checkFluxResourceReady (rc_Client R) a) w)) = V w"
    using get_ks [OF assms(1)] unfolding kustomization_key_def
    by (simp_all add: checkFluxResourceReady_def ConditionTrue_def Let_def exec)
qed

lemma exec_no_workloads:
  assumes "simple_app a" and "st_Kustomizations (V w) (kustomization_key a) = Some x"
    and "ks_Inventory x = None \<or> ks_Inventory x = Some []"
  shows "fst (run_state (DiscoverWorkloads (rc_Client R) (rc_Helm R) a) w) = Inr []"
    and "V (snd (run_state (DiscoverWorkloads (rc_Client R) (rc_Helm R) a) w)) = V w"
proof -
  have "fst (run_state (discoverPVCsFromKustomization (rc_Client R) a) w) = Inr []"
    and "V (snd (run_state (discoverPVCsFromKustomization (rc_Client R) a) w)) = V w"
    using get_ks [OF assms(2)] assms(3) unfolding kustomization_key_def
    by (auto simp: discoverPVCsFromKustomization_def Let_def exec)
  then have "fst (run_state (DiscoverPVCs (rc_Client R) (rc_Helm R) a) w) = Inr []"
    and "V (snd (run_state (DiscoverPVCs (rc_Client R) (rc_Helm R) a) w)) = V w"
    using assms(1) by (simp_all add: DiscoverPVCs_def simple_app_def filterPVCs_def exec)
  then show "fst (run_state (DiscoverWorkloads (rc_Client R) (rc_Helm R) a) w) = Inr []"
    and "V (snd (run_state (DiscoverWorkloads (rc_Client R) (rc_Helm R) a) w)) = V w"
    by (simp_all add: DiscoverWorkloads_def exec)
qed

lemma exec_health:
  assumes "simple_app a" and "st_Kustomizations (V w) (kustomization_key a) = Some x" and "ready_root a x"
  shows "\<exists>h. fst (run_state (CheckHealth (rc_Client R) (rc_Helm R) a) w) = Inr h \<and> hr_Healthy h"
    and "V (snd (run_state (CheckHealth (rc_Client R) (rc_Helm R) a) w)) = V w"
proof -
  have "ks_ready x" and inv: "ks_Inventory x = None \<or> ks_Inventory x = Some []"
    using assms(3) by (simp_all add: ready_root_def)
  note flux = exec_flux_ready [OF assms(2) this(1)]
  define w1 where "w1 = snd (run_state (checkFluxResourceReady (rc_Client R) a) w)"
  have "st_Kustomizations (V w1) (kustomization_key a) = Some x" using flux(2) assms(2) by (simp add: w1_def)
  note none = exec_no_workloads [OF assms(1) this inv]
  show "\<exists>h. fst (run_state (CheckHealth (rc_Client R) (rc_Helm R) a) w) = Inr h \<and> hr_Healthy h"
    and "V (snd (run_state (CheckHealth (rc_Client R) (rc_Helm R) a) w)) = V w"
    using flux none by (simp_all add: CheckHealth_def exec w1_def)
qed

end

end
