(* ===== verification/UpgradeProgress.thy ===== *)
theory UpgradeProgress
  imports Upgrade Store
begin

text \<open>
  Progress of an upgrade in an environment where everything works (\<open>faithful_store\<close>): one lemma
  per reconcile, each from the stage the stored request is in to the next one, and their composition.
  The upgrade is one of a simple application to a chart version; other objects of the store are arbitrary.
\<close>

section \<open>Stages\<close>

text \<open>What an upgrade of request \<open>u\<close> needs: the version to write, and a file that can be edited.\<close>

definition upgradable ::
  "('w, 'n) reconciler \<Rightarrow> store \<Rightarrow> UpgradeRequest \<Rightarrow> ManagedApp \<Rightarrow> Kustomization \<Rightarrow> VersionInfo \<Rightarrow> string \<Rightarrow> bool" where
  "upgradable R s u a x v content' \<longleftrightarrow>
     st_Apps s (managed_app_key u) = Some a \<and> st_Kustomizations s (kustomization_key a) = Some x \<and>
     simple_app a \<and> ready_root a x \<and> target_version u a = Some v \<and> vi_Chart v \<noteq> [] \<and>
     (\<exists>content old. st_Files s (mas_GitPath (ma_Spec a)) = Some content \<and>
        (configured_version_path a \<noteq> [] \<or> IsHelmRelease (rc_Yaml R) content) \<and>
        GetVersion (rc_Yaml R) content (version_path_of a) = Inr old \<and>
        UpdateVersion (rc_Yaml R) content (version_path_of a) (vi_Chart v) = Inr content')"

text \<open>
  The stored request during the upgrade of \<open>u0\<close>: the status of its conditions, and the recorded previous
  and new version.
\<close>

type_synonym versions = "VersionInfo option \<times> VersionInfo option"

abbreviation recorded_versions :: "UpgradeRequest \<Rightarrow> versions option" where
  "recorded_versions u \<equiv> map_option (\<lambda>up. (us_PreviousVersion up, us_NewVersion up)) (urst_Upgrade (ur_Status u))"

abbreviation upgraded_from :: "ManagedApp \<Rightarrow> VersionInfo \<Rightarrow> versions option" where
  "upgraded_from a v \<equiv> Some (mast_CurrentVersion (ma_Status a), Some v)"

definition at_stage ::
  "klib \<Rightarrow> UpgradeRequest \<Rightarrow> (string \<rightharpoonup> string) \<Rightarrow> versions option \<Rightarrow> UpgradeRequest \<Rightarrow> bool" where
  "at_stage L u0 cs nv u \<longleftrightarrow>
     ur_Spec u = ur_Spec u0 \<and> meta_key (ur_meta u) = meta_key (ur_meta u0) \<and> om_DeletionTimestamp (ur_meta u) = None \<and>
     ContainsFinalizer L (om_Finalizers (ur_meta u)) OperationFinalizer \<and>
     (\<forall>t. map_option c_Status (FindStatusCondition L (ur_Conditions u) t) = cs t) \<and>
     recorded_versions u = nv"

text \<open>The store with the request, the Kustomization's flag and one file replaced.\<close>

definition during ::
  "store \<Rightarrow> UpgradeRequest \<Rightarrow> NamespacedName \<Rightarrow> Kustomization \<Rightarrow> string \<Rightarrow> string \<Rightarrow> store" where
  "during s u kk x p c = s\<lparr>st_Upgrades := (st_Upgrades s)(meta_key (ur_meta u) \<mapsto> u),
     st_Kustomizations := (st_Kustomizations s)(kk \<mapsto> x), st_Files := (st_Files s)(p \<mapsto> c)\<rparr>"

lemma during_simps [simp]:
  "st_Upgrades (during s u kk x p c) = (st_Upgrades s)(meta_key (ur_meta u) \<mapsto> u)"
  "st_Kustomizations (during s u kk x p c) = (st_Kustomizations s)(kk \<mapsto> x)"
  "st_Files (during s u kk x p c) = (st_Files s)(p \<mapsto> c)"
  "st_Apps (during s u kk x p c) = st_Apps s" "st_Rollbacks (during s u kk x p c) = st_Rollbacks s"
  by (simp_all add: during_def)

lemma during_replace:
  "meta_key (ur_meta u') = meta_key (ur_meta u) \<Longrightarrow>
     during s u kk x p c\<lparr>st_Upgrades := (st_Upgrades s)(meta_key (ur_meta u) \<mapsto> u')\<rparr> = during s u' kk x p c"
  "during s u kk x p c\<lparr>st_Kustomizations := (st_Kustomizations s)(kk \<mapsto> x')\<rparr> = during s u kk x' p c"
  "during s u kk x p c\<lparr>st_Files := (st_Files s)(p \<mapsto> c')\<rparr> = during s u kk x p c'"
  by (simp_all add: during_def)

lemma set_condition_parts [simp]:
  "ur_meta (set_condition L t st r m u) = ur_meta u" "ur_Spec (set_condition L t st r m u) = ur_Spec u"
  "urst_Upgrade (ur_Status (set_condition L t st r m u)) = urst_Upgrade (ur_Status u)"
  "ur_meta (set_phase_start x u) = ur_meta u" "ur_Spec (set_phase_start x u) = ur_Spec u"
  "ur_Conditions (set_phase_start x u) = ur_Conditions u"
  "urst_Upgrade (ur_Status (set_phase_start x u)) = urst_Upgrade (ur_Status u)"
  by (simp_all add: set_condition_def set_phase_start_def)

lemma at_stage_phase_start [simp]: "at_stage L u0 cs nv (set_phase_start x u) = at_stage L u0 cs nv u"
  by (simp add: at_stage_def)

lemma at_stage_app_key: "at_stage L u0 cs nv u \<Longrightarrow> managed_app_key u = managed_app_key u0"
  by (simp add: at_stage_def managed_app_key_def meta_key_def)

lemma at_stage_target: "at_stage L u0 cs nv u \<Longrightarrow> target_version u a = target_version u0 a"
  by (simp add: at_stage_def target_version_def)

context conditions_api
begin

lemma at_stage_set:
  assumes "at_stage L u0 cs nv u"
  shows "at_stage L u0 (cs(t \<mapsto> st)) nv (set_condition L t st r m u)"
  using assms by (auto simp: at_stage_def set_condition_def find_set)

lemma at_stage_true: "at_stage L u0 cs nv u \<Longrightarrow> IsStatusConditionTrue L (ur_Conditions u) t \<longleftrightarrow> cs t = Some ConditionTrue"
  by (auto simp: at_stage_def is_true_iff dest!: spec [of _ t])

lemma at_stage_find: "at_stage L u0 cs nv u \<Longrightarrow> FindStatusCondition L (ur_Conditions u) t = None \<longleftrightarrow> cs t = None"
  by (auto simp: at_stage_def dest!: spec [of _ t])

end

section \<open>One reconcile\<close>

context faithful_store
begin

lemma step_of_stage:
  assumes "st_Upgrades (V w) k = Some u" and "at_stage (rc_Lib R) u0 cs nv u" and "cs ConditionTypeComplete = None"
  shows "run_state (Reconcile R k) w = run_state (phase_step R u) (snd (run_state (GetUpgradeRequest (rc_Client R) k) w))"
    and "V (snd (run_state (GetUpgradeRequest (rc_Client R) k) w)) = V w"
proof -
  have "\<not> terminal R u"
    using at_stage_true [OF assms(2), of ConditionTypeComplete] at_stage_find [OF assms(2), of ConditionTypeComplete] assms(3)
    by (simp add: terminal_def)
  then show "run_state (Reconcile R k) w = run_state (phase_step R u) (snd (run_state (GetUpgradeRequest (rc_Client R) k) w))"
    using get_upgrade [OF assms(1)] assms(2) by (simp add: Reconcile_def exec at_stage_def)
  show "V (snd (run_state (GetUpgradeRequest (rc_Client R) k) w)) = V w"
    using get_upgrade [OF assms(1)] by simp
qed

lemma exec_save:
  assumes "st_Upgrades (V w) (meta_key (ur_meta u)) = Some old" and "ur_meta u = ur_meta old" and "ur_Spec u = ur_Spec old"
  shows "V (snd (run_state (save_status R u res) w)) = (V w)\<lparr>st_Upgrades := (st_Upgrades (V w))(meta_key (ur_meta u) \<mapsto> u)\<rparr>"
  using status_upgrade [OF assms] by (simp add: save_status_def exec)

lemma exec_preview:
  assumes "upgradable R s u a x v content'" and "st_Files (V w) (mas_GitPath (ma_Spec a)) = st_Files s (mas_GitPath (ma_Spec a))"
  shows "\<exists>vs. fst (run_state (git_preview R a v) w) = Inr vs" and "V (snd (run_state (git_preview R a v) w)) = V w"
proof -
  from assms obtain content old where stored: "st_Files (V w) (mas_GitPath (ma_Spec a)) = Some content"
    and "configured_version_path a \<noteq> [] \<or> IsHelmRelease (rc_Yaml R) content"
    and "GetVersion (rc_Yaml R) content (version_path_of a) = Inr old"
    and "UpdateVersion (rc_Yaml R) content (version_path_of a) (vi_Chart v) = Inr content'" and "vi_Chart v \<noteq> []"
    by (auto simp: upgradable_def)
  then show "\<exists>vs. fst (run_state (git_preview R a v) w) = Inr vs" and "V (snd (run_state (git_preview R a v) w)) = V w"
    using read_file [OF stored] by (auto simp: git_preview_def git_there runGitDiffPreview_def exec)
qed

lemma exec_preflight:
  assumes "simple_app a" and "st_Kustomizations (V w) (kustomization_key a) = Some x" and "ready_root a x"
  shows "\<exists>pf. fst (run_state (runUpgradePreflight R a False) w) = Inr pf"
    and "V (snd (run_state (runUpgradePreflight R a False) w)) = V w"
proof -
  have ref: "getSuspendRefStruct a = None" and same: "suspend_key a = kustomization_key a"
    using assms(1) by (simp_all add: simple_app_def getSuspendRefStruct_def suspend_key_def getSuspendTarget_def kustomization_key_def)
  have root: "\<not> mbi_IsManaged (managed_by x (nn_Namespace (kustomization_key a)))"
    using assms(3) by (simp add: ready_root_def)
  show "\<exists>pf. fst (run_state (runUpgradePreflight R a False) w) = Inr pf"
    and "V (snd (run_state (runUpgradePreflight R a False) w)) = V w"
    using exec_validate [OF assms(2) root] assms(2)
    by (auto simp: runUpgradePreflight_def ref same Let_def exec exec_reconciled exec_suspended)
qed

end

section \<open>The handlers\<close>

lemma simple_skipped: "simple_app a \<Longrightarrow> snapshots_skipped u a"
  by (simp add: simple_app_def snapshots_skipped_def)

lemma upgradable_simps:
  assumes "upgradable R s u a x v c'"
  shows "simple_app a" "ready_root a x" "target_version u a = Some v" "vi_Chart v \<noteq> []"
    "st_Apps s (managed_app_key u) = Some a" "st_Kustomizations s (kustomization_key a) = Some x"
  using assms by (simp_all add: upgradable_def)

lemma upgradable_file:
  assumes "upgradable R s u a x v c'" and "st_Files s (mas_GitPath (ma_Spec a)) = Some c"
  shows "configured_version_path a = [] \<Longrightarrow> IsHelmRelease (rc_Yaml R) c"
    "UpdateVersion (rc_Yaml R) c (version_path_of a) (vi_Chart v) = Inr c'"
  using assms by (auto simp: upgradable_def)

context faithful_store
begin

abbreviation around :: "store \<Rightarrow> ManagedApp \<Rightarrow> UpgradeRequest \<Rightarrow> Kustomization \<Rightarrow> string \<Rightarrow> store" where
  "around s a u x c \<equiv> during s u (kustomization_key a) x (mas_GitPath (ma_Spec a)) c"

lemma app_there:
  assumes "upgradable R s u0 a x v c'" and "V w = around s a u y c" and "at_stage L u0 cs nv u"
  obtains w' where "run_state (getManagedApp R u) w = (Inr a, w')" and "V w' = V w"
proof -
  have "st_Apps (V w) (managed_app_key u) = Some a"
    using upgradable_simps(5) [OF assms(1)] assms(2) at_stage_app_key [OF assms(3)] by simp
  from get_app [OF this] obtain w' where "run_state (GetManagedApp (rc_Client R) (managed_app_key u)) w = (Inr a, w')"
    and "V w' = V w" by (metis step_obtain)
  then show ?thesis by (intro that [of w']) (simp_all add: getManagedApp_def)
qed

lemma suspend_stage:
  assumes up: "upgradable R s u0 a x v c'" and "st_Files s (mas_GitPath (ma_Spec a)) = Some c"
    and V: "V w = around s a u x c" and st: "at_stage (rc_Lib R) u0 Map.empty None u"
  shows "\<exists>u'. V (snd (run_state (handleSuspend R u) w)) = around s a u' (x\<lparr>ks_Suspend := True\<rparr>) c \<and>
     at_stage (rc_Lib R) u0 [ConditionTypeSuspended \<mapsto> ConditionTrue, ConditionTypeSnapshotReady \<mapsto> ConditionTrue] None u'"
proof -
  note facts = upgradable_simps [OF up]
  obtain w1 where r1: "run_state (getManagedApp R u) w = (Inr a, w1)" "V w1 = V w" by (rule app_there [OF up V st])
  have "st_Files (V w1) (mas_GitPath (ma_Spec a)) = st_Files s (mas_GitPath (ma_Spec a))"
    using r1 V assms(2) by simp
  then obtain vs w2 where r2: "run_state (git_preview R a v) w1 = (Inr vs, w2)" "V w2 = V w1"
    using exec_preview [OF up] by (metis step_obtain)
  have "st_Kustomizations (V w2) (kustomization_key a) = Some x" using r1 r2 V by simp
  then obtain pf w3 where r3: "run_state (runUpgradePreflight R a False) w2 = (Inr pf, w3)" "V w3 = V w2"
    using exec_preflight [OF facts(1) _ facts(2)] by (metis step_obtain)
  let ?n = "nn_Name (kustomization_key a)" and ?ns = "nn_Namespace (kustomization_key a)"
  have ks: "st_Kustomizations (V w3) (NN ?n ?ns) = Some x" using r1 r2 r3 V by simp
  obtain w4 where r4: "run_state (SuspendKustomization (rc_Client R) ?n ?ns) w3 = (Inr (), w4)"
    "V w4 = around s a u (x\<lparr>ks_Suspend := True\<rparr>) c"
    by (rule step_obtain [OF exec_suspend(1) [OF ks] exec_suspend(2) [OF ks]]) (simp add: r1 r2 r3 V during_replace)
  let ?u = "set_condition (rc_Lib R) ConditionTypeSnapshotReady ConditionTrue ''SnapshotsSkipped'' ''Snapshots disabled or not configured''
    (set_condition (rc_Lib R) ConditionTypeSuspended ConditionTrue ''KustomizationSuspended'' (''Suspended '' @ ?ns @ ''/'' @ ?n) u)"
  have "V (snd (run_state (handleSuspend R u) w)) = V (snd (run_state (save_status R ?u ResultRequeue) w4))"
    using r1 r2 r3 r4 facts at_stage_target [OF st, of a]
    by (simp add: handleSuspend_def preflight_checks_def run_on_err simple_target simple_skipped simple_app_def Let_def)
  also have "\<dots> = around s a ?u (x\<lparr>ks_Suspend := True\<rparr>) c"
    by (subst exec_save) (simp_all add: r4 during_replace)
  finally show ?thesis
    using at_stage_set [OF at_stage_set [OF st]] by blast
qed

lemma phase_started:
  obtains t w' where "run_state (setPhaseStartIfNeeded R u) w = (set_phase_start t u, w')" and "V w' = V w"
proof (cases "urst_PhaseStartedAt (ur_Status u)")
  case None
  then show ?thesis
    by (intro that [of "Some (fst (run_state (Now (rc_Client R)) w))" "snd (run_state (Now (rc_Client R)) w)"])
      (simp_all add: setPhaseStartIfNeeded_def run_case_fst now_pure)
next
  case (Some t)
  then show ?thesis
    by (intro that [of "Some t" w]) (simp_all add: setPhaseStartIfNeeded_def set_phase_start_def)
qed

lemma scale_stage:
  assumes up: "upgradable R s u0 a x v c'" and V: "V w = around s a u y c" and st: "at_stage (rc_Lib R) u0 cs nv u"
  obtains u' w' where "run_state (handleScaleDown R u) w = (Inr u', w')" and "V w' = around s a u' y c"
    and "at_stage (rc_Lib R) u0 (cs(ConditionTypeWorkloadStopped \<mapsto> ConditionTrue)) nv u'"
proof -
  obtain t w1 where r1: "run_state (setPhaseStartIfNeeded R u) w = (set_phase_start t u, w1)" "V w1 = V w"
    by (rule phase_started)
  let ?u1 = "set_phase_start t u"
  have st1: "at_stage (rc_Lib R) u0 cs nv ?u1" using st by simp
  have V1: "V w1 = around s a u y c" using r1 V by simp
  have "run_state (getManagedApp R ?u1) w1 = run_state (getManagedApp R u) w1"
    by (simp add: getManagedApp_def managed_app_key_def)
  then obtain w2 where r2: "run_state (getManagedApp R ?u1) w1 = (Inr a, w2)" "V w2 = V w1"
    by (metis app_there [OF up V1 st])
  let ?u2 = "set_condition (rc_Lib R) ConditionTypeWorkloadStopped ConditionTrue ''SnapshotsDisabled''
    ''Workload scale-down skipped (snapshots disabled)'' ?u1"
  have "st_Upgrades (V w2) (meta_key (ur_meta ?u2)) = Some u" using r2 V1 by simp
  from status_upgrade [OF this]
  obtain w3 where r3: "run_state (StatusUpdateUpgradeRequest (rc_Client R) ?u2) w2 = (Inr ?u2, w3)" "V w3 = around s a ?u2 y c"
    using r2 V1 by (auto simp: during_replace intro: step_obtain)
  have "run_state (handleScaleDown R u) w = (Inr ?u2, w3)"
    using r1 r2 r3 upgradable_simps(1) [OF up] by (simp add: handleScaleDown_def skip_scale_down_def run_on_err simple_skipped)
  then show ?thesis using r3(2) at_stage_set [OF st1] by (rule that)
qed

lemma at_stage_upgrade:
  "at_stage L u0 cs nv u \<Longrightarrow> nv' = Some (us_PreviousVersion up, us_NewVersion up) \<Longrightarrow>
     at_stage L u0 cs nv' (u\<lparr>ur_Status := (ur_Status u)\<lparr>urst_Upgrade := Some up\<rparr>\<rparr>)"
  by (simp add: at_stage_def)

lemma commit_stage:
  assumes up: "upgradable R s u0 a x v c'" and c: "st_Files s (mas_GitPath (ma_Spec a)) = Some c"
    and V: "V w = around s a u y c" and st: "at_stage (rc_Lib R) u0 cs nv u" and "ks_Suspend y"
  shows "\<exists>u'. V (snd (run_state (handleCommitting R u) w)) = around s a u' y c' \<and>
     at_stage (rc_Lib R) u0 (cs(ConditionTypeGitCommitted \<mapsto> ConditionTrue)) (upgraded_from a v) u'"
proof -
  note facts = upgradable_simps [OF up] and edit = upgradable_file [OF up c]
  let ?n = "nn_Name (kustomization_key a)" and ?ns = "nn_Namespace (kustomization_key a)" and ?p = "mas_GitPath (ma_Spec a)"
  obtain w1 where r1: "run_state (getManagedApp R u) w = (Inr a, w1)" "V w1 = V w" by (rule app_there [OF up V st])
  have ks: "st_Kustomizations (V w1) (NN ?n ?ns) = Some y" using r1 V by simp
  obtain w2 where r2: "run_state (VerifyStillSuspended (rc_Client R) ?n ?ns) w1 = (Inr (), w2)" "V w2 = V w1"
    by (rule step_obtain [OF exec_verify [OF ks \<open>ks_Suspend y\<close>]])
  have "st_Files (V w2) ?p = Some c" using r1 r2 V by simp
  then obtain w3 where r3: "run_state (gm_ReadFile G ?p) w2 = (Inr c, w3)" "V w3 = V w2"
    by (metis read_file step_obtain)
  obtain cv where cv: "commit_versions a v = Inr (vi_Chart v, cv)"
    using facts(4) by (simp add: commit_versions_def)
  let ?msg = "FormatCommitMessage (ma_Name a) cv (vi_Chart v) (map psi_SnapshotName (recorded_snapshots u))"
  have "st_Files (V w3) (fc_Path \<lparr>fc_Path = ?p, fc_Content = c'\<rparr>) = Some c" using r1 r2 r3 V by simp
  from commit_file [OF this, of ?msg] obtain ci w4
    where r4: "run_state (gm_CommitFile G \<lparr>fc_Path = ?p, fc_Content = c'\<rparr> ?msg) w3 = (Inr ci, w4)" "V w4 = around s a u y c'"
    using r1 r2 r3 V by (auto simp: during_replace intro: step_obtain)
  obtain t w5 where r5: "run_state (Now (rc_Client R)) w4 = (t, w5)" "V w5 = V w4"
    using now_pure [of w4] by (metis prod.collapse)
  let ?u = "committed (rc_Lib R) u a v (ci_SHA ci) t"
  have parts: "ur_meta ?u = ur_meta u" "ur_Spec ?u = ur_Spec u" by (simp_all add: committed_def)
  have "V (snd (run_state (handleCommitting R u) w)) = V (snd (run_state (save_status R ?u ResultRequeue) w5))"
    using r1 r2 r3 r4 r5 facts cv edit at_stage_target [OF st, of a]
    by (cases "configured_version_path a = []") (simp_all add: handleCommitting_def run_on_err simple_target git_there)
  also have "\<dots> = around s a ?u y c'"
    by (subst exec_save) (simp_all add: r4 r5 parts during_replace)
  finally have "V (snd (run_state (handleCommitting R u) w)) = around s a ?u y c'" .
  moreover have "at_stage (rc_Lib R) u0 (cs(ConditionTypeGitCommitted \<mapsto> ConditionTrue)) (upgraded_from a v) ?u"
    unfolding committed_def by (rule at_stage_set [OF at_stage_upgrade [OF st]]) simp
  ultimately show ?thesis by blast
qed

lemma reconcile_stage:
  assumes up: "upgradable R s u0 a x v c'" and V: "V w = around s a u y c" and st: "at_stage (rc_Lib R) u0 cs nv u"
    and y: "ready_root a y"
  shows "\<exists>u'. V (snd (run_state (handleReconciling R u) w)) = around s a u' (y\<lparr>ks_Suspend := False\<rparr>) c \<and>
     at_stage (rc_Lib R) u0 (cs(ConditionTypeSuspended \<mapsto> ConditionFalse, ConditionTypeReconciled \<mapsto> ConditionTrue)) nv u'"
proof -
  let ?n = "nn_Name (kustomization_key a)" and ?ns = "nn_Namespace (kustomization_key a)"
  obtain t w1 where r1: "run_state (setPhaseStartIfNeeded R u) w = (set_phase_start t u, w1)" "V w1 = V w"
    by (rule phase_started)
  have "run_state (getManagedApp R (set_phase_start t u)) w1 = run_state (getManagedApp R u) w1"
    by (simp add: getManagedApp_def managed_app_key_def)
  then obtain w2 where r2: "run_state (getManagedApp R (set_phase_start t u)) w1 = (Inr a, w2)" "V w2 = V w1"
    using r1 V by (metis app_there [OF up _ st])
  have ks: "st_Kustomizations (V w2) (NN ?n ?ns) = Some y" using r1 r2 V by simp
  obtain w3 where r3: "run_state (ResumeKustomization (rc_Client R) ?n ?ns) w2 = (Inr (), w3)"
    "V w3 = around s a u (y\<lparr>ks_Suspend := False\<rparr>) c"
    by (rule step_obtain [OF exec_resume(1) [OF ks] exec_resume(2) [OF ks]]) (simp add: r1 r2 V during_replace)
  have "st_Kustomizations (V w3) (NN ?n ?ns) = Some (y\<lparr>ks_Suspend := False\<rparr>)" using r3 by simp
  from exec_reconciled [OF this] obtain w4
    where r4: "run_state (IsReconciled (rc_Client R) ?n ?ns) w3 = (Inr True, w4)" "V w4 = V w3"
    using y by (auto simp: ready_root_def ks_ready_def intro: step_obtain)
  let ?u1 = "set_condition (rc_Lib R) ConditionTypeSuspended ConditionFalse ''KustomizationResumed''
      (''Resumed '' @ ?ns @ ''/'' @ ?n) (set_phase_start t u)"
  let ?u = "set_condition (rc_Lib R) ConditionTypeReconciled ConditionTrue ''ReconciliationSucceeded''
      ''Flux reconciled the changes'' (set_phase_start None ?u1)"
  have "V (snd (run_state (handleReconciling R u) w)) = V (snd (run_state (save_status R ?u ResultRequeue) w4))"
    using r1 r2 r3 r4 upgradable_simps(1) [OF up]
    by (simp add: handleReconciling_def run_on_err simple_target resetPhaseStart_def Let_def)
  also have "\<dots> = around s a ?u (y\<lparr>ks_Suspend := False\<rparr>) c"
    by (subst exec_save) (simp_all add: r3 r4 during_replace)
  finally have "V (snd (run_state (handleReconciling R u) w)) = around s a ?u (y\<lparr>ks_Suspend := False\<rparr>) c" .
  moreover have "at_stage (rc_Lib R) u0 (cs(ConditionTypeSuspended \<mapsto> ConditionFalse, ConditionTypeReconciled \<mapsto> ConditionTrue)) nv ?u"
    using st by (intro at_stage_set) (simp, intro at_stage_set, simp)
  ultimately show ?thesis by blast
qed

lemma health_stage:
  assumes up: "upgradable R s u0 a x v c'" and V: "V w = around s a u y c" and st: "at_stage (rc_Lib R) u0 cs nv u"
    and y: "ready_root a y"
  shows "\<exists>u'. V (snd (run_state (handleHealthChecking R u) w)) = around s a u' y c \<and>
     at_stage (rc_Lib R) u0 (cs(ConditionTypeHealthy \<mapsto> ConditionTrue)) nv u'"
proof -
  obtain t w1 where r1: "run_state (setPhaseStartIfNeeded R u) w = (set_phase_start t u, w1)" "V w1 = V w"
    by (rule phase_started)
  have "run_state (getManagedApp R (set_phase_start t u)) w1 = run_state (getManagedApp R u) w1"
    by (simp add: getManagedApp_def managed_app_key_def)
  then obtain w2 where r2: "run_state (getManagedApp R (set_phase_start t u)) w1 = (Inr a, w2)" "V w2 = V w1"
    using r1 V by (metis app_there [OF up _ st])
  have "st_Kustomizations (V w2) (kustomization_key a) = Some y" using r1 r2 V by simp
  from exec_health [OF upgradable_simps(1) [OF up] this y] obtain h w3
    where r3: "run_state (CheckHealth (rc_Client R) (rc_Helm R) a) w2 = (Inr h, w3)" "V w3 = V w2" "hr_Healthy h"
    by (elim exE conjE) (erule step_obtain, assumption, blast)
  obtain t' w4 where r4: "run_state (Now (rc_Client R)) w3 = (t', w4)" "V w4 = V w3"
    using now_pure [of w3] by (metis prod.collapse)
  let ?u = "health_passed (rc_Lib R) (hr_Message h) t' (set_phase_start t u)"
  have parts: "ur_meta ?u = ur_meta u" "ur_Spec ?u = ur_Spec u" by (simp_all add: health_passed_def)
  have "V (snd (run_state (handleHealthChecking R u) w)) = V (snd (run_state (save_status R ?u ResultRequeue) w4))"
    using r1 r2 r3 r4 by (simp add: handleHealthChecking_def run_on_err)
  also have "\<dots> = around s a ?u y c"
    by (subst exec_save) (simp_all add: r1 r2 r3 r4 V parts during_replace)
  finally have "V (snd (run_state (handleHealthChecking R u) w)) = around s a ?u y c" .
  moreover have "at_stage (rc_Lib R) u0 (cs(ConditionTypeHealthy \<mapsto> ConditionTrue)) nv ?u"
    unfolding health_passed_def using st
    by (intro at_stage_set) (cases "urst_Upgrade (ur_Status u)"; simp add: at_stage_def set_phase_start_def)
  ultimately show ?thesis by blast
qed

text \<open>Completing writes the application, then the request, then drops the finalizer.\<close>

lemma complete_stage:
  assumes up: "upgradable R s u0 a x v c'" and V: "V w = around s a u y c" and st: "at_stage (rc_Lib R) u0 cs (upgraded_from a v) u"
  shows "\<exists>u' a'. V (snd (run_state (handleCompleted R u) w)) =
       (around s a u' y c)\<lparr>st_Apps := (st_Apps s)(managed_app_key u0 \<mapsto> a')\<rparr> \<and>
     meta_key (ur_meta u') = meta_key (ur_meta u0) \<and> ur_Spec u' = ur_Spec u0 \<and> recorded_versions u' = upgraded_from a v \<and>
     IsStatusConditionTrue (rc_Lib R) (ur_Conditions u') ConditionTypeComplete \<and>
     \<not> ContainsFinalizer (rc_Lib R) (om_Finalizers (ur_meta u')) OperationFinalizer \<and>
     mast_CurrentVersion (ma_Status a') = Some v \<and> mast_AvailableUpdate (ma_Status a') = None \<and>
     ma_Spec a' = ma_Spec a \<and> ma_meta a' = ma_meta a"
proof -
  obtain w1 where r1: "run_state (getManagedApp R u) w = (Inr a, w1)" "V w1 = V w" by (rule app_there [OF up V st])
  have key: "meta_key (ma_meta a) = managed_app_key u0"
    using get_app [of w "managed_app_key u0" a] upgradable_simps(5) [OF up] V by simp
  let ?u1 = "completed (rc_Lib R) u"
  have parts: "ur_meta ?u1 = ur_meta u" "ur_Spec ?u1 = ur_Spec u" "urst_Upgrade (ur_Status ?u1) = urst_Upgrade (ur_Status u)"
    by (simp_all add: completed_def Let_def)
  obtain upg where upg: "urst_Upgrade (ur_Status u) = Some upg" and nv: "us_NewVersion upg = Some v"
      and pv: "us_PreviousVersion upg = mast_CurrentVersion (ma_Status a)"
    using st by (auto simp: at_stage_def)
  obtain t w2 where r2: "run_state (Now (rc_Client R)) w1 = (t, w2)" "V w2 = V w1"
    using now_pure [of w1] by (metis prod.collapse)
  let ?a = "upgraded_app (rc_Lib R) upg t a"
  have "st_Apps (V w2) (meta_key (ma_meta ?a)) = Some a" and same: "ma_meta ?a = ma_meta a" "ma_Spec ?a = ma_Spec a"
    using r1 r2 V key upgradable_simps(5) [OF up] by (simp_all add: upgraded_app_def)
  from status_app [OF this] obtain w3
    where r3: "run_state (StatusUpdateManagedApp (rc_Client R) ?a) w2 = (Inr ?a, w3)"
      "V w3 = (around s a u y c)\<lparr>st_Apps := (st_Apps s)(managed_app_key u0 \<mapsto> ?a)\<rparr>"
    using r1 r2 V key same by (auto intro: step_obtain)
  have app: "run_state (updateManagedAppAfterUpgrade R a ?u1) w1 = (?a, w3)"
    using upg parts r2 r3 by (simp add: updateManagedAppAfterUpgrade_def)
  have retain: "(case mas_VolumeSnapshots (ma_Spec ?a) of None \<Rightarrow> ret (Inr ())
      | Some vs \<Rightarrow> if vsc_Enabled vs then applySnapshotRetention R ?a vs else ret (Inr ())) = (ret (Inr ()) :: ('w, unit) call)"
    using upgradable_simps(1) [OF up] same by (auto simp: simple_app_def snapshots_enabled_def split: option.splits)
  have "st_Upgrades (V w3) (meta_key (ur_meta ?u1)) = Some u" using r3 parts by simp
  from status_upgrade [OF this parts(1,2)] obtain w4
    where r4: "run_state (StatusUpdateUpgradeRequest (rc_Client R) ?u1) w3 = (Inr ?u1, w4)"
      "V w4 = (around s a ?u1 y c)\<lparr>st_Apps := (st_Apps s)(managed_app_key u0 \<mapsto> ?a)\<rparr>"
    using r3 parts by (auto simp: during_def intro: step_obtain)
  let ?u2 = "?u1\<lparr>ur_meta := (ur_meta ?u1)\<lparr>om_Finalizers := RemoveFinalizer (rc_Lib R) (om_Finalizers (ur_meta ?u1)) OperationFinalizer\<rparr>\<rparr>"
  have key2: "meta_key (ur_meta ?u2) = meta_key (ur_meta ?u1)" by (simp add: meta_key_def)
  have "st_Upgrades (V w4) (meta_key (ur_meta ?u2)) = Some ?u1" using r4 key2 by simp
  from update_upgrade [OF this] obtain w5
    where r5: "run_state (UpdateUpgradeRequest (rc_Client R) ?u2) w4 = (Inr ?u2, w5)"
      "V w5 = (around s a ?u2 y c)\<lparr>st_Apps := (st_Apps s)(managed_app_key u0 \<mapsto> ?a)\<rparr>"
    using r4 key2 by (auto simp: during_def intro: step_obtain)
  have "ContainsFinalizer (rc_Lib R) (om_Finalizers (ur_meta ?u1)) OperationFinalizer"
    using st parts by (simp add: at_stage_def)
  then have "V (snd (run_state (handleCompleted R u) w)) = V w5"
    using r1 app retain r4 r5 by (simp add: handleCompleted_def run_on_err remove_finalizer_def)
  moreover have "IsStatusConditionTrue (rc_Lib R) (ur_Conditions ?u2) ConditionTypeComplete"
    by (simp add: completed_def Let_def set_condition_def is_true_set)
  moreover have "meta_key (ur_meta ?u2) = meta_key (ur_meta u0)" "ur_Spec ?u2 = ur_Spec u0"
    using st key2 parts by (simp_all add: at_stage_def)
  moreover have "recorded_versions ?u2 = upgraded_from a v" using upg nv pv parts(3) by simp
  ultimately show ?thesis
    using r5(2) nv same by (intro exI [of _ ?u2] exI [of _ ?a]) (simp add: contains_remove upgraded_app_def)
qed

end

section \<open>The whole upgrade\<close>

text \<open>A request that no reconcile has touched.\<close>

definition untouched :: "klib \<Rightarrow> UpgradeRequest \<Rightarrow> bool" where
  "untouched L u \<longleftrightarrow> om_DeletionTimestamp (ur_meta u) = None \<and> ur_Conditions u = [] \<and>
     urst_Upgrade (ur_Status u) = None \<and> \<not> ContainsFinalizer L (om_Finalizers (ur_meta u)) OperationFinalizer"

text \<open>
  What the store holds when the upgrade of \<open>u0\<close> is done: the request succeeded and is released, the
  two versions are recorded in it, the application records version \<open>v\<close>, the file is the edited one, Flux is resumed; the rest is as it was.
\<close>

definition upgrade_done ::
  "klib \<Rightarrow> store \<Rightarrow> UpgradeRequest \<Rightarrow> ManagedApp \<Rightarrow> Kustomization \<Rightarrow> VersionInfo \<Rightarrow> string \<Rightarrow> store \<Rightarrow> bool" where
  "upgrade_done L s u0 a x v c' s' \<longleftrightarrow> (\<exists>u' a'.
     s' = (during s u' (kustomization_key a) (x\<lparr>ks_Suspend := False\<rparr>) (mas_GitPath (ma_Spec a)) c')
       \<lparr>st_Apps := (st_Apps s)(managed_app_key u0 \<mapsto> a')\<rparr> \<and>
     meta_key (ur_meta u') = meta_key (ur_meta u0) \<and> ur_Spec u' = ur_Spec u0 \<and> recorded_versions u' = upgraded_from a v \<and>
     IsStatusConditionTrue L (ur_Conditions u') ConditionTypeComplete \<and>
     \<not> ContainsFinalizer L (om_Finalizers (ur_meta u')) OperationFinalizer \<and>
     mast_CurrentVersion (ma_Status a') = Some v \<and> mast_AvailableUpdate (ma_Status a') = None \<and>
     ma_Spec a' = ma_Spec a \<and> ma_meta a' = ma_meta a)"

lemmas phase_types = ConditionTypeComplete_def ConditionTypeSuspended_def ConditionTypeSnapshotReady_def
  ConditionTypeWorkloadStopped_def ConditionTypeGitCommitted_def ConditionTypeReconciled_def ConditionTypeHealthy_def

context faithful_store
begin

lemma start_stage:
  assumes "st_Upgrades (V w) k = Some u0" and "untouched (rc_Lib R) u0"
  shows "\<exists>u'. V (snd (run_state (Reconcile R k) w)) = (V w)\<lparr>st_Upgrades := (st_Upgrades (V w))(k \<mapsto> u')\<rparr> \<and>
     at_stage (rc_Lib R) u0 Map.empty None u'"
proof -
  let ?u = "u0\<lparr>ur_meta := (ur_meta u0)\<lparr>om_Finalizers :=
    AddFinalizer (rc_Lib R) (om_Finalizers (ur_meta u0)) OperationFinalizer\<rparr>\<rparr>"
  have key: "meta_key (ur_meta ?u) = k" using get_upgrade [OF assms(1)] by (simp add: meta_key_def)
  obtain w1 where r1: "run_state (GetUpgradeRequest (rc_Client R) k) w = (Inr u0, w1)" "V w1 = V w"
    using get_upgrade [OF assms(1)] by (metis step_obtain)
  have "st_Upgrades (V w1) (meta_key (ur_meta ?u)) = Some u0" using r1 assms(1) key by simp
  from update_upgrade [OF this] obtain w2
    where r2: "run_state (UpdateUpgradeRequest (rc_Client R) ?u) w1 = (Inr ?u, w2)"
      "V w2 = (V w)\<lparr>st_Upgrades := (st_Upgrades (V w))(k \<mapsto> ?u)\<rparr>"
    using r1 key by (auto intro: step_obtain)
  have "V (snd (run_state (Reconcile R k) w)) = V w2"
    using r1 r2 assms(2) by (simp add: Reconcile_def untouched_def run_on_err)
  moreover have "at_stage (rc_Lib R) u0 Map.empty None ?u"
    using assms(2) by (simp add: at_stage_def untouched_def contains_add find_empty meta_key_def)
  ultimately show ?thesis using r2(2) by auto
qed

lemma handled:
  assumes "V w = around s a u y c" and "at_stage (rc_Lib R) u0 cs nv u" and "cs ConditionTypeComplete = None"
    and "k = meta_key (ur_meta u0)"
  obtains w' where "run_state (Reconcile R k) w = run_state (phase_step R u) w'" and "V w' = around s a u y c"
proof -
  have "st_Upgrades (V w) k = Some u" using assms(1,2,4) by (simp add: at_stage_def)
  from step_of_stage [OF this assms(2,3)] show ?thesis using assms(1) that by simp
qed

lemma commit_reconcile:
  assumes up: "upgradable R s u0 a x v c'" and c: "st_Files s (mas_GitPath (ma_Spec a)) = Some c"
    and V: "V w = around s a u y c" and st: "at_stage (rc_Lib R) u0 cs nv u" and "ks_Suspend y"
    and cs: "cs = [ConditionTypeSuspended \<mapsto> ConditionTrue, ConditionTypeSnapshotReady \<mapsto> ConditionTrue]"
    and dry: "\<not> urs_DryRun (ur_Spec u0)"
  shows "\<exists>u'. V (snd (run_state (phase_step R u) w)) = around s a u' y c' \<and>
     at_stage (rc_Lib R) u0 (cs(ConditionTypeWorkloadStopped \<mapsto> ConditionTrue, ConditionTypeGitCommitted \<mapsto> ConditionTrue))
       (upgraded_from a v) u'"
proof -
  obtain u1 w1 where r1: "run_state (handleScaleDown R u) w = (Inr u1, w1)" and V1: "V w1 = around s a u1 y c"
    and st1: "at_stage (rc_Lib R) u0 (cs(ConditionTypeWorkloadStopped \<mapsto> ConditionTrue)) nv u1"
    using scale_stage [OF up V st] .
  have "\<not> urs_DryRun (ur_Spec u)" using st dry by (simp add: at_stage_def)
  then have "run_state (phase_step R u) w = run_state (handleCommitting R u1) w1"
    using r1 by (simp add: phase_step_def later_phases_def at_stage_true [OF st] at_stage_find [OF st]
        at_stage_true [OF st1] cs phase_types run_on_err)
  with commit_stage [OF up c V1 st1 \<open>ks_Suspend y\<close>] show ?thesis by simp
qed

lemma advance:
  assumes "V w = around s a u y c" and "at_stage (rc_Lib R) u0 cs nv u" and "cs ConditionTypeComplete = None"
    and "k = meta_key (ur_meta u0)"
    and "\<And>w'. V w' = around s a u y c \<Longrightarrow>
      \<exists>u'. V (snd (run_state (phase_step R u) w')) = around s a u' y' c' \<and> at_stage (rc_Lib R) u0 cs' nv' u'"
  obtains u' where "V (snd (run_state (Reconcile R k) w)) = around s a u' y' c'" and "at_stage (rc_Lib R) u0 cs' nv' u'"
  using handled [OF assms(1-4)] assms(5) by metis

text \<open>Three reconciles: the finalizer, the suspension, and the commit after the scale-down is skipped.\<close>

abbreviation suspended_stage :: "string \<rightharpoonup> string" where
  "suspended_stage \<equiv> [ConditionTypeSuspended \<mapsto> ConditionTrue, ConditionTypeSnapshotReady \<mapsto> ConditionTrue]"

abbreviation committed_stage :: "string \<rightharpoonup> string" where
  "committed_stage \<equiv> suspended_stage(ConditionTypeWorkloadStopped \<mapsto> ConditionTrue, ConditionTypeGitCommitted \<mapsto> ConditionTrue)"

abbreviation reconciled_stage :: "string \<rightharpoonup> string" where
  "reconciled_stage \<equiv> committed_stage(ConditionTypeSuspended \<mapsto> ConditionFalse, ConditionTypeReconciled \<mapsto> ConditionTrue)"

lemmas decide = phase_step_def later_phases_def phase_types

lemma three_reconciles:
  assumes u0: "st_Upgrades (V w) k = Some u0" "untouched (rc_Lib R) u0" "\<not> urs_DryRun (ur_Spec u0)"
    and up: "upgradable R (V w) u0 a x v c'"
  shows "\<exists>u'. V (repeated 3 (Reconcile R k) w) = around (V w) a u' (x\<lparr>ks_Suspend := True\<rparr>) c' \<and>
    at_stage (rc_Lib R) u0 committed_stage (upgraded_from a v) u'"
proof -
  let ?s = "V w" and ?L = "rc_Lib R" and ?on = "x\<lparr>ks_Suspend := True\<rparr>"
  let ?step = "\<lambda>w. snd (run_state (Reconcile R k) w)"
  have k: "k = meta_key (ur_meta u0)" using get_upgrade [OF u0(1)] by simp
  obtain c where c: "st_Files ?s (mas_GitPath (ma_Spec a)) = Some c" using up by (auto simp: upgradable_def)
  obtain u1 where "V (?step w) = ?s\<lparr>st_Upgrades := (st_Upgrades ?s)(k \<mapsto> u1)\<rparr>" and s1: "at_stage ?L u0 Map.empty None u1"
    using start_stage [OF u0(1,2)] by blast
  then have V1: "V (?step w) = around ?s a u1 x c"
    using upgradable_simps(6) [OF up] c k by (simp add: during_def at_stage_def fun_upd_idem)
  have "\<not> urs_DryRun (ur_Spec u1)" using s1 u0(3) by (simp add: at_stage_def)
  then have h1: "\<exists>u'. V (snd (run_state (phase_step R u1) w')) = around ?s a u' ?on c \<and> at_stage ?L u0 suspended_stage None u'"
    if "V w' = around ?s a u1 x c" for w'
    using suspend_stage [OF up c that s1] at_stage_find [OF s1] by (simp add: decide)
  obtain u2 where V2: "V (?step (?step w)) = around ?s a u2 ?on c" and s2: "at_stage ?L u0 suspended_stage None u2"
    by (rule advance [OF V1 s1 _ k h1]) simp_all
  have h2: "\<exists>u'. V (snd (run_state (phase_step R u2) w')) = around ?s a u' ?on c' \<and>
      at_stage ?L u0 committed_stage (upgraded_from a v) u'" if "V w' = around ?s a u2 ?on c" for w'
    using commit_reconcile [OF up c that s2 _ _ u0(3)] by simp
  obtain u3 where "V (?step (?step (?step w))) = around ?s a u3 ?on c'" and "at_stage ?L u0 committed_stage (upgraded_from a v) u3"
    by (rule advance [OF V2 s2 _ k h2]) (simp_all add: phase_types)
  then show ?thesis by (auto simp: eval_nat_numeral)
qed

text \<open>Three more: the resumption, the health check, the end.\<close>

lemma last_reconciles:
  assumes u0: "\<not> urs_DryRun (ur_Spec u0)" and up: "upgradable R s u0 a x v c'" and k: "k = meta_key (ur_meta u0)"
    and V3: "V w = around s a u3 (x\<lparr>ks_Suspend := True\<rparr>) c'" and s3: "at_stage (rc_Lib R) u0 committed_stage (upgraded_from a v) u3"
  obtains u5 w' where "repeated 3 (Reconcile R k) w = snd (run_state (handleCompleted R u5) w')"
    and "V w' = around s a u5 (x\<lparr>ks_Suspend := False\<rparr>) c'"
    and "at_stage (rc_Lib R) u0 (reconciled_stage(ConditionTypeHealthy \<mapsto> ConditionTrue)) (upgraded_from a v) u5"
proof -
  let ?L = "rc_Lib R" and ?off = "x\<lparr>ks_Suspend := False\<rparr>" and ?step = "\<lambda>w. snd (run_state (Reconcile R k) w)"
  have ready: "ready_root a (x\<lparr>ks_Suspend := b\<rparr>)" for b using upgradable_simps(2) [OF up] by simp
  have spec: "\<not> urs_DryRun (ur_Spec u)" if "at_stage ?L u0 cs nv u" for cs nv u
    using that u0 by (simp add: at_stage_def)
  have h3: "\<exists>u'. V (snd (run_state (phase_step R u3) w')) = around s a u' ?off c' \<and>
      at_stage ?L u0 reconciled_stage (upgraded_from a v) u'" if "V w' = around s a u3 (x\<lparr>ks_Suspend := True\<rparr>) c'" for w'
    using reconcile_stage [OF up that s3 ready] spec [OF s3] at_stage_find [OF s3] at_stage_true [OF s3]
    by (simp add: decide)
  obtain u4 where V4: "V (?step w) = around s a u4 ?off c'" and s4: "at_stage ?L u0 reconciled_stage (upgraded_from a v) u4"
    by (rule advance [OF V3 s3 _ k h3]) (simp_all add: phase_types)
  let ?c5 = "reconciled_stage(ConditionTypeHealthy \<mapsto> ConditionTrue)"
  have h4: "\<exists>u'. V (snd (run_state (phase_step R u4) w')) = around s a u' ?off c' \<and> at_stage ?L u0 ?c5 (upgraded_from a v) u'"
    if "V w' = around s a u4 ?off c'" for w'
    using health_stage [OF up that s4 ready] spec [OF s4] at_stage_find [OF s4] at_stage_true [OF s4]
    by (simp add: decide)
  obtain u5 where V5: "V (?step (?step w)) = around s a u5 ?off c'" and s5: "at_stage ?L u0 ?c5 (upgraded_from a v) u5"
    by (rule advance [OF V4 s4 _ k h4]) (simp_all add: phase_types)
  obtain w6 where "run_state (Reconcile R k) (?step (?step w)) = run_state (phase_step R u5) w6"
    and V6: "V w6 = around s a u5 ?off c'"
    by (rule handled [OF V5 s5 _ k]) (simp_all add: phase_types)
  moreover have "run_state (phase_step R u5) w6 = run_state (handleCompleted R u5) w6"
    using spec [OF s5] at_stage_find [OF s5] at_stage_true [OF s5] by (simp add: decide)
  ultimately have "repeated 3 (Reconcile R k) w = snd (run_state (handleCompleted R u5) w6)"
    by (simp add: eval_nat_numeral)
  then show ?thesis using V6 s5 by (rule that)
qed

text \<open>The upgrade, from the request that nobody touched to its end.\<close>

lemma six_reconciles:
  assumes u0: "st_Upgrades (V w) k = Some u0" "untouched (rc_Lib R) u0" "\<not> urs_DryRun (ur_Spec u0)"
    and up: "upgradable R (V w) u0 a x v c'"
  shows "upgrade_done (rc_Lib R) (V w) u0 a x v c' (V (repeated 6 (Reconcile R k) w))"
proof -
  have k: "k = meta_key (ur_meta u0)" using get_upgrade [OF u0(1)] by simp
  obtain u3 where V3: "V (repeated 3 (Reconcile R k) w) = around (V w) a u3 (x\<lparr>ks_Suspend := True\<rparr>) c'"
    and s3: "at_stage (rc_Lib R) u0 committed_stage (upgraded_from a v) u3"
    using three_reconciles [OF assms] by blast
  obtain u5 w' where r: "repeated 3 (Reconcile R k) (repeated 3 (Reconcile R k) w) = snd (run_state (handleCompleted R u5) w')"
    and V6: "V w' = around (V w) a u5 (x\<lparr>ks_Suspend := False\<rparr>) c'"
    and s5: "at_stage (rc_Lib R) u0 (reconciled_stage(ConditionTypeHealthy \<mapsto> ConditionTrue)) (upgraded_from a v) u5"
    by (rule last_reconciles [OF u0(3) up k V3 s3])
  have "repeated 6 (Reconcile R k) w = repeated 3 (Reconcile R k) (repeated 3 (Reconcile R k) w)"
    using repeated_add [of 3 3 "Reconcile R k" w] by simp
  then show ?thesis using complete_stage [OF up V6 s5] r by (simp add: upgrade_done_def)
qed

end

end
