(* ===== verification/RollbackProgress.thy ===== *)
theory RollbackProgress
  imports Rollback Store
begin

text \<open>
  Progress of a rollback in an environment where everything works (\<open>faithful_store\<close>), stage by stage
  as for the upgrade: the rollback of a finished upgrade that ran without snapshots, back to the chart
  version it recorded; other objects of the store are arbitrary.
\<close>

section \<open>Stages\<close>

text \<open>What a rollback needs: a finished upgrade that recorded where it came from, and a file that can be edited.\<close>

definition revertible ::
  "('w, 'n) reconciler \<Rightarrow> store \<Rightarrow> RollbackRequest \<Rightarrow> UpgradeRequest \<Rightarrow> UpgradeStatus \<Rightarrow> ManagedApp \<Rightarrow>
     Kustomization \<Rightarrow> VersionInfo \<Rightarrow> string \<Rightarrow> bool" where
  "revertible R s r g up a x v content' \<longleftrightarrow>
     st_Upgrades s (upgrade_request_key r) = Some g \<and> isUpgradeTerminal R g \<and> urs_SkipSnapshot (ur_Spec g) \<and>
     urst_Upgrade (ur_Status g) = Some up \<and> us_PreviousVersion up = Some v \<and> vi_Chart v \<noteq> [] \<and>
     st_Apps s (managed_app_key g) = Some a \<and> st_Kustomizations s (kustomization_key a) = Some x \<and>
     simple_app a \<and> ready_root a x \<and>
     (\<exists>content old. st_Files s (mas_GitPath (ma_Spec a)) = Some content \<and>
        GetVersion (rc_Yaml R) content (version_path_of a) = Inr old \<and>
        UpdateVersion (rc_Yaml R) content (version_path_of a) (vi_Chart v) = Inr content')"

lemma revertible_simps:
  assumes "revertible R s r g up a x v c'"
  shows "st_Upgrades s (upgrade_request_key r) = Some g" "isUpgradeTerminal R g" "urs_SkipSnapshot (ur_Spec g)"
    "urst_Upgrade (ur_Status g) = Some up" "us_PreviousVersion up = Some v" "vi_Chart v \<noteq> []"
    "st_Apps s (managed_app_key g) = Some a" "st_Kustomizations s (kustomization_key a) = Some x"
    "simple_app a" "ready_root a x" "\<not> has_snapshots g" "reversible_upgrade g = Some up"
  using assms by (simp_all add: revertible_def has_snapshots_def reversible_upgrade_def)

lemma revertible_file:
  assumes "revertible R s r g up a x v c'" and "st_Files s (mas_GitPath (ma_Spec a)) = Some c"
  shows "\<exists>old. GetVersion (rc_Yaml R) c (version_path_of a) = Inr old"
    "UpdateVersion (rc_Yaml R) c (version_path_of a) (vi_Chart v) = Inr c'"
  using assms by (auto simp: revertible_def)

text \<open>The stored request during the rollback \<open>r0\<close>, with the status of its conditions.\<close>

definition rb_stage :: "klib \<Rightarrow> RollbackRequest \<Rightarrow> (string \<rightharpoonup> string) \<Rightarrow> RollbackRequest \<Rightarrow> bool" where
  "rb_stage L r0 cs r \<longleftrightarrow>
     rr_Spec r = rr_Spec r0 \<and> meta_key (rr_meta r) = meta_key (rr_meta r0) \<and> om_DeletionTimestamp (rr_meta r) = None \<and>
     ContainsFinalizer L (om_Finalizers (rr_meta r)) OperationFinalizer \<and>
     (\<forall>t. map_option c_Status (FindStatusCondition L (rr_Conditions r) t) = cs t)"

definition rb_during ::
  "store \<Rightarrow> RollbackRequest \<Rightarrow> NamespacedName \<Rightarrow> Kustomization \<Rightarrow> string \<Rightarrow> string \<Rightarrow> store" where
  "rb_during s r kk x p c = s\<lparr>st_Rollbacks := (st_Rollbacks s)(meta_key (rr_meta r) \<mapsto> r),
     st_Kustomizations := (st_Kustomizations s)(kk \<mapsto> x), st_Files := (st_Files s)(p \<mapsto> c)\<rparr>"

lemma rb_during_simps [simp]:
  "st_Rollbacks (rb_during s r kk x p c) = (st_Rollbacks s)(meta_key (rr_meta r) \<mapsto> r)"
  "st_Kustomizations (rb_during s r kk x p c) = (st_Kustomizations s)(kk \<mapsto> x)"
  "st_Files (rb_during s r kk x p c) = (st_Files s)(p \<mapsto> c)"
  "st_Apps (rb_during s r kk x p c) = st_Apps s" "st_Upgrades (rb_during s r kk x p c) = st_Upgrades s"
  by (simp_all add: rb_during_def)

lemma rb_during_replace:
  "meta_key (rr_meta r') = meta_key (rr_meta r) \<Longrightarrow>
     rb_during s r kk x p c\<lparr>st_Rollbacks := (st_Rollbacks s)(meta_key (rr_meta r) \<mapsto> r')\<rparr> = rb_during s r' kk x p c"
  "rb_during s r kk x p c\<lparr>st_Kustomizations := (st_Kustomizations s)(kk \<mapsto> x')\<rparr> = rb_during s r kk x' p c"
  "rb_during s r kk x p c\<lparr>st_Files := (st_Files s)(p \<mapsto> c')\<rparr> = rb_during s r kk x p c'"
  by (simp_all add: rb_during_def)

text \<open>Updates that leave what a stage fixes.\<close>

definition same_stage :: "RollbackRequest \<Rightarrow> RollbackRequest \<Rightarrow> bool" where
  "same_stage r r' \<longleftrightarrow> rr_meta r' = rr_meta r \<and> rr_Spec r' = rr_Spec r \<and> rr_Conditions r' = rr_Conditions r"

lemma same_stage_updates [simp]:
  "same_stage r r" "same_stage r (set_phase_start t r)" "same_stage r (set_restored_from g up r)"
  "same_stage r (r\<lparr>rr_Status := (rr_Status r)\<lparr>rrst_StartedAt := t\<rparr>\<rparr>)"
  "same_stage r (r\<lparr>rr_Status := (rr_Status r)\<lparr>rrst_GitRevert := gr\<rparr>\<rparr>)"
  "same_stage r (r\<lparr>rr_Status := (rr_Status r)\<lparr>rrst_CompletedAt := t\<rparr>\<rparr>)"
  by (simp_all add: same_stage_def set_phase_start_def set_restored_from_def)

lemma same_stage_trans: "same_stage r1 r2 \<Longrightarrow> same_stage r2 r3 \<Longrightarrow> same_stage r1 r3"
  by (simp add: same_stage_def)

lemma rb_stage_same: "rb_stage L r0 cs r \<Longrightarrow> same_stage r r' \<Longrightarrow> rb_stage L r0 cs r'"
  by (simp add: rb_stage_def same_stage_def)

lemma rb_set_condition_parts [simp]:
  "rr_meta (set_condition L t st rs m r) = rr_meta r" "rr_Spec (set_condition L t st rs m r) = rr_Spec r"
  by (simp_all add: set_condition_def)

lemma rb_stage_key: "rb_stage L r0 cs r \<Longrightarrow> upgrade_request_key r = upgrade_request_key r0"
  by (simp add: rb_stage_def upgrade_request_key_def meta_key_def)

context conditions_api
begin

lemma rb_stage_set: "rb_stage L r0 cs r \<Longrightarrow> rb_stage L r0 (cs(t \<mapsto> st)) (set_condition L t st rs m r)"
  by (auto simp: rb_stage_def set_condition_def find_set)

lemma rb_stage_true: "rb_stage L r0 cs r \<Longrightarrow> IsStatusConditionTrue L (rr_Conditions r) t \<longleftrightarrow> cs t = Some ConditionTrue"
  by (auto simp: rb_stage_def is_true_iff dest!: spec [of _ t])

lemma rb_stage_find: "rb_stage L r0 cs r \<Longrightarrow> FindStatusCondition L (rr_Conditions r) t = None \<longleftrightarrow> cs t = None"
  by (auto simp: rb_stage_def dest!: spec [of _ t])

end

section \<open>One reconcile\<close>

context faithful_store
begin

abbreviation rb_around :: "store \<Rightarrow> ManagedApp \<Rightarrow> RollbackRequest \<Rightarrow> Kustomization \<Rightarrow> string \<Rightarrow> store" where
  "rb_around s a r x c \<equiv> rb_during s r (kustomization_key a) x (mas_GitPath (ma_Spec a)) c"

lemma rb_exec_save:
  assumes "st_Rollbacks (V w) (meta_key (rr_meta r)) = Some old" and "rr_meta r = rr_meta old" and "rr_Spec r = rr_Spec old"
  shows "V (snd (run_state (save_status R r res) w)) = (V w)\<lparr>st_Rollbacks := (st_Rollbacks (V w))(meta_key (rr_meta r) \<mapsto> r)\<rparr>"
  using status_rollback [OF assms] by (simp add: save_status_def exec)

text \<open>Saving a changed request, and the stage it is in then.\<close>

lemma rb_saved:
  assumes "V w = rb_around s a r y c" and "rb_stage (rc_Lib R) r0 cs r" and "same_stage r r1"
    and "r' = set_condition (rc_Lib R) t st rs m r1"
  shows "V (snd (run_state (save_status R r' res) w)) = rb_around s a r' y c"
    and "rb_stage (rc_Lib R) r0 (cs(t \<mapsto> st)) r'"
proof -
  have parts: "rr_meta r' = rr_meta r" "rr_Spec r' = rr_Spec r" using assms(3,4) by (simp_all add: same_stage_def)
  then show "V (snd (run_state (save_status R r' res) w)) = rb_around s a r' y c"
    by (subst rb_exec_save) (simp_all add: assms(1) rb_during_replace)
  show "rb_stage (rc_Lib R) r0 (cs(t \<mapsto> st)) r'"
    unfolding assms(4) by (rule rb_stage_set [OF rb_stage_same [OF assms(2,3)]])
qed

lemma rb_phase_started:
  obtains t w' where "run_state (setPhaseStartIfNeeded R r) w = (set_phase_start t r, w')" and "V w' = V w"
proof (cases "rrst_PhaseStartedAt (rr_Status r)")
  case None
  then show ?thesis
    by (intro that [of "Some (fst (run_state (Now (rc_Client R)) w))" "snd (run_state (Now (rc_Client R)) w)"])
      (simp_all add: setPhaseStartIfNeeded_def run_case_fst now_pure)
next
  case (Some t)
  then show ?thesis
    by (intro that [of "Some t" w]) (simp_all add: setPhaseStartIfNeeded_def set_phase_start_def)
qed

lemma rb_started:
  obtains t w' where "run_state (set_started_if_needed R r) w = (r\<lparr>rr_Status := (rr_Status r)\<lparr>rrst_StartedAt := t\<rparr>\<rparr>, w')"
    and "V w' = V w"
proof (cases "rrst_StartedAt (rr_Status r)")
  case None
  then show ?thesis
    by (intro that [of "Some (fst (run_state (Now (rc_Client R)) w))" "snd (run_state (Now (rc_Client R)) w)"])
      (simp_all add: set_started_if_needed_def run_case_fst now_pure)
next
  case (Some t)
  then show ?thesis
    by (intro that [of "Some t" w]) (simp_all add: set_started_if_needed_def)
qed

lemma rb_upgrade_there:
  assumes "revertible R s r0 g up a x v c'" and "V w = rb_around s a r y c" and "rb_stage L r0 cs r" and "same_stage r r1"
  obtains w' where "run_state (getUpgradeRequest R r1) w = (Inr g, w')" and "V w' = V w"
proof -
  have "upgrade_request_key r1 = upgrade_request_key r0"
    by (rule rb_stage_key [OF rb_stage_same [OF assms(3,4)]])
  then have "st_Upgrades (V w) (upgrade_request_key r1) = Some g"
    using revertible_simps(1) [OF assms(1)] assms(2) by simp
  from get_upgrade [OF this] obtain w' where "run_state (GetUpgradeRequest (rc_Client R) (upgrade_request_key r1)) w = (Inr g, w')"
    and "V w' = V w" by (metis step_obtain)
  then show ?thesis by (intro that [of w']) (simp_all add: getUpgradeRequest_def)
qed

lemma rb_app_there:
  assumes "revertible R s r0 g up a x v c'" and "V w = rb_around s a r y c"
  obtains w' where "run_state (getManagedApp R g) w = (Inr a, w')" and "V w' = V w"
proof -
  have "st_Apps (V w) (managed_app_key g) = Some a" using revertible_simps(7) [OF assms(1)] assms(2) by simp
  from get_app [OF this] obtain w' where "run_state (GetManagedApp (rc_Client R) (managed_app_key g)) w = (Inr a, w')"
    and "V w' = V w" by (metis step_obtain)
  then show ?thesis by (intro that [of w']) (simp_all add: getManagedApp_def)
qed

text \<open>Both lookups, as the handlers begin with them.\<close>

lemma rb_both_there:
  assumes "revertible R s r0 g up a x v c'" and "V w = rb_around s a r y c" and "rb_stage L r0 cs r" and "same_stage r r1"
  obtains w1 w2 where "run_state (getUpgradeRequest R r1) w = (Inr g, w1)" and "run_state (getManagedApp R g) w1 = (Inr a, w2)"
    and "V w2 = rb_around s a r y c"
proof -
  obtain w1 where r1: "run_state (getUpgradeRequest R r1) w = (Inr g, w1)" "V w1 = V w"
    by (rule rb_upgrade_there [OF assms])
  have "V w1 = rb_around s a r y c" using r1 assms(2) by simp
  then obtain w2 where "run_state (getManagedApp R g) w1 = (Inr a, w2)" "V w2 = V w1"
    by (rule rb_app_there [OF assms(1)])
  then show ?thesis using r1 assms(2) by (intro that [of w1 w2]) simp_all
qed

lemma rb_exec_preview:
  assumes "revertible R s r0 g up a x v c'" and "st_Files (V w) (mas_GitPath (ma_Spec a)) = st_Files s (mas_GitPath (ma_Spec a))"
  shows "\<exists>vs. fst (run_state (git_preview R a up) w) = Inr vs" and "V (snd (run_state (git_preview R a up) w)) = V w"
proof -
  from assms obtain content where stored: "st_Files (V w) (mas_GitPath (ma_Spec a)) = Some content"
    by (auto simp: revertible_def)
  note edit = revertible_file [OF assms(1)] revertible_simps(5,6) [OF assms(1)]
  show "\<exists>vs. fst (run_state (git_preview R a up) w) = Inr vs" and "V (snd (run_state (git_preview R a up) w)) = V w"
    using read_file [OF stored] edit stored assms(2)
    by (auto simp: git_preview_def git_there runRollbackGitDiffPreview_def revert_version_def exec)
qed

lemma rb_exec_preflight:
  assumes "simple_app a" and "st_Kustomizations (V w) (kustomization_key a) = Some x" and "ready_root a x" and "\<not> has_snapshots g"
  shows "\<exists>pf. fst (run_state (runRollbackPreflight R a g) w) = Inr pf"
    and "V (snd (run_state (runRollbackPreflight R a g) w)) = V w"
proof -
  have ref: "getSuspendRefStruct a = None" and same: "suspend_key a = kustomization_key a"
    using assms(1) by (simp_all add: simple_app_def getSuspendRefStruct_def suspend_key_def getSuspendTarget_def kustomization_key_def)
  have root: "\<not> mbi_IsManaged (managed_by x (nn_Namespace (kustomization_key a)))"
    using assms(3) by (simp add: ready_root_def)
  show "\<exists>pf. fst (run_state (runRollbackPreflight R a g) w) = Inr pf"
    and "V (snd (run_state (runRollbackPreflight R a g) w)) = V w"
    using exec_validate [OF assms(2) root] assms(2,4)
    by (auto simp: runRollbackPreflight_def ref same Let_def exec exec_reconciled exec_suspended)
qed

lemma rb_suspend_stage:
  assumes up: "revertible R s r0 g upg a x v c'" and c: "st_Files s (mas_GitPath (ma_Spec a)) = Some c"
    and V: "V w = rb_around s a r x c" and st: "rb_stage (rc_Lib R) r0 Map.empty r"
  shows "\<exists>r'. V (snd (run_state (handleSuspend R r) w)) = rb_around s a r' (x\<lparr>ks_Suspend := True\<rparr>) c \<and>
     rb_stage (rc_Lib R) r0 [ConditionTypeSuspended \<mapsto> ConditionTrue, ConditionTypeVolumesRestored \<mapsto> ConditionTrue] r'"
proof -
  note facts = revertible_simps [OF up]
  let ?n = "nn_Name (kustomization_key a)" and ?ns = "nn_Namespace (kustomization_key a)"
  obtain t w0 where r0: "run_state (set_started_if_needed R r) w = (r\<lparr>rr_Status := (rr_Status r)\<lparr>rrst_StartedAt := t\<rparr>\<rparr>, w0)"
    "V w0 = V w" by (rule rb_started)
  let ?r1 = "r\<lparr>rr_Status := (rr_Status r)\<lparr>rrst_StartedAt := t\<rparr>\<rparr>"
  have V0: "V w0 = rb_around s a r x c" using r0 V by simp
  obtain w1 w2 where r2: "run_state (getUpgradeRequest R ?r1) w0 = (Inr g, w1)" "run_state (getManagedApp R g) w1 = (Inr a, w2)"
    "V w2 = rb_around s a r x c" by (rule rb_both_there [OF up V0 st same_stage_updates(4)])
  have "st_Files (V w2) (mas_GitPath (ma_Spec a)) = st_Files s (mas_GitPath (ma_Spec a))" using r2 c by simp
  then obtain vs w3 where r3: "run_state (git_preview R a upg) w2 = (Inr vs, w3)" "V w3 = V w2"
    using rb_exec_preview [OF up] by (metis step_obtain)
  have "st_Kustomizations (V w3) (kustomization_key a) = Some x" using r2 r3 by simp
  then obtain pf w4 where r4: "run_state (runRollbackPreflight R a g) w3 = (Inr pf, w4)" "V w4 = V w3"
    using rb_exec_preflight [OF facts(9) _ facts(10,11)] by (metis step_obtain)
  have ks: "st_Kustomizations (V w4) (NN ?n ?ns) = Some x" using r2 r3 r4 by simp
  obtain w5 where r5: "run_state (SuspendKustomization (rc_Client R) ?n ?ns) w4 = (Inr (), w5)"
    "V w5 = rb_around s a r (x\<lparr>ks_Suspend := True\<rparr>) c"
    by (rule step_obtain [OF exec_suspend(1) [OF ks] exec_suspend(2) [OF ks]]) (simp add: r2 r3 r4 rb_during_replace)
  let ?r2 = "set_condition (rc_Lib R) ConditionTypeSuspended ConditionTrue ''KustomizationSuspended''
    (''Suspended '' @ ?ns @ ''/'' @ ?n) (set_restored_from g upg ?r1)"
  let ?r = "set_condition (rc_Lib R) ConditionTypeVolumesRestored ConditionTrue ''VolumesSkipped''
    ''No snapshots to restore (upgrade had skipSnapshot=true or no snapshots)'' ?r2"
  have same: "same_stage r (set_restored_from g upg ?r1)"
    by (rule same_stage_trans [OF same_stage_updates(4) same_stage_updates(3)])
  have "V (snd (run_state (handleSuspend R r) w)) = V (snd (run_state (save_status R ?r ResultRequeue) w5))"
    using r0 r2 r3 r4 r5 facts by (simp add: handleSuspend_def run_on_err simple_target Let_def)
  also have "\<dots> = rb_around s a ?r (x\<lparr>ks_Suspend := True\<rparr>) c"
    using same by (subst rb_exec_save) (simp_all add: r5 rb_during_replace same_stage_def)
  finally show ?thesis
    using rb_stage_set [OF rb_stage_set [OF rb_stage_same [OF st same]]] by blast
qed

lemma rb_stop_stage:
  assumes up: "revertible R s r0 g upg a x v c'" and V: "V w = rb_around s a r y c" and st: "rb_stage (rc_Lib R) r0 cs r"
  obtains r' w' where "run_state (handleStopWorkload R r) w = (Inr r', w')" and "V w' = rb_around s a r' y c"
    and "rb_stage (rc_Lib R) r0 (cs(ConditionTypeWorkloadStopped \<mapsto> ConditionTrue)) r'"
proof -
  obtain t w0 where r0: "run_state (setPhaseStartIfNeeded R r) w = (set_phase_start t r, w0)" "V w0 = V w"
    by (rule rb_phase_started)
  have V0: "V w0 = rb_around s a r y c" using r0 V by simp
  obtain w1 w2 where r2: "run_state (getUpgradeRequest R (set_phase_start t r)) w0 = (Inr g, w1)"
    "run_state (getManagedApp R g) w1 = (Inr a, w2)" "V w2 = rb_around s a r y c"
    by (rule rb_both_there [OF up V0 st same_stage_updates(2)])
  let ?r = "set_condition (rc_Lib R) ConditionTypeWorkloadStopped ConditionTrue ''NoVolumesToRestore''
    ''Workload stop skipped (no volumes to restore)'' (set_phase_start t r)"
  have parts: "rr_meta ?r = rr_meta r" "rr_Spec ?r = rr_Spec r" by (simp_all add: set_phase_start_def)
  then have "st_Rollbacks (V w2) (meta_key (rr_meta ?r)) = Some r" using r2 by simp
  from status_rollback [OF this parts]
  obtain w3 where r3: "run_state (StatusUpdateRollbackRequest (rc_Client R) ?r) w2 = (Inr ?r, w3)" "V w3 = rb_around s a ?r y c"
    using r2 parts by (auto simp: rb_during_replace intro: step_obtain)
  have "run_state (handleStopWorkload R r) w = (Inr ?r, w3)"
    using r0 r2 r3 revertible_simps(11) [OF up] by (simp add: handleStopWorkload_def skip_stop_def run_on_err)
  then show ?thesis using r3(2) rb_stage_set [OF rb_stage_same [OF st same_stage_updates(2)]] by (rule that)
qed

lemma rb_revert_stage:
  assumes up: "revertible R s r0 g upg a x v c'" and c: "st_Files s (mas_GitPath (ma_Spec a)) = Some c"
    and V: "V w = rb_around s a r y c" and st: "rb_stage (rc_Lib R) r0 cs r" and "ks_Suspend y"
  shows "\<exists>r'. V (snd (run_state (handleGitRevert R r) w)) = rb_around s a r' y c' \<and>
     rb_stage (rc_Lib R) r0 (cs(ConditionTypeGitReverted \<mapsto> ConditionTrue)) r'"
proof -
  note facts = revertible_simps [OF up] and edit = revertible_file(2) [OF up c]
  let ?n = "nn_Name (kustomization_key a)" and ?ns = "nn_Namespace (kustomization_key a)" and ?p = "mas_GitPath (ma_Spec a)"
  obtain w1 w2 where r1: "run_state (getUpgradeRequest R r) w = (Inr g, w1)" "run_state (getManagedApp R g) w1 = (Inr a, w2)"
    "V w2 = rb_around s a r y c" by (rule rb_both_there [OF up V st same_stage_updates(1)])
  have ks: "st_Kustomizations (V w2) (NN ?n ?ns) = Some y" using r1 by simp
  obtain w3 where r2: "run_state (VerifyStillSuspended (rc_Client R) ?n ?ns) w2 = (Inr (), w3)" "V w3 = V w2"
    by (rule step_obtain [OF exec_verify [OF ks \<open>ks_Suspend y\<close>]])
  have "st_Files (V w3) ?p = Some c" using r1 r2 by simp
  then obtain w4 where r3: "run_state (gm_ReadFile G ?p) w3 = (Inr c, w4)" "V w4 = V w3"
    by (metis read_file step_obtain)
  obtain cv where cv: "revert_versions upg v = Some (vi_Chart v, cv)"
    using facts(6) by (simp add: revert_versions_def)
  let ?msg = "FormatRevertCommitMessage (ma_Name a) cv (vi_Chart v) (om_Name (ur_meta g))"
  have "st_Files (V w4) (fc_Path \<lparr>fc_Path = ?p, fc_Content = c'\<rparr>) = Some c" using r1 r2 r3 by simp
  from commit_file [OF this, of ?msg] obtain ci w5
    where r4: "run_state (gm_CommitFile G \<lparr>fc_Path = ?p, fc_Content = c'\<rparr> ?msg) w4 = (Inr ci, w5)" "V w5 = rb_around s a r y c'"
    using r1 r2 r3 by (auto simp: rb_during_replace intro: step_obtain)
  obtain t w6 where r5: "run_state (Now (rc_Client R)) w5 = (t, w6)" "V w6 = rb_around s a r y c'"
    using now_pure [of w5] r4(2) by (metis prod.collapse)
  let ?r = "reverted (rc_Lib R) (ci_SHA ci) t r"
  have "V (snd (run_state (handleGitRevert R r) w)) = V (snd (run_state (save_status R ?r ResultRequeue) w6))"
    using r1 r2 r3 r4 r5 facts cv edit
    by (simp add: handleGitRevert_def commit_revert_def run_on_err simple_target git_there)
  then show ?thesis
    using rb_saved [OF r5(2) st same_stage_updates(5) reverted_def] by (metis (no_types, lifting))
qed

lemma rb_reconcile_stage:
  assumes up: "revertible R s r0 g upg a x v c'" and V: "V w = rb_around s a r y c" and st: "rb_stage (rc_Lib R) r0 cs r"
    and y: "ready_root a y"
  shows "\<exists>r'. V (snd (run_state (handleReconciling R r) w)) = rb_around s a r' (y\<lparr>ks_Suspend := False\<rparr>) c \<and>
     rb_stage (rc_Lib R) r0 (cs(ConditionTypeSuspended \<mapsto> ConditionFalse, ConditionTypeReconciled \<mapsto> ConditionTrue)) r'"
proof -
  let ?n = "nn_Name (kustomization_key a)" and ?ns = "nn_Namespace (kustomization_key a)" and ?y = "y\<lparr>ks_Suspend := False\<rparr>"
  obtain t w0 where r0: "run_state (setPhaseStartIfNeeded R r) w = (set_phase_start t r, w0)" "V w0 = V w"
    by (rule rb_phase_started)
  have V0: "V w0 = rb_around s a r y c" using r0 V by simp
  obtain w1 w2 where r2: "run_state (getUpgradeRequest R (set_phase_start t r)) w0 = (Inr g, w1)"
    "run_state (getManagedApp R g) w1 = (Inr a, w2)" "V w2 = rb_around s a r y c"
    by (rule rb_both_there [OF up V0 st same_stage_updates(2)])
  have ks: "st_Kustomizations (V w2) (NN ?n ?ns) = Some y" using r2 by simp
  obtain w3 where r3: "run_state (ResumeKustomization (rc_Client R) ?n ?ns) w2 = (Inr (), w3)" "V w3 = rb_around s a r ?y c"
    by (rule step_obtain [OF exec_resume(1) [OF ks] exec_resume(2) [OF ks]]) (simp add: r2 rb_during_replace)
  let ?r1 = "set_condition (rc_Lib R) ConditionTypeSuspended ConditionFalse ''KustomizationResumed''
      (''Resumed '' @ ?ns @ ''/'' @ ?n) (set_phase_start t r)"
  have parts: "rr_meta ?r1 = rr_meta r" "rr_Spec ?r1 = rr_Spec r" by (simp_all add: set_phase_start_def)
  then have "st_Rollbacks (V w3) (meta_key (rr_meta ?r1)) = Some r" using r3 by simp
  from status_rollback [OF this parts]
  obtain w4 where r4: "run_state (StatusUpdateRollbackRequest (rc_Client R) ?r1) w3 = (Inr ?r1, w4)" "V w4 = rb_around s a ?r1 ?y c"
    using r3 parts by (auto simp: rb_during_replace intro: step_obtain)
  have st1: "rb_stage (rc_Lib R) r0 (cs(ConditionTypeSuspended \<mapsto> ConditionFalse)) ?r1"
    by (rule rb_stage_set [OF rb_stage_same [OF st same_stage_updates(2)]])
  have "st_Kustomizations (V w4) (NN ?n ?ns) = Some ?y" using r4 by simp
  from exec_reconciled [OF this] obtain w5
    where r5: "run_state (IsReconciled (rc_Client R) ?n ?ns) w4 = (Inr True, w5)" "V w5 = rb_around s a ?r1 ?y c"
    using y r4(2) by (auto simp: ready_root_def ks_ready_def intro: step_obtain)
  let ?r = "set_condition (rc_Lib R) ConditionTypeReconciled ConditionTrue ''ReconciliationSucceeded''
      ''Flux reconciled the changes'' (set_phase_start None ?r1)"
  have "V (snd (run_state (handleReconciling R r) w)) = V (snd (run_state (save_status R ?r ResultRequeue) w5))"
    using r0 r2 r3 r4 r5 revertible_simps(9) [OF up]
    by (simp add: handleReconciling_def run_on_err simple_target resetPhaseStart_def Let_def)
  then show ?thesis
    using rb_saved [OF r5(2) st1 same_stage_updates(2) refl] by (metis (no_types, lifting))
qed

lemma rb_health_stage:
  assumes up: "revertible R s r0 g upg a x v c'" and V: "V w = rb_around s a r y c" and st: "rb_stage (rc_Lib R) r0 cs r"
    and y: "ready_root a y"
  shows "\<exists>r'. V (snd (run_state (handleHealthChecking R r) w)) = rb_around s a r' y c \<and>
     rb_stage (rc_Lib R) r0 (cs(ConditionTypeHealthy \<mapsto> ConditionTrue)) r'"
proof -
  obtain t w0 where r0: "run_state (setPhaseStartIfNeeded R r) w = (set_phase_start t r, w0)" "V w0 = V w"
    by (rule rb_phase_started)
  have V0: "V w0 = rb_around s a r y c" using r0 V by simp
  obtain w1 w2 where r2: "run_state (getUpgradeRequest R (set_phase_start t r)) w0 = (Inr g, w1)"
    "run_state (getManagedApp R g) w1 = (Inr a, w2)" "V w2 = rb_around s a r y c"
    by (rule rb_both_there [OF up V0 st same_stage_updates(2)])
  have "st_Kustomizations (V w2) (kustomization_key a) = Some y" using r2 by simp
  note health = exec_health [OF revertible_simps(9) [OF up] this y]
  obtain h w3 where r3: "run_state (CheckHealth (rc_Client R) (rc_Helm R) a) w2 = (Inr h, w3)" "V w3 = rb_around s a r y c"
    "hr_Healthy h"
    using health r2(3) by (metis prod.collapse)
  have "V (snd (run_state (handleHealthChecking R r) w)) = V (snd (run_state (save_status R
      (set_condition (rc_Lib R) ConditionTypeHealthy ConditionTrue ''HealthCheckPassed'' (hr_Message h) (set_phase_start t r))
      ResultRequeue) w3))"
    using r0 r2 r3 by (simp add: handleHealthChecking_def run_on_err)
  then show ?thesis
    using rb_saved [OF r3(2) st same_stage_updates(2) refl] by (metis (no_types, lifting))
qed

end

section \<open>The whole rollback\<close>

definition rb_untouched :: "klib \<Rightarrow> RollbackRequest \<Rightarrow> bool" where
  "rb_untouched L r \<longleftrightarrow> om_DeletionTimestamp (rr_meta r) = None \<and> rr_Conditions r = [] \<and>
     \<not> ContainsFinalizer L (om_Finalizers (rr_meta r)) OperationFinalizer"

text \<open>
  What the store holds when the rollback \<open>r0\<close> is done: the request succeeded and is released, the file
  is the edited one, Flux is resumed; the rest, the upgrade request included, is as it was.
\<close>

definition rollback_done ::
  "klib \<Rightarrow> store \<Rightarrow> RollbackRequest \<Rightarrow> ManagedApp \<Rightarrow> Kustomization \<Rightarrow> string \<Rightarrow> store \<Rightarrow> bool" where
  "rollback_done L s r0 a x c' s' \<longleftrightarrow> (\<exists>r'.
     s' = rb_during s r' (kustomization_key a) (x\<lparr>ks_Suspend := False\<rparr>) (mas_GitPath (ma_Spec a)) c' \<and>
     meta_key (rr_meta r') = meta_key (rr_meta r0) \<and> rr_Spec r' = rr_Spec r0 \<and>
     IsStatusConditionTrue L (rr_Conditions r') ConditionTypeComplete \<and>
     \<not> ContainsFinalizer L (om_Finalizers (rr_meta r')) OperationFinalizer)"

lemmas rb_phase_types = ConditionTypeComplete_def ConditionTypeSuspended_def ConditionTypeVolumesRestored_def
  ConditionTypeWorkloadStopped_def ConditionTypeGitReverted_def ConditionTypeReconciled_def ConditionTypeHealthy_def

lemmas rb_decide = phase_step_def later_phases_def rb_phase_types

abbreviation rb_suspended_stage :: "string \<rightharpoonup> string" where
  "rb_suspended_stage \<equiv> [ConditionTypeSuspended \<mapsto> ConditionTrue, ConditionTypeVolumesRestored \<mapsto> ConditionTrue]"

abbreviation rb_reverted_stage :: "string \<rightharpoonup> string" where
  "rb_reverted_stage \<equiv>
     rb_suspended_stage(ConditionTypeWorkloadStopped \<mapsto> ConditionTrue, ConditionTypeGitReverted \<mapsto> ConditionTrue)"

abbreviation rb_reconciled_stage :: "string \<rightharpoonup> string" where
  "rb_reconciled_stage \<equiv>
     rb_reverted_stage(ConditionTypeSuspended \<mapsto> ConditionFalse, ConditionTypeReconciled \<mapsto> ConditionTrue)"

context faithful_store
begin

lemma rb_complete_stage:
  assumes V: "V w = rb_around s a r y c" and st: "rb_stage (rc_Lib R) r0 cs r"
  shows "\<exists>r'. V (snd (run_state (handleCompleted R r) w)) = rb_around s a r' y c \<and>
     meta_key (rr_meta r') = meta_key (rr_meta r0) \<and> rr_Spec r' = rr_Spec r0 \<and>
     IsStatusConditionTrue (rc_Lib R) (rr_Conditions r') ConditionTypeComplete \<and>
     \<not> ContainsFinalizer (rc_Lib R) (om_Finalizers (rr_meta r')) OperationFinalizer"
proof -
  obtain t w1 where r1: "run_state (Now (rc_Client R)) w = (t, w1)" "V w1 = rb_around s a r y c"
    using now_pure [of w] V by (metis prod.collapse)
  let ?r1 = "completed (rc_Lib R) t r"
  have parts: "rr_meta ?r1 = rr_meta r" "rr_Spec ?r1 = rr_Spec r" by (simp_all add: completed_def Let_def)
  then have "st_Rollbacks (V w1) (meta_key (rr_meta ?r1)) = Some r" using r1 by simp
  from status_rollback [OF this parts]
  obtain w2 where r2: "run_state (StatusUpdateRollbackRequest (rc_Client R) ?r1) w1 = (Inr ?r1, w2)" "V w2 = rb_around s a ?r1 y c"
    using r1 parts by (auto simp: rb_during_replace intro: step_obtain)
  let ?r2 = "?r1\<lparr>rr_meta := (rr_meta ?r1)\<lparr>om_Finalizers := RemoveFinalizer (rc_Lib R) (om_Finalizers (rr_meta ?r1)) OperationFinalizer\<rparr>\<rparr>"
  have key: "meta_key (rr_meta ?r2) = meta_key (rr_meta ?r1)" by (simp add: meta_key_def)
  then have "st_Rollbacks (V w2) (meta_key (rr_meta ?r2)) = Some ?r1" using r2 by simp
  from update_rollback [OF this]
  obtain w3 where r3: "run_state (UpdateRollbackRequest (rc_Client R) ?r2) w2 = (Inr ?r2, w3)" "V w3 = rb_around s a ?r2 y c"
    using r2 key by (auto simp: rb_during_def intro: step_obtain)
  have "ContainsFinalizer (rc_Lib R) (om_Finalizers (rr_meta ?r1)) OperationFinalizer"
    using st parts by (simp add: rb_stage_def)
  then have "V (snd (run_state (handleCompleted R r) w)) = V w3"
    using r1 r2 r3 by (simp add: handleCompleted_def run_on_err remove_finalizer_def)
  moreover have "IsStatusConditionTrue (rc_Lib R) (rr_Conditions ?r2) ConditionTypeComplete"
    by (simp add: completed_def Let_def set_condition_def is_true_set)
  moreover have "meta_key (rr_meta ?r2) = meta_key (rr_meta r0)" "rr_Spec ?r2 = rr_Spec r0"
    using st key parts by (simp_all add: rb_stage_def)
  ultimately show ?thesis using r3(2) by (intro exI [of _ ?r2]) (simp add: contains_remove)
qed

lemma rb_start_stage:
  assumes "st_Rollbacks (V w) k = Some r0" and "rb_untouched (rc_Lib R) r0"
  shows "\<exists>r'. V (snd (run_state (Reconcile R k) w)) = (V w)\<lparr>st_Rollbacks := (st_Rollbacks (V w))(k \<mapsto> r')\<rparr> \<and>
     rb_stage (rc_Lib R) r0 Map.empty r'"
proof -
  let ?r = "r0\<lparr>rr_meta := (rr_meta r0)\<lparr>om_Finalizers :=
    AddFinalizer (rc_Lib R) (om_Finalizers (rr_meta r0)) OperationFinalizer\<rparr>\<rparr>"
  have key: "meta_key (rr_meta ?r) = k" using get_rollback [OF assms(1)] by (simp add: meta_key_def)
  obtain w1 where r1: "run_state (GetRollbackRequest (rc_Client R) k) w = (Inr r0, w1)" "V w1 = V w"
    using get_rollback [OF assms(1)] by (metis step_obtain)
  have "st_Rollbacks (V w1) (meta_key (rr_meta ?r)) = Some r0" using r1 assms(1) key by simp
  from update_rollback [OF this] obtain w2
    where r2: "run_state (UpdateRollbackRequest (rc_Client R) ?r) w1 = (Inr ?r, w2)"
      "V w2 = (V w)\<lparr>st_Rollbacks := (st_Rollbacks (V w))(k \<mapsto> ?r)\<rparr>"
    using r1 key by (auto intro: step_obtain)
  have "V (snd (run_state (Reconcile R k) w)) = V w2"
    using r1 r2 assms(2) by (simp add: Reconcile_def rb_untouched_def run_on_err)
  moreover have "rb_stage (rc_Lib R) r0 Map.empty ?r"
    using assms(2) by (simp add: rb_stage_def rb_untouched_def contains_add find_empty meta_key_def)
  ultimately show ?thesis using r2(2) by auto
qed

lemma rb_handled:
  assumes "V w = rb_around s a r y c" and "rb_stage (rc_Lib R) r0 cs r" and "cs ConditionTypeComplete = None"
    and "k = meta_key (rr_meta r0)"
  obtains w' where "run_state (Reconcile R k) w = run_state (phase_step R r) w'" and "V w' = rb_around s a r y c"
proof -
  have stored: "st_Rollbacks (V w) k = Some r" using assms(1,2,4) by (simp add: rb_stage_def)
  have "\<not> terminal R r"
    using rb_stage_true [OF assms(2), of ConditionTypeComplete] rb_stage_find [OF assms(2), of ConditionTypeComplete] assms(3)
    by (simp add: terminal_def)
  then have "run_state (Reconcile R k) w = run_state (phase_step R r) (snd (run_state (GetRollbackRequest (rc_Client R) k) w))"
    using get_rollback [OF stored] assms(2) by (simp add: Reconcile_def exec rb_stage_def)
  then show ?thesis using get_rollback [OF stored] assms(1) that by simp
qed

lemma rb_advance:
  assumes "V w = rb_around s a r y c" and "rb_stage (rc_Lib R) r0 cs r" and "cs ConditionTypeComplete = None"
    and "k = meta_key (rr_meta r0)"
    and "\<And>w'. V w' = rb_around s a r y c \<Longrightarrow>
      \<exists>r'. V (snd (run_state (phase_step R r) w')) = rb_around s a r' y' c' \<and> rb_stage (rc_Lib R) r0 cs' r'"
  obtains r' where "V (snd (run_state (Reconcile R k) w)) = rb_around s a r' y' c'" and "rb_stage (rc_Lib R) r0 cs' r'"
  using rb_handled [OF assms(1-4)] assms(5) by metis

lemma rb_revert_reconcile:
  assumes up: "revertible R s r0 g upg a x v c'" and c: "st_Files s (mas_GitPath (ma_Spec a)) = Some c"
    and V: "V w = rb_around s a r y c" and st: "rb_stage (rc_Lib R) r0 rb_suspended_stage r" and "ks_Suspend y"
    and dry: "\<not> rrs_DryRun (rr_Spec r0)"
  shows "\<exists>r'. V (snd (run_state (phase_step R r) w)) = rb_around s a r' y c' \<and> rb_stage (rc_Lib R) r0 rb_reverted_stage r'"
proof -
  obtain r1 w1 where r1: "run_state (handleStopWorkload R r) w = (Inr r1, w1)" and V1: "V w1 = rb_around s a r1 y c"
    and st1: "rb_stage (rc_Lib R) r0 (rb_suspended_stage(ConditionTypeWorkloadStopped \<mapsto> ConditionTrue)) r1"
    using rb_stop_stage [OF up V st] .
  have "\<not> rrs_DryRun (rr_Spec r)" using st dry by (simp add: rb_stage_def)
  then have "run_state (phase_step R r) w = run_state (handleGitRevert R r1) w1"
    using r1 by (simp add: rb_decide rb_stage_true [OF st] rb_stage_find [OF st] rb_stage_true [OF st1] run_on_err)
  with rb_revert_stage [OF up c V1 st1 \<open>ks_Suspend y\<close>] show ?thesis by simp
qed

text \<open>Three reconciles: the finalizer, the suspension, and the revert after the stop is skipped.\<close>

lemma rb_three_reconciles:
  assumes r0: "st_Rollbacks (V w) k = Some r0" "rb_untouched (rc_Lib R) r0" "\<not> rrs_DryRun (rr_Spec r0)"
    and up: "revertible R (V w) r0 g upg a x v c'"
  shows "\<exists>r'. V (repeated 3 (Reconcile R k) w) = rb_around (V w) a r' (x\<lparr>ks_Suspend := True\<rparr>) c' \<and>
    rb_stage (rc_Lib R) r0 rb_reverted_stage r'"
proof -
  let ?s = "V w" and ?L = "rc_Lib R" and ?on = "x\<lparr>ks_Suspend := True\<rparr>"
  let ?step = "\<lambda>w. snd (run_state (Reconcile R k) w)"
  have k: "k = meta_key (rr_meta r0)" using get_rollback [OF r0(1)] by simp
  obtain c where c: "st_Files ?s (mas_GitPath (ma_Spec a)) = Some c" using up by (auto simp: revertible_def)
  obtain r1 where "V (?step w) = ?s\<lparr>st_Rollbacks := (st_Rollbacks ?s)(k \<mapsto> r1)\<rparr>" and s1: "rb_stage ?L r0 Map.empty r1"
    using rb_start_stage [OF r0(1,2)] by blast
  then have V1: "V (?step w) = rb_around ?s a r1 x c"
    using revertible_simps(8) [OF up] c k by (simp add: rb_during_def rb_stage_def fun_upd_idem)
  have "\<not> rrs_DryRun (rr_Spec r1)" using s1 r0(3) by (simp add: rb_stage_def)
  then have h1: "\<exists>r'. V (snd (run_state (phase_step R r1) w')) = rb_around ?s a r' ?on c \<and> rb_stage ?L r0 rb_suspended_stage r'"
    if "V w' = rb_around ?s a r1 x c" for w'
    using rb_suspend_stage [OF up c that s1] rb_stage_find [OF s1] by (simp add: rb_decide)
  obtain r2 where V2: "V (?step (?step w)) = rb_around ?s a r2 ?on c" and s2: "rb_stage ?L r0 rb_suspended_stage r2"
    by (rule rb_advance [OF V1 s1 _ k h1]) simp_all
  have h2: "\<exists>r'. V (snd (run_state (phase_step R r2) w')) = rb_around ?s a r' ?on c' \<and> rb_stage ?L r0 rb_reverted_stage r'"
    if "V w' = rb_around ?s a r2 ?on c" for w'
    using rb_revert_reconcile [OF up c that s2 _ r0(3)] by simp
  obtain r3 where "V (?step (?step (?step w))) = rb_around ?s a r3 ?on c'" and "rb_stage ?L r0 rb_reverted_stage r3"
    by (rule rb_advance [OF V2 s2 _ k h2]) (simp_all add: rb_phase_types)
  then show ?thesis by (auto simp: eval_nat_numeral)
qed

text \<open>Three more: the resumption, the health check, the end.\<close>

lemma rb_last_reconciles:
  assumes r0: "\<not> rrs_DryRun (rr_Spec r0)" and up: "revertible R s r0 g upg a x v c'" and k: "k = meta_key (rr_meta r0)"
    and V3: "V w = rb_around s a r3 (x\<lparr>ks_Suspend := True\<rparr>) c'" and s3: "rb_stage (rc_Lib R) r0 rb_reverted_stage r3"
  obtains r5 w' where "repeated 3 (Reconcile R k) w = snd (run_state (handleCompleted R r5) w')"
    and "V w' = rb_around s a r5 (x\<lparr>ks_Suspend := False\<rparr>) c'"
    and "rb_stage (rc_Lib R) r0 (rb_reconciled_stage(ConditionTypeHealthy \<mapsto> ConditionTrue)) r5"
proof -
  let ?L = "rc_Lib R" and ?off = "x\<lparr>ks_Suspend := False\<rparr>" and ?step = "\<lambda>w. snd (run_state (Reconcile R k) w)"
  have ready: "ready_root a (x\<lparr>ks_Suspend := b\<rparr>)" for b using revertible_simps(10) [OF up] by simp
  have spec: "\<not> rrs_DryRun (rr_Spec r)" if "rb_stage ?L r0 cs r" for cs r
    using that r0 by (simp add: rb_stage_def)
  have h3: "\<exists>r'. V (snd (run_state (phase_step R r3) w')) = rb_around s a r' ?off c' \<and> rb_stage ?L r0 rb_reconciled_stage r'"
    if "V w' = rb_around s a r3 (x\<lparr>ks_Suspend := True\<rparr>) c'" for w'
    using rb_reconcile_stage [OF up that s3 ready] spec [OF s3] rb_stage_find [OF s3] rb_stage_true [OF s3]
    by (simp add: rb_decide)
  obtain r4 where V4: "V (?step w) = rb_around s a r4 ?off c'" and s4: "rb_stage ?L r0 rb_reconciled_stage r4"
    by (rule rb_advance [OF V3 s3 _ k h3]) (simp_all add: rb_phase_types)
  let ?c5 = "rb_reconciled_stage(ConditionTypeHealthy \<mapsto> ConditionTrue)"
  have h4: "\<exists>r'. V (snd (run_state (phase_step R r4) w')) = rb_around s a r' ?off c' \<and> rb_stage ?L r0 ?c5 r'"
    if "V w' = rb_around s a r4 ?off c'" for w'
    using rb_health_stage [OF up that s4 ready] spec [OF s4] rb_stage_find [OF s4] rb_stage_true [OF s4]
    by (simp add: rb_decide)
  obtain r5 where V5: "V (?step (?step w)) = rb_around s a r5 ?off c'" and s5: "rb_stage ?L r0 ?c5 r5"
    by (rule rb_advance [OF V4 s4 _ k h4]) (simp_all add: rb_phase_types)
  obtain w6 where "run_state (Reconcile R k) (?step (?step w)) = run_state (phase_step R r5) w6"
    and V6: "V w6 = rb_around s a r5 ?off c'"
    by (rule rb_handled [OF V5 s5 _ k]) (simp_all add: rb_phase_types)
  moreover have "run_state (phase_step R r5) w6 = run_state (handleCompleted R r5) w6"
    using spec [OF s5] rb_stage_find [OF s5] rb_stage_true [OF s5] by (simp add: rb_decide)
  ultimately have "repeated 3 (Reconcile R k) w = snd (run_state (handleCompleted R r5) w6)"
    by (simp add: eval_nat_numeral)
  then show ?thesis using V6 s5 by (rule that)
qed

text \<open>The rollback, from the request that nobody touched to its end.\<close>

lemma rb_six_reconciles:
  assumes r0: "st_Rollbacks (V w) k = Some r0" "rb_untouched (rc_Lib R) r0" "\<not> rrs_DryRun (rr_Spec r0)"
    and up: "revertible R (V w) r0 g upg a x v c'"
  shows "rollback_done (rc_Lib R) (V w) r0 a x c' (V (repeated 6 (Reconcile R k) w))"
proof -
  have k: "k = meta_key (rr_meta r0)" using get_rollback [OF r0(1)] by simp
  obtain r3 where V3: "V (repeated 3 (Reconcile R k) w) = rb_around (V w) a r3 (x\<lparr>ks_Suspend := True\<rparr>) c'"
    and s3: "rb_stage (rc_Lib R) r0 rb_reverted_stage r3"
    using rb_three_reconciles [OF assms] by blast
  obtain r5 w' where r: "repeated 3 (Reconcile R k) (repeated 3 (Reconcile R k) w) = snd (run_state (handleCompleted R r5) w')"
    and V6: "V w' = rb_around (V w) a r5 (x\<lparr>ks_Suspend := False\<rparr>) c'"
    and s5: "rb_stage (rc_Lib R) r0 (rb_reconciled_stage(ConditionTypeHealthy \<mapsto> ConditionTrue)) r5"
    by (rule rb_last_reconciles [OF r0(3) up k V3 s3])
  have "repeated 6 (Reconcile R k) w = repeated 3 (Reconcile R k) (repeated 3 (Reconcile R k) w)"
    using repeated_add [of 3 3 "Reconcile R k" w] by simp
  then show ?thesis using rb_complete_stage [OF V6 s5] r by (simp add: rollback_done_def)
qed

end

end
