(* ===== verification/MemStore.thy ===== *)
theory MemStore
  imports Scenario Store
begin

text \<open>
  The in-memory cluster is an environment in which everything works: its lists of objects are read as
  maps by their keys, and its repository has files as long as the mock manager is not told to fail.
\<close>

definition mem_files :: "MockManager \<Rightarrow> string \<rightharpoonup> string" where
  "mem_files g = (\<lambda>p. if mk_ReadFileErr g = None \<and> mk_ReadFileErrors g p = None \<and> mk_CommitFileErr g = None
     then mk_Files g p else None)"

definition mem_view :: "cluster \<Rightarrow> store" where
  "mem_view c = \<lparr>st_Upgrades = lookup_obj ur_key (cl_Upgrades c), st_Rollbacks = lookup_obj rr_key (cl_Rollbacks c),
     st_Apps = lookup_obj ma_key (cl_Apps c), st_Kustomizations = lookup_obj ks_key (cl_Kustomizations c),
     st_Files = mem_files (cl_Git c)\<rparr>"

lemma view_simps [simp]:
  "st_Upgrades (mem_view c) = lookup_obj ur_key (cl_Upgrades c)"
  "st_Rollbacks (mem_view c) = lookup_obj rr_key (cl_Rollbacks c)"
  "st_Apps (mem_view c) = lookup_obj ma_key (cl_Apps c)"
  "st_Kustomizations (mem_view c) = lookup_obj ks_key (cl_Kustomizations c)"
  "st_Files (mem_view c) = mem_files (cl_Git c)"
  by (simp_all add: mem_view_def)

lemma read_mem_file:
  "mem_files (cl_Git c) p = Some content \<Longrightarrow> fst (run_state (gm_ReadFile mem_git p) c) = Inr content \<and>
     mem_view (snd (run_state (gm_ReadFile mem_git p) c)) = mem_view c"
  by (auto simp: mem_git_def on_git_def mock_ReadFile_def mock_run mem_files_def mem_view_def fun_eq_iff
      split: prod.splits if_splits)

lemma commit_mem_file:
  "mem_files (cl_Git c) (fc_Path ch) = Some content \<Longrightarrow>
     (\<exists>ci. fst (run_state (gm_CommitFile mem_git ch msg) c) = Inr ci) \<and>
     mem_view (snd (run_state (gm_CommitFile mem_git ch msg) c)) =
       (mem_view c)\<lparr>st_Files := (mem_files (cl_Git c))(fc_Path ch \<mapsto> fc_Content ch)\<rparr>"
  by (auto simp: mem_git_def on_git_def mock_CommitFile_def mock_run mem_files_def mem_view_def fun_eq_iff
      split: prod.splits if_splits)

lemma modify_stored:
  "lookup_obj key (sel c) k = Some old \<Longrightarrow> f old = x \<Longrightarrow>
     run_state (mem_modify key sel upd k f) c = (Inr x, upd (replace_obj key x) c)"
  by (simp add: mem_modify_def)

lemma status_only_upgrade:
  "ur_meta u = ur_meta (old :: UpgradeRequest) \<Longrightarrow> ur_Spec u = ur_Spec old \<Longrightarrow>
     old\<lparr>ur_Status := ur_Status u\<rparr> = u"
  by (cases u, cases old) simp

lemma status_only_rollback:
  "rr_meta rb = rr_meta (old :: RollbackRequest) \<Longrightarrow> rr_Spec rb = rr_Spec old \<Longrightarrow> old\<lparr>rr_Status := rr_Status rb\<rparr> = rb"
  by (cases rb, cases old) simp

lemma status_only_app:
  "ma_meta a = ma_meta (old :: ManagedApp) \<Longrightarrow> ma_Spec a = ma_Spec old \<Longrightarrow> old\<lparr>ma_Status := ma_Status a\<rparr> = a"
  by (cases a, cases old) simp

lemma same_status:
  "ur_Status u = st \<Longrightarrow> u\<lparr>ur_Status := st\<rparr> = u" "rr_Status rb = rst \<Longrightarrow> rb\<lparr>rr_Status := rst\<rparr> = rb"
  by auto

lemmas status_only = status_only_upgrade status_only_rollback status_only_app same_status

lemma view_replace:
  "lookup_obj ur_key (cl_Upgrades c) (ur_key u) = Some old \<Longrightarrow>
     mem_view (cl_Upgrades_update (replace_obj ur_key u) c) =
       (mem_view c)\<lparr>st_Upgrades := (lookup_obj ur_key (cl_Upgrades c))(ur_key u \<mapsto> u)\<rparr>"
  "lookup_obj rr_key (cl_Rollbacks c) (rr_key rb) = Some rold \<Longrightarrow>
     mem_view (cl_Rollbacks_update (replace_obj rr_key rb) c) =
       (mem_view c)\<lparr>st_Rollbacks := (lookup_obj rr_key (cl_Rollbacks c))(rr_key rb \<mapsto> rb)\<rparr>"
  "lookup_obj ma_key (cl_Apps c) (ma_key a) = Some aold \<Longrightarrow>
     mem_view (cl_Apps_update (replace_obj ma_key a) c) =
       (mem_view c)\<lparr>st_Apps := (lookup_obj ma_key (cl_Apps c))(ma_key a \<mapsto> a)\<rparr>"
  "lookup_obj ks_key (cl_Kustomizations c) (ks_key x) = Some y \<Longrightarrow>
     mem_view (cl_Kustomizations_update (replace_obj ks_key x) c) =
       (mem_view c)\<lparr>st_Kustomizations := (lookup_obj ks_key (cl_Kustomizations c))(ks_key x \<mapsto> x)\<rparr>"
  by (simp_all add: mem_view_def lookup_replace)

interpretation memstore: faithful_store mem_rec mem_git mem_view
proof (intro_locales)
  show "conditions_api (rc_Lib mem_rec)" by (simp add: memcond.conditions_api_axioms)
  show "finalizer_api (rc_Lib mem_rec)" by (simp add: memfin.finalizer_api_axioms)
  show "faithful_store_axioms mem_rec mem_git mem_view"
    by unfold_locales
      (auto simp: mem_client_def mem_get_def read_mem_file commit_mem_file modify_stored status_only view_replace
        dest: lookup_key)
qed

end
