(* ===== verification/DeliveryTheorems.thy ===== *)
theory DeliveryTheorems
  imports SystemTheorems UpgradeProgress RollbackProgress MemStore
begin

text \<open>
  Complete runs. In an environment where everything works (\<open>faithful_store\<close>) six reconciles bring an
  upgrade, and a rollback, to its end; the witnesses are runs on the in-memory cluster. Two runs at
  the end show what a rollback makes of an upgrade without snapshots.
\<close>

section \<open>Upgrades\<close>

text \<open>
  C12. For an application with neither volume snapshots nor a Helm release or suspend reference, whose
  chart version is kept in Git and whose Kustomization is a ready root without an inventory: with an API
  server and a Git provider that do what they are asked, and nobody interfering, six reconciles bring an
  upgrade to its end: the request succeeded and is released, the file in Git is the edited one, the
  application's status names the new version, Flux is resumed, and nothing else in the store has changed.
\<close>

theorem upgrade_is_delivered:
  assumes "faithful_store R G V" and "st_Upgrades (V w) k = Some u" and "untouched (rc_Lib R) u"
    and "\<not> urs_DryRun (ur_Spec u)" and "upgradable R (V w) u a x v c"
  shows "upgrade_done (rc_Lib R) (V w) u a x v c (V (repeated 6 (Upgrade.Reconcile R k) w))"
  by (rule faithful_store.six_reconciles [OF assms])

text \<open>The demo application's file at a version.\<close>

definition demo_file_at :: "string \<Rightarrow> string" where
  "demo_file_at v = mem_print [(''kind'', ''HelmRelease''), (''spec.chart.spec.version'', v)]"

lemma upgradable_demo:
  "upgradable mem_rec (mem_view demo_cluster) demo_request demo_app demo_ks \<lparr>vi_Chart = ''2.0'', vi_Images = []\<rparr>
     (demo_file_at ''2.0'')"
proof -
  have "st_Files (mem_view demo_cluster) (mas_GitPath (ma_Spec demo_app)) = Some (demo_file_at ''1.0'')" by code_simp
  moreover have "IsHelmRelease (rc_Yaml mem_rec) (demo_file_at ''1.0'')" by code_simp
  moreover have "GetVersion (rc_Yaml mem_rec) (demo_file_at ''1.0'') (version_path_of demo_app) = Inr ''1.0''" by code_simp
  moreover have "UpdateVersion (rc_Yaml mem_rec) (demo_file_at ''1.0'') (version_path_of demo_app) ''2.0'' =
      Inr (demo_file_at ''2.0'')" by code_simp
  moreover have "st_Apps (mem_view demo_cluster) (managed_app_key demo_request) = Some demo_app" by code_simp
  moreover have "st_Kustomizations (mem_view demo_cluster) (kustomization_key demo_app) = Some demo_ks" by code_simp
  moreover have "simple_app demo_app" by code_simp
  moreover have "ready_root demo_app demo_ks" by code_simp
  moreover have "target_version demo_request demo_app = Some \<lparr>vi_Chart = ''2.0'', vi_Images = []\<rparr>" by code_simp
  ultimately show ?thesis by (auto simp: upgradable_def)
qed

theorem upgrade_is_delivered_witness:
  "upgrade_done mem_lib (mem_view demo_cluster) demo_request demo_app demo_ks \<lparr>vi_Chart = ''2.0'', vi_Images = []\<rparr>
     (demo_file_at ''2.0'') (mem_view (repeated 6 (Upgrade.Reconcile mem_rec demo_key) demo_cluster))"
proof -
  have "st_Upgrades (mem_view demo_cluster) demo_key = Some demo_request" by code_simp
  moreover have "untouched (rc_Lib mem_rec) demo_request" by code_simp
  moreover have "\<not> urs_DryRun (ur_Spec demo_request)" by code_simp
  ultimately have "upgrade_done (rc_Lib mem_rec) (mem_view demo_cluster) demo_request demo_app demo_ks
      \<lparr>vi_Chart = ''2.0'', vi_Images = []\<rparr> (demo_file_at ''2.0'')
      (mem_view (repeated 6 (Upgrade.Reconcile mem_rec demo_key) demo_cluster))"
    using upgradable_demo by (rule upgrade_is_delivered [OF memstore.faithful_store_axioms])
  then show ?thesis by simp
qed

section \<open>Rollbacks\<close>

text \<open>
  C13. For an application and in an environment as in the first property of this theory, six reconciles
  bring the rollback of a finished upgrade that skipped its snapshots to its end: the request succeeded and
  is released, the file in Git has the recorded previous version again, Flux is resumed, and nothing else
  has changed, the upgrade request included.
\<close>

theorem rollback_is_delivered:
  assumes "faithful_store R G V" and "st_Rollbacks (V w) k = Some r" and "rb_untouched (rc_Lib R) r"
    and "\<not> rrs_DryRun (rr_Spec r)" and "revertible R (V w) r g up a x v c"
  shows "rollback_done (rc_Lib R) (V w) r a x c (V (repeated 6 (Rollback.Reconcile R k) w))"
  by (rule faithful_store.rb_six_reconciles [OF assms])

text \<open>The objects of the demo cluster after the upgrade that failed.\<close>

definition failed_request :: UpgradeRequest where
  "failed_request = hd (cl_Upgrades failed_demo)"

definition automatic_rollback :: RollbackRequest where
  "automatic_rollback = hd (cl_Rollbacks failed_demo)"

text \<open>The part of \<open>revertible\<close> that depends on the cluster, as one check.\<close>

definition failed_upgrade_stored :: "cluster \<Rightarrow> UpgradeRequest \<Rightarrow> RollbackRequest \<Rightarrow> bool" where
  "failed_upgrade_stored c g r \<longleftrightarrow>
     st_Upgrades (mem_view c) (upgrade_request_key r) = Some g \<and> isUpgradeTerminal mem_rec g \<and>
     urs_SkipSnapshot (ur_Spec g) \<and>
     map_option us_PreviousVersion (urst_Upgrade (ur_Status g)) = Some (Some \<lparr>vi_Chart = ''1.0'', vi_Images = []\<rparr>) \<and>
     st_Apps (mem_view c) (managed_app_key g) = Some demo_app \<and>
     st_Kustomizations (mem_view c) (kustomization_key demo_app) = Some demo_ks \<and>
     st_Files (mem_view c) (mas_GitPath (ma_Spec demo_app)) = Some (demo_file_at ''2.0'') \<and>
     st_Rollbacks (mem_view c) rollback_key = Some r \<and> rb_untouched mem_lib r \<and> \<not> rrs_DryRun (rr_Spec r)"

lemma failed_demo_stored: "failed_upgrade_stored failed_demo failed_request automatic_rollback"
  by code_simp

lemma revertible_demo:
  obtains up where "revertible mem_rec (mem_view failed_demo) automatic_rollback failed_request up demo_app demo_ks
     \<lparr>vi_Chart = ''1.0'', vi_Images = []\<rparr> (demo_file_at ''1.0'')"
proof -
  have "GetVersion (rc_Yaml mem_rec) (demo_file_at ''2.0'') (version_path_of demo_app) = Inr ''2.0''" by code_simp
  moreover have "UpdateVersion (rc_Yaml mem_rec) (demo_file_at ''2.0'') (version_path_of demo_app) ''1.0'' =
      Inr (demo_file_at ''1.0'')" by code_simp
  moreover have "simple_app demo_app" by code_simp
  moreover have "ready_root demo_app demo_ks" by code_simp
  ultimately show ?thesis
    using failed_demo_stored that by (auto simp: revertible_def failed_upgrade_stored_def)
qed

theorem rollback_is_delivered_witness:
  "rollback_done mem_lib (mem_view failed_demo) automatic_rollback demo_app demo_ks (demo_file_at ''1.0'')
     (mem_view (repeated 6 (Rollback.Reconcile mem_rec rollback_key) failed_demo))"
proof -
  obtain up where "revertible mem_rec (mem_view failed_demo) automatic_rollback failed_request up demo_app demo_ks
     \<lparr>vi_Chart = ''1.0'', vi_Images = []\<rparr> (demo_file_at ''1.0'')" by (rule revertible_demo)
  moreover have "st_Rollbacks (mem_view failed_demo) rollback_key = Some automatic_rollback"
    and "rb_untouched (rc_Lib mem_rec) automatic_rollback" and "\<not> rrs_DryRun (rr_Spec automatic_rollback)"
    using failed_demo_stored by (simp_all add: failed_upgrade_stored_def)
  ultimately have "rollback_done (rc_Lib mem_rec) (mem_view failed_demo) automatic_rollback demo_app demo_ks
      (demo_file_at ''1.0'') (mem_view (repeated 6 (Rollback.Reconcile mem_rec rollback_key) failed_demo))"
    by (intro rollback_is_delivered [OF memstore.faithful_store_axioms])
  then show ?thesis by simp
qed

section \<open>There and back\<close>

lemma revertible_after_upgrade:
  assumes store: "faithful_store R G V" and yaml: "kyaml_api (rc_Yaml R)"
    and up: "upgradable R s u a x v c" and upgraded: "upgrade_done (rc_Lib R) s u a x v c (V w)" and skip: "urs_SkipSnapshot (ur_Spec u)"
    and old: "mast_CurrentVersion (ma_Status a) = Some old" "vi_Chart old \<noteq> []"
    and key: "upgrade_request_key r = meta_key (ur_meta u)"
    and edit: "UpdateVersion (rc_Yaml R) c (version_path_of a) (vi_Chart old) = Inr c'"
  obtains u' p a' where "revertible R (V w) r u' p a' (x\<lparr>ks_Suspend := False\<rparr>) old c'" and "ma_Spec a' = ma_Spec a"
    and "st_Rollbacks (V w) = st_Rollbacks s"
proof -
  obtain u' a' where V: "V w = (during s u' (kustomization_key a) (x\<lparr>ks_Suspend := False\<rparr>) (mas_GitPath (ma_Spec a)) c)
       \<lparr>st_Apps := (st_Apps s)(managed_app_key u \<mapsto> a')\<rparr>"
    and u': "meta_key (ur_meta u') = meta_key (ur_meta u)" "ur_Spec u' = ur_Spec u" "recorded_versions u' = upgraded_from a v"
      "IsStatusConditionTrue (rc_Lib R) (ur_Conditions u') ConditionTypeComplete"
    and a': "ma_Spec a' = ma_Spec a"
    using upgraded unfolding upgrade_done_def by blast
  obtain p where p: "urst_Upgrade (ur_Status u') = Some p" "us_PreviousVersion p = Some old"
    using u'(3) old(1) by auto
  have "managed_app_key u' = managed_app_key u" using u' by (simp add: managed_app_key_def meta_key_def)
  moreover have "kustomization_key a' = kustomization_key a" "version_path_of a' = version_path_of a"
    using a' by (simp_all add: kustomization_key_def version_path_of_def configured_version_path_def)
  moreover have "simple_app a'"
    using upgradable_simps(1) [OF up] a' by (simp add: simple_app_def snapshots_enabled_def explicit_pvcs_def)
  moreover have "ready_root a' = ready_root a"
    using a' by (simp add: fun_eq_iff ready_root_def kustomization_key_def)
  then have "ready_root a' (x\<lparr>ks_Suspend := False\<rparr>)"
    using upgradable_simps(2) [OF up] by simp
  moreover have "isUpgradeTerminal R u'"
    using u'(4) conditions_api.is_true_iff [OF faithful_store.axioms(1) [OF store]] by (auto simp: isUpgradeTerminal_def)
  moreover obtain content where "UpdateVersion (rc_Yaml R) content (version_path_of a) (vi_Chart v) = Inr c"
    using up by (auto simp: upgradable_def)
  then have "GetVersion (rc_Yaml R) c (version_path_of a) = Inr (vi_Chart v)"
    using kyaml_api.get_after_update [OF yaml] upgradable_simps(4) [OF up] by blast
  ultimately have "revertible R (V w) r u' p a' (x\<lparr>ks_Suspend := False\<rparr>) old c'"
    using p u' a' old edit key skip by (simp add: revertible_def V)
  then show ?thesis using that a' V by simp
qed

text \<open>
  C14. A rollback undoes an upgrade that was made with \<open>skipSnapshot\<close> of an application as in the first
  property of this theory: in the same faithful environment, with nobody interfering, six reconciles of the
  upgrade followed by six of a rollback of it, none of them a dry run, leave the version in Git that the
  application's status named before, both requests succeeded, and Flux resumed. Without that flag a
  rollback of such an upgrade is refused, as the last lemma of this theory shows.
\<close>

theorem rollback_undoes_upgrade:
  assumes store: "faithful_store R G V" and yaml: "kyaml_api (rc_Yaml R)"
    and u: "st_Upgrades (V w) k = Some u" "untouched (rc_Lib R) u" "\<not> urs_DryRun (ur_Spec u)" "urs_SkipSnapshot (ur_Spec u)"
    and r: "st_Rollbacks (V w) l = Some r" "rb_untouched (rc_Lib R) r" "\<not> rrs_DryRun (rr_Spec r)" "upgrade_request_key r = k"
    and up: "upgradable R (V w) u a x v c"
    and old: "mast_CurrentVersion (ma_Status a) = Some old" "vi_Chart old \<noteq> []"
    and edit: "UpdateVersion (rc_Yaml R) c (version_path_of a) (vi_Chart old) = Inr c'"
  defines "s \<equiv> V (repeated 6 (Rollback.Reconcile R l) (repeated 6 (Upgrade.Reconcile R k) w))"
  shows "st_Files s (mas_GitPath (ma_Spec a)) = Some c' \<and> GetVersion (rc_Yaml R) c' (version_path_of a) = Inr (vi_Chart old) \<and>
    st_Kustomizations s (kustomization_key a) = Some (x\<lparr>ks_Suspend := False\<rparr>) \<and>
    (\<exists>u' r'. st_Upgrades s k = Some u' \<and> IsStatusConditionTrue (rc_Lib R) (ur_Conditions u') ConditionTypeComplete \<and>
       st_Rollbacks s l = Some r' \<and> IsStatusConditionTrue (rc_Lib R) (rr_Conditions r') ConditionTypeComplete)"
proof -
  let ?w = "repeated 6 (Upgrade.Reconcile R k) w"
  have keys: "k = meta_key (ur_meta u)" "l = meta_key (rr_meta r)"
    using faithful_store.get_upgrade [OF store u(1)] faithful_store.get_rollback [OF store r(1)] by auto
  have upgraded: "upgrade_done (rc_Lib R) (V w) u a x v c (V ?w)"
    by (rule faithful_store.six_reconciles [OF store u(1-3) up])
  obtain g p a' where rev: "revertible R (V ?w) r g p a' (x\<lparr>ks_Suspend := False\<rparr>) old c'" and a': "ma_Spec a' = ma_Spec a"
    and same: "st_Rollbacks (V ?w) = st_Rollbacks (V w)"
    using revertible_after_upgrade [OF store yaml up upgraded u(4) old _ edit] r(4) keys by metis
  have "st_Rollbacks (V ?w) l = Some r" using same r(1) by simp
  from faithful_store.rb_six_reconciles [OF store this r(2,3) rev]
  have fin: "rollback_done (rc_Lib R) (V ?w) r a' (x\<lparr>ks_Suspend := False\<rparr>) c' s" unfolding s_def .
  have "kustomization_key a' = kustomization_key a" using a' by (simp add: kustomization_key_def)
  moreover obtain u' where "st_Upgrades (V ?w) k = Some u'" "IsStatusConditionTrue (rc_Lib R) (ur_Conditions u') ConditionTypeComplete"
    using upgraded keys(1) by (auto simp: upgrade_done_def)
  moreover have "GetVersion (rc_Yaml R) c' (version_path_of a) = Inr (vi_Chart old)"
    by (rule kyaml_api.get_after_update [OF yaml edit old(2)])
  ultimately show ?thesis
    using fin a' keys(2) by (auto simp: rollback_done_def)
qed

text \<open>The demo cluster with a request to upgrade without snapshots, and one to take the upgrade back.\<close>

definition unsnapshotted_request :: UpgradeRequest where
  "unsnapshotted_request = demo_request\<lparr>ur_Spec := (ur_Spec demo_request)\<lparr>urs_SkipSnapshot := True\<rparr>\<rparr>"

definition planned_cluster :: cluster where
  "planned_cluster = demo_cluster\<lparr>cl_Upgrades := [unsnapshotted_request], cl_Rollbacks := [automatic_rollback]\<rparr>"

definition planned :: "cluster \<Rightarrow> UpgradeRequest \<Rightarrow> RollbackRequest \<Rightarrow> bool" where
  "planned c u r \<longleftrightarrow>
     st_Upgrades (mem_view c) demo_key = Some u \<and> untouched mem_lib u \<and> \<not> urs_DryRun (ur_Spec u) \<and>
     urs_SkipSnapshot (ur_Spec u) \<and> target_version u demo_app = Some \<lparr>vi_Chart = ''2.0'', vi_Images = []\<rparr> \<and>
     st_Rollbacks (mem_view c) rollback_key = Some r \<and> rb_untouched mem_lib r \<and> \<not> rrs_DryRun (rr_Spec r) \<and>
     upgrade_request_key r = demo_key \<and> managed_app_key u = managed_app_key demo_request"

lemma planned_stored: "planned planned_cluster unsnapshotted_request automatic_rollback"
  by code_simp

lemma planned_upgradable:
  "upgradable mem_rec (mem_view planned_cluster) unsnapshotted_request demo_app demo_ks
     \<lparr>vi_Chart = ''2.0'', vi_Images = []\<rparr> (demo_file_at ''2.0'')"
  using upgradable_demo planned_stored by (simp add: upgradable_def planned_def planned_cluster_def)

theorem rollback_undoes_upgrade_witness:
  "GetVersion mem_yaml (demo_file_at ''1.0'') (version_path_of demo_app) = Inr ''1.0'' \<and>
   st_Files (mem_view (repeated 6 (Rollback.Reconcile mem_rec rollback_key)
     (repeated 6 (Upgrade.Reconcile mem_rec demo_key) planned_cluster))) ''f'' = Some (demo_file_at ''1.0'')"
proof -
  have "mast_CurrentVersion (ma_Status demo_app) = Some \<lparr>vi_Chart = ''1.0'', vi_Images = []\<rparr>" by code_simp
  moreover have "UpdateVersion (rc_Yaml mem_rec) (demo_file_at ''2.0'') (version_path_of demo_app)
      (vi_Chart \<lparr>vi_Chart = ''1.0'', vi_Images = []\<rparr>) = Inr (demo_file_at ''1.0'')" by code_simp
  moreover have "mas_GitPath (ma_Spec demo_app) = ''f''" by (simp add: demo_app_def)
  moreover note planned_stored [unfolded planned_def]
  moreover have "kyaml_api (rc_Yaml mem_rec)" by (simp add: memyaml.kyaml_api_axioms)
  ultimately show ?thesis
    using rollback_undoes_upgrade [OF memstore.faithful_store_axioms, where a = demo_app and l = rollback_key]
      planned_upgradable by fastforce
qed

section \<open>Upgrades without snapshots\<close>

text \<open>Why a request ended, for each rollback of the cluster.\<close>

definition rollback_reasons :: "cluster \<Rightarrow> string option list" where
  "rollback_reasons c =
     map (\<lambda>r. map_option c_Reason (find_condition (rr_Conditions r) ConditionTypeComplete)) (cl_Rollbacks c)"

text \<open>
  A dry run of the demo rollback is refused for want of snapshots, although the upgrade skipped
  them and the rollback itself runs through.
\<close>

definition rehearsed_demo :: cluster where
  "rehearsed_demo = rollbacks 2 rollback_key (failed_demo\<lparr>cl_Rollbacks :=
     map (\<lambda>r. r\<lparr>rr_Spec := (rr_Spec r)\<lparr>rrs_DryRun := True\<rparr>\<rparr>) (cl_Rollbacks failed_demo)\<rparr>)"

theorem rehearsal_rejects_what_rollback_accepts:
  "rollback_reasons rehearsed_demo = [Some ''NoSnapshotsAvailable''] \<and>
   rollback_reasons (rollbacks 6 rollback_key failed_demo) = [Some ''RollbackSucceeded'']"
  by (intro conjI) code_simp+

text \<open>
  The same upgrade without the flag \<open>skipSnapshot\<close>: the application has no volume snapshots configured,
  so the upgrade runs, commits and fails alike, but the rollback that the failure handler requests is
  refused; the new version stays in Git.
\<close>

definition failed_unsnapshotted :: cluster where
  "failed_unsnapshotted =
     (upgrades 1 demo_key ((upgrades 3 demo_key demo_cluster)\<lparr>cl_Kustomizations := []\<rparr>))\<lparr>cl_Kustomizations := [demo_ks]\<rparr>"

definition rollback_refused :: "cluster \<Rightarrow> bool" where
  "rollback_refused c \<longleftrightarrow> map rr_key (cl_Rollbacks c) = [rollback_key] \<and>
     rollback_reasons c = [Some ''NoSnapshotsAvailable''] \<and> file_version c = ''2.0''"

theorem automatic_rollback_refused_without_snapshots:
  "mas_AutoRollback (ma_Spec demo_app) \<and> rollback_refused (rollbacks 2 rollback_key failed_unsnapshotted)"
  by code_simp

end
