(* ===== verification/Heap.thy ===== *)
theory Heap
  imports Prelude "HOL-Library.Monad_Syntax"
begin

text \<open>
  Go memory, as far as copying needs it: a heap of typed cells with an allocation counter, pointers and
  slices into it, and the three shapes of code that \<open>controller-gen\<close> emits for a deep copy (a pointer, a
  slice of flat elements, a slice of structs). A \<open>copier\<close> is a copy operation together with the reading
  of a value from memory; the combinators build copiers from copiers.
\<close>

section \<open>Cells\<close>

type_synonym addr = nat

record 'c heap =
  hp_cells :: "addr \<rightharpoonup> 'c"
  hp_next :: addr

text \<open>A slice over part of a backing array; nil pointers and nil slices are \<open>None\<close>.\<close>

record slice =
  sl_Array :: addr
  sl_Off :: nat
  sl_Len :: nat

text \<open>A pointer of some type is read through the projection of that type; a wrong or missing cell is a fault.\<close>

definition cell_at :: "('c \<Rightarrow> 'a option) \<Rightarrow> 'c heap \<Rightarrow> addr \<Rightarrow> 'a option" where
  "cell_at prj h a = Option.bind (hp_cells h a) prj"

definition elems_at :: "('c \<Rightarrow> 'a list option) \<Rightarrow> 'c heap \<Rightarrow> slice \<Rightarrow> 'a list option" where
  "elems_at prj h s = (case cell_at prj h (sl_Array s) of
     None \<Rightarrow> None
   | Some xs \<Rightarrow> if sl_Off s + sl_Len s \<le> length xs then Some (take (sl_Len s) (drop (sl_Off s) xs)) else None)"

definition load :: "('c \<Rightarrow> 'a option) \<Rightarrow> addr \<Rightarrow> ('c heap, 'a) call" where
  "load prj a = State (\<lambda>h. (case cell_at prj h a of None \<Rightarrow> Inl nil_deref | Some x \<Rightarrow> Inr x, h))"

definition load_slice :: "('c \<Rightarrow> 'a list option) \<Rightarrow> slice \<Rightarrow> ('c heap, 'a list) call" where
  "load_slice prj s = State (\<lambda>h. (case elems_at prj h s of None \<Rightarrow> Inl nil_deref | Some xs \<Rightarrow> Inr xs, h))"

text \<open>\<open>new\<close> and \<open>make\<close> take a fresh address; the cell is written when its content is complete.\<close>

definition reserve :: "('c heap, addr) call" where
  "reserve = State (\<lambda>h. (Inr (hp_next h), h\<lparr>hp_next := Suc (hp_next h)\<rparr>))"

definition store_cell :: "('a \<Rightarrow> 'c) \<Rightarrow> addr \<Rightarrow> 'a \<Rightarrow> ('c heap, unit) call" where
  "store_cell emb a x = State (\<lambda>h. (Inr (), h\<lparr>hp_cells := (hp_cells h)(a \<mapsto> emb x)\<rparr>))"

section \<open>The shapes of generated copies\<close>

text \<open>\<open>if in.X != nil { *out = new(T); (*in).DeepCopyInto(*out) }\<close>, and the body of every \<open>DeepCopy\<close>.\<close>

definition new_copy ::
  "('a \<Rightarrow> 'c) \<Rightarrow> ('c \<Rightarrow> 'a option) \<Rightarrow> ('a \<Rightarrow> ('c heap, 'a) call) \<Rightarrow> addr option \<Rightarrow> ('c heap, addr option) call" where
  "new_copy emb prj copy p =
     (case p of
        None \<Rightarrow> ret (Inr None)
      | Some a \<Rightarrow>
          checked reserve (\<lambda>out.
          checked (load prj a) (\<lambda>x.
          checked (copy x) (\<lambda>y.
          checked (store_cell emb out y) (\<lambda>_. ret (Inr (Some out)))))))"

text \<open>\<open>*out = make([]T, len(*in))\<close> with a loop over the elements.\<close>

definition slice_copy ::
  "('a list \<Rightarrow> 'c) \<Rightarrow> ('c \<Rightarrow> 'a list option) \<Rightarrow> ('a \<Rightarrow> ('c heap, 'a) call) \<Rightarrow> slice option \<Rightarrow>
     ('c heap, slice option) call" where
  "slice_copy emb prj copy p =
     (case p of
        None \<Rightarrow> ret (Inr None)
      | Some s \<Rightarrow>
          checked (load_slice prj s) (\<lambda>xs.
          checked reserve (\<lambda>out.
          checked (for_each copy xs) (\<lambda>ys.
          checked (store_cell emb out ys) (\<lambda>_.
          ret (Inr (Some \<lparr>sl_Array = out, sl_Off = 0, sl_Len = length ys\<rparr>)))))))"

text \<open>\<open>*out = *in\<close> alone: the copy of a struct without pointers, and the element step of \<open>copy(*out, *in)\<close>.\<close>

definition flat_copy :: "'a \<Rightarrow> ('c heap, 'a) call" where
  "flat_copy x = ret (Inr x)"

definition pair_copy ::
  "('a \<Rightarrow> ('c heap, 'a) call) \<Rightarrow> ('b \<Rightarrow> ('c heap, 'b) call) \<Rightarrow> 'a \<times> 'b \<Rightarrow> ('c heap, 'a \<times> 'b) call" where
  "pair_copy c1 c2 p = checked (c1 (fst p)) (\<lambda>x. checked (c2 (snd p)) (\<lambda>y. ret (Inr (x, y))))"

lemma checked_ret [simp]: "checked (ret (Inr x)) k = k x"
  by (rule state.expand) (simp add: fun_eq_iff run_on_err)

lemma checked_assoc: "checked (checked m k) f = checked m (\<lambda>x. checked (k x) f)"
  by (rule state.expand) (simp add: fun_eq_iff run_on_err split: prod.split sum.split)

section \<open>Readings\<close>

text \<open>The value a piece of memory stands for, and the cells it is spread over.\<close>

definition ptr_view ::
  "('c \<Rightarrow> 'a option) \<Rightarrow> ('c heap \<Rightarrow> 'a \<Rightarrow> 'v option) \<Rightarrow> 'c heap \<Rightarrow> addr option \<Rightarrow> 'v option option" where
  "ptr_view prj view h p = (case p of
     None \<Rightarrow> Some None
   | Some a \<Rightarrow> map_option Some (Option.bind (cell_at prj h a) (view h)))"

definition ptr_reach ::
  "('c \<Rightarrow> 'a option) \<Rightarrow> ('c heap \<Rightarrow> 'a \<Rightarrow> addr set) \<Rightarrow> 'c heap \<Rightarrow> addr option \<Rightarrow> addr set" where
  "ptr_reach prj reach h p = (case p of
     None \<Rightarrow> {} | Some a \<Rightarrow> insert a (case cell_at prj h a of None \<Rightarrow> {} | Some x \<Rightarrow> reach h x))"

definition slice_view ::
  "('c \<Rightarrow> 'a list option) \<Rightarrow> ('c heap \<Rightarrow> 'a \<Rightarrow> 'v option) \<Rightarrow> 'c heap \<Rightarrow> slice option \<Rightarrow> 'v list option" where
  "slice_view prj view h p = (case p of
     None \<Rightarrow> Some []
   | Some s \<Rightarrow> Option.bind (elems_at prj h s) (\<lambda>xs. those (map (view h) xs)))"

definition slice_reach ::
  "('c \<Rightarrow> 'a list option) \<Rightarrow> ('c heap \<Rightarrow> 'a \<Rightarrow> addr set) \<Rightarrow> 'c heap \<Rightarrow> slice option \<Rightarrow> addr set" where
  "slice_reach prj reach h p = (case p of
     None \<Rightarrow> {}
   | Some s \<Rightarrow> insert (sl_Array s) (case elems_at prj h s of None \<Rightarrow> {} | Some xs \<Rightarrow> (\<Union>x\<in>set xs. reach h x)))"

definition flat_view :: "'c heap \<Rightarrow> 'a \<Rightarrow> 'a option" where
  "flat_view h x = Some x"

definition flat_reach :: "'c heap \<Rightarrow> 'a \<Rightarrow> addr set" where
  "flat_reach h x = {}"

definition pair_view ::
  "('c heap \<Rightarrow> 'a \<Rightarrow> 'u option) \<Rightarrow> ('c heap \<Rightarrow> 'b \<Rightarrow> 'v option) \<Rightarrow> 'c heap \<Rightarrow> 'a \<times> 'b \<Rightarrow> ('u \<times> 'v) option" where
  "pair_view v1 v2 h p = Option.bind (v1 h (fst p)) (\<lambda>x. map_option (Pair x) (v2 h (snd p)))"

definition pair_reach ::
  "('c heap \<Rightarrow> 'a \<Rightarrow> addr set) \<Rightarrow> ('c heap \<Rightarrow> 'b \<Rightarrow> addr set) \<Rightarrow> 'c heap \<Rightarrow> 'a \<times> 'b \<Rightarrow> addr set" where
  "pair_reach r1 r2 h p = r1 h (fst p) \<union> r2 h (snd p)"

section \<open>Programs that only allocate\<close>

definition wf_heap :: "'c heap \<Rightarrow> bool" where
  "wf_heap h \<longleftrightarrow> (\<forall>a. hp_cells h a \<noteq> None \<longrightarrow> a < hp_next h)"

definition heap_ext :: "'c heap \<Rightarrow> 'c heap \<Rightarrow> bool" where
  "heap_ext h g \<longleftrightarrow> hp_next h \<le> hp_next g \<and> (\<forall>a < hp_next h. hp_cells g a = hp_cells h a)"

lemma heap_ext_refl [simp]: "heap_ext h h"
  by (simp add: heap_ext_def)

lemma heap_ext_trans: "heap_ext h1 h2 \<Longrightarrow> heap_ext h2 h3 \<Longrightarrow> heap_ext h1 h3"
  by (auto simp: heap_ext_def)

text \<open>\<open>allocs h m Q\<close>: run on \<open>h\<close> the program succeeds, changes no existing cell, and its result satisfies \<open>Q\<close>.\<close>

definition allocs :: "'c heap \<Rightarrow> ('c heap, 'a) call \<Rightarrow> ('a \<Rightarrow> 'c heap \<Rightarrow> bool) \<Rightarrow> bool" where
  "allocs h m Q \<longleftrightarrow> (\<exists>x g. run_state m h = (Inr x, g) \<and> wf_heap g \<and> heap_ext h g \<and> Q x g)"

lemma allocsI: "run_state m h = (Inr x, g) \<Longrightarrow> wf_heap g \<Longrightarrow> heap_ext h g \<Longrightarrow> Q x g \<Longrightarrow> allocs h m Q"
  by (auto simp: allocs_def)

lemma allocs_ret: "wf_heap h \<Longrightarrow> Q x h \<Longrightarrow> allocs h (ret (Inr x)) Q"
  by (simp add: allocs_def)

lemma allocs_checked:
  assumes "allocs h m P" and "\<And>x g. P x g \<Longrightarrow> wf_heap g \<Longrightarrow> heap_ext h g \<Longrightarrow> allocs g (k x) Q"
  shows "allocs h (checked m k) Q"
proof -
  obtain x g where r: "run_state m h = (Inr x, g)" and g: "wf_heap g" "heap_ext h g" "P x g"
    using assms(1) by (auto simp: allocs_def)
  with assms(2) [of x g] obtain y f where "run_state (k x) g = (Inr y, f)" and "wf_heap f" and "heap_ext g f" and "Q y f"
    by (auto simp: allocs_def)
  with r g show ?thesis by (intro allocsI [of _ _ y f]) (auto simp: run_on_err intro: heap_ext_trans)
qed

lemma allocs_mono: "allocs h m P \<Longrightarrow> (\<And>x g. P x g \<Longrightarrow> wf_heap g \<Longrightarrow> heap_ext h g \<Longrightarrow> Q x g) \<Longrightarrow> allocs h m Q"
  by (fastforce simp: allocs_def)

lemma allocs_reserve:
  "wf_heap h \<Longrightarrow> allocs h reserve (\<lambda>a g. a = hp_next h \<and> hp_next g = Suc a \<and> hp_cells g = hp_cells h)"
  by (auto simp: allocs_def reserve_def wf_heap_def heap_ext_def intro: less_SucI)

text \<open>Writing a fresh cell.\<close>

lemma store_fresh:
  assumes "wf_heap g" and "heap_ext h g" and "hp_next h \<le> a" and "a < hp_next g"
  shows "wf_heap (g\<lparr>hp_cells := (hp_cells g)(a \<mapsto> c)\<rparr>)" and "heap_ext h (g\<lparr>hp_cells := (hp_cells g)(a \<mapsto> c)\<rparr>)"
  using assms by (auto simp: wf_heap_def heap_ext_def)

section \<open>Copiers\<close>

text \<open>
  The contract of a deep copy. Reading depends on the reached cells only, which exist; the copy reads the
  same value, and every cell it reaches is new.
\<close>

locale copier =
  fixes view :: "'c heap \<Rightarrow> 'm \<Rightarrow> 'v option" and reach :: "'c heap \<Rightarrow> 'm \<Rightarrow> addr set"
    and copy :: "'m \<Rightarrow> ('c heap, 'm) call"
  assumes view_frame: "view h m = Some v \<Longrightarrow> (\<And>a. a \<in> reach h m \<Longrightarrow> hp_cells g a = hp_cells h a) \<Longrightarrow>
      view g m = Some v \<and> reach g m = reach h m"
    and reach_allocated: "view h m = Some v \<Longrightarrow> a \<in> reach h m \<Longrightarrow> hp_cells h a \<noteq> None"
    and copies: "wf_heap h \<Longrightarrow> view h m = Some v \<Longrightarrow>
      allocs h (copy m) (\<lambda>m' g. view g m' = Some v \<and> (\<forall>a\<in>reach g m'. hp_next h \<le> a))"
begin

lemma reach_below: "wf_heap h \<Longrightarrow> view h m = Some v \<Longrightarrow> a \<in> reach h m \<Longrightarrow> a < hp_next h"
  using reach_allocated by (auto simp: wf_heap_def)

lemma view_ext: "wf_heap h \<Longrightarrow> heap_ext h g \<Longrightarrow> view h m = Some v \<Longrightarrow> view g m = Some v \<and> reach g m = reach h m"
  by (rule view_frame) (auto simp: heap_ext_def dest: reach_below)

text \<open>The copy survives any write to what existed before, and the original any write to the new cells.\<close>

lemma copy_isolated:
  assumes "wf_heap h" and "view h m = Some v" and "run_state (copy m) h = (Inr m', g)"
  shows "view g m' = Some v" and "view g m = Some v" and "reach g m' \<inter> reach g m = {}"
    and "(\<And>a. a \<notin> reach g m' \<Longrightarrow> hp_cells f a = hp_cells g a) \<Longrightarrow> view f m = Some v"
    and "(\<And>a. a \<notin> reach g m \<Longrightarrow> hp_cells f a = hp_cells g a) \<Longrightarrow> view f m' = Some v"
proof -
  have g: "wf_heap g" "heap_ext h g" "view g m' = Some v" and fresh: "\<And>a. a \<in> reach g m' \<Longrightarrow> hp_next h \<le> a"
    using copies [OF assms(1,2)] assms(3) by (auto simp: allocs_def)
  have old: "view g m = Some v" "reach g m = reach h m"
    using view_ext [OF assms(1) g(2) assms(2)] by auto
  have disjoint: "a \<notin> reach g m" if "a \<in> reach g m'" for a
    using reach_below [OF assms(1,2), of a] fresh [OF that] old by auto
  show "view g m' = Some v" "view g m = Some v" "reach g m' \<inter> reach g m = {}"
    using g old disjoint by auto
  show "view f m = Some v" if "\<And>a. a \<notin> reach g m' \<Longrightarrow> hp_cells f a = hp_cells g a"
    using view_frame [OF old(1), of f] that disjoint by blast
  show "view f m' = Some v" if "\<And>a. a \<notin> reach g m \<Longrightarrow> hp_cells f a = hp_cells g a"
    using view_frame [OF g(3), of f] that disjoint by blast
qed

end

lemma copier_flat: "copier flat_view flat_reach flat_copy"
  by unfold_locales (simp_all add: flat_view_def flat_reach_def flat_copy_def allocs_ret)

lemma copier_pair:
  assumes "copier v1 r1 c1" and "copier v2 r2 c2"
  shows "copier (pair_view v1 v2) (pair_reach r1 r2) (pair_copy c1 c2)"
proof
  fix h m v
  assume "pair_view v1 v2 h m = Some v"
  then obtain x y where views: "v1 h (fst m) = Some x" "v2 h (snd m) = Some y" and v: "v = (x, y)"
    by (auto simp: pair_view_def bind_eq_Some_conv)
  show "pair_view v1 v2 g m = Some v \<and> pair_reach r1 r2 g m = pair_reach r1 r2 h m"
    if "\<And>a. a \<in> pair_reach r1 r2 h m \<Longrightarrow> hp_cells g a = hp_cells h a" for g
    using copier.view_frame [OF assms(1) views(1), of g] copier.view_frame [OF assms(2) views(2), of g] that v
    by (simp add: pair_view_def pair_reach_def)
  show "hp_cells h a \<noteq> None" if "a \<in> pair_reach r1 r2 h m" for a
    using copier.reach_allocated [OF assms(1) views(1)] copier.reach_allocated [OF assms(2) views(2)] that
    by (auto simp: pair_reach_def)
  assume wf: "wf_heap h"
  let ?Q = "\<lambda>p g. pair_view v1 v2 g p = Some v \<and> (\<forall>a\<in>pair_reach r1 r2 g p. hp_next h \<le> a)"
  show "allocs h (pair_copy c1 c2 m) ?Q"
    unfolding pair_copy_def
  proof (rule allocs_checked [OF copier.copies [OF assms(1) wf views(1)]])
    fix m1 g1
    assume g1: "wf_heap g1" "heap_ext h g1" and m1: "v1 g1 m1 = Some x \<and> (\<forall>a\<in>r1 g1 m1. hp_next h \<le> a)"
    have "v2 g1 (snd m) = Some y" using copier.view_ext [OF assms(2) wf g1(2) views(2)] by simp
    from copier.copies [OF assms(2) g1(1) this]
    show "allocs g1 (checked (c2 (snd m)) (\<lambda>y. ret (Inr (m1, y)))) ?Q"
    proof (rule allocs_checked)
      fix m2 g2
      assume g2: "wf_heap g2" "heap_ext g1 g2" and m2: "v2 g2 m2 = Some y \<and> (\<forall>a\<in>r2 g2 m2. hp_next g1 \<le> a)"
      have "v1 g2 m1 = Some x \<and> r1 g2 m1 = r1 g1 m1" using copier.view_ext [OF assms(1) g1(1) g2(2)] m1 by blast
      then show "allocs g2 (ret (Inr (m1, m2))) ?Q"
        using g1 g2 m1 m2 v by (intro allocs_ret) (auto simp: pair_view_def pair_reach_def heap_ext_def)
    qed
  qed
qed

text \<open>Pointers: the new cell comes before the cells of its content, and is written after them.\<close>

lemma ptr_view_Some:
  "ptr_view prj view h p = Some v \<longleftrightarrow>
     (p = None \<and> v = None) \<or> (\<exists>a x y. p = Some a \<and> cell_at prj h a = Some x \<and> view h x = Some y \<and> v = Some y)"
  by (auto simp: ptr_view_def bind_eq_Some_conv split: option.split)

lemma new_copy_run:
  assumes "copier view reach copy" and "\<And>x. prj (emb x) = Some x"
    and wf: "wf_heap h" and "cell_at prj h a = Some x" and x: "view h x = Some v"
  shows "allocs h (new_copy emb prj copy (Some a)) (\<lambda>p g. ptr_view prj view g p = Some (Some v) \<and>
    (\<forall>b\<in>ptr_reach prj reach g p. hp_next h \<le> b))"
proof -
  let ?n = "hp_next h"
  define h1 where "h1 = h\<lparr>hp_next := Suc ?n\<rparr>"
  have h1: "wf_heap h1" "heap_ext h h1" "hp_next h1 = Suc ?n"
    using wf by (auto simp: h1_def wf_heap_def heap_ext_def intro: less_SucI)
  have read: "cell_at prj h1 a = Some x" using assms(4) by (simp add: h1_def cell_at_def)
  have "view h1 x = Some v" using copier.view_ext [OF assms(1) wf h1(2) x] by simp
  from copier.copies [OF assms(1) h1(1) this]
  obtain y g where y: "run_state (copy x) h1 = (Inr y, g)" and g: "wf_heap g" "heap_ext h1 g" "view g y = Some v"
    and fresh: "\<And>b. b \<in> reach g y \<Longrightarrow> Suc ?n \<le> b"
    using h1(3) by (auto simp: allocs_def)
  define f where "f = g\<lparr>hp_cells := (hp_cells g)(?n \<mapsto> emb y)\<rparr>"
  have "?n < hp_next g" using g(2) h1(3) by (simp add: heap_ext_def)
  then have f: "wf_heap f" "heap_ext h f"
    unfolding f_def by (intro store_fresh [OF g(1) heap_ext_trans [OF h1(2) g(2)]]; simp)+
  have "hp_cells f b = hp_cells g b" if "b \<in> reach g y" for b using fresh [OF that] by (simp add: f_def)
  from copier.view_frame [OF assms(1) g(3) this]
  have fy: "view f y = Some v" "reach f y = reach g y" "cell_at prj f ?n = Some y"
    using assms(2) by (simp_all add: f_def cell_at_def)
  have "run_state (new_copy emb prj copy (Some a)) h = (Inr (Some ?n), f)"
    using read y by (simp add: new_copy_def run_on_err reserve_def load_def store_cell_def f_def flip: h1_def)
  moreover have "\<forall>b\<in>reach f y. ?n \<le> b" using fresh fy(2) by (auto dest: Suc_leD)
  ultimately show ?thesis
    using f fy by (intro allocsI) (auto simp: ptr_view_def ptr_reach_def)
qed

lemma copier_ptr:
  assumes "copier view reach copy" and "\<And>x. prj (emb x) = Some x"
  shows "copier (ptr_view prj view) (ptr_reach prj reach) (new_copy emb prj copy)"
proof
  fix h p v
  assume v: "ptr_view prj view h p = Some v"
  show "ptr_view prj view g p = Some v \<and> ptr_reach prj reach g p = ptr_reach prj reach h p"
    if "\<And>a. a \<in> ptr_reach prj reach h p \<Longrightarrow> hp_cells g a = hp_cells h a" for g
  proof (cases p)
    case None
    then show ?thesis using v by (simp add: ptr_view_def ptr_reach_def)
  next
    case (Some a)
    then obtain x y where xy: "cell_at prj h a = Some x" "view h x = Some y" "v = Some y"
      using v by (auto simp: ptr_view_Some)
    moreover have "cell_at prj g a = Some x" using that [of a] xy Some by (simp add: cell_at_def ptr_reach_def)
    moreover have "view g x = Some y \<and> reach g x = reach h x"
      by (rule copier.view_frame [OF assms(1) xy(2)]) (use that xy Some in \<open>simp add: ptr_reach_def\<close>)
    ultimately show ?thesis using Some by (simp add: ptr_view_def ptr_reach_def)
  qed
  show "hp_cells h a \<noteq> None" if "a \<in> ptr_reach prj reach h p" for a
    using v that copier.reach_allocated [OF assms(1)]
    by (fastforce simp: ptr_view_Some ptr_reach_def cell_at_def bind_eq_Some_conv)
  assume wf: "wf_heap h"
  show "allocs h (new_copy emb prj copy p)
    (\<lambda>p' g. ptr_view prj view g p' = Some v \<and> (\<forall>a\<in>ptr_reach prj reach g p'. hp_next h \<le> a))"
  proof (cases p)
    case None
    then show ?thesis using v wf by (auto simp: new_copy_def ptr_view_def ptr_reach_def intro: allocs_ret)
  next
    case (Some a)
    then obtain x y where "cell_at prj h a = Some x" "view h x = Some y" "v = Some y"
      using v by (auto simp: ptr_view_Some)
    with new_copy_run [OF assms wf] show ?thesis unfolding Some by blast
  qed
qed

text \<open>Loops over elements, and slices.\<close>

lemma list_all2_in_set: "list_all2 P xs ys \<Longrightarrow> x \<in> set xs \<Longrightarrow> \<exists>y. P x y"
  by (induction rule: list_all2_induct) auto

lemma those_map_Some: "those (map f xs) = Some ys \<longleftrightarrow> list_all2 (\<lambda>x y. f x = Some y) xs ys"
  by (induction xs arbitrary: ys) (auto simp: list_all2_Cons1 split: option.split)

lemma for_each_copies:
  assumes "copier view reach copy"
  shows "wf_heap h \<Longrightarrow> list_all2 (\<lambda>x v. view h x = Some v) xs vs \<Longrightarrow>
    allocs h (for_each copy xs) (\<lambda>ys g. list_all2 (\<lambda>y v. view g y = Some v \<and> (\<forall>a\<in>reach g y. hp_next h \<le> a)) ys vs)"
proof (induction xs arbitrary: h vs)
  case Nil
  then show ?case by (simp add: allocs_ret)
next
  case (Cons x xs)
  then obtain v ws where vs: "vs = v # ws" and x: "view h x = Some v" and xs: "list_all2 (\<lambda>x v. view h x = Some v) xs ws"
    by (auto simp: list_all2_Cons1)
  show ?case
    unfolding for_each.simps vs
  proof (rule allocs_checked [OF copier.copies [OF assms Cons.prems(1) x]])
    fix y g
    assume g: "wf_heap g" "heap_ext h g" and y: "view g y = Some v \<and> (\<forall>a\<in>reach g y. hp_next h \<le> a)"
    have "list_all2 (\<lambda>x v. view g x = Some v) xs ws"
      using xs by (rule list_all2_mono) (use copier.view_ext [OF assms Cons.prems(1) g(2)] in blast)
    from Cons.IH [OF g(1) this]
    show "allocs g (checked (for_each copy xs) (\<lambda>ys. ret (Inr (y # ys))))
        (\<lambda>ys f. list_all2 (\<lambda>y v. view f y = Some v \<and> (\<forall>a\<in>reach f y. hp_next h \<le> a)) ys (v # ws))"
    proof (rule allocs_checked)
      fix ys f
      assume f: "wf_heap f" "heap_ext g f"
        and ys: "list_all2 (\<lambda>y v. view f y = Some v \<and> (\<forall>a\<in>reach f y. hp_next g \<le> a)) ys ws"
      have "view f y = Some v \<and> reach f y = reach g y" using copier.view_ext [OF assms g(1) f(2)] y by blast
      moreover have "list_all2 (\<lambda>y v. view f y = Some v \<and> (\<forall>a\<in>reach f y. hp_next h \<le> a)) ys ws"
        using ys g(2) by (auto simp: heap_ext_def elim!: list_all2_mono)
      ultimately show "allocs f (ret (Inr (y # ys)))
          (\<lambda>ys f. list_all2 (\<lambda>y v. view f y = Some v \<and> (\<forall>a\<in>reach f y. hp_next h \<le> a)) ys (v # ws))"
        using y by (intro allocs_ret f) auto
    qed
  qed
qed

lemma slice_view_Some:
  "slice_view prj view h p = Some v \<longleftrightarrow> (p = None \<and> v = []) \<or>
     (\<exists>s xs. p = Some s \<and> elems_at prj h s = Some xs \<and> list_all2 (\<lambda>x y. view h x = Some y) xs v)"
  by (auto simp: slice_view_def bind_eq_Some_conv those_map_Some split: option.split)

lemma elems_at_frame: "hp_cells g (sl_Array s) = hp_cells h (sl_Array s) \<Longrightarrow> elems_at prj g s = elems_at prj h s"
  by (simp add: elems_at_def cell_at_def)

lemma slice_copy_run:
  assumes "copier view reach copy" and "\<And>x. prj (emb x) = Some x"
    and wf: "wf_heap h" and "elems_at prj h s = Some xs" and x: "list_all2 (\<lambda>x y. view h x = Some y) xs vs"
  shows "allocs h (slice_copy emb prj copy (Some s)) (\<lambda>p g. slice_view prj view g p = Some vs \<and>
    (\<forall>b\<in>slice_reach prj reach g p. hp_next h \<le> b))"
proof -
  let ?n = "hp_next h"
  define h1 where "h1 = h\<lparr>hp_next := Suc ?n\<rparr>"
  have h1: "wf_heap h1" "heap_ext h h1" "hp_next h1 = Suc ?n"
    using wf by (auto simp: h1_def wf_heap_def heap_ext_def intro: less_SucI)
  have "list_all2 (\<lambda>x y. view h1 x = Some y) xs vs"
    using x by (rule list_all2_mono) (use copier.view_ext [OF assms(1) wf h1(2)] in blast)
  from for_each_copies [OF assms(1) h1(1) this]
  obtain ys g where ys: "run_state (for_each copy xs) h1 = (Inr ys, g)" and g: "wf_heap g" "heap_ext h1 g"
    and copied: "list_all2 (\<lambda>y v. view g y = Some v \<and> (\<forall>a\<in>reach g y. Suc ?n \<le> a)) ys vs"
    unfolding h1(3) by (auto simp: allocs_def)
  define f where "f = g\<lparr>hp_cells := (hp_cells g)(?n \<mapsto> emb ys)\<rparr>"
  let ?s = "\<lparr>sl_Array = ?n, sl_Off = 0, sl_Len = length ys\<rparr>"
  have "?n < hp_next g" using g(2) h1(3) by (simp add: heap_ext_def)
  then have f: "wf_heap f" "heap_ext h f"
    unfolding f_def by (intro store_fresh [OF g(1) heap_ext_trans [OF h1(2) g(2)]]; simp)+
  have kept: "view f y = Some v \<and> reach f y = reach g y" if "view g y = Some v" "\<forall>a\<in>reach g y. Suc ?n \<le> a" for y v
    by (rule copier.view_frame [OF assms(1) that(1)]) (use that(2) in \<open>auto simp: f_def\<close>)
  have "list_all2 (\<lambda>y v. view f y = Some v \<and> (\<forall>a\<in>reach f y. ?n \<le> a)) ys vs"
    using copied by (rule list_all2_mono) (use kept in \<open>fastforce dest: Suc_leD\<close>)
  then have views: "list_all2 (\<lambda>y v. view f y = Some v) ys vs" and new: "\<forall>y\<in>set ys. \<forall>a\<in>reach f y. ?n \<le> a"
    by (auto elim!: list_all2_mono dest: list_all2_in_set)
  have elems: "elems_at prj f ?s = Some ys" using assms(2) by (simp add: elems_at_def cell_at_def f_def)
  have "slice_view prj view f (Some ?s) = Some vs"
    unfolding slice_view_Some using elems views by blast
  moreover have "\<forall>b\<in>slice_reach prj reach f (Some ?s). ?n \<le> b"
    using elems new by (simp add: slice_reach_def)
  moreover have "run_state (slice_copy emb prj copy (Some s)) h = (Inr (Some ?s), f)"
    using assms(4) ys by (simp add: slice_copy_def run_on_err reserve_def load_slice_def store_cell_def f_def flip: h1_def)
  ultimately show ?thesis
    using f by (intro allocsI conjI)
qed

lemma copier_slice:
  assumes "copier view reach copy" and "\<And>x. prj (emb x) = Some x"
  shows "copier (slice_view prj view) (slice_reach prj reach) (slice_copy emb prj copy)"
proof
  fix h p v
  assume v: "slice_view prj view h p = Some v"
  show "slice_view prj view g p = Some v \<and> slice_reach prj reach g p = slice_reach prj reach h p"
    if same: "\<And>a. a \<in> slice_reach prj reach h p \<Longrightarrow> hp_cells g a = hp_cells h a" for g
  proof (cases p)
    case None
    then show ?thesis using v by (simp add: slice_view_def slice_reach_def)
  next
    case (Some s)
    then obtain xs where xs: "elems_at prj h s = Some xs" "list_all2 (\<lambda>x y. view h x = Some y) xs v"
      using v by (auto simp: slice_view_Some)
    have "hp_cells g (sl_Array s) = hp_cells h (sl_Array s)" by (rule same) (simp add: Some slice_reach_def)
    then have elems: "elems_at prj g s = Some xs" using elems_at_frame xs(1) by metis
    have each: "view g x = Some y \<and> reach g x = reach h x" if "x \<in> set xs" "view h x = Some y" for x y
      by (rule copier.view_frame [OF assms(1) that(2)]) (use same xs Some that in \<open>auto simp: slice_reach_def\<close>)
    have "list_all2 (\<lambda>x y. view g x = Some y) xs v"
      using xs(2) by (rule list.rel_mono_strong) (use each in blast)
    then have "slice_view prj view g p = Some v" using elems Some slice_view_Some by fastforce
    moreover have "reach g x = reach h x" if "x \<in> set xs" for x
      using each [OF that] list_all2_in_set [OF xs(2) that] by blast
    ultimately show ?thesis
      using xs(1) elems Some by (simp add: slice_reach_def)
  qed
  show "hp_cells h a \<noteq> None" if a: "a \<in> slice_reach prj reach h p" for a
  proof -
    obtain s xs where p: "p = Some s" and xs: "elems_at prj h s = Some xs" "list_all2 (\<lambda>x y. view h x = Some y) xs v"
      using a v by (auto simp: slice_view_Some slice_reach_def)
    have "hp_cells h (sl_Array s) \<noteq> None" using xs(1) by (auto simp: elems_at_def cell_at_def bind_eq_Some_conv split: option.splits)
    moreover have "hp_cells h a \<noteq> None" if "x \<in> set xs" "a \<in> reach h x" for x
      using list_all2_in_set [OF xs(2) that(1)] copier.reach_allocated [OF assms(1) _ that(2)] by blast
    ultimately show ?thesis using a p xs by (auto simp: slice_reach_def)
  qed
  assume wf: "wf_heap h"
  show "allocs h (slice_copy emb prj copy p)
    (\<lambda>p' g. slice_view prj view g p' = Some v \<and> (\<forall>a\<in>slice_reach prj reach g p'. hp_next h \<le> a))"
  proof (cases p)
    case None
    then show ?thesis using v wf by (auto simp: slice_copy_def slice_view_def slice_reach_def intro: allocs_ret)
  next
    case (Some s)
    then obtain xs where "elems_at prj h s = Some xs" "list_all2 (\<lambda>x y. view h x = Some y) xs v"
      using v by (auto simp: slice_view_Some)
    with slice_copy_run [OF assms wf] show ?thesis unfolding Some by blast
  qed
qed

text \<open>A struct as the tuple of its pointer fields.\<close>

lemma copier_struct:
  assumes "copier view reach copy"
    and "\<And>m. copy' m = checked (copy (parts m)) (\<lambda>x. ret (Inr (put m x)))"
    and "\<And>h m. view' h m = map_option (mk m) (view h (parts m))" and "\<And>h m. reach' h m = reach h (parts m)"
    and "\<And>m x. parts (put m x) = x" and "\<And>m x. mk (put m x) = mk m"
  shows "copier view' reach' copy'"
proof
  fix h m v
  assume "view' h m = Some v"
  then obtain x where x: "view h (parts m) = Some x" and v: "v = mk m x" by (auto simp: assms(3))
  show "view' g m = Some v \<and> reach' g m = reach' h m" if "\<And>a. a \<in> reach' h m \<Longrightarrow> hp_cells g a = hp_cells h a" for g
    using copier.view_frame [OF assms(1) x, of g] that v by (simp add: assms)
  show "hp_cells h a \<noteq> None" if "a \<in> reach' h m" for a
    using copier.reach_allocated [OF assms(1) x] that by (simp add: assms)
  assume wf: "wf_heap h"
  show "allocs h (copy' m) (\<lambda>m' g. view' g m' = Some v \<and> (\<forall>a\<in>reach' g m'. hp_next h \<le> a))"
    unfolding assms(2)
    by (rule allocs_checked [OF copier.copies [OF assms(1) wf x]]) (auto intro!: allocs_ret simp: assms v)
qed

section \<open>Layouts\<close>

text \<open>
  How a Go type lies in memory: its reading, its cells and its copy, packed up, so that the layout of a
  type is one expression over the layouts of its fields.
\<close>

record ('c, 'm, 'v) layout =
  ly_view :: "'c heap \<Rightarrow> 'm \<Rightarrow> 'v option"
  ly_reach :: "'c heap \<Rightarrow> 'm \<Rightarrow> addr set"
  ly_copy :: "'m \<Rightarrow> ('c heap, 'm) call"

abbreviation copied_well :: "('c, 'm, 'v) layout \<Rightarrow> bool" where
  "copied_well ly \<equiv> copier (ly_view ly) (ly_reach ly) (ly_copy ly)"

definition flat_layout :: "('c, 'a, 'a) layout" where
  "flat_layout = \<lparr>ly_view = flat_view, ly_reach = flat_reach, ly_copy = flat_copy\<rparr>"

definition ptr_layout ::
  "('a \<Rightarrow> 'c) \<Rightarrow> ('c \<Rightarrow> 'a option) \<Rightarrow> ('c, 'a, 'v) layout \<Rightarrow> ('c, addr option, 'v option) layout" where
  "ptr_layout emb prj ly = \<lparr>ly_view = ptr_view prj (ly_view ly), ly_reach = ptr_reach prj (ly_reach ly),
     ly_copy = new_copy emb prj (ly_copy ly)\<rparr>"

definition slice_layout ::
  "('a list \<Rightarrow> 'c) \<Rightarrow> ('c \<Rightarrow> 'a list option) \<Rightarrow> ('c, 'a, 'v) layout \<Rightarrow> ('c, slice option, 'v list) layout" where
  "slice_layout emb prj ly = \<lparr>ly_view = slice_view prj (ly_view ly), ly_reach = slice_reach prj (ly_reach ly),
     ly_copy = slice_copy emb prj (ly_copy ly)\<rparr>"

definition pair_layout :: "('c, 'a, 'u) layout \<Rightarrow> ('c, 'b, 'v) layout \<Rightarrow> ('c, 'a \<times> 'b, 'u \<times> 'v) layout" where
  "pair_layout l1 l2 = \<lparr>ly_view = pair_view (ly_view l1) (ly_view l2), ly_reach = pair_reach (ly_reach l1) (ly_reach l2),
     ly_copy = pair_copy (ly_copy l1) (ly_copy l2)\<rparr>"

text \<open>A struct: its pointer fields as a tuple, how they are put back, and the value they make up.\<close>

definition struct_layout ::
  "('m \<Rightarrow> 'p) \<Rightarrow> ('m \<Rightarrow> 'p \<Rightarrow> 'm) \<Rightarrow> ('m \<Rightarrow> 'u \<Rightarrow> 'v) \<Rightarrow> ('c, 'p, 'u) layout \<Rightarrow> ('c, 'm, 'v) layout" where
  "struct_layout parts put mk ly = \<lparr>ly_view = (\<lambda>h m. map_option (mk m) (ly_view ly h (parts m))),
     ly_reach = (\<lambda>h m. ly_reach ly h (parts m)),
     ly_copy = (\<lambda>m. checked (ly_copy ly (parts m)) (\<lambda>x. ret (Inr (put m x))))\<rparr>"

lemma flat_copied_well: "copied_well flat_layout"
  by (simp add: flat_layout_def copier_flat)

lemma ptr_copied_well: "copied_well ly \<Longrightarrow> (\<And>x. prj (emb x) = Some x) \<Longrightarrow> copied_well (ptr_layout emb prj ly)"
  by (simp add: ptr_layout_def copier_ptr)

lemma slice_copied_well: "copied_well ly \<Longrightarrow> (\<And>x. prj (emb x) = Some x) \<Longrightarrow> copied_well (slice_layout emb prj ly)"
  by (simp add: slice_layout_def copier_slice)

lemma pair_copied_well: "copied_well l1 \<Longrightarrow> copied_well l2 \<Longrightarrow> copied_well (pair_layout l1 l2)"
  by (simp add: pair_layout_def copier_pair)

lemma struct_copied_well:
  "copied_well ly \<Longrightarrow> (\<And>m x. parts (put m x) = x) \<Longrightarrow> (\<And>m x. mk (put m x) = mk m) \<Longrightarrow>
     copied_well (struct_layout parts put mk ly)"
  by (rule copier_struct [where parts = parts and put = put and mk = mk]) (simp_all add: struct_layout_def)

lemmas layouts_copied_well = flat_copied_well ptr_copied_well slice_copied_well pair_copied_well struct_copied_well

lemma layout_copies [simp]:
  "ly_copy flat_layout = flat_copy" "ly_copy (ptr_layout emb prj ly) = new_copy emb prj (ly_copy ly)"
  "ly_copy (slice_layout emb' prj' ly') = slice_copy emb' prj' (ly_copy ly')"
  "ly_copy (pair_layout l1 l2) = pair_copy (ly_copy l1) (ly_copy l2)"
  "ly_copy (struct_layout parts put mk l) = (\<lambda>m. checked (ly_copy l (parts m)) (\<lambda>x. ret (Inr (put m x))))"
  by (simp_all add: flat_layout_def ptr_layout_def slice_layout_def pair_layout_def struct_layout_def)

section \<open>Isolation\<close>

text \<open>
  \<open>x\<close> and \<open>y\<close> read as \<open>v\<close>, share no cell, and each still reads as \<open>v\<close> after any change to the other's cells.
\<close>

definition isolated ::
  "('c heap \<Rightarrow> 'x \<Rightarrow> 'v option) \<Rightarrow> ('c heap \<Rightarrow> 'x \<Rightarrow> addr set) \<Rightarrow> 'c heap \<Rightarrow> 'x \<Rightarrow> 'x \<Rightarrow> 'v \<Rightarrow> bool" where
  "isolated view reach g x y v \<longleftrightarrow> view g x = Some v \<and> view g y = Some v \<and> reach g x \<inter> reach g y = {} \<and>
     (\<forall>f. (\<forall>a. a \<notin> reach g y \<longrightarrow> hp_cells f a = hp_cells g a) \<longrightarrow> view f x = Some v) \<and>
     (\<forall>f. (\<forall>a. a \<notin> reach g x \<longrightarrow> hp_cells f a = hp_cells g a) \<longrightarrow> view f y = Some v)"

lemma ptr_copy_isolated:
  assumes "copied_well ly" and "\<And>x. prj (emb x) = Some x" and wf: "wf_heap h"
    and v: "ly_view (ptr_layout emb prj ly) h (Some a) = Some (Some v)"
  shows "\<exists>b g. run_state (new_copy emb prj (ly_copy ly) (Some a)) h = (Inr (Some b), g) \<and> wf_heap g \<and> heap_ext h g \<and>
    isolated (ly_view (ptr_layout emb prj ly)) (ly_reach (ptr_layout emb prj ly)) g (Some a) (Some b) (Some v)"
proof -
  note ptr = ptr_copied_well [of ly prj emb, OF assms(1,2)]
  obtain p g where run: "run_state (new_copy emb prj (ly_copy ly) (Some a)) h = (Inr p, g)" and g: "wf_heap g" "heap_ext h g"
    and p: "ly_view (ptr_layout emb prj ly) g p = Some (Some v)"
    using copier.copies [OF ptr wf v] by (auto simp: allocs_def)
  obtain b where "p = Some b" using p by (cases p) (auto simp: ptr_layout_def ptr_view_def)
  moreover have "isolated (ly_view (ptr_layout emb prj ly)) (ly_reach (ptr_layout emb prj ly)) g (Some a) p (Some v)"
    using copier.copy_isolated [OF ptr wf v, of p g] run unfolding isolated_def by (auto simp: Int_commute)
  ultimately show ?thesis using run g by blast
qed

end
