(* ===== verification/DeepCopy.thy ===== *)
theory DeepCopy
  imports ApiTypes Heap
begin

text \<open>
  \<open>api/v1alpha1/zz_generated.deepcopy.go\<close>: the API objects as they lie in memory, with their pointers
  and slices, and their deep copies. The rest of the development passes objects as values; this theory
  shows what that rests on: a deep copy reads as the same value and shares no cell with its original.
  \<open>ObjectMeta\<close>, \<open>ListMeta\<close>, \<open>Time\<close> and \<open>Condition\<close> belong to
      apimachinery: how they lie in memory and are
  copied is an argument (\<open>copylib\<close>), with the contract \<open>apimachinery\<close>.
\<close>

section \<open>Structs in memory\<close>

record VersionInfo_H =
  hvi_Chart :: string
  hvi_Images :: "slice option"

record RetentionPolicy_H =
  hrp_MaxCount :: "addr option"

record VolumeSnapshotConfig_H =
  hvsc_Enabled :: bool
  hvsc_VolumeSnapshotClassName :: string
  hvsc_PVCs :: "slice option"
  hvsc_ExcludePVCs :: "slice option"
  hvsc_RetentionPolicy :: "addr option"

record ManagedAppSpec_H =
  hmas_GitPath :: string
  hmas_KustomizationRef :: ObjectReference
  hmas_SuspendRef :: "addr option"
  hmas_HelmReleaseRef :: "addr option"
  hmas_VolumeSnapshots :: "addr option"
  hmas_VersionPolicy :: "addr option"
  hmas_HealthCheck :: "addr option"
  hmas_AutoRollback :: bool

record UpgradeInfo_H =
  hui_FromVersion :: "addr option"
  hui_ToVersion :: "addr option"
  hui_Timestamp :: "addr option"
  hui_Status :: string

record ManagedAppStatus_H =
  hmast_CurrentVersion :: "addr option"
  hmast_AvailableUpdate :: "addr option"
  hmast_LastUpgrade :: "addr option"
  hmast_Conditions :: "slice option"

record ScalingStatus_H =
  hss_Workloads :: "slice option"
  hss_ScaledDownAt :: "addr option"

record SnapshotStatus_H =
  hsns_PVCSnapshots :: "slice option"
  hsns_CreatedAt :: "addr option"
  hsns_ReadyAt :: "addr option"

record UpgradeStatus_H =
  hus_PreviousVersion :: "addr option"
  hus_NewVersion :: "addr option"
  hus_GitCommit :: string
  hus_StartedAt :: "addr option"
  hus_CompletedAt :: "addr option"

record HealthCheckStatus_H =
  hhcs_Status :: string
  hhcs_CheckedAt :: "addr option"
  hhcs_Message :: string

record UpgradeRequestSpec_H =
  hurs_ManagedAppRef :: ObjectReference
  hurs_TargetVersion :: "addr option"
  hurs_SkipSnapshot :: bool
  hurs_DryRun :: bool

record UpgradeRequestStatus_H =
  hurst_Scaling :: "addr option"
  hurst_Snapshot :: "addr option"
  hurst_Upgrade :: "addr option"
  hurst_HealthCheck :: "addr option"
  hurst_PhaseStartedAt :: "addr option"
  hurst_Conditions :: "slice option"

record RestoredFromStatus_H =
  hrfs_UpgradeRequestName :: string
  hrfs_TargetVersion :: "addr option"
  hrfs_RolledBackVersion :: "addr option"

record VolumeRestoreStatus_H =
  hvrs_RestoredPVCs :: "slice option"
  hvrs_StartedAt :: "addr option"
  hvrs_CompletedAt :: "addr option"

record GitRevertStatus_H =
  hgrs_CommitSHA :: string
  hgrs_CommittedAt :: "addr option"

record RollbackRequestStatus_H =
  hrrst_RestoredFrom :: "addr option"
  hrrst_Scaling :: "addr option"
  hrrst_VolumeRestore :: "addr option"
  hrrst_GitRevert :: "addr option"
  hrrst_StartedAt :: "addr option"
  hrrst_CompletedAt :: "addr option"
  hrrst_PhaseStartedAt :: "addr option"
  hrrst_Conditions :: "slice option"

record 'm ManagedApp_H =
  hma_TypeMeta :: "string \<times> string"
  hma_meta :: 'm
  hma_Spec :: ManagedAppSpec_H
  hma_Status :: ManagedAppStatus_H

record 'm UpgradeRequest_H =
  hur_TypeMeta :: "string \<times> string"
  hur_meta :: 'm
  hur_Spec :: UpgradeRequestSpec_H
  hur_Status :: UpgradeRequestStatus_H

record 'm RollbackRequest_H =
  hrr_TypeMeta :: "string \<times> string"
  hrr_meta :: 'm
  hrr_Spec :: RollbackRequestSpec
  hrr_Status :: RollbackRequestStatus_H

record 'q ManagedAppList_H =
  hmal_TypeMeta :: "string \<times> string"
  hmal_meta :: 'q
  hmal_Items :: "slice option"

record 'q UpgradeRequestList_H =
  hurl_TypeMeta :: "string \<times> string"
  hurl_meta :: 'q
  hurl_Items :: "slice option"

record 'q RollbackRequestList_H =
  hrrl_TypeMeta :: "string \<times> string"
  hrrl_meta :: 'q
  hrrl_Items :: "slice option"

section \<open>Cells\<close>

text \<open>One constructor per type that is pointed to or held in an array.\<close>

datatype spec_cell =
    CInt int
  | CVersionInfo VersionInfo_H
  | CRetentionPolicy RetentionPolicy_H
  | CVolumeSnapshotConfig VolumeSnapshotConfig_H
  | CManagedAppSpec ManagedAppSpec_H
  | CUpgradeRequestSpec UpgradeRequestSpec_H
  | CObjectReference ObjectReference
  | CPVCRef PVCRef
  | CVersionPolicy VersionPolicy
  | CHealthCheckConfig HealthCheckConfig
  | CImageInfo ImageInfo
  | CWorkloadScalingInfo WorkloadScalingInfo
  | CPVCSnapshotInfo PVCSnapshotInfo
  | CRestoredPVCInfo RestoredPVCInfo
  | CRollbackRequestSpec RollbackRequestSpec

datatype status_cell =
    CTime time
  | CUpgradeInfo UpgradeInfo_H
  | CManagedAppStatus ManagedAppStatus_H
  | CScalingStatus ScalingStatus_H
  | CSnapshotStatus SnapshotStatus_H
  | CUpgradeStatus UpgradeStatus_H
  | CHealthCheckStatus HealthCheckStatus_H
  | CUpgradeRequestStatus UpgradeRequestStatus_H
  | CRestoredFromStatus RestoredFromStatus_H
  | CVolumeRestoreStatus VolumeRestoreStatus_H
  | CGitRevertStatus GitRevertStatus_H
  | CRollbackRequestStatus RollbackRequestStatus_H

datatype 'm array_cell =
    AImageInfo "ImageInfo list"
  | APVCRef "PVCRef list"
  | ACondition "Condition list"
  | AWorkloadScalingInfo "WorkloadScalingInfo list"
  | APVCSnapshotInfo "PVCSnapshotInfo list"
  | ARestoredPVCInfo "RestoredPVCInfo list"
  | AManagedApp "'m ManagedApp_H list"
  | AUpgradeRequest "'m UpgradeRequest_H list"
  | ARollbackRequest "'m RollbackRequest_H list"

datatype ('m, 'q) object_cell =
    CManagedApp "'m ManagedApp_H"
  | CUpgradeRequest "'m UpgradeRequest_H"
  | CRollbackRequest "'m RollbackRequest_H"
  | CManagedAppList "'q ManagedAppList_H"
  | CUpgradeRequestList "'q UpgradeRequestList_H"
  | CRollbackRequestList "'q RollbackRequestList_H"

datatype ('m, 'q, 'l) cell =
    SpecCell spec_cell
  | StatusCell status_cell
  | ArrayCell "'m array_cell"
  | ObjectCell "('m, 'q) object_cell"
  | LibCell 'l

type_synonym ('m, 'q, 'l) memory = "('m, 'q, 'l) cell heap"

text \<open>The projections: what a pointer or slice of the type finds in a cell.\<close>

definition as_int :: "('m, 'q, 'l) cell \<Rightarrow> int option" where
  "as_int c = (case c of SpecCell (CInt x) \<Rightarrow> Some x | _ \<Rightarrow> None)"

definition as_VersionInfo :: "('m, 'q, 'l) cell \<Rightarrow> VersionInfo_H option" where
  "as_VersionInfo c = (case c of SpecCell (CVersionInfo x) \<Rightarrow> Some x | _ \<Rightarrow> None)"

definition as_RetentionPolicy :: "('m, 'q, 'l) cell \<Rightarrow> RetentionPolicy_H option" where
  "as_RetentionPolicy c = (case c of SpecCell (CRetentionPolicy x) \<Rightarrow> Some x | _ \<Rightarrow> None)"

definition as_VolumeSnapshotConfig :: "('m, 'q, 'l) cell \<Rightarrow> VolumeSnapshotConfig_H option" where
  "as_VolumeSnapshotConfig c = (case c of SpecCell (CVolumeSnapshotConfig x) \<Rightarrow> Some x | _ \<Rightarrow>
      None)"

definition as_ManagedAppSpec :: "('m, 'q, 'l) cell \<Rightarrow> ManagedAppSpec_H option" where
  "as_ManagedAppSpec c = (case c of SpecCell (CManagedAppSpec x) \<Rightarrow> Some x | _ \<Rightarrow> None)"

definition as_UpgradeRequestSpec :: "('m, 'q, 'l) cell \<Rightarrow> UpgradeRequestSpec_H option" where
  "as_UpgradeRequestSpec c = (case c of SpecCell (CUpgradeRequestSpec x) \<Rightarrow> Some x | _ \<Rightarrow>
      None)"

definition as_ObjectReference :: "('m, 'q, 'l) cell \<Rightarrow> ObjectReference option" where
  "as_ObjectReference c = (case c of SpecCell (CObjectReference x) \<Rightarrow> Some x | _ \<Rightarrow> None)"

definition as_PVCRef :: "('m, 'q, 'l) cell \<Rightarrow> PVCRef option" where
  "as_PVCRef c = (case c of SpecCell (CPVCRef x) \<Rightarrow> Some x | _ \<Rightarrow> None)"

definition as_VersionPolicy :: "('m, 'q, 'l) cell \<Rightarrow> VersionPolicy option" where
  "as_VersionPolicy c = (case c of SpecCell (CVersionPolicy x) \<Rightarrow> Some x | _ \<Rightarrow> None)"

definition as_HealthCheckConfig :: "('m, 'q, 'l) cell \<Rightarrow> HealthCheckConfig option" where
  "as_HealthCheckConfig c = (case c of SpecCell (CHealthCheckConfig x) \<Rightarrow> Some x | _ \<Rightarrow> None)"

definition as_ImageInfo :: "('m, 'q, 'l) cell \<Rightarrow> ImageInfo option" where
  "as_ImageInfo c = (case c of SpecCell (CImageInfo x) \<Rightarrow> Some x | _ \<Rightarrow> None)"

definition as_WorkloadScalingInfo :: "('m, 'q, 'l) cell \<Rightarrow> WorkloadScalingInfo option" where
  "as_WorkloadScalingInfo c = (case c of SpecCell (CWorkloadScalingInfo x) \<Rightarrow> Some x | _ \<Rightarrow>
      None)"

definition as_PVCSnapshotInfo :: "('m, 'q, 'l) cell \<Rightarrow> PVCSnapshotInfo option" where
  "as_PVCSnapshotInfo c = (case c of SpecCell (CPVCSnapshotInfo x) \<Rightarrow> Some x | _ \<Rightarrow> None)"

definition as_RestoredPVCInfo :: "('m, 'q, 'l) cell \<Rightarrow> RestoredPVCInfo option" where
  "as_RestoredPVCInfo c = (case c of SpecCell (CRestoredPVCInfo x) \<Rightarrow> Some x | _ \<Rightarrow> None)"

definition as_RollbackRequestSpec :: "('m, 'q, 'l) cell \<Rightarrow> RollbackRequestSpec option" where
  "as_RollbackRequestSpec c = (case c of SpecCell (CRollbackRequestSpec x) \<Rightarrow> Some x | _ \<Rightarrow>
      None)"

definition as_time :: "('m, 'q, 'l) cell \<Rightarrow> time option" where
  "as_time c = (case c of StatusCell (CTime x) \<Rightarrow> Some x | _ \<Rightarrow> None)"

definition as_UpgradeInfo :: "('m, 'q, 'l) cell \<Rightarrow> UpgradeInfo_H option" where
  "as_UpgradeInfo c = (case c of StatusCell (CUpgradeInfo x) \<Rightarrow> Some x | _ \<Rightarrow> None)"

definition as_ManagedAppStatus :: "('m, 'q, 'l) cell \<Rightarrow> ManagedAppStatus_H option" where
  "as_ManagedAppStatus c = (case c of StatusCell (CManagedAppStatus x) \<Rightarrow> Some x | _ \<Rightarrow> None)"

definition as_ScalingStatus :: "('m, 'q, 'l) cell \<Rightarrow> ScalingStatus_H option" where
  "as_ScalingStatus c = (case c of StatusCell (CScalingStatus x) \<Rightarrow> Some x | _ \<Rightarrow> None)"

definition as_SnapshotStatus :: "('m, 'q, 'l) cell \<Rightarrow> SnapshotStatus_H option" where
  "as_SnapshotStatus c = (case c of StatusCell (CSnapshotStatus x) \<Rightarrow> Some x | _ \<Rightarrow> None)"

definition as_UpgradeStatus :: "('m, 'q, 'l) cell \<Rightarrow> UpgradeStatus_H option" where
  "as_UpgradeStatus c = (case c of StatusCell (CUpgradeStatus x) \<Rightarrow> Some x | _ \<Rightarrow> None)"

definition as_HealthCheckStatus :: "('m, 'q, 'l) cell \<Rightarrow> HealthCheckStatus_H option" where
  "as_HealthCheckStatus c = (case c of StatusCell (CHealthCheckStatus x) \<Rightarrow> Some x | _ \<Rightarrow>
      None)"

definition as_UpgradeRequestStatus :: "('m, 'q, 'l) cell \<Rightarrow> UpgradeRequestStatus_H option" where
  "as_UpgradeRequestStatus c = (case c of StatusCell (CUpgradeRequestStatus x) \<Rightarrow> Some x | _
      \<Rightarrow> None)"

definition as_RestoredFromStatus :: "('m, 'q, 'l) cell \<Rightarrow> RestoredFromStatus_H option" where
  "as_RestoredFromStatus c = (case c of StatusCell (CRestoredFromStatus x) \<Rightarrow> Some x | _ \<Rightarrow>
      None)"

definition as_VolumeRestoreStatus :: "('m, 'q, 'l) cell \<Rightarrow> VolumeRestoreStatus_H option" where
  "as_VolumeRestoreStatus c = (case c of StatusCell (CVolumeRestoreStatus x) \<Rightarrow> Some x | _ \<Rightarrow>
      None)"

definition as_GitRevertStatus :: "('m, 'q, 'l) cell \<Rightarrow> GitRevertStatus_H option" where
  "as_GitRevertStatus c = (case c of StatusCell (CGitRevertStatus x) \<Rightarrow> Some x | _ \<Rightarrow> None)"

definition as_RollbackRequestStatus :: "('m, 'q, 'l) cell \<Rightarrow> RollbackRequestStatus_H option" where
  "as_RollbackRequestStatus c = (case c of StatusCell (CRollbackRequestStatus x) \<Rightarrow> Some x | _
      \<Rightarrow> None)"

definition as_ManagedApp :: "('m, 'q, 'l) cell \<Rightarrow> ('m ManagedApp_H) option" where
  "as_ManagedApp c = (case c of ObjectCell (CManagedApp x) \<Rightarrow> Some x | _ \<Rightarrow> None)"

definition as_UpgradeRequest :: "('m, 'q, 'l) cell \<Rightarrow> ('m UpgradeRequest_H) option" where
  "as_UpgradeRequest c = (case c of ObjectCell (CUpgradeRequest x) \<Rightarrow> Some x | _ \<Rightarrow> None)"

definition as_RollbackRequest :: "('m, 'q, 'l) cell \<Rightarrow> ('m RollbackRequest_H) option" where
  "as_RollbackRequest c = (case c of ObjectCell (CRollbackRequest x) \<Rightarrow> Some x | _ \<Rightarrow> None)"

definition as_ManagedAppList :: "('m, 'q, 'l) cell \<Rightarrow> ('q ManagedAppList_H) option" where
  "as_ManagedAppList c = (case c of ObjectCell (CManagedAppList x) \<Rightarrow> Some x | _ \<Rightarrow> None)"

definition as_UpgradeRequestList :: "('m, 'q, 'l) cell \<Rightarrow> ('q UpgradeRequestList_H) option" where
  "as_UpgradeRequestList c = (case c of ObjectCell (CUpgradeRequestList x) \<Rightarrow> Some x | _ \<Rightarrow>
      None)"

definition as_RollbackRequestList :: "('m, 'q, 'l) cell \<Rightarrow> ('q RollbackRequestList_H) option" where
  "as_RollbackRequestList c = (case c of ObjectCell (CRollbackRequestList x) \<Rightarrow> Some x | _ \<Rightarrow>
      None)"

definition as_ImageInfo_array :: "('m, 'q, 'l) cell \<Rightarrow> (ImageInfo list) option" where
  "as_ImageInfo_array c = (case c of ArrayCell (AImageInfo x) \<Rightarrow> Some x | _ \<Rightarrow> None)"

definition as_PVCRef_array :: "('m, 'q, 'l) cell \<Rightarrow> (PVCRef list) option" where
  "as_PVCRef_array c = (case c of ArrayCell (APVCRef x) \<Rightarrow> Some x | _ \<Rightarrow> None)"

definition as_Condition_array :: "('m, 'q, 'l) cell \<Rightarrow> (Condition list) option" where
  "as_Condition_array c = (case c of ArrayCell (ACondition x) \<Rightarrow> Some x | _ \<Rightarrow> None)"

definition as_WorkloadScalingInfo_array :: "('m, 'q, 'l) cell \<Rightarrow> (WorkloadScalingInfo list) option" where
  "as_WorkloadScalingInfo_array c = (case c of ArrayCell (AWorkloadScalingInfo x) \<Rightarrow> Some x | _
      \<Rightarrow> None)"

definition as_PVCSnapshotInfo_array :: "('m, 'q, 'l) cell \<Rightarrow> (PVCSnapshotInfo list) option" where
  "as_PVCSnapshotInfo_array c = (case c of ArrayCell (APVCSnapshotInfo x) \<Rightarrow> Some x | _ \<Rightarrow>
      None)"

definition as_RestoredPVCInfo_array :: "('m, 'q, 'l) cell \<Rightarrow> (RestoredPVCInfo list) option" where
  "as_RestoredPVCInfo_array c = (case c of ArrayCell (ARestoredPVCInfo x) \<Rightarrow> Some x | _ \<Rightarrow>
      None)"

definition as_ManagedApp_array :: "('m, 'q, 'l) cell \<Rightarrow> ('m ManagedApp_H list) option" where
  "as_ManagedApp_array c = (case c of ArrayCell (AManagedApp x) \<Rightarrow> Some x | _ \<Rightarrow> None)"

definition as_UpgradeRequest_array :: "('m, 'q, 'l) cell \<Rightarrow> ('m UpgradeRequest_H list) option" where
  "as_UpgradeRequest_array c = (case c of ArrayCell (AUpgradeRequest x) \<Rightarrow> Some x | _ \<Rightarrow>
      None)"

definition as_RollbackRequest_array :: "('m, 'q, 'l) cell \<Rightarrow> ('m RollbackRequest_H list) option" where
  "as_RollbackRequest_array c = (case c of ArrayCell (ARollbackRequest x) \<Rightarrow> Some x | _ \<Rightarrow>
      None)"

lemma as_cell [simp]:
  "as_int (SpecCell (CInt x0)) = Some x0"
  "as_VersionInfo (SpecCell (CVersionInfo x1)) = Some x1"
  "as_RetentionPolicy (SpecCell (CRetentionPolicy x2)) = Some x2"
  "as_VolumeSnapshotConfig (SpecCell (CVolumeSnapshotConfig x3)) = Some x3"
  "as_ManagedAppSpec (SpecCell (CManagedAppSpec x4)) = Some x4"
  "as_UpgradeRequestSpec (SpecCell (CUpgradeRequestSpec x5)) = Some x5"
  "as_ObjectReference (SpecCell (CObjectReference x6)) = Some x6"
  "as_PVCRef (SpecCell (CPVCRef x7)) = Some x7"
  "as_VersionPolicy (SpecCell (CVersionPolicy x8)) = Some x8"
  "as_HealthCheckConfig (SpecCell (CHealthCheckConfig x9)) = Some x9"
  "as_ImageInfo (SpecCell (CImageInfo x10)) = Some x10"
  "as_WorkloadScalingInfo (SpecCell (CWorkloadScalingInfo x11)) = Some x11"
  "as_PVCSnapshotInfo (SpecCell (CPVCSnapshotInfo x12)) = Some x12"
  "as_RestoredPVCInfo (SpecCell (CRestoredPVCInfo x13)) = Some x13"
  "as_RollbackRequestSpec (SpecCell (CRollbackRequestSpec x14)) = Some x14"
  "as_time (StatusCell (CTime x15)) = Some x15"
  "as_UpgradeInfo (StatusCell (CUpgradeInfo x16)) = Some x16"
  "as_ManagedAppStatus (StatusCell (CManagedAppStatus x17)) = Some x17"
  "as_ScalingStatus (StatusCell (CScalingStatus x18)) = Some x18"
  "as_SnapshotStatus (StatusCell (CSnapshotStatus x19)) = Some x19"
  "as_UpgradeStatus (StatusCell (CUpgradeStatus x20)) = Some x20"
  "as_HealthCheckStatus (StatusCell (CHealthCheckStatus x21)) = Some x21"
  "as_UpgradeRequestStatus (StatusCell (CUpgradeRequestStatus x22)) = Some x22"
  "as_RestoredFromStatus (StatusCell (CRestoredFromStatus x23)) = Some x23"
  "as_VolumeRestoreStatus (StatusCell (CVolumeRestoreStatus x24)) = Some x24"
  "as_GitRevertStatus (StatusCell (CGitRevertStatus x25)) = Some x25"
  "as_RollbackRequestStatus (StatusCell (CRollbackRequestStatus x26)) = Some x26"
  "as_ManagedApp (ObjectCell (CManagedApp x27)) = Some x27"
  "as_UpgradeRequest (ObjectCell (CUpgradeRequest x28)) = Some x28"
  "as_RollbackRequest (ObjectCell (CRollbackRequest x29)) = Some x29"
  "as_ManagedAppList (ObjectCell (CManagedAppList x30)) = Some x30"
  "as_UpgradeRequestList (ObjectCell (CUpgradeRequestList x31)) = Some x31"
  "as_RollbackRequestList (ObjectCell (CRollbackRequestList x32)) = Some x32"
  "as_ImageInfo_array (ArrayCell (AImageInfo x33)) = Some x33"
  "as_PVCRef_array (ArrayCell (APVCRef x34)) = Some x34"
  "as_Condition_array (ArrayCell (ACondition x35)) = Some x35"
  "as_WorkloadScalingInfo_array (ArrayCell (AWorkloadScalingInfo x36)) = Some x36"
  "as_PVCSnapshotInfo_array (ArrayCell (APVCSnapshotInfo x37)) = Some x37"
  "as_RestoredPVCInfo_array (ArrayCell (ARestoredPVCInfo x38)) = Some x38"
  "as_ManagedApp_array (ArrayCell (AManagedApp x39)) = Some x39"
  "as_UpgradeRequest_array (ArrayCell (AUpgradeRequest x40)) = Some x40"
  "as_RollbackRequest_array (ArrayCell (ARollbackRequest x41)) = Some x41"
  by (simp_all add: as_int_def as_VersionInfo_def as_RetentionPolicy_def as_VolumeSnapshotConfig_def
      as_ManagedAppSpec_def as_UpgradeRequestSpec_def as_ObjectReference_def as_PVCRef_def as_VersionPolicy_def
      as_HealthCheckConfig_def as_ImageInfo_def as_WorkloadScalingInfo_def as_PVCSnapshotInfo_def
      as_RestoredPVCInfo_def as_RollbackRequestSpec_def as_time_def as_UpgradeInfo_def as_ManagedAppStatus_def
      as_ScalingStatus_def as_SnapshotStatus_def as_UpgradeStatus_def as_HealthCheckStatus_def
      as_UpgradeRequestStatus_def as_RestoredFromStatus_def as_VolumeRestoreStatus_def as_GitRevertStatus_def
      as_RollbackRequestStatus_def as_ManagedApp_def as_UpgradeRequest_def as_RollbackRequest_def
      as_ManagedAppList_def as_UpgradeRequestList_def as_RollbackRequestList_def as_ImageInfo_array_def
      as_PVCRef_array_def as_Condition_array_def as_WorkloadScalingInfo_array_def as_PVCSnapshotInfo_array_def
      as_RestoredPVCInfo_array_def as_ManagedApp_array_def as_UpgradeRequest_array_def as_RollbackRequest_array_def)

section \<open>The library part\<close>

record ('m, 'q, 'l) copylib =
  lib_Time :: "addr option \<Rightarrow> (('m, 'q, 'l) memory, addr option) call"
  lib_Condition :: "Condition \<Rightarrow> (('m, 'q, 'l) memory, Condition) call"
  lib_ObjectMeta :: "'m \<Rightarrow> (('m, 'q, 'l) memory, 'm) call"
  lib_ListMeta :: "'q \<Rightarrow> (('m, 'q, 'l) memory, 'q) call"

section \<open>DeepCopyInto\<close>

text \<open>Structs without pointers: \<open>*out = *in\<close>.\<close>

definition DeepCopyInto_ObjectReference :: "ObjectReference \<Rightarrow> (('m, 'q, 'l) memory, ObjectReference)
    call" where
  "DeepCopyInto_ObjectReference x = flat_copy x"

definition DeepCopyInto_PVCRef :: "PVCRef \<Rightarrow> (('m, 'q, 'l) memory, PVCRef) call" where
  "DeepCopyInto_PVCRef x = flat_copy x"

definition DeepCopyInto_VersionPolicy :: "VersionPolicy \<Rightarrow> (('m, 'q, 'l) memory, VersionPolicy) call"
    where
  "DeepCopyInto_VersionPolicy x = flat_copy x"

definition DeepCopyInto_HealthCheckConfig :: "HealthCheckConfig \<Rightarrow> (('m, 'q, 'l) memory,
    HealthCheckConfig) call" where
  "DeepCopyInto_HealthCheckConfig x = flat_copy x"

definition DeepCopyInto_ImageInfo :: "ImageInfo \<Rightarrow> (('m, 'q, 'l) memory, ImageInfo) call" where
  "DeepCopyInto_ImageInfo x = flat_copy x"

definition DeepCopyInto_WorkloadScalingInfo :: "WorkloadScalingInfo \<Rightarrow> (('m, 'q, 'l) memory,
    WorkloadScalingInfo) call" where
  "DeepCopyInto_WorkloadScalingInfo x = flat_copy x"

definition DeepCopyInto_PVCSnapshotInfo :: "PVCSnapshotInfo \<Rightarrow> (('m, 'q, 'l) memory, PVCSnapshotInfo)
    call" where
  "DeepCopyInto_PVCSnapshotInfo x = flat_copy x"

definition DeepCopyInto_RestoredPVCInfo :: "RestoredPVCInfo \<Rightarrow> (('m, 'q, 'l) memory, RestoredPVCInfo)
    call" where
  "DeepCopyInto_RestoredPVCInfo x = flat_copy x"

definition DeepCopyInto_RollbackRequestSpec :: "RollbackRequestSpec \<Rightarrow> (('m, 'q, 'l) memory,
    RollbackRequestSpec) call" where
  "DeepCopyInto_RollbackRequestSpec x = flat_copy x"

definition DeepCopyInto_VersionInfo :: "VersionInfo_H \<Rightarrow> (('m, 'q, 'l) memory, VersionInfo_H) call" where
  "DeepCopyInto_VersionInfo x =
     checked (slice_copy (ArrayCell \<circ> AImageInfo) as_ImageInfo_array flat_copy (hvi_Images x)) (\<lambda>f1.
     ret (Inr (x\<lparr>hvi_Images := f1\<rparr>)))"

definition DeepCopyInto_RetentionPolicy :: "RetentionPolicy_H \<Rightarrow> (('m, 'q, 'l) memory,
    RetentionPolicy_H) call" where
  "DeepCopyInto_RetentionPolicy x =
     checked (new_copy (SpecCell \<circ> CInt) as_int flat_copy (hrp_MaxCount x)) (\<lambda>f1.
     ret (Inr (x\<lparr>hrp_MaxCount := f1\<rparr>)))"

definition DeepCopyInto_VolumeSnapshotConfig :: "VolumeSnapshotConfig_H \<Rightarrow> (('m, 'q, 'l) memory,
    VolumeSnapshotConfig_H) call" where
  "DeepCopyInto_VolumeSnapshotConfig x =
     checked (slice_copy (ArrayCell \<circ> APVCRef) as_PVCRef_array flat_copy (hvsc_PVCs x)) (\<lambda>f1.
     checked (slice_copy (ArrayCell \<circ> APVCRef) as_PVCRef_array flat_copy (hvsc_ExcludePVCs x)) (\<lambda>f2.
     checked (new_copy (SpecCell \<circ> CRetentionPolicy) as_RetentionPolicy DeepCopyInto_RetentionPolicy
         (hvsc_RetentionPolicy x)) (\<lambda>f3.
     ret (Inr (x\<lparr>hvsc_PVCs := f1, hvsc_ExcludePVCs := f2, hvsc_RetentionPolicy := f3\<rparr>)))))"

definition DeepCopyInto_ManagedAppSpec :: "ManagedAppSpec_H \<Rightarrow> (('m, 'q, 'l) memory, ManagedAppSpec_H)
    call" where
  "DeepCopyInto_ManagedAppSpec x =
     checked (new_copy (SpecCell \<circ> CObjectReference) as_ObjectReference flat_copy (hmas_SuspendRef x))
         (\<lambda>f1.
     checked (new_copy (SpecCell \<circ> CObjectReference) as_ObjectReference flat_copy (hmas_HelmReleaseRef x))
         (\<lambda>f2.
     checked (new_copy (SpecCell \<circ> CVolumeSnapshotConfig) as_VolumeSnapshotConfig
         DeepCopyInto_VolumeSnapshotConfig (hmas_VolumeSnapshots x)) (\<lambda>f3.
     checked (new_copy (SpecCell \<circ> CVersionPolicy) as_VersionPolicy flat_copy (hmas_VersionPolicy x))
         (\<lambda>f4.
     checked (new_copy (SpecCell \<circ> CHealthCheckConfig) as_HealthCheckConfig flat_copy (hmas_HealthCheck x))
         (\<lambda>f5.
     ret (Inr (x\<lparr>hmas_SuspendRef := f1, hmas_HelmReleaseRef := f2, hmas_VolumeSnapshots := f3,
         hmas_VersionPolicy := f4, hmas_HealthCheck := f5\<rparr>)))))))"

definition DeepCopyInto_UpgradeInfo :: "('m, 'q, 'l) copylib \<Rightarrow> UpgradeInfo_H \<Rightarrow> (('m, 'q,
    'l) memory, UpgradeInfo_H) call" where
  "DeepCopyInto_UpgradeInfo L x =
     checked (new_copy (SpecCell \<circ> CVersionInfo) as_VersionInfo DeepCopyInto_VersionInfo (hui_FromVersion x))
         (\<lambda>f1.
     checked (new_copy (SpecCell \<circ> CVersionInfo) as_VersionInfo DeepCopyInto_VersionInfo (hui_ToVersion x))
         (\<lambda>f2.
     checked (lib_Time L (hui_Timestamp x)) (\<lambda>f3.
     ret (Inr (x\<lparr>hui_FromVersion := f1, hui_ToVersion := f2, hui_Timestamp := f3\<rparr>)))))"

definition DeepCopyInto_ManagedAppStatus :: "('m, 'q, 'l) copylib \<Rightarrow> ManagedAppStatus_H \<Rightarrow>
    (('m, 'q, 'l) memory, ManagedAppStatus_H) call" where
  "DeepCopyInto_ManagedAppStatus L x =
     checked (new_copy (SpecCell \<circ> CVersionInfo) as_VersionInfo DeepCopyInto_VersionInfo
         (hmast_CurrentVersion x)) (\<lambda>f1.
     checked (new_copy (SpecCell \<circ> CVersionInfo) as_VersionInfo DeepCopyInto_VersionInfo
         (hmast_AvailableUpdate x)) (\<lambda>f2.
     checked (new_copy (StatusCell \<circ> CUpgradeInfo) as_UpgradeInfo (DeepCopyInto_UpgradeInfo L)
         (hmast_LastUpgrade x)) (\<lambda>f3.
     checked (slice_copy (ArrayCell \<circ> ACondition) as_Condition_array (lib_Condition L) (hmast_Conditions x))
         (\<lambda>f4.
     ret (Inr (x\<lparr>hmast_CurrentVersion := f1, hmast_AvailableUpdate := f2, hmast_LastUpgrade := f3,
         hmast_Conditions := f4\<rparr>))))))"

definition DeepCopyInto_ScalingStatus :: "('m, 'q, 'l) copylib \<Rightarrow> ScalingStatus_H \<Rightarrow> (('m,
    'q, 'l) memory, ScalingStatus_H) call" where
  "DeepCopyInto_ScalingStatus L x =
     checked (slice_copy (ArrayCell \<circ> AWorkloadScalingInfo) as_WorkloadScalingInfo_array flat_copy
         (hss_Workloads x)) (\<lambda>f1.
     checked (lib_Time L (hss_ScaledDownAt x)) (\<lambda>f2.
     ret (Inr (x\<lparr>hss_Workloads := f1, hss_ScaledDownAt := f2\<rparr>))))"

definition DeepCopyInto_SnapshotStatus :: "('m, 'q, 'l) copylib \<Rightarrow> SnapshotStatus_H \<Rightarrow> (('m,
    'q, 'l) memory, SnapshotStatus_H) call" where
  "DeepCopyInto_SnapshotStatus L x =
     checked (slice_copy (ArrayCell \<circ> APVCSnapshotInfo) as_PVCSnapshotInfo_array flat_copy (hsns_PVCSnapshots
         x)) (\<lambda>f1.
     checked (lib_Time L (hsns_CreatedAt x)) (\<lambda>f2.
     checked (lib_Time L (hsns_ReadyAt x)) (\<lambda>f3.
     ret (Inr (x\<lparr>hsns_PVCSnapshots := f1, hsns_CreatedAt := f2, hsns_ReadyAt := f3\<rparr>)))))"

definition DeepCopyInto_UpgradeStatus :: "('m, 'q, 'l) copylib \<Rightarrow> UpgradeStatus_H \<Rightarrow> (('m,
    'q, 'l) memory, UpgradeStatus_H) call" where
  "DeepCopyInto_UpgradeStatus L x =
     checked (new_copy (SpecCell \<circ> CVersionInfo) as_VersionInfo DeepCopyInto_VersionInfo (hus_PreviousVersion
         x)) (\<lambda>f1.
     checked (new_copy (SpecCell \<circ> CVersionInfo) as_VersionInfo DeepCopyInto_VersionInfo (hus_NewVersion x))
         (\<lambda>f2.
     checked (lib_Time L (hus_StartedAt x)) (\<lambda>f3.
     checked (lib_Time L (hus_CompletedAt x)) (\<lambda>f4.
     ret (Inr (x\<lparr>hus_PreviousVersion := f1, hus_NewVersion := f2, hus_StartedAt := f3, hus_CompletedAt :=
         f4\<rparr>))))))"

definition DeepCopyInto_HealthCheckStatus :: "('m, 'q, 'l) copylib \<Rightarrow> HealthCheckStatus_H \<Rightarrow>
    (('m, 'q, 'l) memory, HealthCheckStatus_H) call" where
  "DeepCopyInto_HealthCheckStatus L x =
     checked (lib_Time L (hhcs_CheckedAt x)) (\<lambda>f1.
     ret (Inr (x\<lparr>hhcs_CheckedAt := f1\<rparr>)))"

definition DeepCopyInto_UpgradeRequestSpec :: "UpgradeRequestSpec_H \<Rightarrow> (('m, 'q, 'l) memory,
    UpgradeRequestSpec_H) call" where
  "DeepCopyInto_UpgradeRequestSpec x =
     checked (new_copy (SpecCell \<circ> CVersionInfo) as_VersionInfo DeepCopyInto_VersionInfo (hurs_TargetVersion
         x)) (\<lambda>f1.
     ret (Inr (x\<lparr>hurs_TargetVersion := f1\<rparr>)))"

definition DeepCopyInto_UpgradeRequestStatus :: "('m, 'q, 'l) copylib \<Rightarrow> UpgradeRequestStatus_H
    \<Rightarrow> (('m, 'q, 'l) memory, UpgradeRequestStatus_H) call" where
  "DeepCopyInto_UpgradeRequestStatus L x =
     checked (new_copy (StatusCell \<circ> CScalingStatus) as_ScalingStatus (DeepCopyInto_ScalingStatus L)
         (hurst_Scaling x)) (\<lambda>f1.
     checked (new_copy (StatusCell \<circ> CSnapshotStatus) as_SnapshotStatus (DeepCopyInto_SnapshotStatus L)
         (hurst_Snapshot x)) (\<lambda>f2.
     checked (new_copy (StatusCell \<circ> CUpgradeStatus) as_UpgradeStatus (DeepCopyInto_UpgradeStatus L)
         (hurst_Upgrade x)) (\<lambda>f3.
     checked (new_copy (StatusCell \<circ> CHealthCheckStatus) as_HealthCheckStatus (DeepCopyInto_HealthCheckStatus
         L) (hurst_HealthCheck x)) (\<lambda>f4.
     checked (lib_Time L (hurst_PhaseStartedAt x)) (\<lambda>f5.
     checked (slice_copy (ArrayCell \<circ> ACondition) as_Condition_array (lib_Condition L) (hurst_Conditions x))
         (\<lambda>f6.
     ret (Inr (x\<lparr>hurst_Scaling := f1, hurst_Snapshot := f2, hurst_Upgrade := f3, hurst_HealthCheck := f4,
         hurst_PhaseStartedAt := f5, hurst_Conditions := f6\<rparr>))))))))"

definition DeepCopyInto_RestoredFromStatus :: "RestoredFromStatus_H \<Rightarrow> (('m, 'q, 'l) memory,
    RestoredFromStatus_H) call" where
  "DeepCopyInto_RestoredFromStatus x =
     checked (new_copy (SpecCell \<circ> CVersionInfo) as_VersionInfo DeepCopyInto_VersionInfo (hrfs_TargetVersion
         x)) (\<lambda>f1.
     checked (new_copy (SpecCell \<circ> CVersionInfo) as_VersionInfo DeepCopyInto_VersionInfo
         (hrfs_RolledBackVersion x)) (\<lambda>f2.
     ret (Inr (x\<lparr>hrfs_TargetVersion := f1, hrfs_RolledBackVersion := f2\<rparr>))))"

definition DeepCopyInto_VolumeRestoreStatus :: "('m, 'q, 'l) copylib \<Rightarrow> VolumeRestoreStatus_H
    \<Rightarrow> (('m, 'q, 'l) memory, VolumeRestoreStatus_H) call" where
  "DeepCopyInto_VolumeRestoreStatus L x =
     checked (slice_copy (ArrayCell \<circ> ARestoredPVCInfo) as_RestoredPVCInfo_array flat_copy (hvrs_RestoredPVCs
         x)) (\<lambda>f1.
     checked (lib_Time L (hvrs_StartedAt x)) (\<lambda>f2.
     checked (lib_Time L (hvrs_CompletedAt x)) (\<lambda>f3.
     ret (Inr (x\<lparr>hvrs_RestoredPVCs := f1, hvrs_StartedAt := f2, hvrs_CompletedAt := f3\<rparr>)))))"

definition DeepCopyInto_GitRevertStatus :: "('m, 'q, 'l) copylib \<Rightarrow> GitRevertStatus_H \<Rightarrow>
    (('m, 'q, 'l) memory, GitRevertStatus_H) call" where
  "DeepCopyInto_GitRevertStatus L x =
     checked (lib_Time L (hgrs_CommittedAt x)) (\<lambda>f1.
     ret (Inr (x\<lparr>hgrs_CommittedAt := f1\<rparr>)))"

definition DeepCopyInto_RollbackRequestStatus :: "('m, 'q, 'l) copylib \<Rightarrow> RollbackRequestStatus_H
    \<Rightarrow> (('m, 'q, 'l) memory, RollbackRequestStatus_H) call" where
  "DeepCopyInto_RollbackRequestStatus L x =
     checked (new_copy (StatusCell \<circ> CRestoredFromStatus) as_RestoredFromStatus
         DeepCopyInto_RestoredFromStatus (hrrst_RestoredFrom x)) (\<lambda>f1.
     checked (new_copy (StatusCell \<circ> CScalingStatus) as_ScalingStatus (DeepCopyInto_ScalingStatus L)
         (hrrst_Scaling x)) (\<lambda>f2.
     checked (new_copy (StatusCell \<circ> CVolumeRestoreStatus) as_VolumeRestoreStatus
         (DeepCopyInto_VolumeRestoreStatus L) (hrrst_VolumeRestore x)) (\<lambda>f3.
     checked (new_copy (StatusCell \<circ> CGitRevertStatus) as_GitRevertStatus (DeepCopyInto_GitRevertStatus L)
         (hrrst_GitRevert x)) (\<lambda>f4.
     checked (lib_Time L (hrrst_StartedAt x)) (\<lambda>f5.
     checked (lib_Time L (hrrst_CompletedAt x)) (\<lambda>f6.
     checked (lib_Time L (hrrst_PhaseStartedAt x)) (\<lambda>f7.
     checked (slice_copy (ArrayCell \<circ> ACondition) as_Condition_array (lib_Condition L) (hrrst_Conditions x))
         (\<lambda>f8.
     ret (Inr (x\<lparr>hrrst_RestoredFrom := f1, hrrst_Scaling := f2, hrrst_VolumeRestore := f3, hrrst_GitRevert
         := f4, hrrst_StartedAt := f5, hrrst_CompletedAt := f6, hrrst_PhaseStartedAt := f7, hrrst_Conditions :=
         f8\<rparr>))))))))))"

text \<open>The objects: their metadata is copied by the library.\<close>

definition DeepCopyInto_ManagedApp :: "('m, 'q, 'l) copylib \<Rightarrow> 'm ManagedApp_H \<Rightarrow> (('m, 'q,
    'l) memory, 'm ManagedApp_H) call" where
  "DeepCopyInto_ManagedApp L x =
     checked (lib_ObjectMeta L (hma_meta x)) (\<lambda>f1.
     checked (DeepCopyInto_ManagedAppSpec (hma_Spec x)) (\<lambda>f2.
     checked (DeepCopyInto_ManagedAppStatus L (hma_Status x)) (\<lambda>f3.
     ret (Inr (x\<lparr>hma_meta := f1, hma_Spec := f2, hma_Status := f3\<rparr>)))))"

definition DeepCopyInto_UpgradeRequest :: "('m, 'q, 'l) copylib \<Rightarrow> 'm UpgradeRequest_H \<Rightarrow>
    (('m, 'q, 'l) memory, 'm UpgradeRequest_H) call" where
  "DeepCopyInto_UpgradeRequest L x =
     checked (lib_ObjectMeta L (hur_meta x)) (\<lambda>f1.
     checked (DeepCopyInto_UpgradeRequestSpec (hur_Spec x)) (\<lambda>f2.
     checked (DeepCopyInto_UpgradeRequestStatus L (hur_Status x)) (\<lambda>f3.
     ret (Inr (x\<lparr>hur_meta := f1, hur_Spec := f2, hur_Status := f3\<rparr>)))))"

definition DeepCopyInto_RollbackRequest :: "('m, 'q, 'l) copylib \<Rightarrow> 'm RollbackRequest_H \<Rightarrow>
    (('m, 'q, 'l) memory, 'm RollbackRequest_H) call" where
  "DeepCopyInto_RollbackRequest L x =
     checked (lib_ObjectMeta L (hrr_meta x)) (\<lambda>f1.
     checked (DeepCopyInto_RollbackRequestStatus L (hrr_Status x)) (\<lambda>f2.
     ret (Inr (x\<lparr>hrr_meta := f1, hrr_Status := f2\<rparr>))))"

definition DeepCopyInto_ManagedAppList :: "('m, 'q, 'l) copylib \<Rightarrow> 'q ManagedAppList_H \<Rightarrow>
    (('m, 'q, 'l) memory, 'q ManagedAppList_H) call" where
  "DeepCopyInto_ManagedAppList L x =
     checked (lib_ListMeta L (hmal_meta x)) (\<lambda>f1.
     checked (slice_copy (ArrayCell \<circ> AManagedApp) as_ManagedApp_array (DeepCopyInto_ManagedApp L)
         (hmal_Items x)) (\<lambda>f2.
     ret (Inr (x\<lparr>hmal_meta := f1, hmal_Items := f2\<rparr>))))"

definition DeepCopyInto_UpgradeRequestList :: "('m, 'q, 'l) copylib \<Rightarrow> 'q UpgradeRequestList_H
    \<Rightarrow> (('m, 'q, 'l) memory, 'q UpgradeRequestList_H) call" where
  "DeepCopyInto_UpgradeRequestList L x =
     checked (lib_ListMeta L (hurl_meta x)) (\<lambda>f1.
     checked (slice_copy (ArrayCell \<circ> AUpgradeRequest) as_UpgradeRequest_array (DeepCopyInto_UpgradeRequest
         L) (hurl_Items x)) (\<lambda>f2.
     ret (Inr (x\<lparr>hurl_meta := f1, hurl_Items := f2\<rparr>))))"

definition DeepCopyInto_RollbackRequestList :: "('m, 'q, 'l) copylib \<Rightarrow> 'q RollbackRequestList_H
    \<Rightarrow> (('m, 'q, 'l) memory, 'q RollbackRequestList_H) call" where
  "DeepCopyInto_RollbackRequestList L x =
     checked (lib_ListMeta L (hrrl_meta x)) (\<lambda>f1.
     checked (slice_copy (ArrayCell \<circ> ARollbackRequest) as_RollbackRequest_array
         (DeepCopyInto_RollbackRequest L) (hrrl_Items x)) (\<lambda>f2.
     ret (Inr (x\<lparr>hrrl_meta := f1, hrrl_Items := f2\<rparr>))))"

section \<open>DeepCopy and DeepCopyObject\<close>

definition DeepCopy_ObjectReference :: "addr option \<Rightarrow> (('m, 'q, 'l) memory, addr option) call" where
  "DeepCopy_ObjectReference p = new_copy (SpecCell \<circ> CObjectReference) as_ObjectReference
      DeepCopyInto_ObjectReference p"

definition DeepCopy_PVCRef :: "addr option \<Rightarrow> (('m, 'q, 'l) memory, addr option) call" where
  "DeepCopy_PVCRef p = new_copy (SpecCell \<circ> CPVCRef) as_PVCRef DeepCopyInto_PVCRef p"

definition DeepCopy_VersionPolicy :: "addr option \<Rightarrow> (('m, 'q, 'l) memory, addr option) call" where
  "DeepCopy_VersionPolicy p = new_copy (SpecCell \<circ> CVersionPolicy) as_VersionPolicy
      DeepCopyInto_VersionPolicy p"

definition DeepCopy_HealthCheckConfig :: "addr option \<Rightarrow> (('m, 'q, 'l) memory, addr option) call" where
  "DeepCopy_HealthCheckConfig p = new_copy (SpecCell \<circ> CHealthCheckConfig) as_HealthCheckConfig
      DeepCopyInto_HealthCheckConfig p"

definition DeepCopy_ImageInfo :: "addr option \<Rightarrow> (('m, 'q, 'l) memory, addr option) call" where
  "DeepCopy_ImageInfo p = new_copy (SpecCell \<circ> CImageInfo) as_ImageInfo DeepCopyInto_ImageInfo p"

definition DeepCopy_WorkloadScalingInfo :: "addr option \<Rightarrow> (('m, 'q, 'l) memory, addr option) call" where
  "DeepCopy_WorkloadScalingInfo p = new_copy (SpecCell \<circ> CWorkloadScalingInfo) as_WorkloadScalingInfo
      DeepCopyInto_WorkloadScalingInfo p"

definition DeepCopy_PVCSnapshotInfo :: "addr option \<Rightarrow> (('m, 'q, 'l) memory, addr option) call" where
  "DeepCopy_PVCSnapshotInfo p = new_copy (SpecCell \<circ> CPVCSnapshotInfo) as_PVCSnapshotInfo
      DeepCopyInto_PVCSnapshotInfo p"

definition DeepCopy_RestoredPVCInfo :: "addr option \<Rightarrow> (('m, 'q, 'l) memory, addr option) call" where
  "DeepCopy_RestoredPVCInfo p = new_copy (SpecCell \<circ> CRestoredPVCInfo) as_RestoredPVCInfo
      DeepCopyInto_RestoredPVCInfo p"

definition DeepCopy_RollbackRequestSpec :: "addr option \<Rightarrow> (('m, 'q, 'l) memory, addr option) call" where
  "DeepCopy_RollbackRequestSpec p = new_copy (SpecCell \<circ> CRollbackRequestSpec) as_RollbackRequestSpec
      DeepCopyInto_RollbackRequestSpec p"

definition DeepCopy_VersionInfo :: "addr option \<Rightarrow> (('m, 'q, 'l) memory, addr option) call" where
  "DeepCopy_VersionInfo p = new_copy (SpecCell \<circ> CVersionInfo) as_VersionInfo DeepCopyInto_VersionInfo p"

definition DeepCopy_RetentionPolicy :: "addr option \<Rightarrow> (('m, 'q, 'l) memory, addr option) call" where
  "DeepCopy_RetentionPolicy p = new_copy (SpecCell \<circ> CRetentionPolicy) as_RetentionPolicy
      DeepCopyInto_RetentionPolicy p"

definition DeepCopy_VolumeSnapshotConfig :: "addr option \<Rightarrow> (('m, 'q, 'l) memory, addr option) call"
    where
  "DeepCopy_VolumeSnapshotConfig p = new_copy (SpecCell \<circ> CVolumeSnapshotConfig) as_VolumeSnapshotConfig
      DeepCopyInto_VolumeSnapshotConfig p"

definition DeepCopy_ManagedAppSpec :: "addr option \<Rightarrow> (('m, 'q, 'l) memory, addr option) call" where
  "DeepCopy_ManagedAppSpec p = new_copy (SpecCell \<circ> CManagedAppSpec) as_ManagedAppSpec
      DeepCopyInto_ManagedAppSpec p"

definition DeepCopy_UpgradeInfo :: "('m, 'q, 'l) copylib \<Rightarrow> addr option \<Rightarrow> (('m, 'q, 'l)
    memory, addr option) call" where
  "DeepCopy_UpgradeInfo L p = new_copy (StatusCell \<circ> CUpgradeInfo) as_UpgradeInfo (DeepCopyInto_UpgradeInfo
      L) p"

definition DeepCopy_ManagedAppStatus :: "('m, 'q, 'l) copylib \<Rightarrow> addr option \<Rightarrow> (('m, 'q, 'l)
    memory, addr option) call" where
  "DeepCopy_ManagedAppStatus L p = new_copy (StatusCell \<circ> CManagedAppStatus) as_ManagedAppStatus
      (DeepCopyInto_ManagedAppStatus L) p"

definition DeepCopy_ScalingStatus :: "('m, 'q, 'l) copylib \<Rightarrow> addr option \<Rightarrow> (('m, 'q, 'l)
    memory, addr option) call" where
  "DeepCopy_ScalingStatus L p = new_copy (StatusCell \<circ> CScalingStatus) as_ScalingStatus
      (DeepCopyInto_ScalingStatus L) p"

definition DeepCopy_SnapshotStatus :: "('m, 'q, 'l) copylib \<Rightarrow> addr option \<Rightarrow> (('m, 'q, 'l)
    memory, addr option) call" where
  "DeepCopy_SnapshotStatus L p = new_copy (StatusCell \<circ> CSnapshotStatus) as_SnapshotStatus
      (DeepCopyInto_SnapshotStatus L) p"

definition DeepCopy_UpgradeStatus :: "('m, 'q, 'l) copylib \<Rightarrow> addr option \<Rightarrow> (('m, 'q, 'l)
    memory, addr option) call" where
  "DeepCopy_UpgradeStatus L p = new_copy (StatusCell \<circ> CUpgradeStatus) as_UpgradeStatus
      (DeepCopyInto_UpgradeStatus L) p"

definition DeepCopy_HealthCheckStatus :: "('m, 'q, 'l) copylib \<Rightarrow> addr option \<Rightarrow> (('m, 'q,
    'l) memory, addr option) call" where
  "DeepCopy_HealthCheckStatus L p = new_copy (StatusCell \<circ> CHealthCheckStatus) as_HealthCheckStatus
      (DeepCopyInto_HealthCheckStatus L) p"

definition DeepCopy_UpgradeRequestSpec :: "addr option \<Rightarrow> (('m, 'q, 'l) memory, addr option) call" where
  "DeepCopy_UpgradeRequestSpec p = new_copy (SpecCell \<circ> CUpgradeRequestSpec) as_UpgradeRequestSpec
      DeepCopyInto_UpgradeRequestSpec p"

definition DeepCopy_UpgradeRequestStatus :: "('m, 'q, 'l) copylib \<Rightarrow> addr option \<Rightarrow> (('m, 'q,
    'l) memory, addr option) call" where
  "DeepCopy_UpgradeRequestStatus L p = new_copy (StatusCell \<circ> CUpgradeRequestStatus) as_UpgradeRequestStatus
      (DeepCopyInto_UpgradeRequestStatus L) p"

definition DeepCopy_RestoredFromStatus :: "addr option \<Rightarrow> (('m, 'q, 'l) memory, addr option) call" where
  "DeepCopy_RestoredFromStatus p = new_copy (StatusCell \<circ> CRestoredFromStatus) as_RestoredFromStatus
      DeepCopyInto_RestoredFromStatus p"

definition DeepCopy_VolumeRestoreStatus :: "('m, 'q, 'l) copylib \<Rightarrow> addr option \<Rightarrow> (('m, 'q,
    'l) memory, addr option) call" where
  "DeepCopy_VolumeRestoreStatus L p = new_copy (StatusCell \<circ> CVolumeRestoreStatus) as_VolumeRestoreStatus
      (DeepCopyInto_VolumeRestoreStatus L) p"

definition DeepCopy_GitRevertStatus :: "('m, 'q, 'l) copylib \<Rightarrow> addr option \<Rightarrow> (('m, 'q, 'l)
    memory, addr option) call" where
  "DeepCopy_GitRevertStatus L p = new_copy (StatusCell \<circ> CGitRevertStatus) as_GitRevertStatus
      (DeepCopyInto_GitRevertStatus L) p"

definition DeepCopy_RollbackRequestStatus :: "('m, 'q, 'l) copylib \<Rightarrow> addr option \<Rightarrow> (('m,
    'q, 'l) memory, addr option) call" where
  "DeepCopy_RollbackRequestStatus L p = new_copy (StatusCell \<circ> CRollbackRequestStatus)
      as_RollbackRequestStatus (DeepCopyInto_RollbackRequestStatus L) p"

definition DeepCopy_ManagedApp :: "('m, 'q, 'l) copylib \<Rightarrow> addr option \<Rightarrow> (('m, 'q, 'l)
    memory, addr option) call" where
  "DeepCopy_ManagedApp L p = new_copy (ObjectCell \<circ> CManagedApp) as_ManagedApp (DeepCopyInto_ManagedApp L) p"

definition DeepCopy_UpgradeRequest :: "('m, 'q, 'l) copylib \<Rightarrow> addr option \<Rightarrow> (('m, 'q, 'l)
    memory, addr option) call" where
  "DeepCopy_UpgradeRequest L p = new_copy (ObjectCell \<circ> CUpgradeRequest) as_UpgradeRequest
      (DeepCopyInto_UpgradeRequest L) p"

definition DeepCopy_RollbackRequest :: "('m, 'q, 'l) copylib \<Rightarrow> addr option \<Rightarrow> (('m, 'q, 'l)
    memory, addr option) call" where
  "DeepCopy_RollbackRequest L p = new_copy (ObjectCell \<circ> CRollbackRequest) as_RollbackRequest
      (DeepCopyInto_RollbackRequest L) p"

definition DeepCopy_ManagedAppList :: "('m, 'q, 'l) copylib \<Rightarrow> addr option \<Rightarrow> (('m, 'q, 'l)
    memory, addr option) call" where
  "DeepCopy_ManagedAppList L p = new_copy (ObjectCell \<circ> CManagedAppList) as_ManagedAppList
      (DeepCopyInto_ManagedAppList L) p"

definition DeepCopy_UpgradeRequestList :: "('m, 'q, 'l) copylib \<Rightarrow> addr option \<Rightarrow> (('m, 'q,
    'l) memory, addr option) call" where
  "DeepCopy_UpgradeRequestList L p = new_copy (ObjectCell \<circ> CUpgradeRequestList) as_UpgradeRequestList
      (DeepCopyInto_UpgradeRequestList L) p"

definition DeepCopy_RollbackRequestList :: "('m, 'q, 'l) copylib \<Rightarrow> addr option \<Rightarrow> (('m, 'q,
    'l) memory, addr option) call" where
  "DeepCopy_RollbackRequestList L p = new_copy (ObjectCell \<circ> CRollbackRequestList) as_RollbackRequestList
      (DeepCopyInto_RollbackRequestList L) p"

text \<open>The interface \<open>runtime.Object\<close>: a non-nil pointer to one of the six kinds; the method is
    dispatched on it.\<close>

datatype runtime_Object =
    ObjManagedApp addr
  | ObjUpgradeRequest addr
  | ObjRollbackRequest addr
  | ObjManagedAppList addr
  | ObjUpgradeRequestList addr
  | ObjRollbackRequestList addr

definition DeepCopyObject_ManagedApp ::
  "('m, 'q, 'l) copylib \<Rightarrow> addr option \<Rightarrow> (('m, 'q, 'l) memory, runtime_Object option) call"
      where
  "DeepCopyObject_ManagedApp L p = checked (DeepCopy_ManagedApp L p) (\<lambda>c. ret (Inr (case c of Some a
      \<Rightarrow> Some (ObjManagedApp a) | None \<Rightarrow> None)))"

definition DeepCopyObject_UpgradeRequest ::
  "('m, 'q, 'l) copylib \<Rightarrow> addr option \<Rightarrow> (('m, 'q, 'l) memory, runtime_Object option) call"
      where
  "DeepCopyObject_UpgradeRequest L p = checked (DeepCopy_UpgradeRequest L p) (\<lambda>c. ret (Inr (case c of Some
      a \<Rightarrow> Some (ObjUpgradeRequest a) | None \<Rightarrow> None)))"

definition DeepCopyObject_RollbackRequest ::
  "('m, 'q, 'l) copylib \<Rightarrow> addr option \<Rightarrow> (('m, 'q, 'l) memory, runtime_Object option) call"
      where
  "DeepCopyObject_RollbackRequest L p = checked (DeepCopy_RollbackRequest L p) (\<lambda>c. ret (Inr (case c of
      Some a \<Rightarrow> Some (ObjRollbackRequest a) | None \<Rightarrow> None)))"

definition DeepCopyObject_ManagedAppList ::
  "('m, 'q, 'l) copylib \<Rightarrow> addr option \<Rightarrow> (('m, 'q, 'l) memory, runtime_Object option) call"
      where
  "DeepCopyObject_ManagedAppList L p = checked (DeepCopy_ManagedAppList L p) (\<lambda>c. ret (Inr (case c of Some
      a \<Rightarrow> Some (ObjManagedAppList a) | None \<Rightarrow> None)))"

definition DeepCopyObject_UpgradeRequestList ::
  "('m, 'q, 'l) copylib \<Rightarrow> addr option \<Rightarrow> (('m, 'q, 'l) memory, runtime_Object option) call"
      where
  "DeepCopyObject_UpgradeRequestList L p = checked (DeepCopy_UpgradeRequestList L p) (\<lambda>c. ret (Inr (case c
      of Some a \<Rightarrow> Some (ObjUpgradeRequestList a) | None \<Rightarrow> None)))"

definition DeepCopyObject_RollbackRequestList ::
  "('m, 'q, 'l) copylib \<Rightarrow> addr option \<Rightarrow> (('m, 'q, 'l) memory, runtime_Object option) call"
      where
  "DeepCopyObject_RollbackRequestList L p = checked (DeepCopy_RollbackRequestList L p) (\<lambda>c. ret (Inr (case
      c of Some a \<Rightarrow> Some (ObjRollbackRequestList a) | None \<Rightarrow> None)))"

definition DeepCopyObject :: "('m, 'q, 'l) copylib \<Rightarrow> runtime_Object \<Rightarrow> (('m, 'q, 'l) memory,
    runtime_Object option) call" where
  "DeepCopyObject L x = (case x of
       ObjManagedApp a \<Rightarrow> DeepCopyObject_ManagedApp L (Some a)
     | ObjUpgradeRequest a \<Rightarrow> DeepCopyObject_UpgradeRequest L (Some a)
     | ObjRollbackRequest a \<Rightarrow> DeepCopyObject_RollbackRequest L (Some a)
     | ObjManagedAppList a \<Rightarrow> DeepCopyObject_ManagedAppList L (Some a)
     | ObjUpgradeRequestList a \<Rightarrow> DeepCopyObject_UpgradeRequestList L (Some a)
     | ObjRollbackRequestList a \<Rightarrow> DeepCopyObject_RollbackRequestList L (Some a))"

section \<open>What the structs stand for\<close>

text \<open>
  The layout of each struct: the value of \<open>ApiTypes\<close> that it reads as, the cells it is spread over,
      and its
  copy field by field. A nil slice and an empty one read alike. The layouts of apimachinery are given.
\<close>

record ('m, 'q, 'l, 'lv) machinery =
  ly_Time :: "(('m, 'q, 'l) cell, addr option, time option) layout"
  ly_Condition :: "(('m, 'q, 'l) cell, Condition, Condition) layout"
  ly_ObjectMeta :: "(('m, 'q, 'l) cell, 'm, ObjectMeta) layout"
  ly_ListMeta :: "(('m, 'q, 'l) cell, 'q, 'lv) layout"

definition layout_VersionInfo :: "(('m, 'q, 'l) cell, VersionInfo_H, VersionInfo) layout" where
  "layout_VersionInfo = struct_layout (\<lambda>x. hvi_Images x)
     (\<lambda>x f1. x\<lparr>hvi_Images := f1\<rparr>)
     (\<lambda>x v1. \<lparr>vi_Chart = hvi_Chart x, vi_Images = v1\<rparr>)
     (slice_layout (ArrayCell \<circ> AImageInfo) as_ImageInfo_array flat_layout)"

definition layout_RetentionPolicy :: "(('m, 'q, 'l) cell, RetentionPolicy_H, RetentionPolicy) layout" where
  "layout_RetentionPolicy = struct_layout (\<lambda>x. hrp_MaxCount x)
     (\<lambda>x f1. x\<lparr>hrp_MaxCount := f1\<rparr>)
     (\<lambda>x v1. \<lparr>rp_MaxCount = v1\<rparr>)
     (ptr_layout (SpecCell \<circ> CInt) as_int flat_layout)"

definition layout_VolumeSnapshotConfig :: "(('m, 'q, 'l) cell, VolumeSnapshotConfig_H, VolumeSnapshotConfig)
    layout" where
  "layout_VolumeSnapshotConfig = struct_layout (\<lambda>x. (hvsc_PVCs x, hvsc_ExcludePVCs x, hvsc_RetentionPolicy
      x))
     (\<lambda>x (f1, f2, f3). x\<lparr>hvsc_PVCs := f1, hvsc_ExcludePVCs := f2, hvsc_RetentionPolicy := f3\<rparr>)
     (\<lambda>x (v1, v2, v3). \<lparr>vsc_Enabled = hvsc_Enabled x, vsc_VolumeSnapshotClassName =
         hvsc_VolumeSnapshotClassName x, vsc_PVCs = v1, vsc_ExcludePVCs = v2, vsc_RetentionPolicy = v3\<rparr>)
     (pair_layout (slice_layout (ArrayCell \<circ> APVCRef) as_PVCRef_array flat_layout) (pair_layout (slice_layout
         (ArrayCell \<circ> APVCRef) as_PVCRef_array flat_layout) (ptr_layout (SpecCell \<circ> CRetentionPolicy)
         as_RetentionPolicy layout_RetentionPolicy)))"

definition layout_ManagedAppSpec :: "(('m, 'q, 'l) cell, ManagedAppSpec_H, ManagedAppSpec) layout" where
  "layout_ManagedAppSpec = struct_layout (\<lambda>x. (hmas_SuspendRef x, hmas_HelmReleaseRef x,
      hmas_VolumeSnapshots x, hmas_VersionPolicy x, hmas_HealthCheck x))
     (\<lambda>x (f1, f2, f3, f4, f5). x\<lparr>hmas_SuspendRef := f1, hmas_HelmReleaseRef := f2,
         hmas_VolumeSnapshots := f3, hmas_VersionPolicy := f4, hmas_HealthCheck := f5\<rparr>)
     (\<lambda>x (v1, v2, v3, v4, v5). \<lparr>mas_GitPath = hmas_GitPath x, mas_KustomizationRef =
         hmas_KustomizationRef x, mas_SuspendRef = v1, mas_HelmReleaseRef = v2, mas_VolumeSnapshots = v3,
         mas_VersionPolicy = v4, mas_HealthCheck = v5, mas_AutoRollback = hmas_AutoRollback x\<rparr>)
     (pair_layout (ptr_layout (SpecCell \<circ> CObjectReference) as_ObjectReference flat_layout) (pair_layout
         (ptr_layout (SpecCell \<circ> CObjectReference) as_ObjectReference flat_layout) (pair_layout (ptr_layout
         (SpecCell \<circ> CVolumeSnapshotConfig) as_VolumeSnapshotConfig layout_VolumeSnapshotConfig) (pair_layout
         (ptr_layout (SpecCell \<circ> CVersionPolicy) as_VersionPolicy flat_layout) (ptr_layout (SpecCell \<circ>
         CHealthCheckConfig) as_HealthCheckConfig flat_layout)))))"

definition layout_UpgradeInfo :: "('m, 'q, 'l, 'lv) machinery \<Rightarrow> (('m, 'q, 'l) cell, UpgradeInfo_H,
    UpgradeInfo) layout" where
  "layout_UpgradeInfo M = struct_layout (\<lambda>x. (hui_FromVersion x, hui_ToVersion x, hui_Timestamp x))
     (\<lambda>x (f1, f2, f3). x\<lparr>hui_FromVersion := f1, hui_ToVersion := f2, hui_Timestamp := f3\<rparr>)
     (\<lambda>x (v1, v2, v3). \<lparr>ui_FromVersion = v1, ui_ToVersion = v2, ui_Timestamp = v3, ui_Status =
         hui_Status x\<rparr>)
     (pair_layout (ptr_layout (SpecCell \<circ> CVersionInfo) as_VersionInfo layout_VersionInfo) (pair_layout
         (ptr_layout (SpecCell \<circ> CVersionInfo) as_VersionInfo layout_VersionInfo) (ly_Time M)))"

definition layout_ManagedAppStatus :: "('m, 'q, 'l, 'lv) machinery \<Rightarrow> (('m, 'q, 'l) cell,
    ManagedAppStatus_H, ManagedAppStatus) layout" where
  "layout_ManagedAppStatus M = struct_layout (\<lambda>x. (hmast_CurrentVersion x, hmast_AvailableUpdate x,
      hmast_LastUpgrade x, hmast_Conditions x))
     (\<lambda>x (f1, f2, f3, f4). x\<lparr>hmast_CurrentVersion := f1, hmast_AvailableUpdate := f2,
         hmast_LastUpgrade := f3, hmast_Conditions := f4\<rparr>)
     (\<lambda>x (v1, v2, v3, v4). \<lparr>mast_CurrentVersion = v1, mast_AvailableUpdate = v2, mast_LastUpgrade =
         v3, mast_Conditions = v4\<rparr>)
     (pair_layout (ptr_layout (SpecCell \<circ> CVersionInfo) as_VersionInfo layout_VersionInfo) (pair_layout
         (ptr_layout (SpecCell \<circ> CVersionInfo) as_VersionInfo layout_VersionInfo) (pair_layout (ptr_layout
         (StatusCell \<circ> CUpgradeInfo) as_UpgradeInfo (layout_UpgradeInfo M)) (slice_layout (ArrayCell \<circ>
         ACondition) as_Condition_array (ly_Condition M)))))"

definition layout_ScalingStatus :: "('m, 'q, 'l, 'lv) machinery \<Rightarrow> (('m, 'q, 'l) cell, ScalingStatus_H,
    ScalingStatus) layout" where
  "layout_ScalingStatus M = struct_layout (\<lambda>x. (hss_Workloads x, hss_ScaledDownAt x))
     (\<lambda>x (f1, f2). x\<lparr>hss_Workloads := f1, hss_ScaledDownAt := f2\<rparr>)
     (\<lambda>x (v1, v2). \<lparr>ss_Workloads = v1, ss_ScaledDownAt = v2\<rparr>)
     (pair_layout (slice_layout (ArrayCell \<circ> AWorkloadScalingInfo) as_WorkloadScalingInfo_array flat_layout)
         (ly_Time M))"

definition layout_SnapshotStatus :: "('m, 'q, 'l, 'lv) machinery \<Rightarrow> (('m, 'q, 'l) cell,
    SnapshotStatus_H, SnapshotStatus) layout" where
  "layout_SnapshotStatus M = struct_layout (\<lambda>x. (hsns_PVCSnapshots x, hsns_CreatedAt x, hsns_ReadyAt x))
     (\<lambda>x (f1, f2, f3). x\<lparr>hsns_PVCSnapshots := f1, hsns_CreatedAt := f2, hsns_ReadyAt := f3\<rparr>)
     (\<lambda>x (v1, v2, v3). \<lparr>sns_PVCSnapshots = v1, sns_CreatedAt = v2, sns_ReadyAt = v3\<rparr>)
     (pair_layout (slice_layout (ArrayCell \<circ> APVCSnapshotInfo) as_PVCSnapshotInfo_array flat_layout)
         (pair_layout (ly_Time M) (ly_Time M)))"

definition layout_UpgradeStatus :: "('m, 'q, 'l, 'lv) machinery \<Rightarrow> (('m, 'q, 'l) cell, UpgradeStatus_H,
    UpgradeStatus) layout" where
  "layout_UpgradeStatus M = struct_layout (\<lambda>x. (hus_PreviousVersion x, hus_NewVersion x, hus_StartedAt x,
      hus_CompletedAt x))
     (\<lambda>x (f1, f2, f3, f4). x\<lparr>hus_PreviousVersion := f1, hus_NewVersion := f2, hus_StartedAt := f3,
         hus_CompletedAt := f4\<rparr>)
     (\<lambda>x (v1, v2, v3, v4). \<lparr>us_PreviousVersion = v1, us_NewVersion = v2, us_GitCommit =
         hus_GitCommit x, us_StartedAt = v3, us_CompletedAt = v4\<rparr>)
     (pair_layout (ptr_layout (SpecCell \<circ> CVersionInfo) as_VersionInfo layout_VersionInfo) (pair_layout
         (ptr_layout (SpecCell \<circ> CVersionInfo) as_VersionInfo layout_VersionInfo) (pair_layout (ly_Time M)
         (ly_Time M))))"

definition layout_HealthCheckStatus :: "('m, 'q, 'l, 'lv) machinery \<Rightarrow> (('m, 'q, 'l) cell,
    HealthCheckStatus_H, HealthCheckStatus) layout" where
  "layout_HealthCheckStatus M = struct_layout (\<lambda>x. hhcs_CheckedAt x)
     (\<lambda>x f1. x\<lparr>hhcs_CheckedAt := f1\<rparr>)
     (\<lambda>x v1. \<lparr>hcs_Status = hhcs_Status x, hcs_CheckedAt = v1, hcs_Message = hhcs_Message x\<rparr>)
     (ly_Time M)"

definition layout_UpgradeRequestSpec :: "(('m, 'q, 'l) cell, UpgradeRequestSpec_H, UpgradeRequestSpec) layout" where
  "layout_UpgradeRequestSpec = struct_layout (\<lambda>x. hurs_TargetVersion x)
     (\<lambda>x f1. x\<lparr>hurs_TargetVersion := f1\<rparr>)
     (\<lambda>x v1. \<lparr>urs_ManagedAppRef = hurs_ManagedAppRef x, urs_TargetVersion = v1, urs_SkipSnapshot =
         hurs_SkipSnapshot x, urs_DryRun = hurs_DryRun x\<rparr>)
     (ptr_layout (SpecCell \<circ> CVersionInfo) as_VersionInfo layout_VersionInfo)"

definition layout_UpgradeRequestStatus :: "('m, 'q, 'l, 'lv) machinery \<Rightarrow> (('m, 'q, 'l) cell,
    UpgradeRequestStatus_H, UpgradeRequestStatus) layout" where
  "layout_UpgradeRequestStatus M = struct_layout (\<lambda>x. (hurst_Scaling x, hurst_Snapshot x, hurst_Upgrade x,
      hurst_HealthCheck x, hurst_PhaseStartedAt x, hurst_Conditions x))
     (\<lambda>x (f1, f2, f3, f4, f5, f6). x\<lparr>hurst_Scaling := f1, hurst_Snapshot := f2, hurst_Upgrade := f3,
         hurst_HealthCheck := f4, hurst_PhaseStartedAt := f5, hurst_Conditions := f6\<rparr>)
     (\<lambda>x (v1, v2, v3, v4, v5, v6). \<lparr>urst_Scaling = v1, urst_Snapshot = v2, urst_Upgrade = v3,
         urst_HealthCheck = v4, urst_PhaseStartedAt = v5, urst_Conditions = v6\<rparr>)
     (pair_layout (ptr_layout (StatusCell \<circ> CScalingStatus) as_ScalingStatus (layout_ScalingStatus M))
         (pair_layout (ptr_layout (StatusCell \<circ> CSnapshotStatus) as_SnapshotStatus (layout_SnapshotStatus M))
         (pair_layout (ptr_layout (StatusCell \<circ> CUpgradeStatus) as_UpgradeStatus (layout_UpgradeStatus M))
         (pair_layout (ptr_layout (StatusCell \<circ> CHealthCheckStatus) as_HealthCheckStatus
         (layout_HealthCheckStatus M)) (pair_layout (ly_Time M) (slice_layout (ArrayCell \<circ> ACondition)
         as_Condition_array (ly_Condition M)))))))"

definition layout_RestoredFromStatus :: "(('m, 'q, 'l) cell, RestoredFromStatus_H, RestoredFromStatus) layout" where
  "layout_RestoredFromStatus = struct_layout (\<lambda>x. (hrfs_TargetVersion x, hrfs_RolledBackVersion x))
     (\<lambda>x (f1, f2). x\<lparr>hrfs_TargetVersion := f1, hrfs_RolledBackVersion := f2\<rparr>)
     (\<lambda>x (v1, v2). \<lparr>rfs_UpgradeRequestName = hrfs_UpgradeRequestName x, rfs_TargetVersion = v1,
         rfs_RolledBackVersion = v2\<rparr>)
     (pair_layout (ptr_layout (SpecCell \<circ> CVersionInfo) as_VersionInfo layout_VersionInfo) (ptr_layout
         (SpecCell \<circ> CVersionInfo) as_VersionInfo layout_VersionInfo))"

definition layout_VolumeRestoreStatus :: "('m, 'q, 'l, 'lv) machinery \<Rightarrow> (('m, 'q, 'l) cell,
    VolumeRestoreStatus_H, VolumeRestoreStatus) layout" where
  "layout_VolumeRestoreStatus M = struct_layout (\<lambda>x. (hvrs_RestoredPVCs x, hvrs_StartedAt x,
      hvrs_CompletedAt x))
     (\<lambda>x (f1, f2, f3). x\<lparr>hvrs_RestoredPVCs := f1, hvrs_StartedAt := f2, hvrs_CompletedAt :=
         f3\<rparr>)
     (\<lambda>x (v1, v2, v3). \<lparr>vrs_RestoredPVCs = v1, vrs_StartedAt = v2, vrs_CompletedAt = v3\<rparr>)
     (pair_layout (slice_layout (ArrayCell \<circ> ARestoredPVCInfo) as_RestoredPVCInfo_array flat_layout)
         (pair_layout (ly_Time M) (ly_Time M)))"

definition layout_GitRevertStatus :: "('m, 'q, 'l, 'lv) machinery \<Rightarrow> (('m, 'q, 'l) cell,
    GitRevertStatus_H, GitRevertStatus) layout" where
  "layout_GitRevertStatus M = struct_layout (\<lambda>x. hgrs_CommittedAt x)
     (\<lambda>x f1. x\<lparr>hgrs_CommittedAt := f1\<rparr>)
     (\<lambda>x v1. \<lparr>grs_CommitSHA = hgrs_CommitSHA x, grs_CommittedAt = v1\<rparr>)
     (ly_Time M)"

definition layout_RollbackRequestStatus :: "('m, 'q, 'l, 'lv) machinery \<Rightarrow> (('m, 'q, 'l) cell,
    RollbackRequestStatus_H, RollbackRequestStatus) layout" where
  "layout_RollbackRequestStatus M = struct_layout (\<lambda>x. (hrrst_RestoredFrom x, hrrst_Scaling x,
      hrrst_VolumeRestore x, hrrst_GitRevert x, hrrst_StartedAt x, hrrst_CompletedAt x, hrrst_PhaseStartedAt x,
      hrrst_Conditions x))
     (\<lambda>x (f1, f2, f3, f4, f5, f6, f7, f8). x\<lparr>hrrst_RestoredFrom := f1, hrrst_Scaling := f2,
         hrrst_VolumeRestore := f3, hrrst_GitRevert := f4, hrrst_StartedAt := f5, hrrst_CompletedAt := f6,
         hrrst_PhaseStartedAt := f7, hrrst_Conditions := f8\<rparr>)
     (\<lambda>x (v1, v2, v3, v4, v5, v6, v7, v8). \<lparr>rrst_RestoredFrom = v1, rrst_Scaling = v2,
         rrst_VolumeRestore = v3, rrst_GitRevert = v4, rrst_StartedAt = v5, rrst_CompletedAt = v6,
         rrst_PhaseStartedAt = v7, rrst_Conditions = v8\<rparr>)
     (pair_layout (ptr_layout (StatusCell \<circ> CRestoredFromStatus) as_RestoredFromStatus
         layout_RestoredFromStatus) (pair_layout (ptr_layout (StatusCell \<circ> CScalingStatus) as_ScalingStatus
         (layout_ScalingStatus M)) (pair_layout (ptr_layout (StatusCell \<circ> CVolumeRestoreStatus)
         as_VolumeRestoreStatus (layout_VolumeRestoreStatus M)) (pair_layout (ptr_layout (StatusCell \<circ>
         CGitRevertStatus) as_GitRevertStatus (layout_GitRevertStatus M)) (pair_layout (ly_Time M) (pair_layout
         (ly_Time M) (pair_layout (ly_Time M) (slice_layout (ArrayCell \<circ> ACondition) as_Condition_array
         (ly_Condition M)))))))))"

definition layout_ManagedApp :: "('m, 'q, 'l, 'lv) machinery \<Rightarrow> (('m, 'q, 'l) cell, 'm ManagedApp_H,
    ManagedApp) layout" where
  "layout_ManagedApp M = struct_layout (\<lambda>x. (hma_meta x, hma_Spec x, hma_Status x))
     (\<lambda>x (f1, f2, f3). x\<lparr>hma_meta := f1, hma_Spec := f2, hma_Status := f3\<rparr>)
     (\<lambda>x (v1, v2, v3). \<lparr>ma_meta = v1, ma_Spec = v2, ma_Status = v3\<rparr>)
     (pair_layout (ly_ObjectMeta M) (pair_layout layout_ManagedAppSpec (layout_ManagedAppStatus M)))"

definition layout_UpgradeRequest :: "('m, 'q, 'l, 'lv) machinery \<Rightarrow> (('m, 'q, 'l) cell, 'm
    UpgradeRequest_H, UpgradeRequest) layout" where
  "layout_UpgradeRequest M = struct_layout (\<lambda>x. (hur_meta x, hur_Spec x, hur_Status x))
     (\<lambda>x (f1, f2, f3). x\<lparr>hur_meta := f1, hur_Spec := f2, hur_Status := f3\<rparr>)
     (\<lambda>x (v1, v2, v3). \<lparr>ur_meta = v1, ur_Spec = v2, ur_Status = v3\<rparr>)
     (pair_layout (ly_ObjectMeta M) (pair_layout layout_UpgradeRequestSpec (layout_UpgradeRequestStatus M)))"

definition layout_RollbackRequest :: "('m, 'q, 'l, 'lv) machinery \<Rightarrow> (('m, 'q, 'l) cell, 'm
    RollbackRequest_H, RollbackRequest) layout" where
  "layout_RollbackRequest M = struct_layout (\<lambda>x. (hrr_meta x, hrr_Status x))
     (\<lambda>x (f1, f2). x\<lparr>hrr_meta := f1, hrr_Status := f2\<rparr>)
     (\<lambda>x (v1, v2). \<lparr>rr_meta = v1, rr_Spec = hrr_Spec x, rr_Status = v2\<rparr>)
     (pair_layout (ly_ObjectMeta M) (layout_RollbackRequestStatus M))"

definition layout_ManagedAppList :: "('m, 'q, 'l, 'lv) machinery \<Rightarrow> (('m, 'q, 'l) cell, 'q
    ManagedAppList_H, 'lv \<times> ManagedApp list) layout" where
  "layout_ManagedAppList M = struct_layout (\<lambda>x. (hmal_meta x, hmal_Items x))
     (\<lambda>x (f1, f2). x\<lparr>hmal_meta := f1, hmal_Items := f2\<rparr>)
     (\<lambda>x (v1, v2). (v1, v2))
     (pair_layout (ly_ListMeta M) (slice_layout (ArrayCell \<circ> AManagedApp) as_ManagedApp_array
         (layout_ManagedApp M)))"

definition layout_UpgradeRequestList :: "('m, 'q, 'l, 'lv) machinery \<Rightarrow> (('m, 'q, 'l) cell, 'q
    UpgradeRequestList_H, 'lv \<times> UpgradeRequest list) layout" where
  "layout_UpgradeRequestList M = struct_layout (\<lambda>x. (hurl_meta x, hurl_Items x))
     (\<lambda>x (f1, f2). x\<lparr>hurl_meta := f1, hurl_Items := f2\<rparr>)
     (\<lambda>x (v1, v2). (v1, v2))
     (pair_layout (ly_ListMeta M) (slice_layout (ArrayCell \<circ> AUpgradeRequest) as_UpgradeRequest_array
         (layout_UpgradeRequest M)))"

definition layout_RollbackRequestList :: "('m, 'q, 'l, 'lv) machinery \<Rightarrow> (('m, 'q, 'l) cell, 'q
    RollbackRequestList_H, 'lv \<times> RollbackRequest list) layout" where
  "layout_RollbackRequestList M = struct_layout (\<lambda>x. (hrrl_meta x, hrrl_Items x))
     (\<lambda>x (f1, f2). x\<lparr>hrrl_meta := f1, hrrl_Items := f2\<rparr>)
     (\<lambda>x (v1, v2). (v1, v2))
     (pair_layout (ly_ListMeta M) (slice_layout (ArrayCell \<circ> ARollbackRequest) as_RollbackRequest_array
         (layout_RollbackRequest M)))"

section \<open>Every deep copy is a copier\<close>

locale apimachinery =
  fixes L :: "('m, 'q, 'l) copylib" and M :: "('m, 'q, 'l, 'lv) machinery"
  assumes library_copies: "ly_copy (ly_Time M) = lib_Time L" "ly_copy (ly_Condition M) = lib_Condition L"
      "ly_copy (ly_ObjectMeta M) = lib_ObjectMeta L" "ly_copy (ly_ListMeta M) = lib_ListMeta L"
    and library_copied_well: "copied_well (ly_Time M)" "copied_well (ly_Condition M)"
      "copied_well (ly_ObjectMeta M)" "copied_well (ly_ListMeta M)"
begin

text \<open>The code computes the copy of the layout.\<close>

lemma copy_VersionInfo [simp]: "ly_copy layout_VersionInfo = DeepCopyInto_VersionInfo"
  by (rule ext) (simp add: layout_VersionInfo_def DeepCopyInto_VersionInfo_def pair_copy_def checked_assoc
      library_copies)

lemma copy_RetentionPolicy [simp]: "ly_copy layout_RetentionPolicy = DeepCopyInto_RetentionPolicy"
  by (rule ext) (simp add: layout_RetentionPolicy_def DeepCopyInto_RetentionPolicy_def pair_copy_def checked_assoc
      library_copies)

lemma copy_VolumeSnapshotConfig [simp]: "ly_copy layout_VolumeSnapshotConfig = DeepCopyInto_VolumeSnapshotConfig"
  by (rule ext) (simp add: layout_VolumeSnapshotConfig_def DeepCopyInto_VolumeSnapshotConfig_def pair_copy_def
      checked_assoc library_copies)

lemma copy_ManagedAppSpec [simp]: "ly_copy layout_ManagedAppSpec = DeepCopyInto_ManagedAppSpec"
  by (rule ext) (simp add: layout_ManagedAppSpec_def DeepCopyInto_ManagedAppSpec_def pair_copy_def checked_assoc
      library_copies)

lemma copy_UpgradeInfo [simp]: "ly_copy (layout_UpgradeInfo M) = DeepCopyInto_UpgradeInfo L"
  by (rule ext) (simp add: layout_UpgradeInfo_def DeepCopyInto_UpgradeInfo_def pair_copy_def checked_assoc
      library_copies)

lemma copy_ManagedAppStatus [simp]: "ly_copy (layout_ManagedAppStatus M) = DeepCopyInto_ManagedAppStatus L"
  by (rule ext) (simp add: layout_ManagedAppStatus_def DeepCopyInto_ManagedAppStatus_def pair_copy_def
      checked_assoc library_copies)

lemma copy_ScalingStatus [simp]: "ly_copy (layout_ScalingStatus M) = DeepCopyInto_ScalingStatus L"
  by (rule ext) (simp add: layout_ScalingStatus_def DeepCopyInto_ScalingStatus_def pair_copy_def checked_assoc
      library_copies)

lemma copy_SnapshotStatus [simp]: "ly_copy (layout_SnapshotStatus M) = DeepCopyInto_SnapshotStatus L"
  by (rule ext) (simp add: layout_SnapshotStatus_def DeepCopyInto_SnapshotStatus_def pair_copy_def checked_assoc
      library_copies)

lemma copy_UpgradeStatus [simp]: "ly_copy (layout_UpgradeStatus M) = DeepCopyInto_UpgradeStatus L"
  by (rule ext) (simp add: layout_UpgradeStatus_def DeepCopyInto_UpgradeStatus_def pair_copy_def checked_assoc
      library_copies)

lemma copy_HealthCheckStatus [simp]: "ly_copy (layout_HealthCheckStatus M) = DeepCopyInto_HealthCheckStatus L"
  by (rule ext) (simp add: layout_HealthCheckStatus_def DeepCopyInto_HealthCheckStatus_def pair_copy_def
      checked_assoc library_copies)

lemma copy_UpgradeRequestSpec [simp]: "ly_copy layout_UpgradeRequestSpec = DeepCopyInto_UpgradeRequestSpec"
  by (rule ext) (simp add: layout_UpgradeRequestSpec_def DeepCopyInto_UpgradeRequestSpec_def pair_copy_def
      checked_assoc library_copies)

lemma copy_UpgradeRequestStatus [simp]: "ly_copy (layout_UpgradeRequestStatus M) =
    DeepCopyInto_UpgradeRequestStatus L"
  by (rule ext) (simp add: layout_UpgradeRequestStatus_def DeepCopyInto_UpgradeRequestStatus_def pair_copy_def
      checked_assoc library_copies)

lemma copy_RestoredFromStatus [simp]: "ly_copy layout_RestoredFromStatus = DeepCopyInto_RestoredFromStatus"
  by (rule ext) (simp add: layout_RestoredFromStatus_def DeepCopyInto_RestoredFromStatus_def pair_copy_def
      checked_assoc library_copies)

lemma copy_VolumeRestoreStatus [simp]: "ly_copy (layout_VolumeRestoreStatus M) = DeepCopyInto_VolumeRestoreStatus L"
  by (rule ext) (simp add: layout_VolumeRestoreStatus_def DeepCopyInto_VolumeRestoreStatus_def pair_copy_def
      checked_assoc library_copies)

lemma copy_GitRevertStatus [simp]: "ly_copy (layout_GitRevertStatus M) = DeepCopyInto_GitRevertStatus L"
  by (rule ext) (simp add: layout_GitRevertStatus_def DeepCopyInto_GitRevertStatus_def pair_copy_def checked_assoc
      library_copies)

lemma copy_RollbackRequestStatus [simp]: "ly_copy (layout_RollbackRequestStatus M) =
    DeepCopyInto_RollbackRequestStatus L"
  by (rule ext) (simp add: layout_RollbackRequestStatus_def DeepCopyInto_RollbackRequestStatus_def pair_copy_def
      checked_assoc library_copies)

lemma copy_ManagedApp [simp]: "ly_copy (layout_ManagedApp M) = DeepCopyInto_ManagedApp L"
  by (rule ext) (simp add: layout_ManagedApp_def DeepCopyInto_ManagedApp_def pair_copy_def checked_assoc
      library_copies)

lemma copy_UpgradeRequest [simp]: "ly_copy (layout_UpgradeRequest M) = DeepCopyInto_UpgradeRequest L"
  by (rule ext) (simp add: layout_UpgradeRequest_def DeepCopyInto_UpgradeRequest_def pair_copy_def checked_assoc
      library_copies)

lemma copy_RollbackRequest [simp]: "ly_copy (layout_RollbackRequest M) = DeepCopyInto_RollbackRequest L"
  by (rule ext) (simp add: layout_RollbackRequest_def DeepCopyInto_RollbackRequest_def pair_copy_def checked_assoc
      library_copies)

lemma copy_ManagedAppList [simp]: "ly_copy (layout_ManagedAppList M) = DeepCopyInto_ManagedAppList L"
  by (rule ext) (simp add: layout_ManagedAppList_def DeepCopyInto_ManagedAppList_def pair_copy_def checked_assoc
      library_copies)

lemma copy_UpgradeRequestList [simp]: "ly_copy (layout_UpgradeRequestList M) = DeepCopyInto_UpgradeRequestList L"
  by (rule ext) (simp add: layout_UpgradeRequestList_def DeepCopyInto_UpgradeRequestList_def pair_copy_def
      checked_assoc library_copies)

lemma copy_RollbackRequestList [simp]: "ly_copy (layout_RollbackRequestList M) = DeepCopyInto_RollbackRequestList L"
  by (rule ext) (simp add: layout_RollbackRequestList_def DeepCopyInto_RollbackRequestList_def pair_copy_def
      checked_assoc library_copies)

text \<open>Every layout is built from well-copied parts.\<close>

lemma well_VersionInfo: "copied_well layout_VersionInfo"
  unfolding layout_VersionInfo_def by (intro layouts_copied_well library_copied_well) auto

lemma well_RetentionPolicy: "copied_well layout_RetentionPolicy"
  unfolding layout_RetentionPolicy_def by (intro layouts_copied_well library_copied_well) auto

lemma well_VolumeSnapshotConfig: "copied_well layout_VolumeSnapshotConfig"
  unfolding layout_VolumeSnapshotConfig_def by (intro layouts_copied_well library_copied_well well_RetentionPolicy)
      auto

lemma well_ManagedAppSpec: "copied_well layout_ManagedAppSpec"
  unfolding layout_ManagedAppSpec_def by (intro layouts_copied_well library_copied_well well_VolumeSnapshotConfig)
      auto

lemma well_UpgradeInfo: "copied_well (layout_UpgradeInfo M)"
  unfolding layout_UpgradeInfo_def by (intro layouts_copied_well library_copied_well well_VersionInfo) auto

lemma well_ManagedAppStatus: "copied_well (layout_ManagedAppStatus M)"
  unfolding layout_ManagedAppStatus_def by (intro layouts_copied_well library_copied_well well_VersionInfo
      well_UpgradeInfo) auto

lemma well_ScalingStatus: "copied_well (layout_ScalingStatus M)"
  unfolding layout_ScalingStatus_def by (intro layouts_copied_well library_copied_well) auto

lemma well_SnapshotStatus: "copied_well (layout_SnapshotStatus M)"
  unfolding layout_SnapshotStatus_def by (intro layouts_copied_well library_copied_well) auto

lemma well_UpgradeStatus: "copied_well (layout_UpgradeStatus M)"
  unfolding layout_UpgradeStatus_def by (intro layouts_copied_well library_copied_well well_VersionInfo) auto

lemma well_HealthCheckStatus: "copied_well (layout_HealthCheckStatus M)"
  unfolding layout_HealthCheckStatus_def by (intro layouts_copied_well library_copied_well) auto

lemma well_UpgradeRequestSpec: "copied_well layout_UpgradeRequestSpec"
  unfolding layout_UpgradeRequestSpec_def by (intro layouts_copied_well library_copied_well well_VersionInfo) auto

lemma well_UpgradeRequestStatus: "copied_well (layout_UpgradeRequestStatus M)"
  unfolding layout_UpgradeRequestStatus_def by (intro layouts_copied_well library_copied_well well_ScalingStatus
      well_SnapshotStatus well_UpgradeStatus well_HealthCheckStatus) auto

lemma well_RestoredFromStatus: "copied_well layout_RestoredFromStatus"
  unfolding layout_RestoredFromStatus_def by (intro layouts_copied_well library_copied_well well_VersionInfo) auto

lemma well_VolumeRestoreStatus: "copied_well (layout_VolumeRestoreStatus M)"
  unfolding layout_VolumeRestoreStatus_def by (intro layouts_copied_well library_copied_well) auto

lemma well_GitRevertStatus: "copied_well (layout_GitRevertStatus M)"
  unfolding layout_GitRevertStatus_def by (intro layouts_copied_well library_copied_well) auto

lemma well_RollbackRequestStatus: "copied_well (layout_RollbackRequestStatus M)"
  unfolding layout_RollbackRequestStatus_def by (intro layouts_copied_well library_copied_well
      well_RestoredFromStatus well_ScalingStatus well_VolumeRestoreStatus well_GitRevertStatus) auto

lemma well_ManagedApp: "copied_well (layout_ManagedApp M)"
  unfolding layout_ManagedApp_def by (intro layouts_copied_well library_copied_well well_ManagedAppSpec
      well_ManagedAppStatus) auto

lemma well_UpgradeRequest: "copied_well (layout_UpgradeRequest M)"
  unfolding layout_UpgradeRequest_def by (intro layouts_copied_well library_copied_well well_UpgradeRequestSpec
      well_UpgradeRequestStatus) auto

lemma well_RollbackRequest: "copied_well (layout_RollbackRequest M)"
  unfolding layout_RollbackRequest_def by (intro layouts_copied_well library_copied_well
      well_RollbackRequestStatus) auto

lemma well_ManagedAppList: "copied_well (layout_ManagedAppList M)"
  unfolding layout_ManagedAppList_def by (intro layouts_copied_well library_copied_well well_ManagedApp) auto

lemma well_UpgradeRequestList: "copied_well (layout_UpgradeRequestList M)"
  unfolding layout_UpgradeRequestList_def by (intro layouts_copied_well library_copied_well well_UpgradeRequest)
      auto

lemma well_RollbackRequestList: "copied_well (layout_RollbackRequestList M)"
  unfolding layout_RollbackRequestList_def by (intro layouts_copied_well library_copied_well well_RollbackRequest)
      auto

end

end
