(* ===== verification/Apimachinery.thy ===== *)
theory Apimachinery
  imports DeepCopy
begin

text \<open>
  The six kinds of \<open>runtime.Object\<close> as one family, with what \<open>DeepCopyObject\<close> promises of each, and the
  types of apimachinery that the objects contain, laid out as Go has them: the labels a map, finalizers
  and owners slices, time stamps and counters pointers.
\<close>

section \<open>Objects behind the interface\<close>

datatype 'lv object_value =
    ValManagedApp ManagedApp
  | ValUpgradeRequest UpgradeRequest
  | ValRollbackRequest RollbackRequest
  | ValManagedAppList "'lv \<times> ManagedApp list"
  | ValUpgradeRequestList "'lv \<times> UpgradeRequest list"
  | ValRollbackRequestList "'lv \<times> RollbackRequest list"

abbreviation ptr_ManagedApp ::
  "('m, 'q, 'l, 'lv) machinery \<Rightarrow> (('m, 'q, 'l) cell, addr option, ManagedApp option) layout" where
  "ptr_ManagedApp M \<equiv> ptr_layout (ObjectCell \<circ> CManagedApp) as_ManagedApp (layout_ManagedApp M)"

abbreviation ptr_UpgradeRequest ::
  "('m, 'q, 'l, 'lv) machinery \<Rightarrow> (('m, 'q, 'l) cell, addr option, UpgradeRequest option) layout" where
  "ptr_UpgradeRequest M \<equiv> ptr_layout (ObjectCell \<circ> CUpgradeRequest) as_UpgradeRequest (layout_UpgradeRequest M)"

abbreviation ptr_RollbackRequest ::
  "('m, 'q, 'l, 'lv) machinery \<Rightarrow> (('m, 'q, 'l) cell, addr option, RollbackRequest option) layout" where
  "ptr_RollbackRequest M \<equiv> ptr_layout (ObjectCell \<circ> CRollbackRequest) as_RollbackRequest (layout_RollbackRequest M)"

abbreviation ptr_ManagedAppList ::
  "('m, 'q, 'l, 'lv) machinery \<Rightarrow> (('m, 'q, 'l) cell, addr option, ('lv \<times> ManagedApp list) option) layout" where
  "ptr_ManagedAppList M \<equiv> ptr_layout (ObjectCell \<circ> CManagedAppList) as_ManagedAppList (layout_ManagedAppList M)"

abbreviation ptr_UpgradeRequestList ::
  "('m, 'q, 'l, 'lv) machinery \<Rightarrow> (('m, 'q, 'l) cell, addr option, ('lv \<times> UpgradeRequest list) option) layout" where
  "ptr_UpgradeRequestList M \<equiv> ptr_layout (ObjectCell \<circ> CUpgradeRequestList) as_UpgradeRequestList (layout_UpgradeRequestList M)"

abbreviation ptr_RollbackRequestList ::
  "('m, 'q, 'l, 'lv) machinery \<Rightarrow> (('m, 'q, 'l) cell, addr option, ('lv \<times> RollbackRequest list) option) layout" where
  "ptr_RollbackRequestList M \<equiv> ptr_layout (ObjectCell \<circ> CRollbackRequestList) as_RollbackRequestList (layout_RollbackRequestList M)"

definition object_view ::
  "('m, 'q, 'l, 'lv) machinery \<Rightarrow> ('m, 'q, 'l) memory \<Rightarrow> runtime_Object \<Rightarrow> 'lv object_value option" where
  "object_view M h x = (case x of
       ObjManagedApp a \<Rightarrow> map_option (ValManagedApp \<circ> the) (ly_view (ptr_ManagedApp M) h (Some a))
     | ObjUpgradeRequest a \<Rightarrow> map_option (ValUpgradeRequest \<circ> the) (ly_view (ptr_UpgradeRequest M) h (Some a))
     | ObjRollbackRequest a \<Rightarrow> map_option (ValRollbackRequest \<circ> the) (ly_view (ptr_RollbackRequest M) h (Some a))
     | ObjManagedAppList a \<Rightarrow> map_option (ValManagedAppList \<circ> the) (ly_view (ptr_ManagedAppList M) h (Some a))
     | ObjUpgradeRequestList a \<Rightarrow> map_option (ValUpgradeRequestList \<circ> the) (ly_view (ptr_UpgradeRequestList M) h (Some a))
     | ObjRollbackRequestList a \<Rightarrow> map_option (ValRollbackRequestList \<circ> the) (ly_view (ptr_RollbackRequestList M) h (Some a)))"

definition object_reach ::
  "('m, 'q, 'l, 'lv) machinery \<Rightarrow> ('m, 'q, 'l) memory \<Rightarrow> runtime_Object \<Rightarrow> addr set" where
  "object_reach M h x = (case x of
       ObjManagedApp a \<Rightarrow> ly_reach (ptr_ManagedApp M) h (Some a)
     | ObjUpgradeRequest a \<Rightarrow> ly_reach (ptr_UpgradeRequest M) h (Some a)
     | ObjRollbackRequest a \<Rightarrow> ly_reach (ptr_RollbackRequest M) h (Some a)
     | ObjManagedAppList a \<Rightarrow> ly_reach (ptr_ManagedAppList M) h (Some a)
     | ObjUpgradeRequestList a \<Rightarrow> ly_reach (ptr_UpgradeRequestList M) h (Some a)
     | ObjRollbackRequestList a \<Rightarrow> ly_reach (ptr_RollbackRequestList M) h (Some a))"

lemma ptr_view_deref: "ly_view (ptr_layout emb prj ly) h (Some a) = Some w \<Longrightarrow> \<exists>v. w = Some v"
  by (auto simp: ptr_layout_def ptr_view_def)

lemmas DeepCopy_defs = DeepCopyObject_ManagedApp_def DeepCopy_ManagedApp_def DeepCopyObject_UpgradeRequest_def DeepCopy_UpgradeRequest_def DeepCopyObject_RollbackRequest_def DeepCopy_RollbackRequest_def DeepCopyObject_ManagedAppList_def DeepCopy_ManagedAppList_def DeepCopyObject_UpgradeRequestList_def DeepCopy_UpgradeRequestList_def DeepCopyObject_RollbackRequestList_def DeepCopy_RollbackRequestList_def

lemma isolated_object:
  assumes "isolated (ly_view p) (ly_reach p) g (Some a) (Some b) (Some v)"
    and "\<And>h a. V h (K a) = map_option (C \<circ> the) (ly_view p h (Some a))" and "\<And>h a. S h (K a) = ly_reach p h (Some a)"
  shows "isolated V S g (K a) (K b) (C v)"
  using assms(1) unfolding isolated_def assms(2,3) by auto

lemmas object_defs = object_view_def object_reach_def DeepCopyObject_def DeepCopy_defs

text \<open>From the pointers of one kind to the objects of that kind.\<close>

lemma kind_isolates:
  assumes "copied_well ly" and "\<And>x. prj (emb x) = Some x" and "wf_heap h" and "V h (K a) = Some v"
    and V: "\<And>h a. V h (K a) = map_option (C \<circ> the) (ly_view (ptr_layout emb prj ly) h (Some a))"
    and S: "\<And>h a. S h (K a) = ly_reach (ptr_layout emb prj ly) h (Some a)"
    and D: "D (K a) = checked (new_copy emb prj (ly_copy ly) (Some a)) (\<lambda>c. ret (Inr (case c of Some a \<Rightarrow> Some (K a) | None \<Rightarrow> None)))"
  shows "\<exists>y g. run_state (D (K a)) h = (Inr (Some y), g) \<and> wf_heap g \<and> heap_ext h g \<and> isolated V S g (K a) y v"
proof -
  obtain u where u: "ly_view (ptr_layout emb prj ly) h (Some a) = Some (Some u)" and v: "v = C u"
    using assms(4) ptr_view_deref unfolding V by fastforce
  obtain b g where run: "run_state (new_copy emb prj (ly_copy ly) (Some a)) h = (Inr (Some b), g)"
    and g: "wf_heap g" "heap_ext h g" and iso: "isolated (ly_view (ptr_layout emb prj ly)) (ly_reach (ptr_layout emb prj ly))
      g (Some a) (Some b) (Some u)"
    using ptr_copy_isolated [of ly prj emb, OF assms(1-3) u] by blast
  have "run_state (D (K a)) h = (Inr (Some (K b)), g)" using run by (simp add: D run_on_err)
  with g isolated_object [of _ g a b u V K C S, OF iso V S] v show ?thesis by blast
qed

context apimachinery
begin

lemma DeepCopyObject_isolates:
  assumes "wf_heap h" and "object_view M h x = Some v"
  shows "\<exists>y g. run_state (DeepCopyObject L x) h = (Inr (Some y), g) \<and> wf_heap g \<and> heap_ext h g \<and>
    isolated (object_view M) (object_reach M) g x y v"
proof -
  note isolates = kind_isolates [where V = "object_view M" and S = "object_reach M" and D = "DeepCopyObject L"]
  show ?thesis
  proof (cases x)
    case (ObjManagedApp a)
    show ?thesis unfolding ObjManagedApp
      by (rule isolates [where K = ObjManagedApp and C = ValManagedApp and prj = as_ManagedApp
            and emb = "ObjectCell \<circ> CManagedApp", OF well_ManagedApp _ assms(1)])
        (use assms(2) ObjManagedApp in \<open>simp_all add: object_defs\<close>)
  next
    case (ObjUpgradeRequest a)
    show ?thesis unfolding ObjUpgradeRequest
      by (rule isolates [where K = ObjUpgradeRequest and C = ValUpgradeRequest and prj = as_UpgradeRequest
            and emb = "ObjectCell \<circ> CUpgradeRequest", OF well_UpgradeRequest _ assms(1)])
        (use assms(2) ObjUpgradeRequest in \<open>simp_all add: object_defs\<close>)
  next
    case (ObjRollbackRequest a)
    show ?thesis unfolding ObjRollbackRequest
      by (rule isolates [where K = ObjRollbackRequest and C = ValRollbackRequest and prj = as_RollbackRequest
            and emb = "ObjectCell \<circ> CRollbackRequest", OF well_RollbackRequest _ assms(1)])
        (use assms(2) ObjRollbackRequest in \<open>simp_all add: object_defs\<close>)
  next
    case (ObjManagedAppList a)
    show ?thesis unfolding ObjManagedAppList
      by (rule isolates [where K = ObjManagedAppList and C = ValManagedAppList and prj = as_ManagedAppList
            and emb = "ObjectCell \<circ> CManagedAppList", OF well_ManagedAppList _ assms(1)])
        (use assms(2) ObjManagedAppList in \<open>simp_all add: object_defs\<close>)
  next
    case (ObjUpgradeRequestList a)
    show ?thesis unfolding ObjUpgradeRequestList
      by (rule isolates [where K = ObjUpgradeRequestList and C = ValUpgradeRequestList and prj = as_UpgradeRequestList
            and emb = "ObjectCell \<circ> CUpgradeRequestList", OF well_UpgradeRequestList _ assms(1)])
        (use assms(2) ObjUpgradeRequestList in \<open>simp_all add: object_defs\<close>)
  next
    case (ObjRollbackRequestList a)
    show ?thesis unfolding ObjRollbackRequestList
      by (rule isolates [where K = ObjRollbackRequestList and C = ValRollbackRequestList and prj = as_RollbackRequestList
            and emb = "ObjectCell \<circ> CRollbackRequestList", OF well_RollbackRequestList _ assms(1)])
        (use assms(2) ObjRollbackRequestList in \<open>simp_all add: object_defs\<close>)
  qed
qed

end

section \<open>The types of apimachinery\<close>

text \<open>Struct layouts of \<open>metav1.ObjectMeta\<close> and \<open>metav1.ListMeta\<close>, as far as the sources use them.\<close>

datatype meta_cell = MLabels labels | MFinalizers "string list" | MOwners "OwnerReference list" | MCount int

record ObjectMeta_H =
  hom_Name :: string
  hom_Namespace :: string
  hom_UID :: string
  hom_Generation :: int
  hom_Labels :: "addr option"
  hom_Finalizers :: "slice option"
  hom_DeletionTimestamp :: "addr option"
  hom_CreationTimestamp :: time
  hom_OwnerReferences :: "slice option"

record ListMeta_H =
  hlm_ResourceVersion :: string
  hlm_Continue :: string
  hlm_RemainingItemCount :: "addr option"

record ListMeta =
  lm_ResourceVersion :: string
  lm_Continue :: string
  lm_RemainingItemCount :: "int option"

definition as_labels :: "('m, 'q, meta_cell) cell \<Rightarrow> labels option" where
  "as_labels c = (case c of LibCell (MLabels x) \<Rightarrow> Some x | _ \<Rightarrow> None)"

definition as_finalizers :: "('m, 'q, meta_cell) cell \<Rightarrow> string list option" where
  "as_finalizers c = (case c of LibCell (MFinalizers x) \<Rightarrow> Some x | _ \<Rightarrow> None)"

definition as_owners :: "('m, 'q, meta_cell) cell \<Rightarrow> OwnerReference list option" where
  "as_owners c = (case c of LibCell (MOwners x) \<Rightarrow> Some x | _ \<Rightarrow> None)"

definition as_count :: "('m, 'q, meta_cell) cell \<Rightarrow> int option" where
  "as_count c = (case c of LibCell (MCount x) \<Rightarrow> Some x | _ \<Rightarrow> None)"

lemma as_meta_cell [simp]:
  "as_labels (LibCell (MLabels ls)) = Some ls" "as_finalizers (LibCell (MFinalizers fs)) = Some fs"
  "as_owners (LibCell (MOwners os)) = Some os" "as_count (LibCell (MCount n)) = Some n"
  by (simp_all add: as_labels_def as_finalizers_def as_owners_def as_count_def)

type_synonym go_cell = "(ObjectMeta_H, ListMeta_H, meta_cell) cell"

definition time_layout :: "(go_cell, addr option, time option) layout" where
  "time_layout = ptr_layout (StatusCell \<circ> CTime) as_time flat_layout"

definition ObjectMeta_layout :: "(go_cell, ObjectMeta_H, ObjectMeta) layout" where
  "ObjectMeta_layout = struct_layout
     (\<lambda>x. (hom_Labels x, hom_Finalizers x, hom_DeletionTimestamp x, hom_OwnerReferences x))
     (\<lambda>x (f1, f2, f3, f4). x\<lparr>hom_Labels := f1, hom_Finalizers := f2, hom_DeletionTimestamp := f3, hom_OwnerReferences := f4\<rparr>)
     (\<lambda>x (v1, v2, v3, v4). \<lparr>om_Name = hom_Name x, om_Namespace = hom_Namespace x, om_UID = hom_UID x,
        om_Generation = hom_Generation x, om_Labels = (case v1 of None \<Rightarrow> [] | Some ls \<Rightarrow> ls), om_Finalizers = v2,
        om_DeletionTimestamp = v3, om_CreationTimestamp = hom_CreationTimestamp x, om_OwnerReferences = v4\<rparr>)
     (pair_layout (ptr_layout (LibCell \<circ> MLabels) as_labels flat_layout)
       (pair_layout (slice_layout (LibCell \<circ> MFinalizers) as_finalizers flat_layout)
         (pair_layout time_layout (slice_layout (LibCell \<circ> MOwners) as_owners flat_layout))))"

definition ListMeta_layout :: "(go_cell, ListMeta_H, ListMeta) layout" where
  "ListMeta_layout = struct_layout (\<lambda>x. hlm_RemainingItemCount x)
     (\<lambda>x f. x\<lparr>hlm_RemainingItemCount := f\<rparr>)
     (\<lambda>x v. \<lparr>lm_ResourceVersion = hlm_ResourceVersion x, lm_Continue = hlm_Continue x, lm_RemainingItemCount = v\<rparr>)
     (ptr_layout (LibCell \<circ> MCount) as_count flat_layout)"

definition go_machinery :: "(ObjectMeta_H, ListMeta_H, meta_cell, ListMeta) machinery" where
  "go_machinery = \<lparr>ly_Time = time_layout, ly_Condition = flat_layout, ly_ObjectMeta = ObjectMeta_layout,
     ly_ListMeta = ListMeta_layout\<rparr>"

definition go_copylib :: "(ObjectMeta_H, ListMeta_H, meta_cell) copylib" where
  "go_copylib = \<lparr>lib_Time = ly_copy time_layout, lib_Condition = flat_copy, lib_ObjectMeta = ly_copy ObjectMeta_layout,
     lib_ListMeta = ly_copy ListMeta_layout\<rparr>"

lemma time_copied_well: "copied_well time_layout"
  unfolding time_layout_def by (intro layouts_copied_well) simp

lemma meta_copied_well: "copied_well ObjectMeta_layout" "copied_well ListMeta_layout"
  unfolding ObjectMeta_layout_def ListMeta_layout_def by (intro layouts_copied_well time_copied_well; auto)+

interpretation gomachinery: apimachinery go_copylib go_machinery
  by (rule apimachinery.intro)
    (simp_all add: go_copylib_def go_machinery_def time_copied_well meta_copied_well flat_copied_well [simplified])

end
