(* ===== verification/CopyTheorems.thy ===== *)
theory CopyTheorems
  imports Apimachinery
begin

text \<open>
  The properties of the generated deep copies, for any layout of the types of apimachinery that keeps the
  contract, and a heap on which they are applied: an upgrade request with a target version, two images of
  a larger array, finalizers, a condition and a phase timer.
\<close>

section \<open>A request in memory\<close>

definition request_cells :: "(addr \<times> go_cell) list" where
  "request_cells = [
     (0, ObjectCell (CUpgradeRequest \<lparr>hur_TypeMeta = (''UpgradeRequest'', ''fluxup.dev/v1alpha1''),
        hur_meta = \<lparr>hom_Name = ''up'', hom_Namespace = ''d'', hom_UID = [], hom_Generation = 1, hom_Labels = None,
          hom_Finalizers = Some \<lparr>sl_Array = 1, sl_Off = 0, sl_Len = 1\<rparr>, hom_DeletionTimestamp = None,
          hom_CreationTimestamp = 0, hom_OwnerReferences = None\<rparr>,
        hur_Spec = \<lparr>hurs_ManagedAppRef = \<lparr>ref_Name = ''app'', ref_Namespace = []\<rparr>, hurs_TargetVersion = Some 2,
          hurs_SkipSnapshot = False, hurs_DryRun = False\<rparr>,
        hur_Status = \<lparr>hurst_Scaling = None, hurst_Snapshot = None, hurst_Upgrade = None, hurst_HealthCheck = None,
          hurst_PhaseStartedAt = Some 4, hurst_Conditions = Some \<lparr>sl_Array = 5, sl_Off = 0, sl_Len = 1\<rparr>\<rparr>\<rparr>)),
     (1, LibCell (MFinalizers [''fluxup.dev/operation-protection''])),
     (2, SpecCell (CVersionInfo \<lparr>hvi_Chart = ''2.0'', hvi_Images = Some \<lparr>sl_Array = 3, sl_Off = 1, sl_Len = 2\<rparr>\<rparr>)),
     (3, ArrayCell (AImageInfo [\<lparr>img_Name = ''a'', img_Tag = ''1''\<rparr>, \<lparr>img_Name = ''b'', img_Tag = ''2''\<rparr>,
        \<lparr>img_Name = ''c'', img_Tag = ''3''\<rparr>])),
     (4, StatusCell (CTime 7)),
     (5, ArrayCell (ACondition [\<lparr>c_Type = ''Suspended'', c_Status = ''True'', c_Reason = [], c_Message = [],
        c_ObservedGeneration = 1\<rparr>]))]"

definition request_heap :: "go_cell heap" where
  "request_heap = \<lparr>hp_cells = map_of request_cells, hp_next = 6\<rparr>"

text \<open>What it reads as: the images are the last two of the array.\<close>

definition request_value :: UpgradeRequest where
  "request_value = \<lparr>
     ur_meta = (new_meta ''up'' ''d'' [])\<lparr>om_Generation := 1, om_Finalizers := [OperationFinalizer]\<rparr>,
     ur_Spec = \<lparr>urs_ManagedAppRef = \<lparr>ref_Name = ''app'', ref_Namespace = []\<rparr>,
       urs_TargetVersion = Some \<lparr>vi_Chart = ''2.0'', vi_Images = [\<lparr>img_Name = ''b'', img_Tag = ''2''\<rparr>,
         \<lparr>img_Name = ''c'', img_Tag = ''3''\<rparr>]\<rparr>, urs_SkipSnapshot = False, urs_DryRun = False\<rparr>,
     ur_Status = \<lparr>urst_Scaling = None, urst_Snapshot = None, urst_Upgrade = None, urst_HealthCheck = None,
       urst_PhaseStartedAt = Some 7, urst_Conditions = [\<lparr>c_Type = ''Suspended'', c_Status = ''True'', c_Reason = [],
         c_Message = [], c_ObservedGeneration = 1\<rparr>]\<rparr>\<rparr>"

lemma request_heap_wf: "wf_heap request_heap"
  by (auto simp: wf_heap_def request_heap_def request_cells_def split: if_splits)

lemma request_reads: "object_view go_machinery request_heap (ObjUpgradeRequest 0) = Some (ValUpgradeRequest request_value)"
  by code_simp

section \<open>Deep copies\<close>

text \<open>
  C38. A deep copy of an object of any of the six kinds, its pointers and slices well typed in the heap,
  succeeds, changes no existing cell, and returns a non-nil object of the same kind, well typed in its
  turn, that reads as the same value.
\<close>

theorem deep_copy_is_well_typed:
  assumes "apimachinery L M" and "wf_heap h" and "object_view M h x = Some v"
  shows "\<exists>y g. run_state (DeepCopyObject L x) h = (Inr (Some y), g) \<and> wf_heap g \<and> heap_ext h g \<and>
    object_view M g y = Some v"
  using apimachinery.DeepCopyObject_isolates [OF assms] by (auto simp: isolated_def)

theorem deep_copy_is_well_typed_witness:
  "\<exists>y g. run_state (DeepCopyObject go_copylib (ObjUpgradeRequest 0)) request_heap = (Inr (Some y), g) \<and>
    wf_heap g \<and> heap_ext request_heap g \<and> object_view go_machinery g y = Some (ValUpgradeRequest request_value)"
  by (rule deep_copy_is_well_typed [OF gomachinery.apimachinery_axioms request_heap_wf request_reads])

text \<open>
  C37. A deep copy shares no cell with its original, however deep: after any change to the cells of the
  copy the original still reads as it did, and after any change to the original so does the copy.
\<close>

theorem deep_copy_shares_nothing:
  assumes "apimachinery L M" and "wf_heap h" and "object_view M h x = Some v"
    and "run_state (DeepCopyObject L x) h = (Inr (Some y), g)"
  shows "isolated (object_view M) (object_reach M) g x y v"
  using apimachinery.DeepCopyObject_isolates [OF assms(1-3)] assms(4) by auto

theorem deep_copy_shares_nothing_witness:
  "isolated (object_view go_machinery) (object_reach go_machinery)
     (snd (run_state (DeepCopyObject go_copylib (ObjUpgradeRequest 0)) request_heap))
     (ObjUpgradeRequest 0) (ObjUpgradeRequest 6) (ValUpgradeRequest request_value)"
proof -
  have "fst (run_state (DeepCopyObject go_copylib (ObjUpgradeRequest 0)) request_heap) = Inr (Some (ObjUpgradeRequest 6))"
    by code_simp
  then have "run_state (DeepCopyObject go_copylib (ObjUpgradeRequest 0)) request_heap =
      (Inr (Some (ObjUpgradeRequest 6)), snd (run_state (DeepCopyObject go_copylib (ObjUpgradeRequest 0)) request_heap))"
    by (metis prod.collapse)
  then show ?thesis
    by (rule deep_copy_shares_nothing [OF gomachinery.apimachinery_axioms request_heap_wf request_reads])
qed

end
