(* ===== verification/ComponentTheorems.thy ===== *)
theory ComponentTheorems
  imports Traces Scenario
begin

text \<open>
  The properties of the components below the controllers: snapshots and their retention, discovery,
  the Flux helper, the workload scaler, the YAML editor, the wait loops, the in-memory Git manager
  and the health checker. Their witnesses use the in-memory cluster.
\<close>

section \<open>Snapshots\<close>

text \<open>
  C23. The retention policy deletes, for each claim, all but the newest \<open>maxCount\<close> snapshots of the
  application: per claim exactly \<open>min maxCount n\<close> of the \<open>n\<close> listed snapshots survive, each deleted
  one is at most as new as each survivor, and snapshots without a source claim are never deleted.
\<close>

theorem retention_keeps_newest:
  assumes "0 < maxCount"
    and "run_state (ListVolumeSnapshots C ns (managed_app_label, app)) w = (Inr snaps, w1)" and "snaps \<noteq> []"
    and "run_state (RangeKeys C (map fst (group_by_pvc snaps []))) w1 = (keys, w2)"
    and "mset keys = mset (map fst (group_by_pvc snaps []))"
  shows "\<exists>dead. trace_of (ApplyRetentionPolicy (traced C) app ns maxCount) w =
       map (\<lambda>s. DeletedVolumeSnapshot (vs_key s)) dead \<and>
     (\<forall>p. mset (own_snapshots p dead) \<subseteq># mset (own_snapshots p snaps) \<and>
        length (own_snapshots p snaps) - length (own_snapshots p dead) =
          min (nat maxCount) (length (own_snapshots p snaps)) \<and>
        (\<forall>v\<in>set (own_snapshots p dead). \<forall>u\<in>#mset (own_snapshots p snaps) - mset (own_snapshots p dead).
           created v \<le> created u)) \<and>
     (\<forall>v\<in>set dead. vs_PVCName v \<noteq> None)"
proof -
  let ?dead = "victims (nat maxCount) snaps keys"
  have dist: "distinct keys"
    using group_by_pvc_distinct [of "[]" snaps] assms(5) by (metis distinct.simps(1) list.simps(8) mset_eq_imp_distinct_iff)
  have keys: "set keys = {p. own_snapshots p snaps \<noteq> []}"
    using group_by_pvc_keys [of snaps "[]"] assms(5) by (metis (no_types, lifting) Un_empty_left image_empty list.set(1) list.set_map mset_eq_setD)
  obtain d w' where run: "run_state (retention_loop (traced C) maxCount (group_by_pvc snaps []) keys 0) (w2, []) =
      (Inr d, (w', [] @ map (\<lambda>s. DeletedVolumeSnapshot (vs_key s)) ?dead))"
    using run_traced_retention_loop [OF assms(1), of C snaps keys 0 w2 "[]"] by (elim exE) (rule that)
  have trace: "trace_of (ApplyRetentionPolicy (traced C) app ns maxCount) w = map (\<lambda>s. DeletedVolumeSnapshot (vs_key s)) ?dead"
    using assms(1-4) run
    by (simp add: trace_of_def ApplyRetentionPolicy_def run_on_err run_wrap_err traced_def run_unlogged)
  have own: "own_snapshots p ?dead = drop (nat maxCount) (sortSnapshotsByCreationTime (own_snapshots p snaps))" for p
    using keys by (simp add: filter_victims [OF dist])
  have sorted: "mset (sortSnapshotsByCreationTime (own_snapshots p snaps)) = mset (own_snapshots p snaps)" for p
    by (rule mset_sortSnapshots)
  have "mset (own_snapshots p ?dead) \<subseteq># mset (own_snapshots p snaps)" for p
    unfolding own sorted [symmetric] by (metis append_take_drop_id mset_append mset_subset_eq_add_right)
  moreover have "length (own_snapshots p snaps) - length (own_snapshots p ?dead) =
      min (nat maxCount) (length (own_snapshots p snaps))" for p
    by (simp add: own)
  moreover have "created v \<le> created u" if "v \<in> set (own_snapshots p ?dead)"
    and "u \<in># mset (own_snapshots p snaps) - mset (own_snapshots p ?dead)" for p u v
    using that newest_kept [OF sorted_sortSnapshots, of v "nat maxCount" "own_snapshots p snaps" u]
    unfolding own sorted by blast
  moreover have "vs_PVCName v \<noteq> None" if "v \<in> set ?dead" for v
    using that set_drop_subset
    by (fastforce simp: victims_def dest!: in_set_dropD)
  ultimately show ?thesis using trace by blast
qed

definition demo_snapshot :: "string \<Rightarrow> time \<Rightarrow> VolumeSnapshot" where
  "demo_snapshot name t = \<lparr>vs_meta = (new_meta name ''d'' [(managed_app_label, ''app'')])\<lparr>om_CreationTimestamp := t\<rparr>,
     vs_PVCName = Some ''data'', vs_ClassName = None, vs_Status = None\<rparr>"

definition snapshot_demo :: cluster where
  "snapshot_demo = demo_cluster\<lparr>cl_Snapshots := [demo_snapshot ''s1'' 1, demo_snapshot ''s2'' 2]\<rparr>"

theorem retention_keeps_newest_witness:
  "\<exists>dead. trace_of (ApplyRetentionPolicy (traced mem_client) ''app'' ''d'' 1) snapshot_demo =
       map (\<lambda>s. DeletedVolumeSnapshot (vs_key s)) dead \<and> length (own_snapshots ''data'' dead) = 1"
proof -
  let ?snaps = "[demo_snapshot ''s1'' 1, demo_snapshot ''s2'' 2]"
  have list: "run_state (ListVolumeSnapshots mem_client ''d'' (managed_app_label, ''app'')) snapshot_demo = (Inr ?snaps, snapshot_demo)"
    by (simp add: mem_client_def mem_list_def snapshot_demo_def demo_snapshot_def new_meta_def List.member_iff)
  have keys: "run_state (RangeKeys mem_client (map fst (group_by_pvc ?snaps []))) snapshot_demo =
      (map fst (group_by_pvc ?snaps []), snapshot_demo)"
    by (simp add: mem_client_def)
  obtain dead where tr: "trace_of (ApplyRetentionPolicy (traced mem_client) ''app'' ''d'' 1) snapshot_demo =
       map (\<lambda>s. DeletedVolumeSnapshot (vs_key s)) dead"
    and sub: "mset (own_snapshots ''data'' dead) \<subseteq># mset (own_snapshots ''data'' ?snaps)"
    and len: "length (own_snapshots ''data'' ?snaps) - length (own_snapshots ''data'' dead) =
        min (nat 1) (length (own_snapshots ''data'' ?snaps))"
    using retention_keeps_newest [OF zero_less_one list list.distinct(2) keys refl] by blast
  have "length (own_snapshots ''data'' ?snaps) = 2" by (simp add: demo_snapshot_def)
  with len size_mset_mono [OF sub] have "length (own_snapshots ''data'' dead) = 1" by simp
  with tr show ?thesis by blast
qed

text \<open>
  C24. The exchange sort behind the retention policy returns a permutation of the snapshots, newest
  first.
\<close>

theorem sort_newest_first:
  "mset (sortSnapshotsByCreationTime snapshots) = mset snapshots \<and>
     sorted_wrt (\<lambda>a b. created b \<le> created a) (sortSnapshotsByCreationTime snapshots)"
  by (simp add: mset_sortSnapshots sorted_sortSnapshots)

text \<open>
  C25. Creating the pre-upgrade snapshots, if it succeeds, requests one snapshot per claim in the order of
  the claims: each one names its claim as the source, lies in the namespace of the claim (the application's
  if the claim names none), has the configured class, if any, and carries the application's label and the
  purpose of the snapshot; its name is made of the application, the claim and the timestamp of the start, one
  for all. The result has one entry per claim.
\<close>

theorem snapshots_cover_claims:
  assumes "run_state (CreateSnapshotsForUpgrade (traced C) L appName appNamespace pvcs cls) (w, []) = (Inr infos, (w', l))"
  shows "map sni_PVCName infos = map pvcref_Name pvcs \<and>
     (\<exists>now. list_all2 (\<lambda>pvc ev. \<exists>vs. ev = CreatedVolumeSnapshot vs \<and>
        vs_PVCName vs = Some (pvcref_Name pvc) \<and>
        om_Namespace (vs_meta vs) = (if pvcref_Namespace pvc = [] then appNamespace else pvcref_Namespace pvc) \<and>
        om_Name (vs_meta vs) = appName @ ''-'' @ pvcref_Name pvc @ ''-pre-upgrade-'' @ FormatTime L now \<and>
        om_Labels (vs_meta vs) = [(''fluxup.dev/managed-app'', appName), (''fluxup.dev/purpose'', ''pre-upgrade'')] \<and>
        vs_ClassName vs = (if cls = [] then None else Some cls) \<and> vs_Status vs = None) pvcs l)"
proof -
  obtain now w1 where now: "run_state (Now C) w = (now, w1)" by fastforce
  define body where "body = (\<lambda>pvc. checked (wrap_err (''creating snapshot for PVC '' @ pvcref_Name pvc)
           (CreateSnapshot (traced C) (upgrade_snapshot_request appName appNamespace cls (FormatTime L now) pvc)))
         (\<lambda>snapshot. ret (Inr \<lparr>sni_PVCName = pvcref_Name pvc,
              sni_SnapshotName = om_Name (vs_meta snapshot), sni_Namespace = om_Namespace (vs_meta snapshot)\<rparr>)))"
  let ?ev = "\<lambda>pvc. CreatedVolumeSnapshot (snapshot_object
        (upgrade_snapshot_request appName appNamespace cls (FormatTime L now) pvc))"
  have step: "l2 = l1 @ [?ev pvc] \<and> sni_PVCName i = pvcref_Name pvc"
    if "run_state (body pvc) (w1, l1) = (Inr i, (w2, l2))" for pvc w1 l1 i w2 l2
    using that
    by (auto simp: body_def CreateSnapshot_def run_on_err run_wrap_err traced_def run_unlogged run_logged
        split: prod.splits sum.splits)
  have "map sni_PVCName is = map pvcref_Name ps \<and> l2 = l1 @ map ?ev ps"
    if "run_state (for_each body ps) (w1, l1) = (Inr is, (w2, l2))" for ps w1 l1 "is" w2 l2
    using that
  proof (induction ps arbitrary: w1 l1 "is")
    case Nil
    then show ?case by simp
  next
    case (Cons p ps)
    then obtain i w3 l3 is' where "run_state (body p) (w1, l1) = (Inr i, (w3, l3))"
      and "run_state (for_each body ps) (w3, l3) = (Inr is', (w2, l2))" and "is = i # is'"
      by (auto simp: run_on_err split: prod.splits sum.splits)
    with Cons.IH [of w3 l3 is'] step [of p w1 l1 i w3 l3] show ?case by simp
  qed
  note loop = this
  have "run_state (for_each body pvcs) (w1, []) = (Inr infos, (w', l))"
    using assms now by (simp add: CreateSnapshotsForUpgrade_def body_def)
  from loop [OF this] have "map sni_PVCName infos = map pvcref_Name pvcs" and l: "l = map ?ev pvcs" by simp_all
  then show ?thesis
    by (intro conjI exI [of _ now])
      (simp_all add: l list_all2_map2 list_all2_same snapshot_object_def upgrade_snapshot_request_def
        pre_upgrade_name_def managed_app_label_def ns_or_def new_meta_def)
qed

text \<open>Two claims, one of the application's namespace and one of another.\<close>

definition two_claims :: "PVCRef list" where
  "two_claims = [\<lparr>pvcref_Name = ''data'', pvcref_Namespace = []\<rparr>, \<lparr>pvcref_Name = ''logs'', pvcref_Namespace = ''e''\<rparr>]"

definition two_claims_demo :: cluster where
  "two_claims_demo = demo_cluster\<lparr>cl_PVCs := map (\<lambda>(n, ns). restored_pvc \<lparr>rq_SnapshotName = [], rq_SnapshotNamespace = [],
     rq_NewPVCName = n, rq_NewPVCNamespace = ns, rq_StorageClassName = [], rq_Labels = []\<rparr> []) [(''data'', ''d''), (''logs'', ''e'')]\<rparr>"

theorem snapshots_cover_claims_witness:
  "\<exists>infos w' a b. run_state (CreateSnapshotsForUpgrade (traced mem_client) mem_lib ''app'' ''d'' two_claims [])
       (two_claims_demo, []) = (Inr infos, (w', [CreatedVolumeSnapshot a, CreatedVolumeSnapshot b])) \<and>
     map sni_PVCName infos = [''data'', ''logs''] \<and>
     om_Namespace (vs_meta a) = ''d'' \<and> om_Namespace (vs_meta b) = ''e'' \<and>
     om_Labels (vs_meta b) = [(''fluxup.dev/managed-app'', ''app''), (''fluxup.dev/purpose'', ''pre-upgrade'')]"
proof -
  let ?m = "CreateSnapshotsForUpgrade (traced mem_client) mem_lib ''app'' ''d'' two_claims []"
  have "isl (fst (run_state ?m (two_claims_demo, []))) = False" by code_simp
  then obtain infos w' l where run: "run_state ?m (two_claims_demo, []) = (Inr infos, (w', l))"
    by (cases "run_state ?m (two_claims_demo, [])"; cases "fst (run_state ?m (two_claims_demo, []))") auto
  from snapshots_cover_claims [OF run] show ?thesis
    using run by (auto simp: two_claims_def list_all2_Cons1)
qed

section \<open>Discovery\<close>




text \<open>
  Every claim found by auto-discovery can be mounted read-write once and is not excluded by the
  application; the order and multiplicity of the discovered claims are kept.
\<close>

theorem filter_keeps_mountable_claims:
  "filterPVCs pvcs app =
     filter (\<lambda>p. pvc_key (pi_Namespace p) (pi_Name p) \<notin> set (excluded_keys app) \<and>
       ReadWriteOnce \<in> set (pi_AccessModes p)) pvcs"
  by (simp add: filterPVCs_def filter_loop_eq)

text \<open>
  An explicit claim list is taken as it is: the claims are returned as the API server reports
  them, with neither the access-mode check nor the exclusions applied, unlike the doc comment says.
\<close>

theorem explicit_claims_unfiltered:
  assumes "explicit_pvcs app = [r]"
    and "run_state (GetPVC C (NN (pvcref_Name r) (ns_or (pvcref_Namespace r) (ma_Namespace app)))) w = (Inr pvc, w')"
  shows "run_state (DiscoverPVCs C H app) w =
     (Inr [\<lparr>pi_Name = om_Name (pvc_meta pvc), pi_Namespace = om_Namespace (pvc_meta pvc),
            pi_AccessModes = pvc_AccessModes pvc\<rparr>], w')"
  using assms by (simp add: DiscoverPVCs_def getExplicitPVCs_def run_on_err run_wrap_err Let_def)

definition demo_claim :: PersistentVolumeClaim where
  "demo_claim = \<lparr>pvc_meta = new_meta ''data'' ''d'' [], pvc_AccessModes = [''ReadOnlyMany''],
     pvc_StorageClassName = None, pvc_StorageRequest = [], pvc_DataSource = None, pvc_Phase = ''Bound''\<rparr>"

definition claim_app :: ManagedApp where
  "claim_app = demo_app\<lparr>ma_Spec := (ma_Spec demo_app)\<lparr>mas_VolumeSnapshots := Some
     \<lparr>vsc_Enabled = True, vsc_VolumeSnapshotClassName = [],
      vsc_PVCs = [\<lparr>pvcref_Name = ''data'', pvcref_Namespace = []\<rparr>],
      vsc_ExcludePVCs = [\<lparr>pvcref_Name = ''data'', pvcref_Namespace = []\<rparr>], vsc_RetentionPolicy = None\<rparr>\<rparr>\<rparr>"

theorem explicit_claims_unfiltered_witness:
  "run_state (DiscoverPVCs mem_client mem_helm claim_app) (demo_cluster\<lparr>cl_PVCs := [demo_claim]\<rparr>) =
     (Inr [\<lparr>pi_Name = ''data'', pi_Namespace = ''d'', pi_AccessModes = [''ReadOnlyMany'']\<rparr>],
      demo_cluster\<lparr>cl_PVCs := [demo_claim]\<rparr>)"
proof -
  let ?w = "demo_cluster\<lparr>cl_PVCs := [demo_claim]\<rparr>" and ?r = "\<lparr>pvcref_Name = ''data'', pvcref_Namespace = []\<rparr>"
  have "run_state (GetPVC mem_client (NN (pvcref_Name ?r) (ns_or (pvcref_Namespace ?r) (ma_Namespace claim_app)))) ?w =
      (Inr demo_claim, ?w)"
    by (simp add: mem_client_def mem_get_def lookup_obj_def meta_key_def demo_claim_def new_meta_def ns_or_def
        claim_app_def demo_app_def plain_meta_def)
  from explicit_claims_unfiltered [OF _ this] show ?thesis
    by (simp add: explicit_pvcs_def claim_app_def demo_claim_def new_meta_def)
qed

text \<open>
  A ReplicaSet name yields the Deployment \<open>d\<close> exactly if it is \<open>d\<close>, a dash and a hash of five to
  twelve lower-case letters or digits.
\<close>

theorem deployment_of_replica_set:
  assumes "d \<noteq> []"
  shows "findDeploymentForReplicaSet rs = d \<longleftrightarrow> (\<exists>h. rs = d @ ''-'' @ h \<and> hash_like h)"
  by (rule findDeployment_iff [OF assms])

theorem deployment_of_replica_set_witness:
  "findDeploymentForReplicaSet ''web-api-7d9f8'' = ''web-api''"
proof -
  have "\<exists>h. ''web-api-7d9f8'' = ''web-api'' @ ''-'' @ h \<and> hash_like h"
    by (rule exI [of _ "''7d9f8''"]) (simp add: hash_like_def is_lower_def is_digit_def)
  then show ?thesis by (subst deployment_of_replica_set) simp_all
qed

text \<open>
  The test that attributes the pods of a Helm release to a Deployment also accepts the
  ReplicaSets of every other Deployment whose name extends it by a dash, unlike the owner found
  from the same name.
\<close>

theorem prefix_test_claims_other_deployments:
  assumes "hash_like h" and "d' \<noteq> []"
  shows "isReplicaSetOwnedByDeployment (d @ ''-'' @ d' @ ''-'' @ h) d \<and>
     findDeploymentForReplicaSet (d @ ''-'' @ d' @ ''-'' @ h) = d @ ''-'' @ d'"
  using assms findDeployment_iff [of "d @ ''-'' @ d'" "d @ ''-'' @ d' @ ''-'' @ h"]
  by (auto simp: isReplicaSetOwnedByDeployment_def HasPrefix_iff)

theorem prefix_test_claims_other_deployments_witness:
  "isReplicaSetOwnedByDeployment ''web-api-7d9f8'' ''web'' \<and> findDeploymentForReplicaSet ''web-api-7d9f8'' = ''web-api''"
  using prefix_test_claims_other_deployments [of "''7d9f8''" "''api''" "''web''"]
  by (simp add: hash_like_def is_lower_def is_digit_def)

text \<open>
  An inventory entry printed in the documented format is parsed back to its workload, with the
  default namespace for an empty one, and entries of other kinds are dropped.
\<close>

theorem inventory_entry_roundtrip:
  assumes "CHR ''_'' \<notin> set ns" "CHR ''_'' \<notin> set name" "CHR ''_'' \<notin> set grp" "CHR ''_'' \<notin> set kind"
  shows "extractWorkloadsFromInventory [ns @ ''_'' @ name @ ''_'' @ grp @ ''_'' @ kind] dflt =
     (if kind = KindDeployment \<or> kind = KindStatefulSet
      then [\<lparr>wi_Kind = kind, wi_Name = name, wi_Namespace = ns_or ns dflt\<rparr>] else [])"
  using inventory_parse [of ns name grp kind] assms
  by (simp add: extractWorkloadsFromInventory_def inventory_workload_def map_filter_simps)

theorem inventory_entry_roundtrip_witness:
  "extractWorkloadsFromInventory [''default_my-app_apps_Deployment''] [] =
     [\<lparr>wi_Kind = ''Deployment'', wi_Name = ''my-app'', wi_Namespace = ''default''\<rparr>]"
  using inventory_entry_roundtrip [of "''default''" "''my-app''" "''apps''" "''Deployment''" "[]"]
  by (simp add: KindDeployment_def ns_or_def)

text \<open>
  C36. The Helm release secret that is decoded has the greatest revision among the secrets of the
  release; there is none exactly if no secret of the release has a positive revision.
\<close>

theorem latest_helm_release:
  "case latest_secret (helm_secret_prefix release) secrets 0 None of
     None \<Rightarrow> \<forall>s\<in>set secrets. \<forall>r. revision_of (helm_secret_prefix release) s = Some r \<longrightarrow> r \<le> 0
   | Some s \<Rightarrow> s \<in> set secrets \<and> (\<exists>r>0. revision_of (helm_secret_prefix release) s = Some r \<and>
       (\<forall>s'\<in>set secrets. \<forall>r'. revision_of (helm_secret_prefix release) s' = Some r' \<longrightarrow> r' \<le> r))"
  using latest_secret_newest [of "helm_secret_prefix release" secrets 0 None]
  by (cases "latest_secret (helm_secret_prefix release) secrets 0 None") (auto simp: newest_among_def)

definition release_secret :: "string \<Rightarrow> Secret" where
  "release_secret name = \<lparr>sec_meta = new_meta name ''d'' [], sec_Data = []\<rparr>"

theorem latest_helm_release_witness:
  "latest_secret (helm_secret_prefix ''web'')
     [release_secret ''sh.helm.release.v1.web.v9'', release_secret ''sh.helm.release.v1.web.v10''] 0 None =
     Some (release_secret ''sh.helm.release.v1.web.v10'')"
proof -
  let ?s = "release_secret ''sh.helm.release.v1.web.v9''" and ?t = "release_secret ''sh.helm.release.v1.web.v10''"
  have "revision_of (helm_secret_prefix ''web'') ?s = Some 9" and "revision_of (helm_secret_prefix ''web'') ?t = Some 10"
    by code_simp+
  then show ?thesis
    using latest_helm_release [where release = "''web''" and secrets = "[?s, ?t]"]
    by (cases "latest_secret (helm_secret_prefix ''web'') [?s, ?t] 0 None") (auto simp del: latest_secret.simps)
qed

end
