(* ===== verification/AppTheorems.thy ===== *)
theory AppTheorems
  imports AppControllers Traces Scenario
begin

text \<open>
  The properties of the update pipeline (parser, mapper, status updater) and of the controller that
  reports the health of an application. The locale \<open>app_store\<close> is what the API server promises for
  applications; the in-memory cluster is its instance.
\<close>

section \<open>A store of applications\<close>





section \<open>From Renovate's log to the mapping\<close>

text \<open>
  The parser extracts exactly the first update of every dependency that has one, in the order
  of the log: the Flux files first, then the Helm values, then the regex manager.
\<close>

theorem extracts_first_updates:
  "extractUpdates config = concat (map file_updates (rvc_Flux config @ rvc_HelmValues config @ rvc_Regex config))"
  by (simp add: extractUpdates_def files_loop_eq)

definition app_of_path :: "ManagedApp list \<Rightarrow> string \<Rightarrow> NamespacedName option" where
  "app_of_path apps path =
     (case filter (\<lambda>a. mas_GitPath (ma_Spec a) = path) apps of
        [] \<Rightarrow> None
      | a # as \<Rightarrow> if path = [] then None else Some (NN (ma_Name (last (a # as))) (ma_Namespace (last (a # as)))))"

definition updates_of :: "ManagedApp list \<Rightarrow> NamespacedName \<Rightarrow> UpdateInfo list \<Rightarrow> UpdateInfo list" where
  "updates_of apps key us = filter (\<lambda>u. app_of_path apps (uin_PackageFile u) = Some key) us"

lemma path_index_app: "path_index apps Map.empty path = app_of_path apps path"
  by (cases "filter (\<lambda>a. mas_GitPath (ma_Spec a) = path) apps")
    (auto simp: path_index_lookup app_of_path_def Let_def filter_empty_conv filter_eq_Cons_iff)

text \<open>
  C33. The mapper offers each application the last Helm version and all image tags among the updates
  of the file that names it (the last application listed, where several name one file), and maps
  no application without such an update.
\<close>

theorem mapping_offers_updates:
  assumes "run_state (ListManagedApps C) w = (Inr apps, w')"
  shows "\<exists>m. run_state (MapUpdatesToManagedApps C us) w = (Inr m, w') \<and> distinct (map fst m) \<and>
     (\<forall>key. map_of m key = (if updates_of apps key us = [] then None
        else Some (offered empty_version (updates_of apps key us))))"
  using assms
  by (auto simp: MapUpdatesToManagedApps_def run_on_err updates_loop_distinct updates_loop_lookup path_index_app updates_of_def)

definition demo_update :: UpdateInfo where
  "demo_update = \<lparr>uin_PackageFile = ''f'', uin_DependencyName = ''chart'', uin_CurrentVersion = ''1.0'',
     uin_NewVersion = ''2.0'', uin_UpdateType = ''major'', uin_Datasource = ''helm''\<rparr>"

lemma demo_updates_of: "updates_of [demo_app] (NN ''app'' ''d'') [demo_update] = [demo_update]"
  by (simp add: updates_of_def app_of_path_def demo_update_def demo_app_def plain_meta_def new_meta_def)

lemma demo_offered: "offered empty_version [demo_update] = \<lparr>vi_Chart = ''2.0'', vi_Images = []\<rparr>"
  by (simp add: offered_def empty_version_def helm_versions_def docker_images_def demo_update_def DatasourceHelm_def
      DatasourceDocker_def)

lemma list_demo_apps: "run_state (ListManagedApps mem_client) demo_cluster = (Inr [demo_app], demo_cluster)"
  by (simp add: mem_client_def mem_list_def demo_cluster_def)

theorem mapping_offers_updates_witness:
  "\<exists>m. run_state (MapUpdatesToManagedApps mem_client [demo_update]) demo_cluster = (Inr m, demo_cluster) \<and>
     map_of m (NN ''app'' ''d'') = Some \<lparr>vi_Chart = ''2.0'', vi_Images = []\<rparr>"
  using mapping_offers_updates [OF list_demo_apps, of "[demo_update]"] demo_updates_of demo_offered by auto

section \<open>Announcing\<close>





text \<open>An update of any other datasource announces an empty version.\<close>

lemma unknown_datasource_announces_empty_version:
  assumes "\<forall>u\<in>set us. uin_Datasource u \<noteq> DatasourceHelm \<and> uin_Datasource u \<noteq> DatasourceDocker"
  shows "offered empty_version us = empty_version"
proof -
  have "filter (\<lambda>u. uin_Datasource u = DatasourceHelm) us = []" "filter (\<lambda>u. uin_Datasource u = DatasourceDocker) us = []"
    using assms by (auto simp: filter_empty_conv)
  then show ?thesis by (simp add: offered_def empty_version_def helm_versions_def docker_images_def)
qed

section \<open>Reporting health\<close>




end
