(* ===== verification/InterfaceTheorems.thy ===== *)
theory InterfaceTheorems
  imports Gitea Waits Scenario Discovery
begin

text \<open>
  The properties of the interfaces between the controllers and the helper packages, each as a
  refinement of a small abstract store: the suspend flags behind the Flux helper, the replica counts
  behind the scaler, the files behind the Git manager and the scalars behind the YAML editor.
  Then the termination of the wait functions, the round trip of the path notation, and the
  decoding of Helm release secrets.
\<close>

section \<open>Suspend flags\<close>

definition suspend_flags :: "(NamespacedName \<rightharpoonup> Kustomization) \<Rightarrow> NamespacedName \<rightharpoonup> bool" where
  "suspend_flags m = (\<lambda>k. map_option ks_Suspend (m k))"

lemma suspend_flags_upd:
  assumes "\<exists>x. m' k = Some x \<and> ks_Suspend x = b" and "\<And>j. j \<noteq> k \<Longrightarrow> m' j = m j"
  shows "suspend_flags m' = (suspend_flags m)(k \<mapsto> b)"
  using assms by (auto simp: suspend_flags_def fun_eq_iff)

text \<open>
  C27. Suspending sets the flag of its Kustomization and of no other; the check that follows does
  not report an external change, and resuming clears the flag again.
\<close>

theorem suspension_contract:
  assumes "ks_store C kss"
    and "run_state (SuspendKustomization C name ns) w = (Inr (), w1)"
    and "run_state (VerifyStillSuspended C name ns) w1 = (v, w2)"
    and "v = Inr () \<or> v = Inl (unsuspended_error name ns)"
    and "run_state (ResumeKustomization C name ns) w2 = (Inr (), w3)"
  shows "v = Inr () \<and> suspend_flags (kss w1) = (suspend_flags (kss w))(NN name ns \<mapsto> True) \<and>
     suspend_flags (kss w3) = (suspend_flags (kss w))(NN name ns \<mapsto> False)"
proof -
  note st = assms(1)
  have up: "suspend_flags (kss w1) = (suspend_flags (kss w))(NN name ns \<mapsto> True)"
    using ks_store.SuspendKustomization_ok [OF st assms(2)] by (intro suspend_flags_upd) auto
  have down: "suspend_flags (kss w3) = (suspend_flags (kss w2))(NN name ns \<mapsto> False)"
    using ks_store.ResumeKustomization_ok [OF st assms(5)] by (intro suspend_flags_upd) auto
  obtain b wb where read: "run_state (IsSuspended C name ns) w1 = (b, wb)" by fastforce
  have b: "b = Inr True"
  proof (cases b)
    case (Inl e)
    with read assms(3,4) show ?thesis by (auto simp: VerifyStillSuspended_def run_on_err run_wrap_err unsuspended_error_def)
  next
    case (Inr c)
    from ks_store.IsSuspended_result [OF st read [unfolded Inr]] ks_store.SuspendKustomization_ok(1) [OF st assms(2)] Inr
    show ?thesis by fastforce
  qed
  with read assms(3) have "v = Inr ()" and "w2 = wb"
    by (simp_all add: VerifyStillSuspended_def run_on_err run_wrap_err)
  moreover have "kss wb = kss w1" by (rule ks_store.IsSuspended_result(1) [OF st read [unfolded b]])
  ultimately show ?thesis using up down by simp
qed

theorem suspension_contract_witness:
  "\<exists>w1 w2 w3. run_state (SuspendKustomization mem_client ''ks'' ''x'') demo_cluster = (Inr (), w1) \<and>
     run_state (ResumeKustomization mem_client ''ks'' ''x'') w2 = (Inr (), w3) \<and>
     run_state (VerifyStillSuspended mem_client ''ks'' ''x'') w1 = (Inr (), w2) \<and>
     suspend_flags (lookup_obj ks_key (cl_Kustomizations w1)) (NN ''ks'' ''x'') = Some True"
proof -
  let ?w1 = "snd (run_state (SuspendKustomization mem_client ''ks'' ''x'') demo_cluster)"
  let ?w2 = "snd (run_state (VerifyStillSuspended mem_client ''ks'' ''x'') ?w1)"
  let ?w3 = "snd (run_state (ResumeKustomization mem_client ''ks'' ''x'') ?w2)"
  have "fst (run_state (SuspendKustomization mem_client ''ks'' ''x'') demo_cluster) = Inr ()"
    and "fst (run_state (VerifyStillSuspended mem_client ''ks'' ''x'') ?w1) = Inr ()"
    and "fst (run_state (ResumeKustomization mem_client ''ks'' ''x'') ?w2) = Inr ()"
    by code_simp+
  then have runs: "run_state (SuspendKustomization mem_client ''ks'' ''x'') demo_cluster = (Inr (), ?w1)"
      "run_state (VerifyStillSuspended mem_client ''ks'' ''x'') ?w1 = (Inr (), ?w2)"
      "run_state (ResumeKustomization mem_client ''ks'' ''x'') ?w2 = (Inr (), ?w3)"
    by (simp_all add: prod_eq_iff)
  show ?thesis
    using suspension_contract [OF memks.ks_store_axioms runs(1,2) disjI1 [OF refl] runs(3)] runs
    by (intro exI [of _ ?w1] exI [of _ ?w2] exI [of _ ?w3]) simp
qed

section \<open>Replica counts\<close>

text \<open>The abstract store of the scaler: the requested replicas of each workload, by kind.\<close>

definition replica_counts ::
  "(NamespacedName \<rightharpoonup> Deployment) \<Rightarrow> (NamespacedName \<rightharpoonup> StatefulSet) \<Rightarrow> string \<times> NamespacedName \<rightharpoonup> int" where
  "replica_counts ds ss = (\<lambda>(kind, k).
     if kind = KindDeployment then map_option (\<lambda>d. replicas_or_default (dep_Replicas d)) (ds k)
     else if kind = KindStatefulSet then map_option (\<lambda>s. replicas_or_default (sts_Replicas s)) (ss k)
     else None)"

lemma replica_counts_deployment:
  assumes "dep_Replicas d = Some r" and "ds' = ds(k \<mapsto> d)"
  shows "replica_counts ds' ss = (replica_counts ds ss)((KindDeployment, k) \<mapsto> r)"
  by (rule ext) (auto simp: replica_counts_def replicas_or_default_def assms split: prod.split)

lemma replica_counts_statefulset:
  assumes "sts_Replicas s = Some r" and "ss' = ss(k \<mapsto> s)"
  shows "replica_counts ds ss' = (replica_counts ds ss)((KindStatefulSet, k) \<mapsto> r)"
  by (rule ext) (auto simp: replica_counts_def replicas_or_default_def assms split: prod.split)

text \<open>Both directions of the scaler set one count.\<close>

lemma scaleDeployment_counts:
  assumes "workload_store C deps stss" and "run_state (scaleDeployment C n ns r) w = (Inr info, w')"
  shows "replica_counts (deps w') (stss w') = (replica_counts (deps w) (stss w))((KindDeployment, NN n ns) \<mapsto> r)"
    and "replica_counts (deps w) (stss w) (KindDeployment, NN n ns) = Some (si_OriginalReplicas info)"
proof -
  obtain d d' where old: "deps w (NN n ns) = Some d" and new: "deps w' = (deps w)(NN n ns \<mapsto> d')" "stss w' = stss w"
    and set: "dep_Replicas d' = Some r" and info: "si_OriginalReplicas info = replicas_or_default (dep_Replicas d)"
    by (rule workload_store.scaleDeployment_exact [OF assms])
  show "replica_counts (deps w') (stss w') = (replica_counts (deps w) (stss w))((KindDeployment, NN n ns) \<mapsto> r)"
    unfolding new(2) by (rule replica_counts_deployment [OF set new(1)])
  show "replica_counts (deps w) (stss w) (KindDeployment, NN n ns) = Some (si_OriginalReplicas info)"
    unfolding info by (simp add: replica_counts_def old)
qed

lemma scaleStatefulSet_counts:
  assumes "workload_store C deps stss" and "run_state (scaleStatefulSet C n ns r) w = (Inr info, w')"
  shows "replica_counts (deps w') (stss w') = (replica_counts (deps w) (stss w))((KindStatefulSet, NN n ns) \<mapsto> r)"
    and "replica_counts (deps w) (stss w) (KindStatefulSet, NN n ns) = Some (si_OriginalReplicas info)"
proof -
  obtain s s' where old: "stss w (NN n ns) = Some s" and new: "stss w' = (stss w)(NN n ns \<mapsto> s')" "deps w' = deps w"
    and set: "sts_Replicas s' = Some r" and info: "si_OriginalReplicas info = replicas_or_default (sts_Replicas s)"
    by (rule workload_store.scaleStatefulSet_exact [OF assms])
  show "replica_counts (deps w') (stss w') = (replica_counts (deps w) (stss w))((KindStatefulSet, NN n ns) \<mapsto> r)"
    unfolding new(2) by (rule replica_counts_statefulset [OF set new(1)])
  show "replica_counts (deps w) (stss w) (KindStatefulSet, NN n ns) = Some (si_OriginalReplicas info)"
    unfolding info by (simp add: replica_counts_def old)
qed

text \<open>
  C28. Scaling down sets the count of its workload, and of no other, to zero and reports the count it
  had; scaling up to the reported count puts that count back, whatever happened to other workloads
  in between.
\<close>

theorem scaling_restores_replicas:
  assumes "workload_store C deps stss"
    and "run_state (ScaleDown C kind name ns) w = (Inr info, w1)"
    and "run_state (ScaleUp C kind name ns (si_OriginalReplicas info)) w2 = (Inr (), w3)"
  shows "replica_counts (deps w1) (stss w1) = (replica_counts (deps w) (stss w))((kind, NN name ns) \<mapsto> 0) \<and>
     replica_counts (deps w3) (stss w3) =
       (replica_counts (deps w2) (stss w2))((kind, NN name ns) := replica_counts (deps w) (stss w) (kind, NN name ns))"
proof (cases "kind = KindDeployment")
  case True
  with assms(3) obtain i where up: "run_state (scaleDeployment C name ns (si_OriginalReplicas info)) w2 = (Inr i, w3)"
    by (auto simp: ScaleUp_def run_on_err split: prod.splits sum.splits)
  from True assms(2) have down: "run_state (scaleDeployment C name ns 0) w = (Inr info, w1)"
    by (simp add: ScaleDown_def)
  show ?thesis
    unfolding True using scaleDeployment_counts [OF assms(1) down] scaleDeployment_counts(1) [OF assms(1) up] by simp
next
  case False
  with assms(2) have kind: "kind = KindStatefulSet" and down: "run_state (scaleStatefulSet C name ns 0) w = (Inr info, w1)"
    by (simp_all add: ScaleDown_def split: if_splits)
  from kind assms(3) obtain i where up: "run_state (scaleStatefulSet C name ns (si_OriginalReplicas info)) w2 = (Inr i, w3)"
    by (auto simp: ScaleUp_def run_on_err split: prod.splits sum.splits)
  show ?thesis
    unfolding kind using scaleStatefulSet_counts [OF assms(1) down] scaleStatefulSet_counts(1) [OF assms(1) up] by simp
qed

definition demo_deployment :: Deployment where
  "demo_deployment = \<lparr>dep_meta = plain_meta ''web'' ''d'', dep_Replicas = Some 3, dep_Selector = None, dep_ReadyReplicas = 3\<rparr>"

theorem scaling_restores_replicas_witness:
  "\<exists>info w1 w3. run_state (ScaleDown mem_client ''Deployment'' ''web'' ''d'')
       (demo_cluster\<lparr>cl_Deployments := [demo_deployment]\<rparr>) = (Inr info, w1) \<and>
     run_state (ScaleUp mem_client ''Deployment'' ''web'' ''d'' (si_OriginalReplicas info)) w1 = (Inr (), w3) \<and>
     replica_counts (lookup_obj dep_key (cl_Deployments w3)) (lookup_obj sts_key (cl_StatefulSets w3))
       (''Deployment'', NN ''web'' ''d'') = Some 3"
proof -
  let ?w = "demo_cluster\<lparr>cl_Deployments := [demo_deployment]\<rparr>"
  let ?info = "\<lparr>si_Kind = ''Deployment'', si_Name = ''web'', si_Namespace = ''d'', si_OriginalReplicas = 3\<rparr>"
  let ?w1 = "snd (run_state (ScaleDown mem_client ''Deployment'' ''web'' ''d'') ?w)"
  let ?w3 = "snd (run_state (ScaleUp mem_client ''Deployment'' ''web'' ''d'' 3) ?w1)"
  have "fst (run_state (ScaleDown mem_client ''Deployment'' ''web'' ''d'') ?w) = Inr ?info"
    and "fst (run_state (ScaleUp mem_client ''Deployment'' ''web'' ''d'' 3) ?w1) = Inr ()"
    by code_simp+
  then have down: "run_state (ScaleDown mem_client ''Deployment'' ''web'' ''d'') ?w = (Inr ?info, ?w1)"
    and up: "run_state (ScaleUp mem_client ''Deployment'' ''web'' ''d'' (si_OriginalReplicas ?info)) ?w1 = (Inr (), ?w3)"
    by (simp_all add: prod_eq_iff)
  have start: "replica_counts (lookup_obj dep_key (cl_Deployments ?w)) (lookup_obj sts_key (cl_StatefulSets ?w))
      (''Deployment'', NN ''web'' ''d'') = Some 3"
    by (simp add: replica_counts_def KindDeployment_def lookup_obj_def dep_key_def demo_deployment_def plain_meta_def
        new_meta_def replicas_or_default_def)
  from scaling_restores_replicas [OF memwl.workload_store_axioms down up]
  have "replica_counts (lookup_obj dep_key (cl_Deployments ?w3)) (lookup_obj sts_key (cl_StatefulSets ?w3))
      (''Deployment'', NN ''web'' ''d'') = Some 3"
    using start by simp
  with down up show ?thesis by (intro exI [of _ ?info] exI [of _ ?w1] exI [of _ ?w3]) simp
qed

section \<open>The wait functions return\<close>

text \<open>
  C32. Under a clock that advances while the program sleeps and is never set back, every wait
  function returns a result within \<open>poll_fuel timeout\<close> rounds, whatever the API server answers.
\<close>

theorem waits_return:
  assumes "monotone_clock C clock"
  shows "(\<exists>r w'. run_state (WaitForSnapshotReady (poll_fuel timeout) C name ns timeout) w = (Some r, w')) \<and>
     (\<exists>r w'. run_state (WaitForPVCBound (poll_fuel timeout) C name ns timeout) w = (Some r, w')) \<and>
     (\<exists>r w'. run_state (WaitForPVCDeleted (poll_fuel timeout) C L name ns timeout) w = (Some r, w')) \<and>
     (\<exists>r w'. run_state (WaitForScaleDown (poll_fuel timeout) C L kind name ns timeout) w = (Some r, w')) \<and>
     (\<exists>r w'. run_state (WaitForScaleUp (poll_fuel timeout) C kind name ns target timeout) w = (Some r, w')) \<and>
     (\<exists>r w'. run_state (WaitForReconciliation (poll_fuel timeout) C name ns timeout) w = (Some r, w'))"
  by (intro conjI monotone_clock.WaitForSnapshotReady_returns [OF assms] monotone_clock.WaitForPVCBound_returns [OF assms]
      monotone_clock.WaitForPVCDeleted_returns [OF assms] monotone_clock.WaitForScaleDown_returns [OF assms]
      monotone_clock.WaitForScaleUp_returns [OF assms] monotone_clock.WaitForReconciliation_returns [OF assms])

theorem waits_return_witness:
  "poll_fuel (20 * Second) = 6 \<and>
   (\<exists>r w'. run_state (WaitForReconciliation 6 mem_client ''ks'' ''x'' (20 * Second)) demo_cluster = (Some r, w'))"
proof -
  have fuel: "poll_fuel (20 * Second) = 6" by (simp add: poll_fuel_def PollInterval_def Second_def)
  from waits_return [OF memmono.monotone_clock_axioms, where timeout = "20 * Second" and name = "''ks''" and ns = "''x''"]
  show ?thesis unfolding fuel by blast
qed

section \<open>Git and YAML\<close>

text \<open>
  C29. Over a Gitea server that keeps its documented behaviour, the Gitea manager is a repository in the
  sense of the interface: a successful commit replaces exactly the committed file by the sent content,
  a read returns the stored file, and reads and failed commits change nothing.
\<close>

theorem gitea_refines_repository:
  assumes "gitea_api S files"
  shows "git_repo (gitea_manager \<lparr>gt_client = S, gt_owner = owner, gt_repo = repo, gt_branch = branch\<rparr>)
     (\<lambda>w. files w (owner, repo, branch))"
  using assms by (rule gitea_api.manager_is_repo)

theorem gitea_refines_repository_witness:
  "git_repo (gitea_manager \<lparr>gt_client = server_sdk, gt_owner = ''o'', gt_repo = ''r'', gt_branch = ''main''\<rparr>)
     (\<lambda>fs. fs (''o'', ''r'', ''main''))"
  by (rule gitea_refines_repository [OF server.gitea_api_axioms])

text \<open>
  C30. After a successful update the version at the path is the one that was written, and a HelmRelease
  is still a HelmRelease unless the path starts at its kind.
\<close>

theorem update_then_get:
  assumes "kyaml_api Y" and "UpdateVersion Y content path version = Inr content'" and "version \<noteq> []"
  shows "GetVersion Y content' path = Inr version \<and>
     (IsHelmRelease Y content \<and> parseVersionPath path \<noteq> [] \<and> hd (parseVersionPath path) \<noteq> ''kind'' \<longrightarrow>
        IsHelmRelease Y content')"
  using kyaml_api.get_after_update [OF assms] kyaml_api.helm_release_after_update [OF assms(1,2)] by blast

theorem update_then_get_witness:
  "\<exists>content'. UpdateVersion mem_yaml demo_file DefaultHelmReleaseVersionPath ''2.0'' = Inr content' \<and>
     GetVersion mem_yaml content' DefaultHelmReleaseVersionPath = Inr ''2.0'' \<and> IsHelmRelease mem_yaml content'"
proof -
  have "\<not> isl (UpdateVersion mem_yaml demo_file DefaultHelmReleaseVersionPath ''2.0'')" by code_simp
  then obtain c where c: "UpdateVersion mem_yaml demo_file DefaultHelmReleaseVersionPath ''2.0'' = Inr c"
    by (cases "UpdateVersion mem_yaml demo_file DefaultHelmReleaseVersionPath ''2.0''") auto
  have "IsHelmRelease mem_yaml demo_file" by code_simp
  with c update_then_get [OF memyaml.kyaml_api_axioms c] show ?thesis by (simp add: default_version_path)
qed

text \<open>
  C31. Every list of non-empty keys without a single quote, written in the documented notation, is parsed
  back to itself; keys with dots or brackets are written in quotes.
\<close>

theorem version_path_roundtrip:
  assumes "\<forall>s\<in>set segs. s \<noteq> [] \<and> CHR 0x27 \<notin> set s"
  shows "parseVersionPath (render_path segs) = segs"
  using assms by (rule parse_render)

theorem version_path_roundtrip_witness:
  "parseVersionPath (render_path [''data'', ''values.yaml'', ''image'']) = [''data'', ''values.yaml'', ''image'']"
  using version_path_roundtrip [of "[''data'', ''values.yaml'', ''image'']"] by simp

section \<open>Helm release secrets\<close>

lemma decode_gzip_magic: "base64_Decode (CHR 0x1F # rest) = Inl (CorruptInputError 0)"
  by (simp add: base64_Decode_def b64_val_def is_newline_def)

text \<open>
  A release as Helm stores it, gzip data encoded in base64 once inside the secret's value, is rejected:
  gzip data starts with the byte 0x1F, which the second decoding refuses.
\<close>

theorem helm_encoded_once_rejected:
  assumes "map_of (sec_Data secret) ''release'' = Some (base64_Encode (CHR 0x1F # gz))"
  shows "decodeHelmReleaseSecret H secret = Inl (Wrap ''second base64 decode'' (CorruptInputError 0))"
  by (simp add: decodeHelmReleaseSecret_def decode_step_def assms base64_roundtrip decode_gzip_magic
      del: base64_Encode.simps)

theorem helm_encoded_once_rejected_witness:
  "decodeHelmReleaseSecret mem_helm \<lparr>sec_meta = plain_meta ''sh.helm.release.v1.web.v1'' ''d'',
     sec_Data = [(''release'', base64_Encode [CHR 0x1F, CHR 0x8B])]\<rparr> =
   Inl (Wrap ''second base64 decode'' (CorruptInputError 0))"
  by (rule helm_encoded_once_rejected [of _ "[CHR 0x8B]"]) simp

end
