(* ===== verification/TestUtils.thy ===== *)
theory TestUtils
  imports GoLib
begin

text \<open>
  \<open>test/utils/utils.go\<close>, the helpers of the cluster tests: running a command in the project's
  directory, installing cert-manager, loading an image into kind, and editing a file by uncommenting a
  piece of it. The operating system and Ginkgo's writer are the record \<open>os\<close>; the locale \<open>file_system\<close> is
  the part of it that \<open>UncommentCode\<close> relies on. \<open>bytes.Buffer\<close> never returns an error, so the branches
  after its writes are left out.
\<close>

section \<open>Standard library\<close>

text \<open>\<open>strings.ReplaceAll\<close> of a text that is not empty.\<close>

definition ReplaceAll :: "string \<Rightarrow> string \<Rightarrow> string \<Rightarrow> string" where
  "ReplaceAll s old new = Join new (Split old s)"

text \<open>
  The tokens of a \<open>bufio.Scanner\<close> with its defaults: lines without their end, a carriage return before
  it dropped, no empty line after the last newline, and nothing from the first line on that does not
  fit into \<open>bufio.MaxScanTokenSize\<close>.
\<close>

definition MaxScanTokenSize :: int where
  "MaxScanTokenSize = 64 * 1024"

definition drop_cr :: "string \<Rightarrow> string" where
  "drop_cr l = TrimSuffix l [CHR 0x0D]"

definition scan_lines :: "string \<Rightarrow> string list" where
  "scan_lines s =
     (let ls = Split newline s; ls' = (if last ls = [] then butlast ls else ls)
      in map drop_cr (takeWhile (\<lambda>l. int (length l) < MaxScanTokenSize) ls'))"

section \<open>The operating system\<close>

record Cmd =
  cmd_Args :: "string list"
  cmd_Dir :: string
  cmd_Env :: "string list"

definition Command :: "string \<Rightarrow> string list \<Rightarrow> Cmd" where
  "Command name args = \<lparr>cmd_Args = name # args, cmd_Dir = [], cmd_Env = []\<rparr>"

record 'w os =
  os_Getwd :: "('w, string \<times> goerror option) state"
  os_Chdir :: "string \<Rightarrow> ('w, unit) call"
  os_Environ :: "('w, string list) state"
  os_LookupEnv :: "string \<Rightarrow> ('w, string option) state"
  os_CombinedOutput :: "Cmd \<Rightarrow> ('w, string \<times> goerror option) state"
  os_ReadFile :: "string \<Rightarrow> ('w, string) call"
  os_WriteFile :: "string \<Rightarrow> string \<Rightarrow> ('w, unit) call"
  os_GinkgoWriter :: "string \<Rightarrow> ('w, unit) state"

section \<open>Commands\<close>

definition certmanagerVersion :: string where
  "certmanagerVersion = ''v1.19.2''"

definition certmanagerURL :: string where
  "certmanagerURL = ''https://github.com/cert-manager/cert-manager/releases/download/'' @ certmanagerVersion @
     ''/cert-manager.yaml''"

definition warnError :: "'w os \<Rightarrow> goerror \<Rightarrow> ('w, unit) state" where
  "warnError sys err = os_GinkgoWriter sys (''warning: '' @ Error err @ newline)"

definition GetProjectDir :: "'w os \<Rightarrow> ('w, string \<times> goerror option) state" where
  "GetProjectDir sys = do {
     (wd, err) \<leftarrow> os_Getwd sys;
     case err of
       Some e \<Rightarrow> ret (wd, Some (Wrap ''failed to get current working directory'' e))
     | None \<Rightarrow> ret (ReplaceAll (ReplaceAll wd ''/test/e2e'' []) ''/test/k8s'' [], None) }"

text \<open>\<open>Run\<close> returns the output beside the error, as \<open>CombinedOutput\<close> does.\<close>

definition Run :: "'w os \<Rightarrow> Cmd \<Rightarrow> ('w, string \<times> goerror option) state" where
  "Run sys cmd = do {
     (dir, _) \<leftarrow> GetProjectDir sys;
     _ \<leftarrow> on_err (os_Chdir sys dir)
       (\<lambda>err. os_GinkgoWriter sys (''chdir dir: '' @ go_quote (Error err) @ newline)) (\<lambda>_. ret ());
     env \<leftarrow> os_Environ sys;
     (output, err) \<leftarrow> os_CombinedOutput sys (cmd\<lparr>cmd_Dir := dir, cmd_Env := env @ [''GO111MODULE=on'']\<rparr>);
     case err of
       Some e \<Rightarrow> ret (output, Some (Wrap (go_quote (Join '' '' (cmd_Args cmd)) @ '' failed with error '' @ go_quote output) e))
     | None \<Rightarrow> ret (output, None) }"

definition run_or_warn :: "'w os \<Rightarrow> Cmd \<Rightarrow> ('w, unit) state" where
  "run_or_warn sys cmd = do { (_, err) \<leftarrow> Run sys cmd; case err of Some e \<Rightarrow> warnError sys e | None \<Rightarrow> ret () }"

definition run_err :: "'w os \<Rightarrow> Cmd \<Rightarrow> ('w, unit) call" where
  "run_err sys cmd = do { (_, err) \<leftarrow> Run sys cmd; ret (case err of Some e \<Rightarrow> Inl e | None \<Rightarrow> Inr ()) }"

primrec delete_leases :: "'w os \<Rightarrow> string list \<Rightarrow> ('w, unit) state" where
  "delete_leases sys [] = ret ()"
| "delete_leases sys (lease # leases) = do {
     _ \<leftarrow> run_or_warn sys (Command ''kubectl'' [''delete'', ''lease'', lease,
       ''-n'', ''kube-system'', ''--ignore-not-found'', ''--force'', ''--grace-period=0'']);
     delete_leases sys leases }"

definition UninstallCertManager :: "'w os \<Rightarrow> ('w, unit) state" where
  "UninstallCertManager sys = do {
     _ \<leftarrow> run_or_warn sys (Command ''kubectl'' [''delete'', ''-f'', certmanagerURL]);
     delete_leases sys [''cert-manager-cainjector-leader-election'', ''cert-manager-controller''] }"

definition InstallCertManager :: "'w os \<Rightarrow> ('w, unit) call" where
  "InstallCertManager sys =
     checked (run_err sys (Command ''kubectl'' [''apply'', ''-f'', certmanagerURL])) (\<lambda>_.
     run_err sys (Command ''kubectl'' [''wait'', ''deployment.apps/cert-manager-webhook'',
       ''--for'', ''condition=Available'', ''--namespace'', ''cert-manager'', ''--timeout'', ''5m'']))"

definition LoadImageToKindClusterWithName :: "'w os \<Rightarrow> string \<Rightarrow> ('w, unit) call" where
  "LoadImageToKindClusterWithName sys name = do {
     v \<leftarrow> os_LookupEnv sys ''KIND_CLUSTER'';
     let cluster = (case v of Some c \<Rightarrow> c | None \<Rightarrow> ''kind'');
     b \<leftarrow> os_LookupEnv sys ''KIND'';
     let kindBinary = (case b of Some k \<Rightarrow> k | None \<Rightarrow> ''kind'');
     run_err sys (Command kindBinary [''load'', ''docker-image'', name, ''--name'', cluster]) }"

definition GetNonEmptyLines :: "string \<Rightarrow> string list" where
  "GetNonEmptyLines output = filter (\<lambda>element. element \<noteq> []) (Split newline output)"

definition certManagerCRDs :: "string list" where
  "certManagerCRDs = [''certificates.cert-manager.io'', ''issuers.cert-manager.io'', ''clusterissuers.cert-manager.io'',
     ''certificaterequests.cert-manager.io'', ''orders.acme.cert-manager.io'', ''challenges.acme.cert-manager.io'']"

definition IsCertManagerCRDsInstalled :: "'w os \<Rightarrow> ('w, bool) state" where
  "IsCertManagerCRDsInstalled sys = do {
     (output, err) \<leftarrow> Run sys (Command ''kubectl'' [''get'', ''crds'']);
     ret (case err of
       Some _ \<Rightarrow> False
     | None \<Rightarrow> list_ex (\<lambda>crd. list_ex (\<lambda>line. Contains line crd) (GetNonEmptyLines output)) certManagerCRDs) }"

section \<open>Uncommenting\<close>

text \<open>The loop over the scanned lines of the target; \<open>out\<close> is the buffer.\<close>

fun uncomment_loop :: "string \<Rightarrow> string \<Rightarrow> string list \<Rightarrow> string" where
  "uncomment_loop prefix out [] = out"
| "uncomment_loop prefix out (line # rest) =
     (let out' = out @ TrimPrefix line prefix
      in if rest = [] then out' else uncomment_loop prefix (out' @ newline) rest)"

definition UncommentCode :: "'w os \<Rightarrow> string \<Rightarrow> string \<Rightarrow> string \<Rightarrow> ('w, unit) call" where
  "UncommentCode sys filename target prefix =
     on_err (os_ReadFile sys filename) (\<lambda>err. ret (Inl (Wrap (''failed to read file '' @ go_quote filename) err))) (\<lambda>content.
     case Cut target content of
       None \<Rightarrow> ret (Inl (ErrorString (''unable to find the code '' @ go_quote target @ '' to be uncomment'')))
     | Some (before, after) \<Rightarrow>
         if scan_lines target = [] then ret (Inr ())
         else wrap_err (''failed to write file '' @ go_quote filename)
           (os_WriteFile sys filename (uncomment_loop prefix before (scan_lines target) @ after)))"

section \<open>What is uncommented\<close>

lemma uncomment_loop_eq:
  "ls \<noteq> [] \<Longrightarrow> uncomment_loop prefix out ls = out @ Join newline (map (\<lambda>l. TrimPrefix l prefix) ls)"
  by (induction prefix out ls rule: uncomment_loop.induct) auto

lemma scan_lines_Join:
  assumes "ls \<noteq> []" and "\<And>l. l \<in> set ls \<Longrightarrow> CHR 0x0A \<notin> set l"
  shows "scan_lines (Join newline ls) =
    map drop_cr (takeWhile (\<lambda>l. int (length l) < MaxScanTokenSize) (if last ls = [] then butlast ls else ls))"
  by (simp add: scan_lines_def Split_Join [OF assms] Let_def)

text \<open>Lines that the scanner returns as they are.\<close>

definition plain_line :: "string \<Rightarrow> bool" where
  "plain_line l \<longleftrightarrow> CHR 0x0A \<notin> set l \<and> CHR 0x0D \<notin> set l \<and> int (length l) < MaxScanTokenSize"

lemma drop_cr_plain: "CHR 0x0D \<notin> set l \<Longrightarrow> drop_cr l = l"
  by (auto simp: drop_cr_def TrimSuffix_def TrimPrefix_def HasPrefix_iff rev_swap)

lemma plain_lines_kept:
  "list_all plain_line ls \<Longrightarrow> map drop_cr (takeWhile (\<lambda>l. int (length l) < MaxScanTokenSize) ls) = ls"
  by (induction ls) (simp_all add: plain_line_def drop_cr_plain)

lemma scan_plain_lines:
  assumes "list_all plain_line ls"
  shows "ls \<noteq> [] \<Longrightarrow> last ls \<noteq> [] \<Longrightarrow> scan_lines (Join newline ls) = ls"
    and "scan_lines (Join newline (ls @ [[]])) = ls"
proof -
  have no: "CHR 0x0A \<notin> set l" if "l \<in> set (ls @ [[]])" for l
    using assms that by (auto simp: list_all_iff plain_line_def)
  show "scan_lines (Join newline ls) = ls" if "ls \<noteq> []" "last ls \<noteq> []"
    using scan_lines_Join [OF that(1)] no that plain_lines_kept [OF assms] by simp
  show "scan_lines (Join newline (ls @ [[]])) = ls"
    using scan_lines_Join [of "ls @ [[]]"] no plain_lines_kept [OF assms] by simp
qed

lemma lines_read_back:
  assumes "list_all plain_line ls" and "[] \<notin> set ls"
  shows "GetNonEmptyLines (Join newline ls) = ls"
proof (cases "ls = []")
  case True
  then show ?thesis by (simp add: GetNonEmptyLines_def Split_last)
next
  case False
  have "Split newline (Join newline ls) = ls"
    by (rule Split_Join [OF False]) (use assms(1) in \<open>auto simp: list_all_iff plain_line_def\<close>)
  moreover have "filter (\<lambda>l. l \<noteq> []) ls = ls" using assms(2) by (auto simp: filter_id_conv)
  ultimately show ?thesis by (simp add: GetNonEmptyLines_def)
qed

locale file_system =
  fixes sys :: "'w os" and files :: "'w \<Rightarrow> string \<rightharpoonup> string"
  assumes read: "run_state (os_ReadFile sys f) w = (Inr c, w') \<Longrightarrow> files w f = Some c \<and> files w' = files w"
    and read_failed: "run_state (os_ReadFile sys f) w = (Inl e, w') \<Longrightarrow> files w' = files w"
    and written: "run_state (os_WriteFile sys f c) w = (Inr (), w') \<Longrightarrow> files w' = (files w)(f \<mapsto> c)"
begin

lemma uncomment_writes:
  assumes "run_state (UncommentCode sys f target prefix) w = (Inr (), w')" and "files w f = Some c"
    and "Cut target c = Some (a, b)" and "scan_lines target \<noteq> []"
  shows "files w' = (files w)(f \<mapsto> a @ Join newline (map (\<lambda>l. TrimPrefix l prefix) (scan_lines target)) @ b)"
  using assms
  by (auto simp: UncommentCode_def run_on_err run_wrap_err uncomment_loop_eq split: prod.splits sum.splits
      dest!: read written)

text \<open>Uncommenting takes the prefix off every line of the target, and leaves the rest of the file alone.\<close>

lemma uncomment_takes_prefix:
  assumes "run_state (UncommentCode sys f (Join newline (map (\<lambda>l. prefix @ l) ls)) prefix) w = (Inr (), w')"
    and "files w f = Some c" and "Cut (Join newline (map (\<lambda>l. prefix @ l) ls)) c = Some (a, b)"
    and "ls \<noteq> []" and "prefix \<noteq> []" and "list_all plain_line (map (\<lambda>l. prefix @ l) ls)"
  shows "files w' = (files w)(f \<mapsto> a @ Join newline ls @ b)"
proof -
  have "scan_lines (Join newline (map (\<lambda>l. prefix @ l) ls)) = map (\<lambda>l. prefix @ l) ls"
    by (rule scan_plain_lines(1)) (use assms(4-6) in \<open>auto simp: last_map\<close>)
  moreover have "TrimPrefix (prefix @ l) prefix = l" for l by (simp add: TrimPrefix_def HasPrefix_iff)
  ultimately show ?thesis using uncomment_writes [OF assms(1-3)] assms(4) by (simp add: o_def)
qed

text \<open>A target that is not in the file is an error, and nothing is written.\<close>

lemma uncomment_missing:
  assumes "run_state (UncommentCode sys f target prefix) w = (r, w')" and "files w f = Some c" and "Cut target c = None"
  shows "(\<exists>e. r = Inl e) \<and> files w' = files w"
  using assms by (auto simp: UncommentCode_def run_on_err split: prod.splits sum.splits dest!: read read_failed)

text \<open>
  The scanner's error is never asked for: the target is cut off at the first line that does not fit into its
  buffer, and what followed in the file is lost.
\<close>

lemma uncomment_cuts_long_lines:
  assumes "run_state (UncommentCode sys f (Join newline (l # long # ls)) prefix) w = (Inr (), w')"
    and "files w f = Some c" and "Cut (Join newline (l # long # ls)) c = Some (a, b)"
    and "plain_line l" and "CHR 0x0A \<notin> set long" and "MaxScanTokenSize \<le> int (length long)"
    and "\<And>k. k \<in> set ls \<Longrightarrow> CHR 0x0A \<notin> set k"
  shows "files w' = (files w)(f \<mapsto> a @ TrimPrefix l prefix @ b)"
proof -
  let ?ls = "l # long # ls"
  have "long \<noteq> []" using assms(6) by (auto simp: MaxScanTokenSize_def)
  then have "takeWhile (\<lambda>l. int (length l) < MaxScanTokenSize) (if last ?ls = [] then butlast ?ls else ?ls) = [l]"
    using assms(4,6) by (cases ls) (simp_all add: plain_line_def)
  moreover have "drop_cr l = l" using assms(4) by (simp add: plain_line_def drop_cr_plain)
  moreover have "CHR 0x0A \<notin> set k" if "k \<in> set ?ls" for k using that assms(4,5,7) by (auto simp: plain_line_def)
  ultimately have "scan_lines (Join newline ?ls) = [l]" using scan_lines_Join [of ?ls] by simp
  with uncomment_writes [OF assms(1-3)] show ?thesis by simp
qed

text \<open>
  A newline at the end of the target is not written back: the line after the target is joined to the last
  uncommented one.
\<close>

lemma uncomment_drops_last_newline:
  assumes "run_state (UncommentCode sys f (Join newline (map (\<lambda>l. prefix @ l) ls @ [[]])) prefix) w = (Inr (), w')"
    and "files w f = Some c" and "Cut (Join newline (map (\<lambda>l. prefix @ l) ls @ [[]])) c = Some (a, b)"
    and "ls \<noteq> []" and "list_all plain_line (map (\<lambda>l. prefix @ l) ls)"
  shows "files w' = (files w)(f \<mapsto> a @ Join newline ls @ b)"
proof -
  let ?ls = "map (\<lambda>l. prefix @ l) ls"
  have "scan_lines (Join newline (?ls @ [[]])) = ?ls" by (rule scan_plain_lines(2) [OF assms(5)])
  moreover have "TrimPrefix (prefix @ l) prefix = l" for l by (simp add: TrimPrefix_def HasPrefix_iff)
  ultimately show ?thesis using uncomment_writes [OF assms(1-3)] assms(4) by (simp add: o_def)
qed

end

section \<open>What is run\<close>

text \<open>A system that notes the commands it runs.\<close>

locale command_runner =
  fixes sys :: "'w os" and ran :: "'w \<Rightarrow> string list list"
  assumes runs: "run_state (os_CombinedOutput sys cmd) w = (r, w') \<Longrightarrow> ran w' = ran w @ [cmd_Args cmd]"
    and getwd: "run_state (os_Getwd sys) w = (d, w') \<Longrightarrow> ran w' = ran w"
    and chdir: "run_state (os_Chdir sys dir) w = (u, w') \<Longrightarrow> ran w' = ran w"
    and environ: "run_state (os_Environ sys) w = (e, w') \<Longrightarrow> ran w' = ran w"
    and lookup_env: "run_state (os_LookupEnv sys v) w = (x, w') \<Longrightarrow> ran w' = ran w"
    and prints: "run_state (os_GinkgoWriter sys s) w = (y, w') \<Longrightarrow> ran w' = ran w"
begin

lemma run_once: "run_state (Run sys cmd) w = (r, w') \<Longrightarrow> ran w' = ran w @ [cmd_Args cmd]"
  by (auto simp: Run_def GetProjectDir_def run_on_err split: prod.splits option.splits sum.splits
      dest!: runs getwd chdir environ prints)

lemma run_err_once: "run_state (run_err sys cmd) w = (r, w') \<Longrightarrow> ran w' = ran w @ [cmd_Args cmd]"
  by (auto simp: run_err_def split: prod.splits dest!: run_once)

lemma run_or_warn_once: "run_state (run_or_warn sys cmd) w = (u, w') \<Longrightarrow> ran w' = ran w @ [cmd_Args cmd]"
  by (auto simp: run_or_warn_def warnError_def split: prod.splits option.splits dest!: run_once prints)

text \<open>The wait for the webhook starts only after the manifests were applied.\<close>

lemma install_applies_first:
  assumes "run_state (InstallCertManager sys) w = (r, w')"
  defines "apply_cmd \<equiv> [''kubectl'', ''apply'', ''-f'', certmanagerURL]"
    and "wait_cmd \<equiv> [''kubectl'', ''wait'', ''deployment.apps/cert-manager-webhook'',
       ''--for'', ''condition=Available'', ''--namespace'', ''cert-manager'', ''--timeout'', ''5m'']"
  shows "(ran w' = ran w @ [apply_cmd] \<and> r \<noteq> Inr ()) \<or> ran w' = ran w @ [apply_cmd, wait_cmd]"
  using assms(1) unfolding apply_cmd_def wait_cmd_def
  by (auto simp: InstallCertManager_def run_on_err Command_def split: prod.splits sum.splits dest!: run_err_once)

text \<open>Uninstalling goes on after a failed command.\<close>

lemma delete_leases_all:
  "run_state (delete_leases sys ls) w = (u, w') \<Longrightarrow>
     ran w' = ran w @ map (\<lambda>l. [''kubectl'', ''delete'', ''lease'', l, ''-n'', ''kube-system'', ''--ignore-not-found'',
       ''--force'', ''--grace-period=0'']) ls"
  by (induction ls arbitrary: w) (auto simp: Command_def split: prod.splits dest!: run_or_warn_once)

lemma uninstall_runs_all:
  "run_state (UninstallCertManager sys) w = (u, w') \<Longrightarrow> length (ran w') = length (ran w) + 3"
  by (auto simp: UninstallCertManager_def simp del: delete_leases.simps split: prod.splits
      dest!: run_or_warn_once delete_leases_all)

lemma load_runs_kind:
  "run_state (LoadImageToKindClusterWithName sys name) w = (r, w') \<Longrightarrow>
     \<exists>kind cluster. ran w' = ran w @ [[kind, ''load'', ''docker-image'', name, ''--name'', cluster]]"
  by (auto simp: LoadImageToKindClusterWithName_def Command_def Let_def split: prod.splits
      dest!: run_err_once lookup_env)

end

section \<open>A small system\<close>

record disk =
  dk_Files :: "string \<rightharpoonup> string"
  dk_Env :: "(string \<times> string) list"
  dk_Wd :: string
  dk_Ran :: "string list list"
  dk_Printed :: "string list"

definition disk_os :: "(Cmd \<Rightarrow> string \<times> goerror option) \<Rightarrow> disk os" where
  "disk_os result = \<lparr>
     os_Getwd = State (\<lambda>d. ((dk_Wd d, None), d)),
     os_Chdir = (\<lambda>dir. State (\<lambda>d. (Inr (), d\<lparr>dk_Wd := dir\<rparr>))),
     os_Environ = State (\<lambda>d. (map (\<lambda>(k, v). k @ ''='' @ v) (dk_Env d), d)),
     os_LookupEnv = (\<lambda>k. State (\<lambda>d. (map_of (dk_Env d) k, d))),
     os_CombinedOutput = (\<lambda>cmd. State (\<lambda>d. (result cmd, d\<lparr>dk_Ran := dk_Ran d @ [cmd_Args cmd]\<rparr>))),
     os_ReadFile = (\<lambda>f. State (\<lambda>d. (case dk_Files d f of
        None \<Rightarrow> Inl (APIError ''ErrNotExist'' ''no such file or directory'') | Some c \<Rightarrow> Inr c, d))),
     os_WriteFile = (\<lambda>f c. State (\<lambda>d. (Inr (), d\<lparr>dk_Files := (dk_Files d)(f \<mapsto> c)\<rparr>))),
     os_GinkgoWriter = (\<lambda>s. State (\<lambda>d. ((), d\<lparr>dk_Printed := dk_Printed d @ [s]\<rparr>)))\<rparr>"

interpretation diskfs: file_system "disk_os result" dk_Files for result
  by unfold_locales (auto simp: disk_os_def split: option.splits)

interpretation diskrun: command_runner "disk_os result" dk_Ran for result
  by unfold_locales (auto simp: disk_os_def)

text \<open>A directory inside the tests is taken back to the project's directory.\<close>

lemma project_dir_demo:
  "fst (run_state (GetProjectDir (disk_os (\<lambda>_. ([], None))))
     \<lparr>dk_Files = Map.empty, dk_Env = [], dk_Wd = ''/src/fluxup/test/k8s'', dk_Ran = [], dk_Printed = []\<rparr>) =
   (''/src/fluxup'', None)"
  by code_simp

lemma uncomment_demo:
  "dk_Files (snd (run_state (UncommentCode (disk_os (\<lambda>_. ([], None))) ''f'' (''#a'' @ newline @ ''#b'') ''#'')
     \<lparr>dk_Files = [''f'' \<mapsto> ''x'' @ newline @ ''#a'' @ newline @ ''#b'' @ newline @ ''#c''], dk_Env = [], dk_Wd = [],
       dk_Ran = [], dk_Printed = []\<rparr>)) ''f'' =
   Some (''x'' @ newline @ ''a'' @ newline @ ''b'' @ newline @ ''#c'')"
  by code_simp

end
