(* ===== verification/Spec2Isabelle.thy ===== *)
theory Spec2Isabelle
  imports UpgradeTheorems RollbackTheorems ConcurrencyTheorems QueueTheorems DeliveryTheorems CopyTheorems ComponentTheorems
    AppTheorems InterfaceTheorems TestUtils
begin

text \<open>
  A verification of fluxup, a Kubernetes operator that upgrades applications managed by Flux.

  The program. An application (\<open>ManagedApp\<close>) names a file in Git and a Flux Kustomization. The updates
  controller reads what Renovate found from a ConfigMap and announces newer versions in the status of the
  applications; the application controller reports their health. An \<open>UpgradeRequest\<close> is carried
  through phases, one per reconcile: suspend the Kustomization, scale the workloads down, snapshot their
  claims, commit the new version to Git, resume Flux, wait for it to reconcile, check the health,
  complete. A \<open>RollbackRequest\<close>, made by hand or by an upgrade that failed after its commit, suspends, scales
  down, restores the claims from the snapshots, commits the previous version, resumes, checks, completes.
  The conditions in the status of a request are the state of the machine: each reconcile reads them
  from the API server, runs one handler and writes them back. Dry runs rehearse the reversible part.

  Reading the model. A Go function that talks to the cluster or to Git is a program of the state
  monad over an abstract world \<open>'w\<close>; a result \<open>(T, error)\<close> is a sum, and so is every early return;
  a nil dereference or slice bound is the error \<open>Panic\<close>. What is not in the repository is an argument:
  the API client, clock and map order (\<open>client\<close>), the helper functions of apimachinery (\<open>klib\<close>), the Git
  provider (\<open>git_manager\<close>), kyaml (\<open>kyaml\<close>), gzip, JSON and YAML decoding (\<open>helmlib\<close>, \<open>unmarshal\<close>), the
  Gitea SDK (\<open>gitea_sdk\<close>), \<open>url.Parse\<close> and controller-runtime (\<open>ctrl_runtime\<close>). Nothing is assumed of
  them unless a theorem names a contract, which is a locale: \<open>conditions_api\<close>, \<open>finalizer_api\<close>, \<open>go_range\<close>,
  \<open>running_clock\<close>, \<open>monotone_clock\<close>, \<open>ks_store\<close>, \<open>workload_store\<close>, \<open>app_store\<close>, \<open>restore_record\<close>, \<open>kyaml_api\<close>,
  \<open>git_repo\<close>, \<open>gitea_api\<close>, \<open>controller_registry\<close>,
  \<open>scheme_registry\<close>, \<open>event_delivery\<close>, \<open>upgrade_watch\<close>, \<open>rollback_watch\<close>.
  \<open>MemCluster\<close> instantiates the contracts by an in-memory cluster,
  on which the witnesses run the code by evaluation. \<open>faithful_store\<close> is the strongest contract, an environment in
  which every call succeeds and does what its name says; only the liveness theorems use it, and \<open>MemStore\<close>
  shows that the in-memory cluster is one. Pointers and slices matter only to the generated deep copies,
  so they alone are modelled over a heap of typed cells (\<open>copier\<close>, \<open>apimachinery\<close>).

  Theories and sources.

  \<^item> \<open>Prelude\<close>, \<open>GoLib\<close>, \<open>Base64\<close>: errors, early returns and loops, the calculus of invariants
    (\<open>keeps\<close>, \<open>triple\<close>), and the parts of Go's \<open>strings\<close>, \<open>strconv\<close>, \<open>fmt\<close> and \<open>encoding/base64\<close> that are used.
  \<^item> \<open>ApiTypes\<close> (\<open>api/v1alpha1\<close>), \<open>Kube\<close> (the boundary, traces, and \<open>api_inv\<close>, the interface through
    which every component is shown to keep an invariant of the world).
  \<^item> \<open>Poll\<close>, \<open>Waits\<close> (the wait loops), \<open>Flux\<close> (\<open>internal/flux/suspend.go\<close>), \<open>Workload\<close>
    (\<open>internal/workload/scaler.go\<close>), \<open>Snapshot\<close> (\<open>internal/snapshot/manager.go\<close>), \<open>Discovery\<close>
    (\<open>internal/discovery\<close>), \<open>Health\<close> (\<open>internal/health/check.go\<close>), \<open>YamlEditor\<close> (\<open>internal/yaml/editor.go\<close>),
    \<open>Git\<close> (\<open>internal/git\<close>: interface, commit messages, mock), \<open>Gitea\<close> (\<open>gitea.go\<close>), \<open>Renovate\<close>
    (\<open>internal/renovate\<close>), \<open>Logging\<close> (\<open>internal/logging\<close>).
  \<^item> \<open>Controller\<close> (the fields and constants the controllers share), \<open>AppControllers\<close>
    (\<open>managedapp_controller.go\<close>, \<open>updates_controller.go\<close>), \<open>Upgrade\<close> (\<open>upgraderequest_controller.go\<close>),
    \<open>Rollback\<close> (\<open>rollbackrequest_controller.go\<close>): each handler whole, the phase dispatch in the
    order of the code, and \<open>Reconcile\<close>. Names that both request controllers use are told apart by
    the theory, as in \<open>Upgrade.setFailed\<close>.
  \<^item> \<open>Registration\<close> (\<open>groupversion_info.go\<close>, the \<open>init\<close> functions, the four \<open>SetupWithManager\<close> methods, the
    requests that events lead to, and the RBAC markers of the controllers against the calls of the client),
    \<open>Startup\<close> (\<open>cmd/main.go\<close>, from the parsed flags to the exit code).
  \<^item> \<open>Heap\<close> (cells, and the allocating copies of pointers, slices and structs), \<open>DeepCopy\<close> (every method of
    \<open>api/v1alpha1/zz_generated.deepcopy.go\<close>, one definition each, with the value each piece of memory stands for),
    \<open>Apimachinery\<close> (the runtime objects, and a concrete \<open>ObjectMeta\<close> and \<open>ListMeta\<close> as instance of the contract).
  \<^item> \<open>TestUtils\<close> (\<open>test/utils/utils.go\<close>): the commands the cluster tests run, over a record of the operating
    system (\<open>command_runner\<close>), and the editing of a file by uncommenting (\<open>file_system\<close>).
  \<^item> \<open>UpgradeCalls\<close>, \<open>RollbackCalls\<close>: which calls each handler may make; \<open>UpgradePhases\<close>, \<open>RollbackPhases\<close>:
    the order of phases as an invariant of the stored conditions; \<open>UpgradeSafety\<close>, \<open>RollbackSafety\<close>: what precedes
    a commit or a deletion in the trace; \<open>RollbackRestore\<close>: how claims are restored, on a second record of the
    calls (\<open>watched_rec\<close>) that keeps the answers of the API server too; \<open>System\<close>: both
    controllers interleaved on one cluster, as a step relation with its reachable states; \<open>Concurrency\<close>: reconciles
    that overlap call by call; \<open>Process\<close>: the controllers \<open>main\<close> registers, run in any order;
    \<open>Persistence\<close>, \<open>UpgradePersistence\<close>, \<open>RollbackPersistence\<close>: how a reconcile can end without asking to be called
    again; \<open>Queue\<close>: the work queue between events and controllers; \<open>Store\<close>,
    \<open>UpgradeProgress\<close>, \<open>RollbackProgress\<close>: what each reconcile achieves in a faithful environment, one lemma per
    phase.

  Properties. \<open>UpgradeTheorems\<close> and \<open>RollbackTheorems\<close>: commits and deletions only while Flux is
  suspended, dry runs, failure handling, what is committed and restored. \<open>SystemTheorems\<close>: the phase
  order in every reachable state. \<open>ConcurrencyTheorems\<close>: the same when the calls of reconciles alternate, are
  refused or lost, and reconciles stop half-way. \<open>ProcessTheorems\<close>: which controllers run, and the phase
  order in the running process. \<open>QueueTheorems\<close>: no unfinished request leaves the work
  queue. \<open>DeliveryTheorems\<close>: six reconciles complete an upgrade and six a rollback, and the
  rollback undoes an upgrade that skipped its snapshots. \<open>CopyTheorems\<close>: deep copies are well typed and share nothing.
  \<open>ComponentTheorems\<close>: retention, snapshots, discovery, Helm releases. \<open>InterfaceTheorems\<close>: the helper
  packages as refinements of small abstract stores, termination of the waits, round trips.
  \<open>AppTheorems\<close>: the update pipeline and the health report. Theorems without a claim number support
  a finding about the code or are special cases of a numbered one.

  Two observers record what a program does: \<open>traced\<close> notes the writes it requests (whatever the answer) and the
  reads of Kustomizations, \<open>watched\<close> the calls that concern claims and the saved statuses of a rollback, each
  with its answer. The theorem on the health timeout is about rounds on the in-memory cluster, with any
  waiting times between them.

  Bounds. The wait loops take fuel, and \<open>None\<close> is running out of it; \<open>poll_fuel t\<close> is \<open>t\<close> divided by
  the poll interval plus two rounds, which \<open>Poll\<close> shows to be enough under a clock that advances while the
  program sleeps. Nothing else needs fuel: the reconcilers do not loop, they are called again. The
  delivery theorems are for applications without volume snapshots, Helm release reference or suspend
  reference (\<open>simple_app\<close>) whose Kustomization is ready, managed by no other and applies no workloads
  (\<open>ready_root\<close>): then each reconcile finishes a phase or two, and six are enough. Go's
  \<open>int\<close> is unbounded here: the code compares and adds only counts, replica numbers and durations
  that stay far below the width, and indexes lists by their length.

  Not modelled. Log output and the context (a cancelled context is a call that fails); the parsing of
  flags; the list types of the API beyond their deep copies. The mutex of the mock Git manager has no
  counterpart: a call of the Git manager is one step. Reconciles of the controllers overlap in
  \<open>Concurrency\<close>, where each call of a client is one step; a client here reads what was last written, so a
  stale cache of controller-runtime is covered only by the theorems that hold for every client.
\<close>

end
